(* ===== verification/Prelude.thy ===== *)
theory Prelude
  imports Main "HOL-Library.Sublist"
begin

text \<open>
  What the component theories share: the exceptions of the Python code and the sequencing of
  fallible steps, the collections of simplification and introduction rules the proofs use, and
  generic facts about lists and options.

  A Python call that may raise is a value of \<open>exc + 'a\<close>: \<open>Inl\<close> holds the exception,
  \<open>Inr\<close> the result. A handler that runs in one database transaction takes the database and
  returns \<open>exc + 'a \<times> db\<close>: on \<open>Inl\<close> the new database is dropped, which is the
  rollback the code relies on.
\<close>

section \<open>Rule collections\<close>

named_theorems sql \<open>characteristic equations of the table operations\<close>
named_theorems frame \<open>what an operation leaves unchanged\<close>
named_theorems pyt \<open>facts about Python's string operations\<close>

section \<open>Exceptions and sequencing\<close>

text \<open>The exception classes the modelled code raises, with the message it formats.\<close>

datatype exc =
    PermanentJobError string
  | ComplianceJobError string
  | PermissionError string
  | ResumeRequiresHumanError string
  | LookupError string
  | UnknownSubjectError string
  | TransitionError string
  | InvalidEmailError string
  | KeyError string
  | ValueError string
  | RuntimeError string
  | DatabaseError string
  | ComposeEscalation string
  | ReplyComposeError string
  | SynthesisEscalation string
  | WebhookVerificationError string
  | OtherError string

definition bindE :: "'e + 'a \<Rightarrow> ('a \<Rightarrow> 'e + 'b) \<Rightarrow> 'e + 'b" where
  "bindE m f = (case m of Inl e \<Rightarrow> Inl e | Inr x \<Rightarrow> f x)"

lemma bindE_Inl [simp]: "bindE (Inl e) f = Inl e"
  by (simp add: bindE_def)

lemma bindE_Inr [simp]: "bindE (Inr x) f = f x"
  by (simp add: bindE_def)

lemma bindE_eq_Inr: "bindE m f = Inr y \<longleftrightarrow> (\<exists>x. m = Inr x \<and> f x = Inr y)"
  by (cases m) auto

lemma bindE_eq_Inl: "bindE m f = Inl e \<longleftrightarrow> m = Inl e \<or> (\<exists>x. m = Inr x \<and> f x = Inl e)"
  by (cases m) auto

lemma bindE_assoc: "bindE (bindE m f) g = bindE m (\<lambda>x. bindE (f x) g)"
  by (cases m) simp_all

text \<open>A loop over a list whose body may raise and threads a state.\<close>

fun foldE :: "('a \<Rightarrow> 's \<Rightarrow> 'e + 's) \<Rightarrow> 'a list \<Rightarrow> 's \<Rightarrow> 'e + 's" where
  "foldE f [] s = Inr s"
| "foldE f (x # xs) s = bindE (f x s) (foldE f xs)"

lemma foldE_append: "foldE f (xs @ ys) s = bindE (foldE f xs s) (foldE f ys)"
proof (induction xs arbitrary: s)
  case (Cons x xs)
  then have "foldE f (xs @ ys) = (\<lambda>s. bindE (foldE f xs s) (foldE f ys))" by blast
  then show ?case by (simp add: bindE_assoc)
qed simp

text \<open>An invariant of the body is an invariant of the loop.\<close>

lemma foldE_invariant:
  assumes "foldE f xs s = Inr s'" and "I s"
    and "\<And>x s s'. x \<in> set xs \<Longrightarrow> f x s = Inr s' \<Longrightarrow> I s \<Longrightarrow> I s'"
  shows "I s'"
  using assms by (induction xs arbitrary: s) (auto simp: bindE_eq_Inr)

lemma fold_invariant_set:
  assumes "I s" and "\<And>x s. x \<in> set xs \<Longrightarrow> I s \<Longrightarrow> I (f x s)"
  shows "I (fold f xs s)"
  using assms by (induction xs arbitrary: s) auto

section \<open>Lists and options\<close>

definition the_default :: "'a \<Rightarrow> 'a option \<Rightarrow> 'a" where
  "the_default d x = (case x of None \<Rightarrow> d | Some y \<Rightarrow> y)"

lemma the_default_simps [simp]:
  "the_default d None = d" "the_default d (Some y) = y"
  by (simp_all add: the_default_def)

text \<open>\<open>next((x for x in xs if p(x)), None)\<close>: the first element that satisfies a test.\<close>

lemma find_Some_set: "List.find p xs = Some x \<Longrightarrow> x \<in> set xs \<and> p x"
  by (induction xs) (auto split: if_splits)

lemma find_None_set: "List.find p xs = None \<longleftrightarrow> (\<forall>x\<in>set xs. \<not> p x)"
  by (induction xs) auto

lemma filter_eq_nth_unique:
  assumes "distinct (map k xs)" and "x \<in> set xs"
  shows "filter (\<lambda>y. k y = k x) xs = [x]"
  using assms by (induction xs) (auto simp: filter_empty_conv image_iff)

lemma length_filter_unique:
  "distinct (map k xs) \<Longrightarrow> length (filter (\<lambda>y. k y = c \<and> p y) xs) \<le> 1"
proof (induction xs)
  case (Cons x xs)
  show ?case
  proof (cases "k x = c")
    case True
    with Cons.prems have "filter (\<lambda>y. k y = c \<and> p y) xs = []"
      by (auto simp: filter_empty_conv image_iff)
    then show ?thesis by simp
  qed (use Cons in simp)
qed simp

lemma sum_list_map_cond_update:
  fixes f :: "'a \<Rightarrow> int"
  shows "sum_list (map f (map (\<lambda>x. if p x then u x else x) xs)) =
    sum_list (map f xs) + sum_list (map (\<lambda>x. f (u x) - f x) (filter p xs))"
  by (induction xs) auto

section \<open>Dictionaries\<close>

text \<open>A dictionary whose order matters is the list of its items: an assignment changes the value where
  the key is, or appends. \<open>traverse\<close> is a list comprehension whose body may raise.\<close>

fun dict_set :: "'k \<Rightarrow> 'v \<Rightarrow> ('k \<times> 'v) list \<Rightarrow> ('k \<times> 'v) list" where
  "dict_set k v [] = [(k, v)]"
| "dict_set k v (x # m) = (if fst x = k then (k, v) # m else x # dict_set k v m)"

lemma dict_set_set: "x \<in> set (dict_set k v m) \<Longrightarrow> x = (k, v) \<or> x \<in> set m"
  by (induction m) (auto split: if_splits)

lemma map_of_dict_set [simp]: "map_of (dict_set k v m) = (map_of m)(k \<mapsto> v)"
  by (induction m) (auto simp: fun_eq_iff)

fun traverse :: "('a \<Rightarrow> 'e + 'b) \<Rightarrow> 'a list \<Rightarrow> 'e + 'b list" where
  "traverse f [] = Inr []"
| "traverse f (x # xs) = bindE (f x) (\<lambda>y. bindE (traverse f xs) (\<lambda>ys. Inr (y # ys)))"

lemma traverse_Inr:
  "traverse f xs = Inr ys \<longleftrightarrow> list_all2 (\<lambda>x y. f x = Inr y) xs ys"
  by (induction xs arbitrary: ys) (auto simp: bindE_eq_Inr list_all2_Cons1)

end
