(* ===== verification/Pytext.thy ===== *)
theory Pytext
  imports Prelude
begin

text \<open>
  Python's \<open>str\<close> operations, as far as the program uses them. A \<open>str\<close> is represented by
  its UTF-8 bytes (\<open>string\<close> is a list of 8-bit characters), so \<open>s.encode("utf-8")\<close> is the
  identity. The operations below agree with Python on ASCII text; on other text they keep
  the bytes unchanged where Python would fold case or treat a non-ASCII blank as white space.
\<close>

type_synonym pystr = string

section \<open>Characters\<close>

definition code :: "char \<Rightarrow> nat" where
  "code c = of_char c"

definition is_upper :: "char \<Rightarrow> bool" where
  "is_upper c \<longleftrightarrow> 65 \<le> code c \<and> code c \<le> 90"

definition is_lower :: "char \<Rightarrow> bool" where
  "is_lower c \<longleftrightarrow> 97 \<le> code c \<and> code c \<le> 122"

definition is_digit :: "char \<Rightarrow> bool" where
  "is_digit c \<longleftrightarrow> 48 \<le> code c \<and> code c \<le> 57"

definition is_ascii :: "char \<Rightarrow> bool" where
  "is_ascii c \<longleftrightarrow> code c < 128"

text \<open>\<open>str.isspace\<close> and the regex class \<open>\s\<close> on ASCII: tab to carriage return, the four
  separators, blank.\<close>

definition is_space :: "char \<Rightarrow> bool" where
  "is_space c \<longleftrightarrow> 9 \<le> code c \<and> code c \<le> 13 \<or> 28 \<le> code c \<and> code c \<le> 32"

text \<open>The regex class \<open>\w\<close>; a byte of a multi-byte character counts as a letter.\<close>

definition is_word :: "char \<Rightarrow> bool" where
  "is_word c \<longleftrightarrow> is_upper c \<or> is_lower c \<or> is_digit c \<or> c = CHR ''_'' \<or> \<not> is_ascii c"

definition char_lower :: "char \<Rightarrow> char" where
  "char_lower c = (if is_upper c then char_of (code c + 32) else c)"

definition char_upper :: "char \<Rightarrow> char" where
  "char_upper c = (if is_lower c then char_of (code c - 32) else c)"

lemma code_char_of [simp]: "n < 256 \<Longrightarrow> code (char_of n) = n"
  by (simp add: code_def)

lemma code_less [simp]: "code c < 256"
  by (simp add: code_def)

lemma code_inj: "code c = code d \<longleftrightarrow> c = d"
  by (simp add: code_def)

lemma is_upper_char_lower [simp]: "\<not> is_upper (char_lower c)"
  by (auto simp: char_lower_def is_upper_def)

lemma char_lower_idem [simp]: "char_lower (char_lower c) = char_lower c"
  by (simp add: char_lower_def [of "char_lower c"])

lemma code_char_lower: "code (char_lower c) = (if is_upper c then code c + 32 else code c)"
  by (auto simp: char_lower_def is_upper_def)

lemma is_space_char_lower [simp]: "is_space (char_lower c) = is_space c"
  by (auto simp: is_space_def code_char_lower is_upper_def)

lemma is_ascii_char_lower [simp]: "is_ascii (char_lower c) = is_ascii c"
  by (auto simp: is_ascii_def code_char_lower is_upper_def)

lemma char_lower_eq_special:
  assumes "\<not> is_lower d" "\<not> is_upper d"
  shows "char_lower c = d \<longleftrightarrow> c = d"
proof (cases "is_upper c")
  case True
  then have "is_lower (char_lower c)"
    by (auto simp: is_lower_def code_char_lower is_upper_def)
  with True assms show ?thesis by auto
qed (simp add: char_lower_def)

section \<open>Case, blanks and prefixes\<close>

definition lower :: "pystr \<Rightarrow> pystr" where
  "lower = map char_lower"

definition lstrip :: "pystr \<Rightarrow> pystr" where
  "lstrip = dropWhile is_space"

definition rstrip :: "pystr \<Rightarrow> pystr" where
  "rstrip s = rev (dropWhile is_space (rev s))"

definition strip :: "pystr \<Rightarrow> pystr" where
  "strip s = rstrip (lstrip s)"

definition startswith :: "pystr \<Rightarrow> pystr \<Rightarrow> bool" where
  "startswith s p = prefix p s"

lemma startswith_code [code]: "startswith s p = (take (length p) s = p)"
  by (auto simp: startswith_def prefix_def intro: append_take_drop_id [symmetric])
    (metis append_take_drop_id)

lemma lower_lower [simp, pyt]: "lower (lower s) = lower s"
  by (simp add: lower_def)

lemma lower_append [simp, pyt]: "lower (s @ t) = lower s @ lower t"
  by (simp add: lower_def)

lemma lower_Cons [simp]: "lower (c # s) = char_lower c # lower s"
  by (simp add: lower_def)

lemma lower_Nil [simp]: "lower [] = []"
  by (simp add: lower_def)

lemma lower_eq_Nil [simp]: "lower s = [] \<longleftrightarrow> s = []"
  by (simp add: lower_def)

definition blank_free :: "pystr \<Rightarrow> bool" where
  "blank_free s \<longleftrightarrow> list_all (\<lambda>c. \<not> is_space c) s"

lemma blank_free_simps [simp]:
  "blank_free []" "blank_free (c # s) \<longleftrightarrow> \<not> is_space c \<and> blank_free s"
  "blank_free (s @ t) \<longleftrightarrow> blank_free s \<and> blank_free t"
  by (auto simp: blank_free_def)

lemma strip_blank_free [pyt]: "blank_free s \<Longrightarrow> strip s = s"
proof -
  assume a: "blank_free s"
  have id: "dropWhile is_space t = t" if "blank_free t" for t
    using that by (cases t) auto
  have "blank_free (rev s)" using a by (simp add: blank_free_def list_all_rev)
  with a show ?thesis by (simp add: strip_def lstrip_def rstrip_def id)
qed

lemma is_space_nl [simp]: "is_space (CHR 0x0A)"
  by (simp add: is_space_def code_def)

lemma last_strip: "strip s \<noteq> [] \<Longrightarrow> \<not> is_space (last (strip s))"
proof -
  assume ne: "strip s \<noteq> []"
  then have "dropWhile is_space (rev (lstrip s)) \<noteq> []" by (simp add: strip_def rstrip_def)
  then have "\<not> is_space (hd (dropWhile is_space (rev (lstrip s))))" by (rule hd_dropWhile)
  with ne show ?thesis by (simp add: strip_def rstrip_def last_rev)
qed

lemma blank_free_lower [simp]: "blank_free (lower s) = blank_free s"
  by (induction s) auto

section \<open>Searching\<close>

text \<open>\<open>s.find(c)\<close> for one character, as the split before and from its first occurrence.\<close>

definition before_char :: "char \<Rightarrow> pystr \<Rightarrow> pystr" where
  "before_char c s = takeWhile (\<lambda>x. x \<noteq> c) s"

text \<open>\<open>s.rpartition(c)\<close> where \<open>c\<close> occurs: what stands before and after its last occurrence.\<close>

definition rpart_before :: "char \<Rightarrow> pystr \<Rightarrow> pystr" where
  "rpart_before c s = rev (drop 1 (dropWhile (\<lambda>x. x \<noteq> c) (rev s)))"

definition rpart_after :: "char \<Rightarrow> pystr \<Rightarrow> pystr" where
  "rpart_after c s = rev (takeWhile (\<lambda>x. x \<noteq> c) (rev s))"

lemma rpart_append [pyt]:
  assumes "c \<notin> set t"
  shows "rpart_before c (s @ c # t) = s" and "rpart_after c (s @ c # t) = t"
proof -
  have "takeWhile (\<lambda>x. x \<noteq> c) (rev t @ c # rev s) = rev t"
    using assms by (subst takeWhile_append2) auto
  then show "rpart_after c (s @ c # t) = t" by (simp add: rpart_after_def)
  have "dropWhile (\<lambda>x. x \<noteq> c) (rev t @ c # rev s) = c # rev s"
    using assms by (subst dropWhile_append2) auto
  then show "rpart_before c (s @ c # t) = s" by (simp add: rpart_before_def)
qed

text \<open>\<open>sub in s\<close>, and \<open>s.find(sub)\<close> with \<open>None\<close> for -1.\<close>

fun contains :: "pystr \<Rightarrow> pystr \<Rightarrow> bool" where
  "contains [] sub = (sub = [])"
| "contains (c # s) sub = (startswith (c # s) sub \<or> contains s sub)"

fun find_sub :: "pystr \<Rightarrow> pystr \<Rightarrow> nat option" where
  "find_sub [] sub = (if sub = [] then Some 0 else None)"
| "find_sub (c # s) sub =
     (if startswith (c # s) sub then Some 0 else map_option Suc (find_sub s sub))"

lemma startswith_Nil [simp]: "startswith s []"
  by (simp add: startswith_def)

lemma contains_iff: "contains s sub \<longleftrightarrow> (\<exists>u v. s = u @ sub @ v)"
proof (induction s)
  case (Cons c s)
  show ?case
  proof
    assume "contains (c # s) sub"
    then consider "prefix sub (c # s)" | "contains s sub" by (auto simp: startswith_def)
    then show "\<exists>u v. c # s = u @ sub @ v"
    proof cases
      case 1
      then obtain v where "c # s = [] @ sub @ v" by (auto simp: prefix_def)
      then show ?thesis by blast
    next
      case 2
      then obtain u v where "s = u @ sub @ v" using Cons.IH by blast
      then have "c # s = (c # u) @ sub @ v" by simp
      then show ?thesis by blast
    qed
  next
    assume "\<exists>u v. c # s = u @ sub @ v"
    then obtain u v where e: "c # s = u @ sub @ v" by blast
    then show "contains (c # s) sub"
    proof (cases u)
      case Nil
      with e have "startswith (c # s) sub" by (simp add: startswith_def prefix_def)
      then show ?thesis by simp
    next
      case (Cons d u')
      with e have "s = u' @ sub @ v" by simp
      with Cons.IH have "contains s sub" by blast
      then show ?thesis by simp
    qed
  qed
qed simp

lemma find_sub_None: "find_sub s sub = None \<longleftrightarrow> \<not> contains s sub"
  by (induction s) auto

text \<open>\<open>s.split(c)\<close> for a one-character separator, and \<open>s.split()\<close> for runs of blanks.\<close>

fun split_on :: "char \<Rightarrow> pystr \<Rightarrow> pystr list" where
  "split_on c [] = [[]]"
| "split_on c (x # xs) =
     (if x = c then [] # split_on c xs
      else case split_on c xs of [] \<Rightarrow> [[x]] | w # ws \<Rightarrow> (x # w) # ws)"

function split_blank :: "pystr \<Rightarrow> pystr list" where
  "split_blank s =
     (case dropWhile is_space s of
        [] \<Rightarrow> []
      | c # t \<Rightarrow> takeWhile (\<lambda>x. \<not> is_space x) (c # t)
                 # split_blank (dropWhile (\<lambda>x. \<not> is_space x) (c # t)))"
  by pat_completeness auto
termination
proof (relation "measure length", simp, goal_cases)
  case (1 s c t)
  then have "\<not> is_space c" by (metis dropWhile_eq_Cons_conv)
  then have "length (dropWhile (\<lambda>x. \<not> is_space x) (c # t)) \<le> length t"
    by (simp add: length_dropWhile_le)
  also have "Suc (length t) \<le> length s"
    using 1 by (metis length_Cons length_dropWhile_le)
  ultimately show ?case by simp
qed

declare split_blank.simps [simp del]

text \<open>\<open>sep.join(parts)\<close> and \<open>s.replace(c, "")\<close>.\<close>

fun join :: "pystr \<Rightarrow> pystr list \<Rightarrow> pystr" where
  "join sep [] = []"
| "join sep [w] = w"
| "join sep (w # ws) = w @ sep @ join sep ws"

text \<open>A formatted string \<open>f"..{x}.."\<close> is the list of its pieces put together.\<close>

definition fstr :: "pystr list \<Rightarrow> pystr" where
  "fstr = concat"

lemma fstr_inj [simp]: "fstr (a # xs) = fstr (a # ys) \<longleftrightarrow> fstr xs = fstr ys"
  by (simp add: fstr_def)

lemma fstr_one [simp]: "fstr [x] = x"
  by (simp add: fstr_def)

definition remove_char :: "char \<Rightarrow> pystr \<Rightarrow> pystr" where
  "remove_char c = filter (\<lambda>x. x \<noteq> c)"

lemma remove_char_idem [simp, pyt]: "remove_char c (remove_char c s) = remove_char c s"
  by (simp add: remove_char_def)

section \<open>Numbers and quoting\<close>

fun nat_str :: "nat \<Rightarrow> pystr" where
  "nat_str n = (if n < 10 then [char_of (48 + n)] else nat_str (n div 10) @ [char_of (48 + n mod 10)])"

declare nat_str.simps [simp del]

definition int_str :: "int \<Rightarrow> pystr" where
  "int_str i = (if i < 0 then CHR ''-'' # nat_str (nat (- i)) else nat_str (nat i))"

text \<open>\<open>f"{n:02d}"\<close> and the four-digit year of \<open>strftime\<close>.\<close>

definition pad :: "nat \<Rightarrow> pystr \<Rightarrow> pystr" where
  "pad w s = replicate (w - length s) (CHR ''0'') @ s"

definition sq :: pystr where
  "sq = [CHR 0x27]"

definition dq :: pystr where
  "dq = [CHR 0x22]"

definition nl :: pystr where
  "nl = [CHR 0x0A]"

text \<open>\<open>repr\<close> of a string: single quotes unless it holds a single and no double quote;
  backslash, quote and control characters escaped.\<close>

definition hex_digit :: "nat \<Rightarrow> char" where
  "hex_digit n = (if n < 10 then char_of (48 + n) else char_of (87 + n))"

definition repr_char :: "pystr \<Rightarrow> char \<Rightarrow> pystr" where
  "repr_char q c =
     (if [c] = q \<or> code c = 92 then [char_of (92::nat), c]
      else if code c = 10 then [char_of (92::nat), CHR ''n'']
      else if code c = 13 then [char_of (92::nat), CHR ''r'']
      else if code c = 9 then [char_of (92::nat), CHR ''t'']
      else if code c < 32 \<or> code c = 127
        then [char_of (92::nat), CHR ''x'', hex_digit (code c div 16), hex_digit (code c mod 16)]
      else [c])"

definition py_repr :: "pystr \<Rightarrow> pystr" where
  "py_repr s =
     (let q = (if contains s sq \<and> \<not> contains s dq then dq else sq)
      in q @ concat (map (repr_char q) s) @ q)"

definition exc_name :: "exc \<Rightarrow> pystr" where
  "exc_name e = (case e of
     PermanentJobError _ \<Rightarrow> ''PermanentJobError'' | ComplianceJobError _ \<Rightarrow> ''ComplianceJobError''
   | PermissionError _ \<Rightarrow> ''PermissionError''
   | ResumeRequiresHumanError _ \<Rightarrow> ''ResumeRequiresHumanError''
   | LookupError _ \<Rightarrow> ''LookupError'' | UnknownSubjectError _ \<Rightarrow> ''UnknownSubjectError''
   | TransitionError _ \<Rightarrow> ''TransitionError'' | InvalidEmailError _ \<Rightarrow> ''InvalidEmailError''
   | KeyError _ \<Rightarrow> ''KeyError'' | ValueError _ \<Rightarrow> ''ValueError'' | RuntimeError _ \<Rightarrow> ''RuntimeError''
   | DatabaseError _ \<Rightarrow> ''DatabaseError'' | ComposeEscalation _ \<Rightarrow> ''ComposeEscalation''
   | ReplyComposeError _ \<Rightarrow> ''ReplyComposeError'' | SynthesisEscalation _ \<Rightarrow> ''SynthesisEscalation''
   | WebhookVerificationError _ \<Rightarrow> ''WebhookVerificationError'' | OtherError _ \<Rightarrow> ''Exception'')"

text \<open>\<open>str(exc)\<close>: a \<open>KeyError\<close> shows the \<open>repr\<close> of its key.\<close>

definition exc_str :: "exc \<Rightarrow> pystr" where
  "exc_str e = (case e of
     PermanentJobError m \<Rightarrow> m | ComplianceJobError m \<Rightarrow> m | PermissionError m \<Rightarrow> m
   | ResumeRequiresHumanError m \<Rightarrow> m | LookupError m \<Rightarrow> m | UnknownSubjectError m \<Rightarrow> m
   | TransitionError m \<Rightarrow> m | InvalidEmailError m \<Rightarrow> m | KeyError m \<Rightarrow> py_repr m
   | ValueError m \<Rightarrow> m | RuntimeError m \<Rightarrow> m | DatabaseError m \<Rightarrow> m
   | ComposeEscalation m \<Rightarrow> m | ReplyComposeError m \<Rightarrow> m | SynthesisEscalation m \<Rightarrow> m
   | WebhookVerificationError m \<Rightarrow> m | OtherError m \<Rightarrow> m)"

definition exc_repr :: "exc \<Rightarrow> pystr" where
  "exc_repr e = exc_name e @ ''('' @
     (case e of KeyError m \<Rightarrow> py_repr m | _ \<Rightarrow> py_repr (exc_str e)) @ '')''"

end
