(* ===== verification/Regex.thy ===== *)
theory Regex
  imports Pytext
begin

text \<open>
  Python's \<open>re\<close> module, as far as the program uses it: a backtracking matcher that lists the
  ends of all matches from a position in the order the engine tries them (leftmost
  alternative first, greedy repetition first), so the first element is what \<open>match\<close> returns.
  A position is the character before it, if any, and the text from it on, which is what the
  assertions \<open>\b\<close>, \<open>^\<close> and \<open>$\<close> look at.
\<close>

section \<open>Patterns and the matcher\<close>

datatype rx =
    REps
  | RSet "char \<Rightarrow> bool"
  | RSeq rx rx
  | RAlt rx rx
  | RRep nat "nat option" rx
  | RWordB
  | RBol bool
  | REol

type_synonym pos = "char option \<times> pystr"

definition word_at_end :: "char option \<Rightarrow> bool" where
  "word_at_end p = (case p of None \<Rightarrow> False | Some c \<Rightarrow> is_word c)"

definition word_at_start :: "pystr \<Rightarrow> bool" where
  "word_at_start s = (case s of [] \<Rightarrow> False | c # _ \<Rightarrow> is_word c)"

definition dec_bound :: "nat option \<Rightarrow> nat option" where
  "dec_bound h = map_option (\<lambda>n. n - 1) h"

text \<open>
  Greedy repetition of a one-step matcher: at least \<open>lo\<close> rounds, at most \<open>hi\<close>; an optional
  round that consumes nothing is not taken. The fuel counts rounds.
\<close>

fun rep :: "(pos \<Rightarrow> pos list) \<Rightarrow> nat \<Rightarrow> nat option \<Rightarrow> nat \<Rightarrow> pos \<Rightarrow> pos list" where
  "rep f lo hi 0 p = (if lo = 0 then [p] else [])"
| "rep f lo hi (Suc k) p =
     (if 0 < lo then concat (map (rep f (lo - 1) (dec_bound hi) k) (f p))
      else if hi = Some 0 then [p]
      else concat (map (rep f 0 (dec_bound hi) k)
             (filter (\<lambda>q. length (snd q) < length (snd p)) (f p))) @ [p])"

fun mt :: "rx \<Rightarrow> pos \<Rightarrow> pos list" where
  "mt REps p = [p]"
| "mt (RSet P) (pv, s) = (case s of [] \<Rightarrow> [] | c # t \<Rightarrow> if P c then [(Some c, t)] else [])"
| "mt (RSeq a b) p = concat (map (mt b) (mt a p))"
| "mt (RAlt a b) p = mt a p @ mt b p"
| "mt (RRep lo hi r) p = rep (mt r) lo hi (lo + length (snd p)) p"
| "mt RWordB (pv, s) = (if word_at_end pv \<noteq> word_at_start s then [(pv, s)] else [])"
| "mt (RBol multiline) (pv, s) =
     (if pv = None \<or> multiline \<and> pv = Some (CHR 0x0A) then [(pv, s)] else [])"
| "mt REol (pv, s) = (if s = [] \<or> s = nl then [(pv, s)] else [])"

text \<open>\<open>re.IGNORECASE\<close>.\<close>

fun ci :: "rx \<Rightarrow> rx" where
  "ci (RSet P) = RSet (\<lambda>c. P c \<or> P (char_lower c) \<or> P (char_upper c))"
| "ci (RSeq a b) = RSeq (ci a) (ci b)"
| "ci (RAlt a b) = RAlt (ci a) (ci b)"
| "ci (RRep lo hi r) = RRep lo hi (ci r)"
| "ci r = r"

section \<open>Building patterns\<close>

definition rchr :: "char \<Rightarrow> rx" where
  "rchr d = RSet (\<lambda>c. c = d)"

fun rlit :: "pystr \<Rightarrow> rx" where
  "rlit [] = REps"
| "rlit [c] = rchr c"
| "rlit (c # s) = RSeq (rchr c) (rlit s)"

fun rseq :: "rx list \<Rightarrow> rx" where
  "rseq [] = REps"
| "rseq [r] = r"
| "rseq (r # rs) = RSeq r (rseq rs)"

fun ralt :: "rx list \<Rightarrow> rx" where
  "ralt [] = RSet (\<lambda>_. False)"
| "ralt [r] = r"
| "ralt (r # rs) = RAlt r (ralt rs)"

definition ropt :: "rx \<Rightarrow> rx" where
  "ropt r = RRep 0 (Some 1) r"

definition rstar :: "rx \<Rightarrow> rx" where
  "rstar r = RRep 0 None r"

definition rplus :: "rx \<Rightarrow> rx" where
  "rplus r = RRep 1 None r"

definition rspace :: rx where
  "rspace = RSet is_space"

definition rdigit :: rx where
  "rdigit = RSet is_digit"

definition rdot :: rx where
  "rdot = RSet (\<lambda>c. code c \<noteq> 10)"

definition upto :: "nat \<Rightarrow> rx \<Rightarrow> rx" where
  "upto n r = RRep 0 (Some n) r"

definition ralts :: "pystr list \<Rightarrow> rx" where
  "ralts ws = ralt (map rlit ws)"

section \<open>Searching and scanning\<close>

text \<open>\<open>p.match(s)\<close>: the text matched at the start.\<close>

definition match_text :: "pystr \<Rightarrow> pos \<Rightarrow> pystr" where
  "match_text s e = take (length s - length (snd e)) s"

definition rx_match :: "rx \<Rightarrow> pystr \<Rightarrow> pystr option" where
  "rx_match r s = (case mt r (None, s) of [] \<Rightarrow> None | e # _ \<Rightarrow> Some (match_text s e))"

text \<open>\<open>p.search(s)\<close>: the text of the leftmost match.\<close>

fun search_from :: "rx \<Rightarrow> char option \<Rightarrow> pystr \<Rightarrow> pystr option" where
  "search_from r pv [] =
     (case mt r (pv, []) of [] \<Rightarrow> None | e # _ \<Rightarrow> Some (match_text [] e))"
| "search_from r pv (c # s) =
     (case mt r (pv, c # s) of
        [] \<Rightarrow> search_from r (Some c) s
      | e # _ \<Rightarrow> Some (match_text (c # s) e))"

definition search :: "rx \<Rightarrow> pystr \<Rightarrow> pystr option" where
  "search r s = search_from r None s"

text \<open>
  The segments of \<open>p.finditer(s)\<close>: \<open>Inl c\<close> a character outside every match, \<open>Inr m\<close> a match.
  Used only for patterns that match no empty text.
\<close>

function scan :: "rx \<Rightarrow> char option \<Rightarrow> pystr \<Rightarrow> (char + pystr) list" where
  "scan r pv [] = []"
| "scan r pv (c # s) =
     (case mt r (pv, c # s) of
        [] \<Rightarrow> Inl c # scan r (Some c) s
      | e # _ \<Rightarrow>
          if length (snd e) < length (c # s)
          then Inr (match_text (c # s) e) # scan r (fst e) (snd e)
          else Inl c # scan r (Some c) s)"
  by pat_completeness auto
termination
  by (relation "measure (\<lambda>(r, pv, s). length s)") auto

definition findall :: "rx \<Rightarrow> pystr \<Rightarrow> pystr list" where
  "findall r s = concat (map (\<lambda>x. case x of Inl _ \<Rightarrow> [] | Inr m \<Rightarrow> [m]) (scan r None s))"

definition sub :: "rx \<Rightarrow> (pystr \<Rightarrow> pystr) \<Rightarrow> pystr \<Rightarrow> pystr" where
  "sub r f s = concat (map (\<lambda>x. case x of Inl c \<Rightarrow> [c] | Inr m \<Rightarrow> f m) (scan r None s))"

section \<open>The matcher only moves forward\<close>

definition forward :: "(pos \<Rightarrow> pos list) \<Rightarrow> bool" where
  "forward f \<longleftrightarrow> (\<forall>p q. q \<in> set (f p) \<longrightarrow> suffix (snd q) (snd p))"

lemma forwardI: "(\<And>p q. q \<in> set (f p) \<Longrightarrow> suffix (snd q) (snd p)) \<Longrightarrow> forward f"
  unfolding forward_def by blast

lemma forwardD: "forward f \<Longrightarrow> q \<in> set (f p) \<Longrightarrow> suffix (snd q) (snd p)"
  unfolding forward_def by blast

lemma forward_rep: "forward f \<Longrightarrow> forward (rep f lo hi k)"
proof -
  assume f: "forward f"
  have "q \<in> set (rep f lo hi k p) \<Longrightarrow> suffix (snd q) (snd p)" for p q
  proof (induction k arbitrary: lo hi p)
    case (Suc k)
    have tail: "q \<in> set (rep f l h k r) \<Longrightarrow> r \<in> set (f p) \<Longrightarrow> suffix (snd q) (snd p)" for l h r
      using Suc.IH forwardD [OF f] suffix_order.trans by blast
    show ?case
      using Suc.prems tail by (auto split: if_splits)
  qed (simp split: if_splits)
  then show ?thesis by (rule forwardI)
qed

lemma forward_mt: "forward (mt r)"
proof (induction r)
  case (RSeq a b)
  then show ?case unfolding forward_def by (fastforce intro: suffix_order.trans)
next
  case (RRep lo hi r)
  show ?case by (rule forwardI) (auto dest: forwardD [OF forward_rep [OF RRep.IH]])
qed (auto simp: forward_def suffix_def split: list.splits if_splits)

lemma mt_suffix: "q \<in> set (mt r p) \<Longrightarrow> suffix (snd q) (snd p)"
  by (rule forwardD [OF forward_mt])

text \<open>The fuel of a repetition is enough: one more round never changes the matches.\<close>

lemma rep_enough_fuel:
  assumes "forward f" and "lo + length (snd p) \<le> k"
  shows "rep f lo hi (Suc k) p = rep f lo hi k p"
  using assms(2)
proof (induction k arbitrary: lo hi p)
  case 0
  then show ?case by (auto simp: filter_empty_conv)
next
  case (Suc k)
  have len: "length (snd q) \<le> length (snd p)" if "q \<in> set (f p)" for q
    using forwardD [OF assms(1) that] by (rule suffix_length_le)
  show ?case
  proof (cases "0 < lo")
    case True
    have "map (rep f (lo - 1) (dec_bound hi) (Suc k)) (f p) = map (rep f (lo - 1) (dec_bound hi) k) (f p)"
      using len Suc.prems True by (intro map_cong [OF refl] Suc.IH) (fastforce dest: len)
    with True show ?thesis by (simp only: rep.simps if_True)
  next
    case False
    let ?Q = "filter (\<lambda>q. length (snd q) < length (snd p)) (f p)"
    have "map (rep f 0 (dec_bound hi) (Suc k)) ?Q = map (rep f 0 (dec_bound hi) k) ?Q"
      using Suc.prems by (intro map_cong [OF refl] Suc.IH) auto
    with False show ?thesis by (simp only: rep.simps if_False)
  qed
qed

lemma match_text_append: "suffix (snd e) s \<Longrightarrow> match_text s e @ snd e = s"
  by (auto simp: match_text_def suffix_def)

text \<open>The segments of a scan put together are the text.\<close>

lemma scan_concat:
  "concat (map (\<lambda>x. case x of Inl c \<Rightarrow> [c] | Inr m \<Rightarrow> m) (scan r pv s)) = s"
proof (induction r pv s rule: scan.induct)
  case (2 r pv c s)
  show ?case
  proof (cases "mt r (pv, c # s)")
    case Nil
    with 2 show ?thesis by simp
  next
    case (Cons e es)
    then have "suffix (snd e) (c # s)" using mt_suffix [of e r "(pv, c # s)"] by simp
    from match_text_append [OF this] show ?thesis using 2 Cons by simp
  qed
qed simp

lemma sub_id: "sub r (\<lambda>m. m) s = s"
  by (simp add: sub_def scan_concat)

section \<open>Runs of one class\<close>

text \<open>What a greedy run of a character class can match, for characterising whole patterns.\<close>

definition run_end :: "char option \<Rightarrow> pystr \<Rightarrow> char option" where
  "run_end pv u = (if u = [] then pv else Some (last u))"

lemma rep_RSet:
  assumes "length s \<le> k"
  shows "e \<in> set (rep (mt (RSet P)) 0 None k (pv, s)) \<longleftrightarrow>
    (\<exists>u v. s = u @ v \<and> list_all P u \<and> e = (run_end pv u, v))"
  using assms
proof (induction k arbitrary: pv s)
  case 0
  then show ?case by (auto simp: run_end_def)
next
  case (Suc k)
  have nil: "(\<exists>u v. s = u @ v \<and> list_all P u \<and> e = (run_end pv u, v)) \<longleftrightarrow>
    e = (pv, s) \<or> (\<exists>c t. s = c # t \<and> P c \<and>
      (\<exists>u v. t = u @ v \<and> list_all P u \<and> e = (run_end (Some c) u, v)))"
    (is "?L \<longleftrightarrow> ?R")
  proof
    assume ?L
    then obtain u v where uv: "s = u @ v" "list_all P u" "e = (run_end pv u, v)" by blast
    then show ?R by (cases u) (auto simp: run_end_def)
  next
    assume ?R
    then show ?L
    proof
      assume "e = (pv, s)"
      then have "s = [] @ s \<and> list_all P [] \<and> e = (run_end pv [], s)" by (simp add: run_end_def)
      then show ?L by blast
    next
      assume "\<exists>c t. s = c # t \<and> P c \<and>
        (\<exists>u v. t = u @ v \<and> list_all P u \<and> e = (run_end (Some c) u, v))"
      then obtain c u v where "s = (c # u) @ v" "list_all P (c # u)" "e = (run_end pv (c # u), v)"
        by (fastforce simp: run_end_def)
      then show ?L by blast
    qed
  qed
  show ?case
  proof (cases s)
    case Nil
    then show ?thesis by (auto simp: nil dec_bound_def run_end_def)
  next
    case (Cons c t)
    with Suc.prems have "length t \<le> k" by simp
    note IH = Suc.IH [OF this]
    show ?thesis unfolding nil using Cons IH [of "Some c"] by (auto simp: dec_bound_def)
  qed
qed

lemma mt_rplus_RSet:
  "e \<in> set (mt (rplus (RSet P)) (pv, s)) \<longleftrightarrow>
    (\<exists>u v. s = u @ v \<and> u \<noteq> [] \<and> list_all P u \<and> e = (Some (last u), v))"
proof (cases s)
  case Nil
  then show ?thesis by (simp add: rplus_def)
next
  case (Cons c t)
  have "e \<in> set (mt (rplus (RSet P)) (pv, s)) \<longleftrightarrow>
      P c \<and> (\<exists>u v. t = u @ v \<and> list_all P u \<and> e = (run_end (Some c) u, v))"
    using rep_RSet [of t "length s" e P "Some c"] Cons by (simp add: rplus_def dec_bound_def)
  also have "\<dots> \<longleftrightarrow> (\<exists>u v. s = u @ v \<and> u \<noteq> [] \<and> list_all P u \<and> e = (Some (last u), v))"
    (is "?L \<longleftrightarrow> ?R")
  proof
    assume ?L
    then obtain u v where "s = (c # u) @ v" "list_all P (c # u)" "e = (Some (last (c # u)), v)"
      using Cons by (auto simp: run_end_def)
    then show ?R by blast
  next
    assume ?R
    then obtain u v where "s = u @ v" "u \<noteq> []" "list_all P u" "e = (Some (last u), v)" by blast
    then show ?L using Cons by (cases u) (auto simp: run_end_def)
  qed
  finally show ?thesis .
qed

lemma mt_runI:
  "u \<noteq> [] \<Longrightarrow> list_all P u \<Longrightarrow> (Some (last u), v) \<in> set (mt (rplus (RSet P)) (pv, u @ v))"
  unfolding mt_rplus_RSet by blast

lemma mt_RSeqI: "q \<in> set (mt a p) \<Longrightarrow> e \<in> set (mt b q) \<Longrightarrow> e \<in> set (mt (RSeq a b) p)"
  by auto

lemma mt_rchr [simp]:
  "e \<in> set (mt (rchr d) (pv, s)) \<longleftrightarrow> (\<exists>t. s = d # t \<and> e = (Some d, t))"
  by (cases s) (auto simp: rchr_def)

lemma run_then:
  "u \<noteq> [] \<Longrightarrow> list_all P u \<Longrightarrow> e \<in> set (mt b (Some (last u), v)) \<Longrightarrow>
    e \<in> set (mt (RSeq (rplus (RSet P)) b) (pv, u @ v))"
  by (rule mt_RSeqI [OF mt_runI])

lemma chr_then: "e \<in> set (mt b (Some c, v)) \<Longrightarrow> e \<in> set (mt (RSeq (rchr c) b) (pv, c # v))"
  by (rule mt_RSeqI [of "(Some c, v)"]) simp_all

lemma mt_RSeq_set: "e \<in> set (mt (RSeq a b) p) \<longleftrightarrow> (\<exists>q\<in>set (mt a p). e \<in> set (mt b q))"
  by simp

lemma mt_REol: "e \<in> set (mt REol (pv, s)) \<longleftrightarrow> e = (pv, s) \<and> (s = [] \<or> s = nl)"
  by auto

lemma rx_match_Some: "rx_match r s \<noteq> None \<longleftrightarrow> (\<exists>e. e \<in> set (mt r (None, s)))"
  by (auto simp: rx_match_def neq_Nil_conv split: list.splits)

end
