(* ===== verification/Sql.thy ===== *)
theory Sql
  imports Complex_Main Pytext
begin

text \<open>
  The shapes of SQL statement the program issues, over tables represented as lists of rows in
  table order. \<open>UPDATE .. WHERE\<close>, \<open>DELETE .. WHERE\<close>, \<open>SELECT .. WHERE\<close> and their row counts
  are the list operations below; a query without \<open>ORDER BY\<close> returns table order, one of the
  orders the server may choose.
\<close>

section \<open>Statements\<close>

definition sel :: "('r \<Rightarrow> bool) \<Rightarrow> 'r list \<Rightarrow> 'r list" where
  "sel P t = filter P t"

definition fetch :: "('r \<Rightarrow> bool) \<Rightarrow> 'r list \<Rightarrow> 'r option" where
  "fetch P t = List.find P t"

definition cnt :: "('r \<Rightarrow> bool) \<Rightarrow> 'r list \<Rightarrow> nat" where
  "cnt P t = length (filter P t)"

definition upd :: "('r \<Rightarrow> bool) \<Rightarrow> ('r \<Rightarrow> 'r) \<Rightarrow> 'r list \<Rightarrow> 'r list" where
  "upd P f t = map (\<lambda>r. if P r then f r else r) t"

definition del :: "('r \<Rightarrow> bool) \<Rightarrow> 'r list \<Rightarrow> 'r list" where
  "del P t = filter (\<lambda>r. \<not> P r) t"

definition ins :: "'r \<Rightarrow> 'r list \<Rightarrow> 'r list" where
  "ins r t = t @ [r]"

text \<open>\<open>INSERT .. ON CONFLICT DO UPDATE\<close> and \<open>DO NOTHING\<close>, for a key given as a test on rows.\<close>

definition upsert :: "('r \<Rightarrow> bool) \<Rightarrow> ('r \<Rightarrow> 'r) \<Rightarrow> 'r \<Rightarrow> 'r list \<Rightarrow> 'r list" where
  "upsert K f r t = (if \<exists>x\<in>set t. K x then upd K f t else ins r t)"

definition insert_new :: "('r \<Rightarrow> bool) \<Rightarrow> 'r \<Rightarrow> 'r list \<Rightarrow> 'r list" where
  "insert_new K r t = (if \<exists>x\<in>set t. K x then t else ins r t)"

text \<open>\<open>ORDER BY k LIMIT 1\<close>: the first of the rows with the least key.\<close>

fun least_by :: "('r \<Rightarrow> int) \<Rightarrow> 'r list \<Rightarrow> 'r option" where
  "least_by k [] = None"
| "least_by k (r # t) =
     (case least_by k t of None \<Rightarrow> Some r | Some s \<Rightarrow> if k s < k r then Some s else Some r)"

section \<open>Their equations\<close>

lemma set_sel [simp, sql]: "set (sel P t) = {r \<in> set t. P r}"
  by (simp add: sel_def)

lemma set_upd [sql]: "set (upd P f t) = (\<lambda>r. if P r then f r else r) ` set t"
  by (simp add: upd_def)

lemma set_del [simp, sql]: "set (del P t) = {r \<in> set t. \<not> P r}"
  by (simp add: del_def)

lemma set_ins [simp, sql]: "set (ins r t) = insert r (set t)"
  by (auto simp: ins_def)

lemma upd_Nil [simp]: "upd P f [] = []"
  by (simp add: upd_def)

lemma upd_Cons [simp]: "upd P f (r # t) = (if P r then f r else r) # upd P f t"
  by (simp add: upd_def)

lemma length_upd [simp]: "length (upd P f t) = length t"
  by (simp add: upd_def)

lemma upd_no_match: "\<forall>r\<in>set t. \<not> P r \<Longrightarrow> upd P f t = t"
  by (induction t) auto

lemma cnt_Nil [simp]: "cnt P [] = 0"
  by (simp add: cnt_def)

lemma cnt_Cons [simp]: "cnt P (r # t) = (if P r then Suc (cnt P t) else cnt P t)"
  by (simp add: cnt_def)

lemma cnt_ins [simp]: "cnt P (ins r t) = cnt P t + (if P r then 1 else 0)"
  by (simp add: cnt_def ins_def)

lemma cnt_0 [sql]: "cnt P t = 0 \<longleftrightarrow> (\<forall>r\<in>set t. \<not> P r)"
  by (auto simp: cnt_def filter_empty_conv)

lemma cnt_pos [sql]: "0 < cnt P t \<longleftrightarrow> (\<exists>r\<in>set t. P r)"
  by (auto simp: cnt_def filter_empty_conv)

lemma fetch_SomeD: "fetch P t = Some r \<Longrightarrow> r \<in> set t \<and> P r"
  by (simp add: fetch_def find_Some_set)

lemma fetch_None [sql]: "fetch P t = None \<longleftrightarrow> (\<forall>r\<in>set t. \<not> P r)"
  by (simp add: fetch_def find_None_set)

lemma fetch_Nil [simp]: "fetch P [] = None"
  by (simp add: fetch_def)

lemma fetch_Cons [simp]: "fetch P (r # t) = (if P r then Some r else fetch P t)"
  by (simp add: fetch_def)

text \<open>An update that keeps the looked-up condition on every row is seen row by row.\<close>

lemma fetch_upd:
  assumes "\<And>r. r \<in> set t \<Longrightarrow> Q (if P r then f r else r) = Q r"
  shows "fetch Q (upd P f t) = map_option (\<lambda>r. if P r then f r else r) (fetch Q t)"
  using assms by (induction t) auto

lemma fetch_upd_same:
  assumes "\<And>r. r \<in> set t \<Longrightarrow> P r \<Longrightarrow> Q (f r) = Q r"
    and "\<And>r. r \<in> set t \<Longrightarrow> Q r \<Longrightarrow> \<not> P r"
  shows "fetch Q (upd P f t) = fetch Q t"
  using assms by (induction t) auto

lemma fetch_ins: "fetch Q (ins r t) = (case fetch Q t of Some x \<Rightarrow> Some x | None \<Rightarrow> if Q r then Some r else None)"
  by (induction t) (auto simp: ins_def)

text \<open>With a key, the row found is the row there is.\<close>

lemma fetch_unique:
  assumes "r \<in> set t" and "P r" and "\<And>s. s \<in> set t \<Longrightarrow> P s \<Longrightarrow> s = r"
  shows "fetch P t = Some r"
proof (cases "fetch P t")
  case None
  then have "\<forall>s\<in>set t. \<not> P s" by (simp add: fetch_None)
  with assms(1,2) show ?thesis by blast
next
  case (Some s)
  then have "s \<in> set t \<and> P s" by (rule fetch_SomeD)
  then have "s = r" by (intro assms(3)) auto
  with Some show ?thesis by simp
qed

lemma fetch_key:
  assumes "distinct (map k t)" and "r \<in> set t"
  shows "fetch (\<lambda>s. k s = k r) t = Some r"
  by (rule fetch_unique [OF assms(2) refl]) (use assms in \<open>auto simp: distinct_map dest: inj_onD\<close>)

lemma distinct_map_upd:
  assumes "\<And>r. r \<in> set t \<Longrightarrow> P r \<Longrightarrow> k (f r) = k r"
  shows "map k (upd P f t) = map k t"
  using assms by (induction t) auto

lemma least_by_SomeD:
  "least_by k t = Some r \<Longrightarrow> r \<in> set t \<and> (\<forall>s\<in>set t. k r \<le> k s)"
proof (induction t arbitrary: r)
  case (Cons a t)
  show ?case
  proof (cases "least_by k t")
    case None
    then have "t = []" by (cases t) (auto split: option.splits if_splits)
    with Cons.prems show ?thesis by simp
  next
    case (Some s)
    with Cons.IH have "s \<in> set t" "\<forall>x\<in>set t. k s \<le> k x" by auto
    with Some Cons.prems show ?thesis by (fastforce split: if_splits)
  qed
qed simp

lemma least_by_None [simp]: "least_by k t = None \<longleftrightarrow> t = []"
  by (cases t) (auto split: option.splits if_splits)

lemma list_all_upd:
  assumes "\<forall>r\<in>set t. Q r" and "\<And>r. r \<in> set t \<Longrightarrow> P r \<Longrightarrow> Q r \<Longrightarrow> Q (f r)"
  shows "\<forall>r\<in>set (upd P f t). Q r"
  using assms by (auto simp: set_upd)

lemma upsert_set:
  "r' \<in> set (upsert K f r t) \<Longrightarrow> r' = r \<or> (\<exists>x\<in>set t. r' = (if K x then f x else x))"
  by (auto simp: upsert_def set_upd split: if_splits)

lemma upsert_hit: "\<exists>x\<in>set (upsert K f r t). x = r \<or> (\<exists>y\<in>set t. K y \<and> x = f y)"
  by (auto simp: upsert_def set_upd)

lemma upsert_ex:
  "Q r \<Longrightarrow> (\<And>y. K y \<Longrightarrow> Q (f y)) \<Longrightarrow> \<exists>x\<in>set (upsert K f r t). Q x"
  using upsert_hit [of K f r t] by metis

lemma upsert_keep: "x \<in> set t \<Longrightarrow> (if K x then f x else x) \<in> set (upsert K f r t)"
  by (auto simp: upsert_def set_upd)

lemma insert_new_mono: "set t \<subseteq> set (insert_new K r t)"
  by (auto simp: insert_new_def)

lemma insert_new_present: "K r \<Longrightarrow> \<exists>x\<in>set (insert_new K r t). K x"
  by (auto simp: insert_new_def)

section \<open>The clock\<close>

text \<open>
  One reading of the clock per transaction: PostgreSQL's \<open>now()\<close> is the transaction's start and
  the Python readings inside a handler are taken as the same instant. Stored timestamps are
  seconds since the epoch.
\<close>

record clock =
  yr :: int
  mon :: int
  day :: int
  sod :: int

definition days_from_civil :: "int \<Rightarrow> int \<Rightarrow> int \<Rightarrow> int" where
  "days_from_civil y m d =
     (let y' = (if m \<le> 2 then y - 1 else y);
          era = y' div 400;
          yoe = y' - era * 400;
          doy = (153 * (if m > 2 then m - 3 else m + 9) + 2) div 5 + d - 1;
          doe = yoe * 365 + yoe div 4 - yoe div 100 + doy
      in era * 146097 + doe - 719468)"

definition epoch :: "clock \<Rightarrow> int" where
  "epoch c = days_from_civil (yr c) (mon c) (day c) * 86400 + sod c"

definition leap :: "int \<Rightarrow> bool" where
  "leap y \<longleftrightarrow> y mod 4 = 0 \<and> (y mod 100 \<noteq> 0 \<or> y mod 400 = 0)"

definition month_len :: "int \<Rightarrow> int \<Rightarrow> int" where
  "month_len y m =
     (if m = 2 then (if leap y then 29 else 28) else if m \<in> {4, 6, 9, 11} then 30 else 31)"

text \<open>\<open>now() + interval 'k months'\<close>: the day is cut to the length of the target month.\<close>

definition add_months :: "int \<Rightarrow> clock \<Rightarrow> clock" where
  "add_months k c =
     (let t = yr c * 12 + (mon c - 1) + k; y = t div 12; m = t mod 12 + 1
      in c\<lparr>yr := y, mon := m, day := min (day c) (month_len y m)\<rparr>)"

definition month_str :: "clock \<Rightarrow> pystr" where
  "month_str c = pad 4 (int_str (yr c)) @ ''-'' @ pad 2 (int_str (mon c))"

definition today_str :: "clock \<Rightarrow> pystr" where
  "today_str c = month_str c @ ''-'' @ pad 2 (int_str (day c))"

end
