(* ===== verification/Schema.thy ===== *)
theory Schema
  imports Sql
begin

text \<open>
  The database (\<open>db/schema.sql\<close>): one record per table row and one record for the database,
  with the triggers on \<open>touches\<close>. Closed sets of text values a column takes are datatypes.
  Random UUIDs come from a supply \<open>rng\<close>, of which \<open>draws\<close> have been used. \<open>locked_jobs\<close> and
  \<open>locked_boxes\<close> are the rows other open transactions hold, which \<open>SKIP LOCKED\<close> leaves out.
  \<open>idna\<close> answers for the IDNA codec on names that are not ASCII.
\<close>

section \<open>Values\<close>

type_synonym uuid = pystr

datatype json =
    JNull
  | JBool bool
  | JInt int
  | JNum rat
  | JStr pystr
  | JList "json list"
  | JObj "(pystr \<times> json) list"

type_synonym payload = "(pystr \<times> json) list"

datatype prospect_state =
    Discovered | Enriched | Qualified | Queued | Contacted | Engaged | Converted
  | Disqualified | Unenrichable | Bounced | Declined | Unsubscribed | No_response | Forgotten

datatype touch_status =
    Drafted | Pending_review | Pending_human | Claimed | Dispatched | Sent | Released

datatype touch_kind = Cold_kind | Followup_kind | Agentic_reply_kind | Human_task_kind

datatype job_status = Ready | Leased | Done | Dead

datatype confidence = Verified | Risky | Undeliverable | Unknown_conf

datatype scope_type = Tenant_month | Cohort_month | Mailbox_day

datatype task_status = Task_pending | Task_done | Task_skipped | Task_expired

datatype proposal_status = Prop_open | Prop_approved | Prop_declined

datatype profile_status = Prof_proposed | Prof_approved | Prof_superseded

section \<open>Rows\<close>

record tenant_row =
  tn_id :: uuid
  tn_slug :: pystr

record entity_row =
  e_id :: uuid
  e_tenant :: uuid
  e_name :: "pystr option"
  e_last_contact :: "int option"
  e_active :: "uuid option"
  e_touches :: int
  e_status_active :: bool
  e_referral :: bool

record key_row =
  k_entity :: uuid
  k_type :: pystr
  k_value :: pystr

record prospect_row =
  p_id :: uuid
  p_tenant :: uuid
  p_entity :: uuid
  p_cohort :: pystr
  p_persona :: pystr
  p_state :: prospect_state
  p_email_raw :: "pystr option"
  p_email :: "pystr option"
  p_conf :: "confidence option"
  p_source :: pystr
  p_ref :: payload
  p_basis :: pystr

record fact_row =
  f_id :: uuid
  f_prospect :: uuid
  f_type :: pystr
  f_content :: json
  f_url :: pystr
  f_observed :: int

record touch_row =
  t_id :: uuid
  t_prospect :: uuid
  t_campaign :: pystr
  t_variant :: "pystr option"
  t_step :: int
  t_kind :: touch_kind
  t_status :: touch_status
  t_subject :: "pystr option"
  t_body :: "pystr option"
  t_scrubbed :: bool
  t_hash :: pystr
  t_claimed_at :: "int option"
  t_sent_at :: "int option"
  t_ref :: "payload option"
  t_idem :: uuid
  t_mailbox :: "pystr option"

record trace_row =
  tr_touch :: uuid
  tr_gates :: "(pystr \<times> pystr) list"
  tr_version :: pystr

record reply_row =
  r_id :: uuid
  r_prospect :: uuid
  r_touch :: "uuid option"
  r_body :: "pystr option"
  r_scrubbed :: bool
  r_intent :: "pystr option"
  r_conf :: "rat option"
  r_exchanges :: int
  r_received :: int

record supp_row =
  s_email :: pystr
  s_scope :: pystr
  s_reason :: pystr
  s_expires :: "int option"
  s_created :: int

record tomb_row =
  tb_hash :: pystr
  tb_receipt :: uuid
  tb_propagated :: "int option"

record flag_row =
  cf_scope :: pystr
  cf_flag :: pystr
  cf_by :: pystr

record counter_row =
  c_type :: scope_type
  c_id :: pystr
  c_period :: pystr
  c_used :: int
  c_cap :: int

record pevent_row =
  pe_provider :: pystr
  pe_event :: pystr
  pe_kind :: pystr
  pe_payload :: payload

record audit_row =
  a_type :: pystr
  a_subject :: pystr
  a_event :: pystr
  a_payload :: payload
  a_actor :: pystr

record job_row =
  j_id :: nat
  j_queue :: pystr
  j_payload :: payload
  j_key :: "pystr option"
  j_status :: job_status
  j_attempts :: int
  j_max :: int
  j_lease :: "int option"
  j_run_after :: int
  j_error :: "pystr option"

record mailbox_row =
  m_box :: pystr
  m_tenant :: pystr
  m_domain :: pystr
  m_warm :: bool
  m_cap :: int

record vstat_row =
  v_tenant :: pystr
  v_id :: pystr
  v_attrs :: "(pystr \<times> pystr) list"
  v_trials :: int
  v_successes :: int
  v_complaints :: int
  v_unsubs :: int
  v_bounces :: int
  v_paused :: bool

record escalation_row =
  es_id :: uuid
  es_tenant :: "pystr option"
  es_type :: pystr
  es_subject :: pystr
  es_reason :: pystr
  es_payload :: payload
  es_open :: bool
  es_created :: int
  es_resolved_at :: "int option"
  es_by :: "pystr option"

record objection_row =
  o_tenant :: pystr
  o_class :: pystr
  o_reply :: uuid
  o_cohort :: pystr

record profile_row =
  sp_id :: uuid
  sp_tenant :: pystr
  sp_facts :: "(pystr \<times> pystr \<times> pystr) list"
  sp_status :: profile_status
  sp_by :: "pystr option"
  sp_created :: int
  sp_resolved_at :: "int option"

record claim_row =
  cr_tenant :: pystr
  cr_claim :: pystr
  cr_version :: pystr
  cr_text :: pystr

record task_row =
  h_id :: uuid
  h_tenant :: pystr
  h_prospect :: uuid
  h_touch :: uuid
  h_instruction :: pystr
  h_brief :: pystr
  h_status :: task_status
  h_note :: "pystr option"
  h_created :: int
  h_resolved_at :: "int option"
  h_by :: "pystr option"

record opevent_row =
  oe_id :: uuid
  oe_type :: pystr
  oe_selector :: payload
  oe_payload :: payload
  oe_key :: "pystr option"

record proposal_row =
  pr_id :: uuid
  pr_tenant :: pystr
  pr_kind :: pystr
  pr_summary :: pystr
  pr_payload :: payload
  pr_evidence :: payload
  pr_status :: proposal_status
  pr_key :: "pystr option"
  pr_created :: int
  pr_resolved_at :: "int option"
  pr_by :: "pystr option"

record note_row =
  nt_tenant :: pystr
  nt_level :: pystr
  nt_subject :: pystr
  nt_summary :: pystr
  nt_findings :: payload
  nt_created :: int

section \<open>The database\<close>

record db =
  now :: clock
  idna :: "pystr \<Rightarrow> pystr option"
  rng :: "nat \<Rightarrow> uuid"
  draws :: nat
  next_job :: nat
  locked_jobs :: "nat list"
  locked_boxes :: "pystr list"
  tenants :: "tenant_row list"
  entities :: "entity_row list"
  entity_keys :: "key_row list"
  prospects :: "prospect_row list"
  evidence :: "fact_row list"
  touches :: "touch_row list"
  traces :: "trace_row list"
  replies :: "reply_row list"
  suppressions :: "supp_row list"
  tombstones :: "tomb_row list"
  flags :: "flag_row list"
  counters :: "counter_row list"
  pevents :: "pevent_row list"
  audits :: "audit_row list"
  jobs :: "job_row list"
  mailboxes :: "mailbox_row list"
  vstats :: "vstat_row list"
  escalations :: "escalation_row list"
  objections :: "objection_row list"
  profiles :: "profile_row list"
  claims :: "claim_row list"
  tasks :: "task_row list"
  opevents :: "opevent_row list"
  proposals :: "proposal_row list"
  rnotes :: "note_row list"

definition empty_db :: "clock \<Rightarrow> (nat \<Rightarrow> uuid) \<Rightarrow> db" where
  "empty_db c g = \<lparr>now = c, idna = (\<lambda>_. None), rng = g, draws = 0, next_job = 1, locked_jobs = [], locked_boxes = [],
     tenants = [], entities = [], entity_keys = [], prospects = [], evidence = [], touches = [],
     traces = [], replies = [], suppressions = [], tombstones = [], flags = [], counters = [],
     pevents = [], audits = [], jobs = [], mailboxes = [], vstats = [], escalations = [],
     objections = [], profiles = [], claims = [], tasks = [], opevents = [], proposals = [], rnotes = []\<rparr>"

definition fresh_uuid :: "db \<Rightarrow> uuid \<times> db" where
  "fresh_uuid d = (rng d (draws d), d\<lparr>draws := Suc (draws d)\<rparr>)"

definition audit :: "pystr \<Rightarrow> pystr \<Rightarrow> pystr \<Rightarrow> payload \<Rightarrow> pystr \<Rightarrow> db \<Rightarrow> db" where
  "audit ty subj ev pl actor d =
     d\<lparr>audits := ins \<lparr>a_type = ty, a_subject = subj, a_event = ev, a_payload = pl, a_actor = actor\<rparr>
                    (audits d)\<rparr>"

definition slug_of :: "db \<Rightarrow> uuid \<Rightarrow> pystr option" where
  "slug_of d tid = map_option tn_slug (fetch (\<lambda>t. tn_id t = tid) (tenants d))"

definition prospect_of :: "db \<Rightarrow> uuid \<Rightarrow> prospect_row option" where
  "prospect_of d pid = fetch (\<lambda>p. p_id p = pid) (prospects d)"

definition touch_of :: "db \<Rightarrow> uuid \<Rightarrow> touch_row option" where
  "touch_of d tid = fetch (\<lambda>t. t_id t = tid) (touches d)"

definition entity_of :: "db \<Rightarrow> uuid \<Rightarrow> entity_row option" where
  "entity_of d eid = fetch (\<lambda>e. e_id e = eid) (entities d)"

section \<open>Triggers and constraints of touches\<close>

definition not_expired :: "db \<Rightarrow> supp_row \<Rightarrow> bool" where
  "not_expired d s \<longleftrightarrow> (case s_expires s of None \<Rightarrow> True | Some x \<Rightarrow> epoch (now d) < x)"

text \<open>\<open>reject_suppressed_touch\<close>: a claim of a touch whose prospect's address has any live
  suppression, whatever its scope, is refused.\<close>

definition reject_suppressed_touch :: "db \<Rightarrow> touch_row \<Rightarrow> bool" where
  "reject_suppressed_touch d t \<longleftrightarrow>
     t_status t = Claimed \<and>
     (case prospect_of d (t_prospect t) of
        None \<Rightarrow> False
      | Some p \<Rightarrow> (case p_email p of
          None \<Rightarrow> False
        | Some a \<Rightarrow> \<exists>s\<in>set (suppressions d). s_email s = a \<and> not_expired d s))"

text \<open>\<open>enforce_claim_lineage\<close>: a touch becomes \<open>dispatched\<close> only from \<open>claimed\<close>.\<close>

definition enforce_claim_lineage :: "touch_row \<Rightarrow> touch_row \<Rightarrow> bool" where
  "enforce_claim_lineage old new \<longleftrightarrow> t_status new = Dispatched \<and> t_status old \<noteq> Claimed"

text \<open>An \<open>UPDATE touches SET status = ..\<close> with its row count; a trigger aborts the statement.\<close>

definition update_touch_status ::
  "(touch_row \<Rightarrow> bool) \<Rightarrow> (touch_row \<Rightarrow> touch_row) \<Rightarrow> db \<Rightarrow> exc + nat \<times> db" where
  "update_touch_status P f d =
     (if \<exists>t\<in>set (touches d). P t \<and> reject_suppressed_touch d (f t)
      then Inl (DatabaseError ''suppressed address (invariant I-3)'')
      else if \<exists>t\<in>set (touches d). P t \<and> enforce_claim_lineage t (f t)
      then Inl (DatabaseError ''dispatch without claim (invariant I-1)'')
      else Inr (cnt P (touches d), d\<lparr>touches := upd P f (touches d)\<rparr>))"

definition insert_touch :: "touch_row \<Rightarrow> db \<Rightarrow> exc + db" where
  "insert_touch t d =
     (if reject_suppressed_touch d t
      then Inl (DatabaseError ''suppressed address (invariant I-3)'')
      else if 3 < t_step t then Inl (DatabaseError ''touches_step_index_check'')
      else if prospect_of d (t_prospect t) = None
      then Inl (DatabaseError ''touches_prospect_id_fkey'')
      else if \<exists>u\<in>set (touches d). t_id u = t_id t \<or> t_idem u = t_idem t
      then Inl (DatabaseError ''duplicate key value violates unique constraint'')
      else Inr (d\<lparr>touches := ins t (touches d)\<rparr>))"

section \<open>JSON values as Python reads them\<close>

definition truthy :: "json \<Rightarrow> bool" where
  "truthy j = (case j of JNull \<Rightarrow> False | JBool b \<Rightarrow> b | JInt i \<Rightarrow> i \<noteq> 0 | JNum r \<Rightarrow> r \<noteq> 0
     | JStr s \<Rightarrow> s \<noteq> [] | JList xs \<Rightarrow> xs \<noteq> [] | JObj kvs \<Rightarrow> kvs \<noteq> [])"

text \<open>\<open>d[k]\<close> and \<open>str(d[k])\<close> on a payload whose values are strings; a missing key raises.\<close>

definition jget :: "payload \<Rightarrow> pystr \<Rightarrow> exc + json" where
  "jget pl k = (case map_of pl k of None \<Rightarrow> Inl (KeyError k) | Some v \<Rightarrow> Inr v)"

definition jstr :: "json \<Rightarrow> pystr" where
  "jstr j = (case j of JStr s \<Rightarrow> s | JInt i \<Rightarrow> int_str i | JBool b \<Rightarrow> (if b then ''True'' else ''False'')
     | JNull \<Rightarrow> ''None'' | _ \<Rightarrow> ''<value>'')"

definition jget_str :: "payload \<Rightarrow> pystr \<Rightarrow> exc + pystr" where
  "jget_str pl k = bindE (jget pl k) (\<lambda>v. Inr (jstr v))"

lemma jget_str_simps [simp]:
  "map_of pl k = Some (JStr s) \<Longrightarrow> jget_str pl k = Inr s"
  "map_of pl k = None \<Longrightarrow> jget_str pl k = Inl (KeyError k)"
  by (simp_all add: jget_str_def jget_def jstr_def)

section \<open>Frames\<close>

lemma audit_frame [simp, frame]:
  "touches (audit a b c p e d) = touches d" "prospects (audit a b c p e d) = prospects d"
  "entities (audit a b c p e d) = entities d" "counters (audit a b c p e d) = counters d"
  "jobs (audit a b c p e d) = jobs d" "suppressions (audit a b c p e d) = suppressions d"
  "tombstones (audit a b c p e d) = tombstones d" "flags (audit a b c p e d) = flags d"
  "vstats (audit a b c p e d) = vstats d" "now (audit a b c p e d) = now d"
  "tenants (audit a b c p e d) = tenants d" "replies (audit a b c p e d) = replies d"
  "evidence (audit a b c p e d) = evidence d" "entity_keys (audit a b c p e d) = entity_keys d"
  "escalations (audit a b c p e d) = escalations d" "proposals (audit a b c p e d) = proposals d"
  "tasks (audit a b c p e d) = tasks d" "mailboxes (audit a b c p e d) = mailboxes d"
  "profiles (audit a b c p e d) = profiles d" "rng (audit a b c p e d) = rng d"
  "idna (audit a b c p e d) = idna d"
  "draws (audit a b c p e d) = draws d" "next_job (audit a b c p e d) = next_job d"
  "pevents (audit a b c p e d) = pevents d" "objections (audit a b c p e d) = objections d"
  "locked_jobs (audit a b c p e d) = locked_jobs d" "traces (audit a b c p e d) = traces d"
  "locked_boxes (audit a b c p e d) = locked_boxes d" "claims (audit a b c p e d) = claims d"
  "opevents (audit a b c p e d) = opevents d"
  by (simp_all add: audit_def)

lemma audits_audit [simp]:
  "audits (audit ty s ev pl ac d) =
     ins \<lparr>a_type = ty, a_subject = s, a_event = ev, a_payload = pl, a_actor = ac\<rparr> (audits d)"
  by (simp add: audit_def)

lemma update_touch_status_Inr:
  "update_touch_status P f d = Inr (n, d') \<Longrightarrow>
     n = cnt P (touches d) \<and> d' = d\<lparr>touches := upd P f (touches d)\<rparr>"
  by (auto simp: update_touch_status_def split: if_splits)

lemma insert_touch_Inr: "insert_touch t d = Inr d' \<Longrightarrow> d' = d\<lparr>touches := ins t (touches d)\<rparr>"
  by (auto simp: insert_touch_def split: if_splits)

lemma touch_of_SomeD: "touch_of d i = Some t \<Longrightarrow> t \<in> set (touches d) \<and> t_id t = i"
  by (auto simp: touch_of_def dest: fetch_SomeD)

lemma prospect_of_SomeD: "prospect_of d i = Some p \<Longrightarrow> p \<in> set (prospects d) \<and> p_id p = i"
  by (auto simp: prospect_of_def dest: fetch_SomeD)

end
