(* ===== verification/Canonical.thy ===== *)
theory Canonical
  imports Regex Sha256 Schema
begin

text \<open>
  \<open>core/canonical.py\<close>: the canonical form of an email address, on which suppression,
  tombstones and uniqueness rest, and the hash that \<open>forget\<close> leaves behind. The IDNA codec is
  modelled on ASCII names (Python's fast path checks the label lengths); its answer for other
  names is the argument \<open>codec\<close>.
\<close>

section \<open>canonicalize\<close>

definition at_char :: char where
  "at_char = CHR 0x40"

definition gmail_domains :: "pystr list" where
  "gmail_domains = [''gmail.com'', ''googlemail.com'']"

definition addr_char :: "char \<Rightarrow> bool" where
  "addr_char c \<longleftrightarrow> c \<noteq> at_char \<and> \<not> is_space c"

definition shape_rx :: rx where
  "shape_rx = rseq [RBol False, rplus (RSet addr_char), rchr at_char, rplus (RSet addr_char),
     rchr (CHR ''.''), rplus (RSet addr_char), REol]"

definition idna_encode :: "(pystr \<Rightarrow> pystr option) \<Rightarrow> pystr \<Rightarrow> pystr option" where
  "idna_encode codec d =
     (if list_all is_ascii d
      then (let labels = split_on (CHR ''.'') d
            in if list_all (\<lambda>l. l \<noteq> [] \<and> length l < 64) (butlast labels) \<and> length (last labels) < 64
               then Some d else None)
      else codec d)"

definition canonicalize :: "(pystr \<Rightarrow> pystr option) \<Rightarrow> pystr \<Rightarrow> exc + pystr" where
  "canonicalize codec email =
     (let candidate = lower (strip email)
      in if rx_match shape_rx candidate = None
         then Inl (InvalidEmailError (fstr [''not a plausible email address: '', py_repr email]))
         else
           let part = rpart_before at_char candidate;
               domain = rpart_after at_char candidate;
               local = before_char (CHR ''+'') part;
               empty = InvalidEmailError (fstr [''empty local part after canonicalization: '', py_repr email])
           in if local = [] then Inl empty
              else case idna_encode codec domain of
                None \<Rightarrow> Inl (InvalidEmailError (fstr [''undecodable domain in '', py_repr email]))
              | Some ascii \<Rightarrow>
                  if ascii \<in> set gmail_domains
                  then (let l = remove_char (CHR ''.'') local
                        in if l = [] then Inl empty else Inr (l @ [at_char] @ ''gmail.com''))
                  else Inr (local @ [at_char] @ ascii))"

definition tombstone_hash :: "(pystr \<Rightarrow> pystr option) \<Rightarrow> pystr \<Rightarrow> exc + pystr" where
  "tombstone_hash codec email = bindE (canonicalize codec email) (\<lambda>c. Inr (sha256 c))"

section \<open>The shape of an address\<close>

definition dotted :: "pystr \<Rightarrow> bool" where
  "dotted d \<longleftrightarrow> (\<exists>a b. d = a @ CHR ''.'' # b \<and> a \<noteq> [] \<and> b \<noteq> [])"

definition plain :: "pystr \<Rightarrow> bool" where
  "plain s \<longleftrightarrow> list_all addr_char s"

lemma plain_simps [simp]:
  "plain []" "plain (c # s) \<longleftrightarrow> addr_char c \<and> plain s" "plain (s @ t) \<longleftrightarrow> plain s \<and> plain t"
  by (auto simp: plain_def)

lemma plain_blank_free: "plain s \<Longrightarrow> blank_free s"
  by (auto simp: plain_def blank_free_def addr_char_def list_all_iff)

lemma plain_no_at: "plain s \<Longrightarrow> at_char \<notin> set s"
  by (auto simp: plain_def addr_char_def list_all_iff)

lemma dot_addr_char [simp]: "addr_char (CHR ''.'')"
  by (simp add: addr_char_def at_char_def is_space_def code_def)

lemma shape_match:
  "rx_match shape_rx s \<noteq> None \<longleftrightarrow>
     (\<exists>l d t. s = l @ at_char # d @ t \<and> plain l \<and> l \<noteq> [] \<and> plain d \<and> dotted d \<and> (t = [] \<or> t = nl))"
  (is "?L \<longleftrightarrow> ?R")
proof
  assume ?L
  then obtain l a b t where
    "s = l @ at_char # a @ CHR ''.'' # b @ t" "plain l" "l \<noteq> []" "plain a" "a \<noteq> []" "plain b" "b \<noteq> []"
    "t = [] \<or> t = nl"
    unfolding rx_match_Some shape_rx_def
    by (auto simp: mt_rplus_RSet mt_REol plain_def [symmetric] simp del: mt.simps(5,8)
        append_Nil2 append.right_neutral split: if_splits)
  then show ?R by (intro exI [of _ l] exI [of _ "a @ CHR ''.'' # b"] exI [of _ t]) (auto simp: dotted_def)
next
  assume ?R
  then obtain l d t a b where s: "s = l @ at_char # d @ t" "plain l" "l \<noteq> []" "plain d"
    "d = a @ CHR ''.'' # b" "a \<noteq> []" "b \<noteq> []" "t = [] \<or> t = nl"
    by (auto simp: dotted_def simp del: append_Nil2 append.right_neutral)
  have "(Some (last b), t) \<in> set (mt shape_rx (None, l @ at_char # a @ CHR ''.'' # b @ t))"
    unfolding shape_rx_def rseq.simps
    by (rule mt_RSeqI [of "(None, l @ at_char # a @ CHR ''.'' # b @ t)"], simp,
        rule run_then, rule s, use s in \<open>simp add: plain_def\<close>, rule chr_then,
        rule run_then, rule s, use s in \<open>simp add: plain_def\<close>, rule chr_then,
        rule run_then, rule s, use s in \<open>simp add: plain_def\<close>, use s(8) in \<open>auto simp: nl_def\<close>)
  then have "\<exists>e. e \<in> set (mt shape_rx (None, s))" using s(1,5) by auto
  then show ?L unfolding rx_match_Some .
qed


text \<open>The canonical form of an address given by its parts.\<close>

lemma canonicalize_parts:
  assumes "strip e = e" and "lower e = l @ at_char # d" and "plain l" "l \<noteq> []" "plain d" "dotted d"
  shows "canonicalize codec e =
    (let local = before_char (CHR ''+'') l;
         empty = InvalidEmailError (fstr [''empty local part after canonicalization: '', py_repr e])
     in if local = [] then Inl empty
        else case idna_encode codec d of
          None \<Rightarrow> Inl (InvalidEmailError (fstr [''undecodable domain in '', py_repr e]))
        | Some a \<Rightarrow>
            if a \<in> set gmail_domains
            then (let l = remove_char (CHR ''.'') local
                  in if l = [] then Inl empty else Inr (l @ [at_char] @ ''gmail.com''))
            else Inr (local @ [at_char] @ a))"
proof -
  have "rx_match shape_rx (l @ at_char # d) \<noteq> None"
    unfolding shape_match using assms(3-6) by (intro exI [of _ l] exI [of _ d] exI [of _ "[]"]) simp
  then obtain m where "rx_match shape_rx (l @ at_char # d) = Some m" by blast
  then show ?thesis
    using assms rpart_append [OF plain_no_at [OF assms(5)], of l]
    by (simp add: canonicalize_def Let_def)
qed

lemma canonicalize_Inr:
  assumes "canonicalize codec e = Inr c"
  obtains l d a where "lower (strip e) = l @ at_char # d" "plain l" "plain d" "dotted d"
    "idna_encode codec d = Some a" "before_char (CHR ''+'') l \<noteq> []"
    "c = (if a \<in> set gmail_domains
          then remove_char (CHR ''.'') (before_char (CHR ''+'') l) @ at_char # ''gmail.com''
          else before_char (CHR ''+'') l @ at_char # a)"
    "a \<in> set gmail_domains \<Longrightarrow> remove_char (CHR ''.'') (before_char (CHR ''+'') l) \<noteq> []"
proof -
  have "rx_match shape_rx (lower (strip e)) \<noteq> None"
    using assms by (auto simp: canonicalize_def Let_def split: if_splits)
  then obtain l d t where s: "lower (strip e) = l @ at_char # d @ t" "plain l" "l \<noteq> []" "plain d"
    "dotted d" "t = [] \<or> t = nl" unfolding shape_match by blast
  have "t = []"
  proof (rule ccontr)
    assume "t \<noteq> []"
    with s have "last (lower (strip e)) = CHR 0x0A" by (auto simp: nl_def)
    moreover have "strip e \<noteq> []" using s by auto
    then have "\<not> is_space (last (strip e))" by (rule last_strip)
    moreover have "last (lower (strip e)) = char_lower (last (strip e))"
      using \<open>strip e \<noteq> []\<close> by (simp add: lower_def last_map)
    ultimately show False
      by (metis is_space_char_lower is_space_nl)
  qed
  with s(1) have e: "lower (strip e) = l @ at_char # d" by simp
  note parts = canonicalize_def Let_def e rpart_append [OF plain_no_at [OF s(4)], of l]
  from assms obtain a where a: "idna_encode codec d = Some a" "before_char (CHR ''+'') l \<noteq> []"
    by (auto simp: parts split: if_splits option.splits)
  show ?thesis
    by (rule that [OF e s(2,4,5) a]) (use assms a in \<open>auto simp: parts split: if_splits\<close>)
qed

section \<open>Canonical forms are fixed points\<close>

lemma before_char_simps [simp]:
  "c \<notin> set (before_char c s)" "before_char c (before_char c s) = before_char c s"
  by (induction s) (auto simp: before_char_def)

lemma before_char_id [simp]: "c \<notin> set s \<Longrightarrow> before_char c s = s"
  by (induction s) (auto simp: before_char_def)

lemma before_char_append [simp]: "before_char c (u @ c # v) = before_char c u"
  by (induction u) (auto simp: before_char_def)

lemma plain_before_char: "plain s \<Longrightarrow> plain (before_char c s)"
  by (induction s) (auto simp: before_char_def)

lemma plain_remove_char: "plain s \<Longrightarrow> plain (remove_char c s)"
  by (auto simp: plain_def remove_char_def list_all_iff)

lemma set_remove_char [simp]: "set (remove_char c s) = set s - {c}"
  by (auto simp: remove_char_def)

lemma remove_char_id: "c \<notin> set s \<Longrightarrow> remove_char c s = s"
  by (induction s) (auto simp: remove_char_def)

lemma lower_fixed_parts:
  assumes "lower s = l @ c # d"
  shows "lower l = l" and "lower d = d"
proof -
  have "lower (l @ c # d) = l @ c # d" using assms by (metis lower_lower)
  then have "lower l @ char_lower c # lower d = l @ c # d" by simp
  moreover have "length (lower l) = length l" by (simp add: lower_def)
  ultimately show "lower l = l" and "lower d = d" by simp_all
qed

lemma lower_before_char: "lower s = s \<Longrightarrow> lower (before_char c s) = before_char c s"
  by (induction s) (auto simp: before_char_def)

lemma lower_remove_char: "lower s = s \<Longrightarrow> lower (remove_char c s) = remove_char c s"
  by (induction s) (auto simp: remove_char_def)

lemma lower_at: "char_lower at_char = at_char"
  by (simp add: char_lower_def is_upper_def at_char_def code_def)

lemma at_not_space: "\<not> is_space at_char"
  by (simp add: is_space_def at_char_def code_def)

text \<open>An address that is already in canonical shape is unchanged.\<close>

lemma canonicalize_fixed:
  assumes "plain l" "l \<noteq> []" "lower l = l" "CHR ''+'' \<notin> set l"
    and "plain d" "dotted d" "lower d = d" "idna_encode codec d = Some d"
    and "d \<in> set gmail_domains \<Longrightarrow> d = ''gmail.com'' \<and> CHR ''.'' \<notin> set l"
  shows "canonicalize codec (l @ at_char # d) = Inr (l @ at_char # d)"
proof -
  have "blank_free (l @ at_char # d)"
    using plain_blank_free [OF assms(1)] plain_blank_free [OF assms(5)] by (simp add: at_not_space)
  then have st: "strip (l @ at_char # d) = l @ at_char # d" by (rule strip_blank_free)
  have lo: "lower (l @ at_char # d) = l @ at_char # d" using assms(3,7) by (simp add: lower_at)
  show ?thesis
    using assms canonicalize_parts [OF st lo assms(1,2,5,6), of codec]
    by (cases "d \<in> set gmail_domains") (simp_all add: Let_def remove_char_id)
qed

lemma gmail_ok: "plain ''gmail.com''" "dotted ''gmail.com''" "lower ''gmail.com'' = ''gmail.com''"
  "idna_encode codec ''gmail.com'' = Some ''gmail.com''"
proof -
  have "''gmail.com'' = ''gmail'' @ CHR ''.'' # ''com''" by simp
  then show "dotted ''gmail.com''" unfolding dotted_def by blast
qed (simp_all add: addr_char_def at_char_def is_space_def code_def char_lower_def is_upper_def
      idna_encode_def is_ascii_def)

lemma canonicalize_idem_ascii:
  assumes "canonicalize codec e = Inr c" and "list_all is_ascii e"
  shows "canonicalize codec c = Inr c"
  using assms(1)
proof (rule canonicalize_Inr)
  fix l d a
  assume e: "lower (strip e) = l @ at_char # d" and l: "plain l" "plain d" "dotted d"
    and a: "idna_encode codec d = Some a" "before_char (CHR ''+'') l \<noteq> []"
    and c: "c = (if a \<in> set gmail_domains
          then remove_char (CHR ''.'') (before_char (CHR ''+'') l) @ at_char # ''gmail.com''
          else before_char (CHR ''+'') l @ at_char # a)"
    and g: "a \<in> set gmail_domains \<Longrightarrow> remove_char (CHR ''.'') (before_char (CHR ''+'') l) \<noteq> []"
  have "set (strip e) \<subseteq> set e"
    by (auto simp: strip_def rstrip_def lstrip_def dest!: set_dropWhileD)
  with assms(2) have "list_all is_ascii (lower (strip e))"
    by (auto simp: list_all_iff lower_def)
  with e have "list_all is_ascii d" by simp
  with a have ad: "a = d" by (auto simp: idna_encode_def Let_def split: if_splits)
  note low = lower_fixed_parts [OF e]
  show ?thesis
  proof (cases "a \<in> set gmail_domains")
    case True
    with c g l low show ?thesis
      by (auto intro!: canonicalize_fixed gmail_ok plain_remove_char plain_before_char
          lower_remove_char lower_before_char)
  next
    case False
    with c a ad l low show ?thesis
      by (auto intro!: canonicalize_fixed plain_before_char lower_before_char)
  qed
qed

section \<open>Aliases collapse\<close>

lemma strip_plain_addr: "plain u \<Longrightarrow> plain d \<Longrightarrow> strip (u @ at_char # d) = u @ at_char # d"
  by (rule strip_blank_free) (simp add: plain_blank_free at_not_space)

lemma plain_lower: "plain s \<Longrightarrow> plain (lower s)"
proof (induction s)
  case (Cons c s)
  have "char_lower c \<noteq> at_char" if "c \<noteq> at_char"
    using that char_lower_eq_special [of at_char c]
    by (auto simp: at_char_def is_lower_def is_upper_def code_def)
  with Cons show ?case by (auto simp: addr_char_def)
qed simp

lemma lower_plus: "char_lower (CHR ''+'') = CHR ''+''"
  by (simp add: char_lower_def is_upper_def code_def)

lemma canonicalize_plus_alias:
  assumes "plain u" "plain t" "plain d" and "canonicalize codec (u @ at_char # d) = Inr c"
  shows "canonicalize codec (u @ CHR ''+'' # t @ at_char # d) = Inr c"
proof -
  have pp: "plain (u @ CHR ''+'' # t)"
    using assms by (simp add: addr_char_def at_char_def is_space_def code_def)
  from assms(4) obtain l d' where "lower (strip (u @ at_char # d)) = l @ at_char # d'" "plain d'" "plain l"
    "dotted d'" "before_char (CHR ''+'') l \<noteq> []" by (rule canonicalize_Inr)
  moreover have "lower (strip (u @ at_char # d)) = lower u @ at_char # lower d"
    using assms by (simp add: strip_plain_addr lower_at)
  ultimately have ld: "l = lower u \<and> d' = lower d"
    using plain_no_at [OF plain_lower [OF assms(3)]] plain_no_at [of d']
    by (metis rpart_append)
  have ne: "lower u \<noteq> []" using ld \<open>before_char (CHR ''+'') l \<noteq> []\<close> by (auto simp: before_char_def)
  have lo1: "lower (u @ at_char # d) = lower u @ at_char # lower d" by (simp add: lower_at)
  have lo2: "lower ((u @ CHR ''+'' # t) @ at_char # d) = (lower u @ CHR ''+'' # lower t) @ at_char # lower d"
    by (simp add: lower_at lower_plus)
  have pl: "plain (lower u @ CHR ''+'' # lower t)" using plain_lower [OF pp] by (simp add: lower_plus)
  show ?thesis
    using assms(4)
      canonicalize_parts [OF strip_plain_addr [OF assms(1,3)] lo1 plain_lower [OF assms(1)] ne
        plain_lower [OF assms(3)], of codec]
      canonicalize_parts [OF strip_plain_addr [OF pp assms(3)] lo2 pl _ plain_lower [OF assms(3)], of codec]
      ld \<open>dotted d'\<close>
    by (auto simp: Let_def split: if_splits option.splits)
qed

end
