(* ===== verification/Validators.thy ===== *)
theory Validators
  imports Canonical "HOL-Library.Char_ord" "HOL-Library.List_Lexorder"
begin

text \<open>
  \<open>core/compliance\<close>: the deterministic message validators, the PHI screen, the compliance
  regimes and the claim registry. The patterns are the program's regular expressions as values
  of \<open>rx\<close>; a tenant's own patterns are values of \<open>rx\<close> too (the parsed form of the strings
  of its configuration). A regime is registered in a module-level table, here the argument
  \<open>reg\<close>.
\<close>

section \<open>Drafts, contexts and findings\<close>

datatype violation =
    MISSING_PHYSICAL_ADDRESS | MISSING_UNSUBSCRIBE | FAKE_THREAD_SUBJECT | DECEPTIVE_SUBJECT
  | TOO_LONG | FORBIDDEN_CLAIM | UNREGISTERED_CLAIM | PHI_SUSPECTED | URL_NOT_ALLOWLISTED
  | BUMP_THEATER | MISSING_SENDER_IDENTITY | EMPTY

fun violation_str :: "violation \<Rightarrow> pystr" where
  "violation_str MISSING_PHYSICAL_ADDRESS = ''missing_physical_address''"
| "violation_str MISSING_UNSUBSCRIBE = ''missing_unsubscribe''"
| "violation_str FAKE_THREAD_SUBJECT = ''fake_thread_subject''"
| "violation_str DECEPTIVE_SUBJECT = ''deceptive_subject''"
| "violation_str TOO_LONG = ''too_long''"
| "violation_str FORBIDDEN_CLAIM = ''forbidden_claim''"
| "violation_str UNREGISTERED_CLAIM = ''unregistered_claim''"
| "violation_str PHI_SUSPECTED = ''phi_suspected''"
| "violation_str URL_NOT_ALLOWLISTED = ''url_not_allowlisted''"
| "violation_str BUMP_THEATER = ''bump_theater''"
| "violation_str MISSING_SENDER_IDENTITY = ''missing_sender_identity''"
| "violation_str EMPTY = ''empty''"

record finding =
  fi_code :: violation
  fi_detail :: pystr

record draft =
  dr_subject :: pystr
  dr_body :: pystr
  dr_step :: int

record vctx =
  physical_address :: pystr
  unsubscribe_text :: pystr
  sender_identity :: pystr
  allowed_url_prefixes :: "pystr list"
  max_words :: int
  forbidden_patterns :: "rx list"
  claim_mode :: pystr
  approved_claims :: "pystr list"
  claim_registry_version :: pystr
  sector_sensitivity :: pystr
  compliance_regime :: pystr

definition finding :: "violation \<Rightarrow> pystr \<Rightarrow> finding" where
  "finding c s = \<lparr>fi_code = c, fi_detail = s\<rparr>"

section \<open>Patterns\<close>

definition DEFAULT_FORBIDDEN :: "rx list" where
  "DEFAULT_FORBIDDEN =
    [rseq [RWordB, rlit ''guarantee'', ropt (rchr CHR ''d''), RWordB, upto 40 rdot, RWordB,
       ralt [rseq [rlit ''client'', ropt (rchr CHR ''s'')], rseq [rlit ''result'', ropt (rchr CHR ''s'')],
             rseq [rlit ''booking'', ropt (rchr CHR ''s'')], rlit ''income'', rlit ''revenue''], RWordB],
     rseq [RWordB, rlit ''you'', ralt [rlit sq, rlit '' wi''], rlit ''ll '',
       ralts [''get'', ''gain'', ''earn''], RWordB, upto 30 rdot, RWordB, rplus rdigit],
     rseq [RWordB, rlit ''as '', ralts [''we'', ''i''], rlit '' discussed'', RWordB],
     rseq [RWordB, rlit ''per our '', ralts [''conversation'', ''call'', ''chat''], RWordB],
     rseq [RWordB, rlit ''following up on our'', RWordB],
     rseq [RWordB, rlit ''risk'', RSet (\<lambda>c. c \<in> {CHR ''-'', CHR '' ''}), rlit ''free'', RWordB]]"

definition FAKE_THREAD :: rx where
  "FAKE_THREAD = ci (rseq [RBol False, rstar rspace,
     ralt [rlit ''re'', rseq [rlit ''fw'', ropt (rchr CHR ''d'')]], rstar rspace, rchr CHR '':''])"

definition DECEPTIVE :: rx where
  "DECEPTIVE = ci (ralt [rlit ''urgent'', rlit ''act now'', rlit ''final notice'',
     rseq [rlit ''account '', ralts [''suspended'', ''alert'']]])"

definition url_char :: "char \<Rightarrow> bool" where
  "url_char c \<longleftrightarrow> \<not> is_space c \<and> c \<notin> {CHR ''>'', CHR 0x22, CHR '')'', CHR '']''}"

definition URL :: rx where
  "URL = ci (rseq [rlit ''http'', ropt (rchr CHR ''s''), rlit ''://'', rplus (RSet url_char)])"

definition BUMP_PATTERNS :: rx where
  "BUMP_PATTERNS = ci (ralt
    [rseq [rlit ''just '', ralts [''bumping'', ''floating'', ''checking in'', ''circling back'']],
     rseq [rlit ''bumping this '', ralts [''up'', ''to the top'']],
     rseq [rlit ''any thoughts'', rstar rspace, rchr CHR ''?'', rstar rspace, REol]])"

definition CLAIM_SIGNAL :: rx where
  "CLAIM_SIGNAL = ci (ralt
    [rseq [rchr CHR ''$'', ropt rspace, rdigit],
     rseq [rplus rdigit, ropt rspace, rchr CHR ''%''],
     rseq [RWordB, rlit ''free'', RWordB],
     rseq [RWordB, rlit ''no '', ralt [rseq [rlit ''fee'', ropt (rchr CHR ''s'')], rlit ''charge'', rlit ''cost''],
       RWordB],
     rseq [RWordB, rlit ''we '', ralts [''offer'', ''provide'', ''charge'', ''guarantee'', ''include''], RWordB],
     rseq [RWordB, rlit ''our '', ralt [rlit ''platform'', rlit ''service'', rlit ''membership'', rlit ''pricing'',
       rlit ''plan'', rseq [rlit ''account'', ropt (rchr CHR ''s'')]], RWordB],
     rseq [RWordB, rlit ''per '', ralts [''month'', ''year'', ''gig'', ''booking'', ''session''], RWordB]])"

definition SENTENCE_SPLIT :: rx where
  "SENTENCE_SPLIT = rplus (RSet (\<lambda>c. c \<in> {CHR ''.'', CHR ''!'', CHR ''?'', CHR 0x0A}))"

section \<open>phi.py\<close>

definition PHI_PATTERNS :: "(pystr \<times> rx) list" where
  "PHI_PATTERNS =
    [(''dob'', rseq [RWordB, ralts [''DOB'', ''date of birth''], RWordB, upto 24 rdot, rdigit]),
     (''record_id'', rseq [RWordB,
        ralt [rlit ''MRN'', rseq [rlit ''medical record '', ralts [''number'', ''#'']], rlit ''member id'',
              rseq [rlit ''policy '', ralts [''number'', ''#'']]],
        RWordB, upto 16 rdot,
        RRep 4 None (RSet (\<lambda>c. is_upper c \<or> is_lower c \<or> is_digit c \<or> c = CHR ''-''))]),
     (''icd_code'', rseq [RWordB, RSet (\<lambda>c. is_upper c \<and> c \<noteq> CHR ''U''), rdigit, rdigit, rchr CHR ''.'',
        RRep 1 (Some 3) rdigit, RWordB]),
     (''diagnosis'', rseq [RWordB, rlit ''diagnos'', ralts [''ed'', ''is of''], RWordB, upto 40 rdot]),
     (''care_detail'', rseq [RWordB,
        ralts [''session notes'', ''treatment plan for'', ''intake notes'', ''presenting problem''], RWordB]),
     (''care_relationship'', rseq [RWordB, rlit ''my '', ralts [''patient'', ''client''], RWordB, upto 40 rdot])]"

definition phi_hits :: "pystr \<Rightarrow> pystr list" where
  "phi_hits content =
     map fst (filter (\<lambda>(name, p). search (ci p) content \<noteq> None) PHI_PATTERNS)"

section \<open>Helpers of validators.py\<close>

definition content_hash :: "draft \<Rightarrow> pystr" where
  "content_hash dr = sha256 (fstr [dr_subject dr, [CHR 0x00], dr_body dr])"

definition forbidden_hits :: "pystr \<Rightarrow> rx list \<Rightarrow> pystr list" where
  "forbidden_hits content extra =
     List.map_filter (\<lambda>p. search (ci p) content) (DEFAULT_FORBIDDEN @ extra)"

text \<open>\<open>re.split\<close> for a pattern that matches no empty text.\<close>

fun pieces :: "(char + pystr) list \<Rightarrow> pystr list" where
  "pieces [] = [[]]"
| "pieces (Inr m # xs) = [] # pieces xs"
| "pieces (Inl c # xs) = (case pieces xs of [] \<Rightarrow> [[c]] | w # ws \<Rightarrow> (c # w) # ws)"

definition re_split :: "rx \<Rightarrow> pystr \<Rightarrow> pystr list" where
  "re_split r s = pieces (scan r None s)"

definition unregistered_claims :: "pystr \<Rightarrow> pystr list \<Rightarrow> pystr list" where
  "unregistered_claims content approved =
     (let normalized = map (\<lambda>c. lower (strip c)) approved
      in map (\<lambda>s. take 80 (strip s))
           (filter (\<lambda>s. search CLAIM_SIGNAL s \<noteq> None \<and> \<not> list_ex (contains (lower s)) normalized)
             (re_split SENTENCE_SPLIT content)))"

section \<open>regimes.py\<close>

record regime =
  rg_name :: pystr
  rg_extra :: "(draft \<Rightarrow> vctx \<Rightarrow> finding list) list"
  rg_required :: "pystr list"
  rg_latency :: int
  rg_deletion :: pystr

type_synonym registry = "(pystr \<times> regime) list"

definition US_CAN_SPAM :: regime where
  "US_CAN_SPAM = \<lparr>rg_name = ''us_can_spam'', rg_extra = [],
     rg_required = [''physical_address'', ''unsubscribe_text''], rg_latency = 600,
     rg_deletion = ''one-call deletion via `reachout forget` (FR-1.4)''\<rparr>"

definition initial_registry :: registry where
  "initial_registry = [(rg_name US_CAN_SPAM, US_CAN_SPAM)]"

definition register_regime :: "regime \<Rightarrow> registry \<Rightarrow> exc + registry" where
  "register_regime r reg =
     (if map_of reg (rg_name r) \<noteq> None
      then Inl (ValueError (fstr [''regime '', py_repr (rg_name r), '' already registered; regimes are immutable'']))
      else Inr (reg @ [(rg_name r, r)]))"

definition get_regime :: "registry \<Rightarrow> pystr \<Rightarrow> exc + regime" where
  "get_regime reg name =
     (case map_of reg name of
        None \<Rightarrow> Inl (KeyError (fstr [''unknown compliance regime '', py_repr name, '' (registered: ['',
                 join '', '' (map py_repr (sort (map fst reg))), ''])'']))
      | Some r \<Rightarrow> Inr r)"

definition regime_findings :: "registry \<Rightarrow> pystr \<Rightarrow> draft \<Rightarrow> vctx \<Rightarrow> exc + finding list" where
  "regime_findings reg name dr ctx =
     bindE (get_regime reg name) (\<lambda>r. Inr (concat (map (\<lambda>check. check dr ctx) (rg_extra r))))"

section \<open>validate\<close>

definition guard :: "bool \<Rightarrow> violation \<Rightarrow> pystr \<Rightarrow> finding list" where
  "guard b c s = (if b then [finding c s] else [])"

definition core_findings :: "pystr \<Rightarrow> pystr \<Rightarrow> draft \<Rightarrow> vctx \<Rightarrow> finding list" where
  "core_findings subject body dr ctx =
     guard (\<not> contains body (strip (physical_address ctx)))
       MISSING_PHYSICAL_ADDRESS ''CAN-SPAM physical address absent'' @
     guard (\<not> contains (lower body) (lower (strip (unsubscribe_text ctx))))
       MISSING_UNSUBSCRIBE ''unsubscribe text absent'' @
     guard (strip (sender_identity ctx) \<noteq> [] \<and> \<not> contains body (strip (sender_identity ctx)))
       MISSING_SENDER_IDENTITY ''sender identity absent from body'' @
     guard (rx_match FAKE_THREAD subject \<noteq> None)
       FAKE_THREAD_SUBJECT (fstr [''subject '', py_repr subject]) @
     guard (search DECEPTIVE subject \<noteq> None)
       DECEPTIVE_SUBJECT (fstr [''subject '', py_repr subject]) @
     guard (int (length (split_blank body)) > max_words ctx)
       TOO_LONG (fstr [nat_str (length (split_blank body)), '' words > '', int_str (max_words ctx)]) @
     map (finding FORBIDDEN_CLAIM) (forbidden_hits (fstr [subject, nl, body]) (forbidden_patterns ctx)) @
     map (finding URL_NOT_ALLOWLISTED)
       (filter (\<lambda>url. \<not> list_ex (\<lambda>p. startswith (lower url) (lower p)) (allowed_url_prefixes ctx))
         (findall URL body)) @
     guard (dr_step dr \<ge> 1 \<and> search BUMP_PATTERNS body \<noteq> None)
       BUMP_THEATER ''content-free follow-up''"

definition phi_findings :: "pystr \<Rightarrow> pystr \<Rightarrow> vctx \<Rightarrow> finding list" where
  "phi_findings subject body ctx =
     (if sector_sensitivity ctx \<noteq> ''none''
      then map (finding PHI_SUSPECTED) (phi_hits (fstr [subject, nl, body])) else [])"

definition allowlist_findings :: "pystr \<Rightarrow> vctx \<Rightarrow> finding list" where
  "allowlist_findings body ctx =
     (if claim_mode ctx = ''allowlist''
      then (let screened = (case find_sub (lower body) (lower (strip (unsubscribe_text ctx))) of
                  None \<Rightarrow> body | Some cutoff \<Rightarrow> take cutoff body)
            in map (finding UNREGISTERED_CLAIM) (unregistered_claims screened (approved_claims ctx)))
      else [])"

definition validate :: "registry \<Rightarrow> draft \<Rightarrow> vctx \<Rightarrow> exc + finding list" where
  "validate reg dr ctx =
     (let subject = strip (dr_subject dr); body = strip (dr_body dr)
      in if subject = [] \<or> body = [] then Inr [finding EMPTY ''empty subject or body'']
         else bindE
           (if compliance_regime ctx \<noteq> ''us_can_spam''
            then regime_findings reg (compliance_regime ctx) dr ctx else Inr [])
           (\<lambda>extra. Inr (core_findings subject body dr ctx @ phi_findings subject body ctx @ extra @
                         allowlist_findings body ctx)))"

section \<open>claims.py\<close>

definition DENYLIST_VERSION :: pystr where
  "DENYLIST_VERSION = ''deny-pack@1''"

definition registry_version :: "pystr \<Rightarrow> pystr list \<Rightarrow> pystr" where
  "registry_version claims_mode approved =
     (if claims_mode \<noteq> ''allowlist'' then DENYLIST_VERSION
      else fstr [''allowlist@'',
        take 12 (sha256 (join [CHR 0x00] (sort (map (\<lambda>c. lower (strip c)) approved))))])"

definition strip_char :: "char \<Rightarrow> pystr \<Rightarrow> pystr" where
  "strip_char c s = rev (dropWhile (\<lambda>x. x = c) (rev (dropWhile (\<lambda>x. x = c) s)))"

definition claim_id :: "pystr \<Rightarrow> pystr" where
  "claim_id claim_text =
     (let slug = strip_char (CHR ''_'')
        (sub (rplus (RSet (\<lambda>c. \<not> (is_lower c \<or> is_digit c)))) (\<lambda>_. ''_'') (lower (strip claim_text)));
          cut = take 60 slug
      in if cut = [] then ''claim'' else cut)"

definition ensure_registry :: "pystr \<Rightarrow> pystr \<Rightarrow> pystr list \<Rightarrow> db \<Rightarrow> pystr \<times> db" where
  "ensure_registry tenant claims_mode approved d =
     (let version = registry_version claims_mode approved;
          add = (\<lambda>txt d. d\<lparr>claims := insert_new
                  (\<lambda>r. cr_tenant r = tenant \<and> cr_claim r = claim_id txt \<and> cr_version r = version)
                  \<lparr>cr_tenant = tenant, cr_claim = claim_id txt, cr_version = version, cr_text = strip txt\<rparr>
                  (claims d)\<rparr>)
      in (version, if claims_mode = ''allowlist'' then fold add approved d else d))"

section \<open>What a clean draft satisfies\<close>

lemma guard_Nil [simp]: "guard b c s = [] \<longleftrightarrow> \<not> b"
  by (simp add: guard_def)

lemma validate_clean:
  assumes "validate reg dr ctx = Inr []"
  defines "subject \<equiv> strip (dr_subject dr)" and "body \<equiv> strip (dr_body dr)"
  shows "subject \<noteq> [] \<and> body \<noteq> []" and "core_findings subject body dr ctx = []"
    and "phi_findings subject body ctx = []" and "allowlist_findings body ctx = []"
    and "compliance_regime ctx \<noteq> ''us_can_spam'' \<Longrightarrow>
      regime_findings reg (compliance_regime ctx) dr ctx = Inr []"
  using assms(1) unfolding subject_def body_def
  by (auto simp: validate_def Let_def bindE_eq_Inr split: if_splits)

text \<open>The regime only adds: the core pack's findings are there whatever the regime says.\<close>

lemma validate_regime_superset:
  assumes "validate reg dr ctx = Inr fs" and "validate reg dr (ctx\<lparr>compliance_regime := ''us_can_spam''\<rparr>) = Inr gs"
  shows "set gs \<subseteq> set fs"
proof -
  have same: "core_findings s b dr (ctx\<lparr>compliance_regime := r\<rparr>) = core_findings s b dr ctx"
    "phi_findings s b (ctx\<lparr>compliance_regime := r\<rparr>) = phi_findings s b ctx"
    "allowlist_findings b (ctx\<lparr>compliance_regime := r\<rparr>) = allowlist_findings b ctx" for s b r
    by (simp_all add: core_findings_def phi_findings_def allowlist_findings_def)
  show ?thesis using assms
    by (auto simp: validate_def Let_def bindE_eq_Inr same split: if_splits)
qed

lemma register_keeps:
  "register_regime r reg = Inr reg' \<Longrightarrow> map_of reg n = Some x \<Longrightarrow> map_of reg' n = Some x"
  by (auto simp: register_regime_def split: if_splits)

lemma register_fresh: "register_regime r reg = Inr reg' \<Longrightarrow> map_of reg' (rg_name r) = Some r"
  by (auto simp: register_regime_def map_add_def split: if_splits option.splits)

end
