(* ===== verification/Variables.thy ===== *)
theory Variables
  imports Regex
begin

text \<open>
  \<open>core/variables.py\<close>: the slots of a generation prompt, their trust classes, and the
  interpolation that keeps untrusted values out of the prompt text. A registry and the values
  are association lists, in the order of the dictionaries.
\<close>

section \<open>Slots and trust classes\<close>

datatype trust_class = TRUSTED | PROSPECT | UNTRUSTED

fun trust_str :: "trust_class \<Rightarrow> pystr" where
  "trust_str TRUSTED = ''trusted''" | "trust_str PROSPECT = ''prospect''"
| "trust_str UNTRUSTED = ''untrusted''"

definition letter :: "char \<Rightarrow> bool" where
  "letter c \<longleftrightarrow> is_upper c \<or> is_lower c \<or> c = CHR ''_''"

definition SLOT_RE :: rx where
  "SLOT_RE = rseq [rlit ''{{'', rstar rspace, RSet letter,
     rstar (RSet (\<lambda>c. letter c \<or> is_digit c \<or> c = CHR ''.'')), rstar rspace, rlit ''}}'']"

text \<open>\<open>match.group(1)\<close>: what stands between the braces; a slot name holds no blank.\<close>

definition group1 :: "pystr \<Rightarrow> pystr" where
  "group1 m = strip (take (length m - 4) (drop 2 m))"

definition DEFAULT_REGISTRY :: "(pystr \<times> trust_class) list" where
  "DEFAULT_REGISTRY =
    [(''persona.value_prop'', TRUSTED), (''persona.voice_rules'', TRUSTED), (''tenant.name'', TRUSTED),
     (''tenant.links.*'', TRUSTED), (''variant.*'', TRUSTED), (''prospect.first_name'', PROSPECT),
     (''prospect.org_name'', PROSPECT), (''prospect.city'', PROSPECT), (''asset.*'', TRUSTED),
     (''sender.*'', TRUSTED), (''evidence.*'', UNTRUSTED), (''signal.*'', UNTRUSTED),
     (''thread.*'', UNTRUSTED)]"

definition first_seen :: "'a list \<Rightarrow> 'a list" where
  "first_seen xs = rev (remdups (rev xs))"

definition extract_slots :: "pystr \<Rightarrow> pystr list" where
  "extract_slots prompt = first_seen (map group1 (findall SLOT_RE prompt))"

fun first_some :: "'b option list \<Rightarrow> 'b option" where
  "first_some [] = None"
| "first_some (x # xs) = (case x of None \<Rightarrow> first_some xs | Some y \<Rightarrow> Some y)"

definition lookup :: "(pystr \<times> trust_class) list \<Rightarrow> pystr \<Rightarrow> trust_class option" where
  "lookup reg slot =
     (case map_of reg slot of
        Some t \<Rightarrow> Some t
      | None \<Rightarrow>
          (let parts = split_on (CHR ''.'') slot
           in first_some (map (\<lambda>i. map_of reg (join ''.'' (take i parts) @ ''.*''))
                 (rev [1..<length parts]))))"

definition validate_prompt :: "(pystr \<times> trust_class) list \<Rightarrow> pystr \<Rightarrow> pystr list" where
  "validate_prompt reg prompt = filter (\<lambda>s. lookup reg s = None) (extract_slots prompt)"

definition marker_for :: "pystr \<Rightarrow> pystr" where
  "marker_for slot = fstr [''[UNTRUSTED-REF:'', slot, '']'']"

section \<open>resolve\<close>

record resolved_value =
  rv_slot :: pystr
  rv_value :: pystr
  rv_trust :: trust_class
  rv_fact :: "pystr option"
  rv_url :: "pystr option"

record resolved_prompt =
  rp_text :: pystr
  rp_untrusted :: "resolved_value list"
  rp_resolved :: "resolved_value list"

type_synonym slot_values = "(pystr \<times> resolved_value) list"

text \<open>One match of the substitution: the value found, or the exception raised.\<close>

definition substitute ::
  "(pystr \<times> trust_class) list \<Rightarrow> slot_values \<Rightarrow> pystr \<Rightarrow> exc + trust_class \<times> resolved_value" where
  "substitute reg values slot =
     (case lookup reg slot of
        None \<Rightarrow> Inl (OtherError ''AssertionError'')
      | Some tr \<Rightarrow> (case map_of values slot of
          None \<Rightarrow> Inl (KeyError slot)
        | Some rv \<Rightarrow>
            if rv_trust rv \<noteq> tr
            then Inl (ValueError (fstr [''value for '', py_repr slot, '' declared '', trust_str (rv_trust rv),
                   '', registry says '', trust_str tr]))
            else Inr (tr, rv)))"

definition splice :: "pystr \<Rightarrow> trust_class \<Rightarrow> resolved_value \<Rightarrow> pystr" where
  "splice slot tr rv = (if tr = UNTRUSTED then marker_for slot else rv_value rv)"

fun render ::
  "(pystr \<times> trust_class) list \<Rightarrow> slot_values \<Rightarrow> (char + pystr) list \<Rightarrow> exc + resolved_prompt" where
  "render reg values [] = Inr \<lparr>rp_text = [], rp_untrusted = [], rp_resolved = []\<rparr>"
| "render reg values (Inl c # xs) =
     bindE (render reg values xs) (\<lambda>r. Inr (r\<lparr>rp_text := c # rp_text r\<rparr>))"
| "render reg values (Inr m # xs) =
     bindE (substitute reg values (group1 m)) (\<lambda>(tr, rv).
       bindE (render reg values xs) (\<lambda>r.
         Inr \<lparr>rp_text = splice (group1 m) tr rv @ rp_text r,
              rp_untrusted = (if tr = UNTRUSTED then rv # rp_untrusted r else rp_untrusted r),
              rp_resolved = rv # rp_resolved r\<rparr>))"

definition resolve ::
  "(pystr \<times> trust_class) list \<Rightarrow> pystr \<Rightarrow> slot_values \<Rightarrow> exc + resolved_prompt" where
  "resolve reg prompt values =
     (let unknown = validate_prompt reg prompt
      in if unknown \<noteq> []
         then Inl (ValueError (fstr [''unknown variable slot(s): '', join '', '' unknown]))
         else render reg values (scan SLOT_RE None prompt))"

section \<open>Untrusted values stay out of the text\<close>

text \<open>Two sets of values that differ at most in what untrusted slots hold.\<close>

definition same_trusted :: "slot_values \<Rightarrow> slot_values \<Rightarrow> bool" where
  "same_trusted v w \<longleftrightarrow> (\<forall>s. case map_of v s of
      None \<Rightarrow> map_of w s = None
    | Some x \<Rightarrow> (case map_of w s of None \<Rightarrow> False
        | Some y \<Rightarrow> rv_trust y = rv_trust x \<and> (rv_trust x \<noteq> UNTRUSTED \<longrightarrow> y = x)))"

lemma same_trusted_cases:
  assumes "same_trusted v w"
  obtains (none) "map_of v s = None" "map_of w s = None"
  | (same) x where "map_of v s = Some x" "map_of w s = Some x"
  | (untrusted) x y where "map_of v s = Some x" "map_of w s = Some y"
      "rv_trust x = UNTRUSTED" "rv_trust y = UNTRUSTED"
proof -
  have h: "case map_of v s of None \<Rightarrow> map_of w s = None
      | Some x \<Rightarrow> (case map_of w s of None \<Rightarrow> False
          | Some y \<Rightarrow> rv_trust y = rv_trust x \<and> (rv_trust x \<noteq> UNTRUSTED \<longrightarrow> y = x))"
    using assms unfolding same_trusted_def by blast
  show ?thesis
  proof (cases "map_of v s")
    case None
    with h show ?thesis by (intro none) auto
  next
    case (Some x)
    with h obtain y where y: "map_of w s = Some y" "rv_trust y = rv_trust x"
      "rv_trust x \<noteq> UNTRUSTED \<longrightarrow> y = x" by (auto split: option.splits)
    show ?thesis
    proof (cases "rv_trust x = UNTRUSTED")
      case True
      with y(2) have "rv_trust y = UNTRUSTED" by simp
      with Some y(1) True show ?thesis by (rule untrusted)
    next
      case False
      with y(1,3) have "map_of w s = Some x" by simp
      with Some show ?thesis by (rule same)
    qed
  qed
qed

lemma substitute_same_trusted:
  assumes "same_trusted v w"
  shows "(\<exists>e. substitute reg v s = Inl e \<and> substitute reg w s = Inl e) \<or>
    (\<exists>tr x y. substitute reg v s = Inr (tr, x) \<and> substitute reg w s = Inr (tr, y) \<and>
       splice s tr x = splice s tr y)"
  by (cases rule: same_trusted_cases [OF assms, of s])
    (auto simp: substitute_def splice_def split: option.splits)

lemma render_same_trusted:
  assumes "same_trusted v w"
  shows "map_sum id rp_text (render reg v xs) = map_sum id rp_text (render reg w xs)"
proof (induction xs)
  case (Cons x xs)
  show ?case
  proof (cases x)
    case (Inl c)
    with Cons show ?thesis by (cases "render reg v xs"; cases "render reg w xs") auto
  next
    case (Inr m)
    show ?thesis
      using substitute_same_trusted [OF assms, of reg "group1 m"] Cons Inr
      by (cases "render reg v xs"; cases "render reg w xs") auto
  qed
qed simp

text \<open>What an interpolation leaves of each class.\<close>

lemma render_untrusted:
  "render reg v xs = Inr r \<Longrightarrow> rp_untrusted r = filter (\<lambda>x. rv_trust x = UNTRUSTED) (rp_resolved r)"
proof (induction xs arbitrary: r)
  case (Cons x xs)
  then show ?case
    by (cases x) (auto simp: bindE_eq_Inr substitute_def split: option.splits if_splits prod.splits)
qed auto

lemma findall_scan: "findall r s = concat (map (\<lambda>x. case x of Inl _ \<Rightarrow> [] | Inr m \<Rightarrow> [m]) (scan r None s))"
  by (simp add: findall_def)

lemma render_resolved:
  "render reg v xs = Inr r \<Longrightarrow>
    map Some (rp_resolved r) = map (\<lambda>m. map_of v (group1 m))
      (concat (map (\<lambda>x. case x of Inl _ \<Rightarrow> [] | Inr m \<Rightarrow> [m]) xs))"
proof (induction xs arbitrary: r)
  case (Cons x xs)
  then show ?case
    by (cases x) (auto simp: bindE_eq_Inr substitute_def split: option.splits if_splits prod.splits)
qed auto

lemma resolve_Inr:
  "resolve reg prompt v = Inr r \<Longrightarrow> validate_prompt reg prompt = [] \<and> render reg v (scan SLOT_RE None prompt) = Inr r"
  by (auto simp: resolve_def Let_def split: if_splits)

end
