(* ===== verification/Config.thy ===== *)
theory Config
  imports Validators Variables
begin

text \<open>
  \<open>core/config.py\<close>: the compiled program of a tenant and the checks of its models. A record is
  the model's data once parsed; \<open>check_X\<close> is the validation of model \<open>X\<close>: field
  constraints first, then the validators, raising the first message. The declared minimum
  lengths of free text are those of the fields. Slots are checked against the default registry.
\<close>

section \<open>Package constants\<close>

definition MAX_FOLLOW_UPS :: int where
  "MAX_FOLLOW_UPS = 3"

definition MIN_FOLLOW_UP_GAP_DAYS :: int where
  "MIN_FOLLOW_UP_GAP_DAYS = 3"

section \<open>Models\<close>

record identity_spec =
  id_sender :: pystr
  id_address :: pystr
  id_disclose :: bool
  id_unsub :: pystr

record asset_spec =
  as_id :: pystr
  as_url :: pystr
  as_summary :: pystr

record about_us =
  ab_name :: pystr
  ab_what :: pystr
  ab_links :: "(pystr \<times> pystr) list"
  ab_identity :: identity_spec
  ab_assets :: "asset_spec list"
  ab_faq :: "(pystr \<times> pystr) list"
  ab_mode :: pystr
  ab_sector :: pystr
  ab_regime :: pystr
  ab_approved :: "pystr list"

record goal_spec =
  gl_convert :: pystr
  gl_brainstorm :: "pystr option"

record brief_spec =
  bf_find :: pystr
  bf_research :: pystr
  bf_goals :: goal_spec
  bf_about :: about_us
  bf_prospects :: int
  bf_llm_usd :: rat
  bf_autonomy :: pystr

record sequence_spec =
  sq_steps :: int
  sq_gaps :: "int list"
  sq_tasks :: "(int \<times> pystr) list"

record variant_spec =
  vs_id :: pystr
  vs_surface :: pystr
  vs_attrs :: "(pystr \<times> pystr) list"
  vs_prompt :: pystr

record floor_spec =
  fl_conversion :: "rat option"
  fl_reply :: "rat option"
  fl_min_trials :: int

record cohort_spec =
  ch_id :: pystr
  ch_filters :: payload
  ch_budget :: int
  ch_sources :: "pystr list"
  ch_trigger :: "pystr option"
  ch_floors :: "floor_spec option"

record referral_spec =
  rf_prompt :: pystr
  rf_mode :: pystr

record persona_spec =
  ps_id :: pystr
  ps_description :: pystr
  ps_signals :: "pystr list"
  ps_value_prop :: pystr
  ps_voice :: "(pystr \<times> pystr) list"
  ps_sequence :: sequence_spec
  ps_cohorts :: "cohort_spec list"
  ps_variants :: "variant_spec list"
  ps_priority :: int
  ps_approve_first :: nat
  ps_referral :: "referral_spec option"
  ps_counters :: "(pystr \<times> pystr) list"
  ps_reengage :: "pystr option"

record generated_by =
  gb_agent :: pystr
  gb_hash :: pystr

record tenant_config =
  tc_tenant :: pystr
  tc_brief :: brief_spec
  tc_personas :: "persona_spec list"
  tc_generated :: "generated_by option"

section \<open>Validators\<close>

definition slug :: "pystr \<Rightarrow> bool" where
  "slug s \<longleftrightarrow> s \<noteq> [] \<and> list_all (\<lambda>c. is_lower c \<or> is_digit c \<or> c = CHR ''_'') s"

definition need :: "bool \<Rightarrow> pystr \<Rightarrow> exc + unit" where
  "need b m = (if b then Inr () else Inl (ValueError m))"

fun all_of :: "(exc + unit) list \<Rightarrow> exc + unit" where
  "all_of [] = Inr ()"
| "all_of (x # xs) = bindE x (\<lambda>_. all_of xs)"

definition slots_registered :: "pystr \<Rightarrow> exc + unit" where
  "slots_registered p =
     (let unknown = validate_prompt DEFAULT_REGISTRY p
      in need (unknown = []) (fstr [''unknown variable slot(s): '', join '', '' unknown]))"

definition check_sequence :: "sequence_spec \<Rightarrow> exc + unit" where
  "check_sequence s = all_of
     ([need (1 \<le> sq_steps s \<and> sq_steps s \<le> 1 + MAX_FOLLOW_UPS) ''steps out of range'',
       need (int (length (sq_gaps s)) = sq_steps s - 1)
         (fstr [''need '', int_str (sq_steps s - 1), '' gaps for '', int_str (sq_steps s), '' steps'']),
       need (list_all (\<lambda>g. MIN_FOLLOW_UP_GAP_DAYS \<le> g) (sq_gaps s))
         (fstr [''gaps must be >= '', int_str MIN_FOLLOW_UP_GAP_DAYS, '' days''])] @
      concat (map (\<lambda>(step, instruction).
        [need (0 \<le> step \<and> step < sq_steps s)
           (fstr [''human_tasks step '', int_str step, '' outside 0..'', int_str (sq_steps s - 1)]),
         need (10 \<le> length (strip instruction))
           (fstr [''human_tasks['', int_str step, '']: instruction too short to act on''])]) (sq_tasks s)))"

definition check_variant :: "variant_spec \<Rightarrow> exc + unit" where
  "check_variant v = all_of
     [need (slug (vs_id v)) ''id'', need (20 \<le> length (vs_prompt v)) ''prompt'',
      slots_registered (vs_prompt v)]"

definition event_type_ok :: "pystr \<Rightarrow> bool" where
  "event_type_ok s \<longleftrightarrow> s \<noteq> [] \<and> list_all (\<lambda>c. is_lower c \<or> is_digit c \<or> c \<in> set ''_.:-'') s"

definition check_floors :: "floor_spec \<Rightarrow> exc + unit" where
  "check_floors f = all_of
     [need (case fl_conversion f of None \<Rightarrow> True | Some r \<Rightarrow> 0 \<le> r \<and> r \<le> 1) ''conversion_rate'',
      need (case fl_reply f of None \<Rightarrow> True | Some r \<Rightarrow> 0 \<le> r \<and> r \<le> 1) ''reply_rate'',
      need (5 \<le> fl_min_trials f) ''min_trials'']"

definition check_cohort :: "cohort_spec \<Rightarrow> exc + unit" where
  "check_cohort c = all_of
     [need (slug (ch_id c)) ''id'', need (0 < ch_budget c) ''monthly_budget'',
      need (ch_sources c \<noteq> []) ''sources'',
      need (case ch_trigger c of None \<Rightarrow> True | Some e \<Rightarrow> event_type_ok e) ''event_type'',
      (case ch_floors c of None \<Rightarrow> Inr () | Some f \<Rightarrow> check_floors f)]"

definition check_referral :: "referral_spec \<Rightarrow> exc + unit" where
  "check_referral r = all_of
     [need (20 \<le> length (rf_prompt r)) ''prompt'', need (rf_mode r \<in> {''direct'', ''on_behalf_of''}) ''mode'',
      slots_registered (rf_prompt r)]"

definition OBJECTION_CLASSES :: "pystr list" where
  "OBJECTION_CLASSES = [''price'', ''trust'', ''timing'', ''already_solved'', ''other'']"

definition no_forbidden :: "pystr \<Rightarrow> pystr \<Rightarrow> exc + unit" where
  "no_forbidden what t =
     need (forbidden_hits t [] = []) (fstr [what, '': forbidden claim(s): '', join '', '' (forbidden_hits t [])])"

definition counters_linted :: "(pystr \<times> pystr) list \<Rightarrow> exc + unit" where
  "counters_linted cs = all_of (concat (map (\<lambda>(klass, snippet).
     [need (klass \<in> set OBJECTION_CLASSES) (fstr [''unknown objection class '', py_repr klass]),
      no_forbidden (fstr [''objection counter '', py_repr klass]) snippet]) cs))"

definition check_persona :: "persona_spec \<Rightarrow> exc + unit" where
  "check_persona p = all_of
     ([need (slug (ps_id p)) ''id'', need (20 \<le> length (ps_description p)) ''description'',
       need (ps_signals p \<noteq> []) ''evidence_signals'', need (10 \<le> length (ps_value_prop p)) ''value_prop'', check_sequence (ps_sequence p),
       need (ps_cohorts p \<noteq> []) ''cohorts''] @ map check_cohort (ps_cohorts p) @
      [need (ps_variants p \<noteq> []) ''variants''] @ map check_variant (ps_variants p) @
      (case ps_referral p of None \<Rightarrow> [] | Some r \<Rightarrow> [check_referral r]) @
      [counters_linted (ps_counters p)] @
      (case ps_reengage p of None \<Rightarrow> [] | Some v \<Rightarrow> [slots_registered v]))"

definition https :: "pystr \<Rightarrow> bool" where
  "https u \<longleftrightarrow> startswith u ''https://''"

definition check_asset :: "asset_spec \<Rightarrow> exc + unit" where
  "check_asset a = all_of
     [need (slug (as_id a)) ''id'',
      need (https (as_url a)) (fstr [''asset url must be https:// (got '', py_repr (as_url a), '')'']),
      need (10 \<le> length (as_summary a)) ''summary'']"

definition assets_claims_linted :: "about_us \<Rightarrow> exc + unit" where
  "assets_claims_linted ab = all_of
     (need (distinct (map as_id (ab_assets ab))) ''duplicate asset ids'' #
      concat (map (\<lambda>a.
        [no_forbidden (fstr [''asset '', py_repr (as_id a)]) (as_summary a),
         need (ab_mode ab = ''allowlist'' \<longrightarrow> unregistered_claims (as_summary a) (ab_approved ab) = [])
           (fstr [''asset '', py_repr (as_id a), '': unregistered claim(s)''])]) (ab_assets ab)))"

definition check_about :: "registry \<Rightarrow> about_us \<Rightarrow> exc + unit" where
  "check_about reg ab = all_of
     ([need (10 \<le> length (ab_what ab)) ''what_we_do''] @
      map (\<lambda>(k, url). need (https url) (fstr [''link '', py_repr k, '' must be https:// (got '', py_repr url, '')'']))
        (ab_links ab) @
      [need (3 \<le> length (id_sender (ab_identity ab))) ''sender'',
       need (8 \<le> length (id_address (ab_identity ab))) ''physical_address'',
       need (10 \<le> length (id_unsub (ab_identity ab))) ''unsubscribe_text''] @
      map check_asset (ab_assets ab) @
      map (\<lambda>(q, a). no_forbidden (fstr [''faq '', py_repr q]) a) (ab_faq ab) @
      [need (ab_mode ab \<in> {''denylist'', ''allowlist''}) ''claims_mode'',
       need (ab_sector ab \<in> {''none'', ''healthcare''}) ''sector_sensitivity'',
       (case get_regime reg (ab_regime ab) of Inl e \<Rightarrow> Inl (ValueError (exc_str e)) | Inr _ \<Rightarrow> Inr ()),
       need (\<not> (ab_mode ab = ''allowlist'' \<and> ab_approved ab = []))
         ''claims_mode: allowlist requires at least one approved claim'',
       need (list_all (\<lambda>c. 5 \<le> length (strip c)) (ab_approved ab))
         ''approved claims must be substantive phrases (>= 5 chars)'',
       assets_claims_linted ab])"

definition cohort_total :: "tenant_config \<Rightarrow> int" where
  "cohort_total cfg = sum_list (map (\<lambda>p. sum_list (map ch_budget (ps_cohorts p))) (tc_personas cfg))"

definition budget_consistency :: "tenant_config \<Rightarrow> exc + unit" where
  "budget_consistency cfg = all_of
     [need (\<not> cohort_total cfg > bf_prospects (tc_brief cfg))
        (fstr [''cohort budgets sum to '', int_str (cohort_total cfg), '' > monthly_prospects cap '',
           int_str (bf_prospects (tc_brief cfg))]),
      need (distinct (map ps_id (tc_personas cfg))) ''duplicate persona ids'']"

definition check_brief :: "registry \<Rightarrow> brief_spec \<Rightarrow> exc + unit" where
  "check_brief reg b = all_of
     [need (20 \<le> length (bf_find b)) ''find'', need (20 \<le> length (bf_research b)) ''research'',
      need (3 \<le> length (gl_convert (bf_goals b))) ''convert'', check_about reg (bf_about b),
      need (0 < bf_prospects b \<and> bf_prospects b \<le> 100000) ''monthly_prospects'',
      need (0 < bf_llm_usd b \<and> bf_llm_usd b \<le> 100000) ''monthly_llm_usd'',
      need (bf_autonomy b \<in> {''review_everything'', ''standard'', ''hands_off''}) ''autonomy'']"

definition check_tenant :: "registry \<Rightarrow> tenant_config \<Rightarrow> exc + unit" where
  "check_tenant reg cfg = all_of
     ([need (tc_tenant cfg \<noteq> [] \<and>
         list_all (\<lambda>c. is_lower c \<or> is_digit c \<or> c = CHR ''_'' \<or> c = CHR ''-'') (tc_tenant cfg)) ''tenant'',
       check_brief reg (tc_brief cfg), need (tc_personas cfg \<noteq> []) ''personas''] @
      map check_persona (tc_personas cfg) @ [budget_consistency cfg])"

section \<open>Autonomy presets\<close>

record autonomy_knobs =
  kn_replies :: pystr
  kn_variants :: pystr
  kn_cohorts :: pystr

definition expand_autonomy :: "pystr \<Rightarrow> exc + autonomy_knobs" where
  "expand_autonomy preset =
     (if preset = ''review_everything''
      then Inr \<lparr>kn_replies = ''propose'', kn_variants = ''propose'', kn_cohorts = ''propose''\<rparr>
      else if preset = ''standard''
      then Inr \<lparr>kn_replies = ''auto'', kn_variants = ''auto'', kn_cohorts = ''propose''\<rparr>
      else if preset = ''hands_off''
      then Inr \<lparr>kn_replies = ''auto'', kn_variants = ''auto'', kn_cohorts = ''auto_within_budget''\<rparr>
      else Inl (KeyError preset))"

section \<open>What a validated configuration satisfies\<close>

lemma need_Inr [simp]: "need b m = Inr u \<longleftrightarrow> b"
  by (simp add: need_def)

lemma all_of_Inr: "all_of xs = Inr () \<longleftrightarrow> (\<forall>x\<in>set xs. x = Inr ())"
proof (induction xs)
  case (Cons x xs)
  then show ?case by (cases x) auto
qed simp

declare all_of.simps [simp del]

lemma all_of_simps [simp]:
  "all_of [] = Inr ()" "all_of (x # xs) = Inr () \<longleftrightarrow> x = Inr () \<and> all_of xs = Inr ()"
  "all_of (xs @ ys) = Inr () \<longleftrightarrow> all_of xs = Inr () \<and> all_of ys = Inr ()"
  "all_of (map f zs) = Inr () \<longleftrightarrow> (\<forall>z\<in>set zs. f z = Inr ())"
  by (auto simp: all_of_Inr)

lemma all_of_concat [simp]: "all_of (concat xss) = Inr () \<longleftrightarrow> (\<forall>xs\<in>set xss. all_of xs = Inr ())"
  by (induction xss) auto

lemma check_sequence_Inr:
  "check_sequence s = Inr () \<longleftrightarrow>
    1 \<le> sq_steps s \<and> sq_steps s \<le> 1 + MAX_FOLLOW_UPS \<and> int (length (sq_gaps s)) = sq_steps s - 1 \<and>
    (\<forall>g\<in>set (sq_gaps s). MIN_FOLLOW_UP_GAP_DAYS \<le> g) \<and>
    (\<forall>(step, i)\<in>set (sq_tasks s). 0 \<le> step \<and> step < sq_steps s \<and> 10 \<le> length (strip i))"
  by (auto simp: check_sequence_def list_all_iff)

lemma check_persona_sequence: "check_persona p = Inr () \<Longrightarrow> check_sequence (ps_sequence p) = Inr ()"
  by (simp add: check_persona_def)

lemma check_tenant_personas:
  "check_tenant reg cfg = Inr () \<Longrightarrow> p \<in> set (tc_personas cfg) \<Longrightarrow> check_persona p = Inr ()"
  by (simp add: check_tenant_def)

text \<open>The step after a step that is not the last has a gap.\<close>

lemma gap_in_range:
  assumes "check_sequence s = Inr ()" and "0 \<le> i" and "i + 1 < sq_steps s"
  shows "nat i < length (sq_gaps s)" and "MIN_FOLLOW_UP_GAP_DAYS \<le> sq_gaps s ! nat i"
proof -
  show *: "nat i < length (sq_gaps s)" using assms unfolding check_sequence_Inr by linarith
  then have "sq_gaps s ! nat i \<in> set (sq_gaps s)" by simp
  with assms(1) show "MIN_FOLLOW_UP_GAP_DAYS \<le> sq_gaps s ! nat i" by (simp add: check_sequence_Inr)
qed

lemma check_tenant_budget:
  "check_tenant reg cfg = Inr () \<Longrightarrow> cohort_total cfg \<le> bf_prospects (tc_brief cfg)"
  by (auto simp: check_tenant_def budget_consistency_def)

lemma check_tenant_about: "check_tenant reg cfg = Inr () \<Longrightarrow> check_about reg (bf_about (tc_brief cfg)) = Inr ()"
  by (simp add: check_tenant_def check_brief_def)

end
