(* ===== verification/Dryrun.thy ===== *)
theory Dryrun
  imports Config
begin

text \<open>
  \<open>core/evidence.py\<close> (which facts are fresh enough to cite) and the part of \<open>core/dryrun.py\<close>
  the live handlers share with the dry run: the validator context of a tenant, the trusted lines
  of a prompt and the values of its slots.
\<close>

section \<open>Facts and candidates\<close>

record evidence_fact =
  ef_id :: pystr
  ef_type :: pystr
  ef_content :: pystr
  ef_url :: pystr
  ef_observed :: int

record candidate =
  cd_name :: pystr
  cd_org :: "pystr option"
  cd_website :: "pystr option"
  cd_email :: "pystr option"
  cd_phone :: "pystr option"
  cd_address :: "pystr option"
  cd_source :: pystr
  cd_ref :: payload
  cd_basis :: pystr

section \<open>evidence.py\<close>

definition STALENESS_DAYS :: "(pystr \<times> int) list" where
  "STALENESS_DAYS = [(''event_series'', 60), (''calendar'', 60), (''recent_gig'', 60), (''pricing'', 90),
     (''service'', 180), (''bio'', 365), (''specialty'', 365)]"

definition DEFAULT_STALENESS_DAYS :: int where
  "DEFAULT_STALENESS_DAYS = 90"

definition is_fresh :: "int \<Rightarrow> evidence_fact \<Rightarrow> bool" where
  "is_fresh t f \<longleftrightarrow>
     t - ef_observed f \<le> the_default DEFAULT_STALENESS_DAYS (map_of STALENESS_DAYS (ef_type f)) * 86400"

definition fresh_facts :: "int \<Rightarrow> evidence_fact list \<Rightarrow> evidence_fact list" where
  "fresh_facts t crd = filter (is_fresh t) crd"

section \<open>dryrun.py\<close>

definition validator_context :: "tenant_config \<Rightarrow> vctx" where
  "validator_context cfg =
     (let ab = bf_about (tc_brief cfg); idn = ab_identity ab
      in \<lparr>physical_address = id_address idn, unsubscribe_text = id_unsub idn, sender_identity = id_sender idn,
          allowed_url_prefixes = map snd (ab_links ab) @ map as_url (ab_assets ab),
          max_words = 200, forbidden_patterns = [], claim_mode = ab_mode ab,
          approved_claims = ab_approved ab,
          claim_registry_version = registry_version (ab_mode ab) (ab_approved ab),
          sector_sensitivity = ab_sector ab, compliance_regime = ab_regime ab\<rparr>)"

definition or_none :: "pystr \<Rightarrow> pystr" where
  "or_none s = (if s = [] then ''(none)'' else s)"

definition trusted_context :: "tenant_config \<Rightarrow> persona_spec \<Rightarrow> pystr" where
  "trusted_context cfg p =
     (let ab = bf_about (tc_brief cfg); idn = ab_identity ab
      in join nl
        ([fstr [''Sender identity line (include verbatim): - '', id_sender idn],
          fstr [''Physical address line (include verbatim): '', id_address idn],
          fstr [''Unsubscribe line (include verbatim): '', id_unsub idn],
          fstr [''What we do: '', ab_what ab],
          fstr [''Value prop for this persona: '', ps_value_prop p],
          fstr [''Allowed links: '',
            or_none (join '', '' (map (\<lambda>(k, v). fstr [k, '': '', v]) (ab_links ab)))]] @
         (if id_disclose idn
          then [''Disclosure (work a brief honest version into the message): drafting is '' @
                ''AI-assisted; a human reads every reply.'']
          else [])))"

definition value_of :: "pystr \<Rightarrow> pystr \<Rightarrow> trust_class \<Rightarrow> resolved_value" where
  "value_of slot v t = \<lparr>rv_slot = slot, rv_value = v, rv_trust = t, rv_fact = None, rv_url = None\<rparr>"

text \<open>The value of one slot, with the facts the slots before it left. \<open>None\<close> is \<open>continue\<close>.\<close>

definition slot_value ::
  "tenant_config \<Rightarrow> persona_spec \<Rightarrow> candidate \<Rightarrow> (pystr \<times> pystr) list \<Rightarrow> pystr \<Rightarrow> evidence_fact list \<Rightarrow>
     exc + resolved_value option \<times> evidence_fact list" where
  "slot_value cfg p cand sender_facts slot facts =
     (let ab = bf_about (tc_brief cfg);
          some = (\<lambda>v t. Inr (Some (value_of slot v t), facts))
      in if startswith slot ''sender.'' then
           (case map_of sender_facts (drop 7 slot) of
              None \<Rightarrow> Inr (None, facts) | Some v \<Rightarrow> some v TRUSTED)
         else if startswith slot ''asset.'' then
           (case List.find (\<lambda>a. as_id a = drop 6 slot) (ab_assets ab) of
              None \<Rightarrow> Inr (None, facts) | Some a \<Rightarrow> some (as_url a) TRUSTED)
         else if startswith slot ''evidence.'' then
           (case facts of
              [] \<Rightarrow> Inr (None, facts)
            | f # fs \<Rightarrow> Inr (Some \<lparr>rv_slot = slot, rv_value = ef_content f, rv_trust = UNTRUSTED,
                                  rv_fact = Some (ef_id f), rv_url = Some (ef_url f)\<rparr>, fs))
         else if slot = ''prospect.first_name'' then
           (case split_blank (cd_name cand) of
              [] \<Rightarrow> Inl (OtherError ''list index out of range'') | w # _ \<Rightarrow> some w PROSPECT)
         else if slot = ''prospect.org_name'' then
           some (case cd_org cand of None \<Rightarrow> cd_name cand | Some q \<Rightarrow> if q = [] then cd_name cand else q) PROSPECT
         else if slot = ''persona.value_prop'' then some (ps_value_prop p) TRUSTED
         else if slot = ''persona.voice_rules'' then
           some (let voice = join ''; '' (map (\<lambda>(k, v). fstr [k, '': '', v]) (ps_voice p))
                 in if voice = [] then ''plain and warm'' else voice) TRUSTED
         else if startswith slot ''tenant.links.'' then
           some (the_default [] (map_of (ab_links ab) (rpart_after (CHR ''.'') slot))) TRUSTED
         else if slot = ''tenant.name'' then some (ab_name ab) TRUSTED
         else Inr (None, facts))"

fun slot_values_of ::
  "tenant_config \<Rightarrow> persona_spec \<Rightarrow> candidate \<Rightarrow> (pystr \<times> pystr) list \<Rightarrow> pystr list \<Rightarrow> evidence_fact list \<Rightarrow>
     exc + slot_values" where
  "slot_values_of cfg p cand sf [] facts = Inr []"
| "slot_values_of cfg p cand sf (slot # slots) facts =
     bindE (slot_value cfg p cand sf slot facts) (\<lambda>(v, facts').
       bindE (slot_values_of cfg p cand sf slots facts') (\<lambda>rest.
         Inr (case v of None \<Rightarrow> rest | Some rv \<Rightarrow> (slot, rv) # rest)))"

definition build_values ::
  "int \<Rightarrow> pystr \<Rightarrow> candidate \<Rightarrow> evidence_fact list \<Rightarrow> tenant_config \<Rightarrow> persona_spec \<Rightarrow> (pystr \<times> pystr) list \<Rightarrow>
     exc + slot_values" where
  "build_values t prompt cand crd cfg p sender_facts =
     slot_values_of cfg p cand sender_facts (extract_slots prompt) (fresh_facts t crd)"

section \<open>Values carry the class of their slot\<close>

text \<open>Only evidence slots take untrusted values, and only from fresh facts.\<close>

lemma slot_value_untrusted:
  assumes "slot_value cfg p cand sf slot facts = Inr (Some rv, facts')" and "rv_trust rv = UNTRUSTED"
  shows "startswith slot ''evidence.'' \<and> (\<exists>f\<in>set facts. rv_value rv = ef_content f \<and> rv_fact rv = Some (ef_id f))"
  using assms by (auto simp: slot_value_def Let_def value_of_def split: if_splits option.splits list.splits)

lemma slot_value_facts: "slot_value cfg p cand sf slot facts = Inr (v, facts') \<Longrightarrow> set facts' \<subseteq> set facts"
  by (auto simp: slot_value_def Let_def split: if_splits option.splits list.splits)

lemma slot_values_fresh:
  assumes "slot_values_of cfg p cand sf slots facts = Inr vs" and "(slot, rv) \<in> set vs" and "rv_trust rv = UNTRUSTED"
  shows "\<exists>f\<in>set facts. rv_value rv = ef_content f \<and> rv_fact rv = Some (ef_id f)"
  using assms
proof (induction slots arbitrary: facts vs)
  case (Cons s slots)
  from Cons.prems(1) obtain v facts' rest where s: "slot_value cfg p cand sf s facts = Inr (v, facts')"
    "slot_values_of cfg p cand sf slots facts' = Inr rest"
    "vs = (case v of None \<Rightarrow> rest | Some rv \<Rightarrow> (s, rv) # rest)"
    by (auto simp: bindE_eq_Inr)
  show ?case
  proof (cases "(slot, rv) \<in> set rest")
    case True
    from Cons.IH [OF s(2) True Cons.prems(3)] slot_value_facts [OF s(1)] show ?thesis by blast
  next
    case False
    with s(3) Cons.prems(2) have "v = Some rv" by (auto split: option.splits)
    with slot_value_untrusted [of cfg p cand sf s facts rv facts'] s(1) Cons.prems(3) show ?thesis by blast
  qed
qed simp

text \<open>A slot value is only missing when the prospect, the profile or the card lacks it.\<close>

lemma slot_values_slots: "slot_values_of cfg p cand sf slots facts = Inr vs \<Longrightarrow> set (map fst vs) \<subseteq> set slots"
  by (induction slots arbitrary: facts vs) (fastforce simp: bindE_eq_Inr split: option.splits)+

end
