(* ===== verification/Jobs.thy ===== *)
theory Jobs
  imports Schema
begin

text \<open>
  \<open>core/queue.py\<close>: the PostgreSQL-backed job queue. A job is inserted once per idempotency
  key, leased with a deadline, and completed, retried with exponential backoff, dead-lettered,
  or given back when its lease ran out.
\<close>

section \<open>Operations\<close>

definition LEASE_SECONDS :: int where
  "LEASE_SECONDS = 120"

definition MAX_ATTEMPTS_DEFAULT :: int where
  "MAX_ATTEMPTS_DEFAULT = 5"

definition BACKOFF_BASE_SECONDS :: int where
  "BACKOFF_BASE_SECONDS = 30"

record job =
  jb_id :: nat
  jb_queue :: pystr
  jb_payload :: payload
  jb_attempts :: int
  jb_max :: int

definition enqueue ::
  "pystr \<Rightarrow> payload \<Rightarrow> pystr option \<Rightarrow> int \<Rightarrow> int \<Rightarrow> db \<Rightarrow> nat option \<times> db" where
  "enqueue q pl key delay max_attempts d =
     (if key \<noteq> None \<and> (\<exists>j\<in>set (jobs d). j_key j = key) then (None, d)
      else (Some (next_job d),
        d\<lparr>jobs := ins \<lparr>j_id = next_job d, j_queue = q, j_payload = pl, j_key = key, j_status = Ready,
             j_attempts = 0, j_max = max_attempts, j_lease = None,
             j_run_after = epoch (now d) + delay, j_error = None\<rparr> (jobs d),
          next_job := Suc (next_job d)\<rparr>))"

text \<open>A call with the default delay and number of attempts, whose result the caller drops.\<close>

definition enqueue_key :: "pystr \<Rightarrow> payload \<Rightarrow> pystr \<Rightarrow> db \<Rightarrow> db" where
  "enqueue_key q pl key d = snd (enqueue q pl (Some key) 0 MAX_ATTEMPTS_DEFAULT d)"

definition leasable :: "db \<Rightarrow> pystr \<Rightarrow> job_row \<Rightarrow> bool" where
  "leasable d q j \<longleftrightarrow> j_queue j = q \<and> j_status j = Ready \<and> j_run_after j \<le> epoch (now d)
     \<and> j_id j \<notin> set (locked_jobs d)"

definition job_of_row :: "job_row \<Rightarrow> job" where
  "job_of_row r = \<lparr>jb_id = j_id r, jb_queue = j_queue r, jb_payload = j_payload r,
     jb_attempts = j_attempts r, jb_max = j_max r\<rparr>"

definition lease_row :: "db \<Rightarrow> job_row \<Rightarrow> job_row" where
  "lease_row d j = j\<lparr>j_status := Leased, j_lease := Some (epoch (now d) + LEASE_SECONDS),
     j_attempts := j_attempts j + 1\<rparr>"

definition lease :: "pystr \<Rightarrow> db \<Rightarrow> job option \<times> db" where
  "lease q d =
     (case least_by (int \<circ> j_id) (sel (leasable d q) (jobs d)) of
        None \<Rightarrow> (None, d)
      | Some j \<Rightarrow> (Some (job_of_row (lease_row d j)),
                   d\<lparr>jobs := upd (\<lambda>r. j_id r = j_id j) (lease_row d) (jobs d)\<rparr>))"

definition complete :: "nat \<Rightarrow> db \<Rightarrow> db" where
  "complete i d = d\<lparr>jobs := upd (\<lambda>r. j_id r = i) (\<lambda>r. r\<lparr>j_status := Done, j_lease := None\<rparr>) (jobs d)\<rparr>"

definition fail :: "job \<Rightarrow> pystr \<Rightarrow> bool \<Rightarrow> db \<Rightarrow> db" where
  "fail jb err permanent d =
     (if permanent \<or> jb_max jb \<le> jb_attempts jb
      then d\<lparr>jobs := upd (\<lambda>r. j_id r = jb_id jb)
             (\<lambda>r. r\<lparr>j_status := Dead, j_error := Some err, j_lease := None\<rparr>) (jobs d)\<rparr>
      else
        let backoff = BACKOFF_BASE_SECONDS * 2 ^ nat (jb_attempts jb)
        in d\<lparr>jobs := upd (\<lambda>r. j_id r = jb_id jb)
             (\<lambda>r. r\<lparr>j_status := Ready, j_error := Some err, j_lease := None,
                    j_run_after := epoch (now d) + backoff\<rparr>) (jobs d)\<rparr>)"

definition lease_expired :: "db \<Rightarrow> job_row \<Rightarrow> bool" where
  "lease_expired d r \<longleftrightarrow> j_status r = Leased \<and>
     (case j_lease r of None \<Rightarrow> False | Some u \<Rightarrow> u < epoch (now d))"

definition reap_expired :: "db \<Rightarrow> nat \<times> db" where
  "reap_expired d =
     (cnt (lease_expired d) (jobs d),
      d\<lparr>jobs := upd (lease_expired d) (\<lambda>r. r\<lparr>j_status := Ready, j_lease := None\<rparr>) (jobs d)\<rparr>)"

section \<open>What the operations leave unchanged\<close>

lemma enqueue_frame [simp, frame]:
  "touches (snd (enqueue q pl k dl m d)) = touches d"
  "prospects (snd (enqueue q pl k dl m d)) = prospects d"
  "entities (snd (enqueue q pl k dl m d)) = entities d"
  "counters (snd (enqueue q pl k dl m d)) = counters d"
  "suppressions (snd (enqueue q pl k dl m d)) = suppressions d"
  "tombstones (snd (enqueue q pl k dl m d)) = tombstones d"
  "flags (snd (enqueue q pl k dl m d)) = flags d"
  "vstats (snd (enqueue q pl k dl m d)) = vstats d"
  "now (snd (enqueue q pl k dl m d)) = now d"
  "idna (snd (enqueue q pl k dl m d)) = idna d"
  "tenants (snd (enqueue q pl k dl m d)) = tenants d"
  "replies (snd (enqueue q pl k dl m d)) = replies d"
  "evidence (snd (enqueue q pl k dl m d)) = evidence d"
  "entity_keys (snd (enqueue q pl k dl m d)) = entity_keys d"
  "audits (snd (enqueue q pl k dl m d)) = audits d"
  "escalations (snd (enqueue q pl k dl m d)) = escalations d"
  "tasks (snd (enqueue q pl k dl m d)) = tasks d"
  "rng (snd (enqueue q pl k dl m d)) = rng d"
  "draws (snd (enqueue q pl k dl m d)) = draws d"
  "pevents (snd (enqueue q pl k dl m d)) = pevents d"
  "locked_jobs (snd (enqueue q pl k dl m d)) = locked_jobs d"
  by (simp_all add: enqueue_def)

lemma enqueue_key_frame [simp, frame]:
  "touches (enqueue_key q pl k d) = touches d" "prospects (enqueue_key q pl k d) = prospects d"
  "entities (enqueue_key q pl k d) = entities d" "counters (enqueue_key q pl k d) = counters d"
  "suppressions (enqueue_key q pl k d) = suppressions d"
  "tombstones (enqueue_key q pl k d) = tombstones d" "flags (enqueue_key q pl k d) = flags d"
  "vstats (enqueue_key q pl k d) = vstats d" "now (enqueue_key q pl k d) = now d"
  "idna (enqueue_key q pl k d) = idna d" "tenants (enqueue_key q pl k d) = tenants d"
  "replies (enqueue_key q pl k d) = replies d" "evidence (enqueue_key q pl k d) = evidence d"
  "entity_keys (enqueue_key q pl k d) = entity_keys d" "audits (enqueue_key q pl k d) = audits d"
  "escalations (enqueue_key q pl k d) = escalations d" "tasks (enqueue_key q pl k d) = tasks d"
  "rng (enqueue_key q pl k d) = rng d" "draws (enqueue_key q pl k d) = draws d"
  "pevents (enqueue_key q pl k d) = pevents d"
  by (simp_all add: enqueue_key_def)

section \<open>Idempotent submission\<close>

lemma enqueue_key_present: "\<exists>j\<in>set (jobs (enqueue_key q pl k d)). j_key j = Some k"
  by (auto simp: enqueue_key_def enqueue_def)

lemma enqueue_duplicate:
  "\<exists>j\<in>set (jobs d). j_key j = Some k \<Longrightarrow> enqueue_key q pl k d = d"
  by (auto simp: enqueue_key_def enqueue_def)

lemma jobs_enqueue_key_mono: "set (jobs d) \<subseteq> set (jobs (enqueue_key q pl k d))"
  by (auto simp: enqueue_key_def enqueue_def)

lemma jobs_enqueue_key_new:
  assumes "\<nexists>j. j \<in> set (jobs d) \<and> j_key j = Some k"
  shows "\<exists>j\<in>set (jobs (enqueue_key q pl k d)). j_key j = Some k \<and> j_queue j = q \<and> j_payload j = pl
    \<and> j_status j = Ready"
  using assms by (auto simp: enqueue_key_def enqueue_def)

section \<open>Well-formed queues\<close>

text \<open>Job ids come from a sequence, and idempotency keys are unique.\<close>

definition wf_jobs :: "db \<Rightarrow> bool" where
  "wf_jobs d \<longleftrightarrow> distinct (map j_id (jobs d)) \<and> (\<forall>j\<in>set (jobs d). j_id j < next_job d) \<and>
     (\<forall>i\<in>set (jobs d). \<forall>j\<in>set (jobs d). j_key i \<noteq> None \<longrightarrow> j_key i = j_key j \<longrightarrow> i = j)"

lemma wf_jobs_cong: "jobs d' = jobs d \<Longrightarrow> next_job d' = next_job d \<Longrightarrow> wf_jobs d' = wf_jobs d"
  by (simp add: wf_jobs_def)

lemma wf_jobs_enqueue: "wf_jobs d \<Longrightarrow> wf_jobs (snd (enqueue q pl k dl m d))"
  by (fastforce simp: wf_jobs_def enqueue_def ins_def)

text \<open>An update of one job that keeps its id and key keeps the queue well formed.\<close>

lemma wf_jobs_upd:
  assumes "wf_jobs d" and "\<And>r. j_id (f r) = j_id r \<and> j_key (f r) = j_key r"
  shows "wf_jobs (d\<lparr>jobs := upd P f (jobs d)\<rparr>)"
proof -
  define g where "g = (\<lambda>r. if P r then f r else r)"
  have g: "j_id (g r) = j_id r" "j_key (g r) = j_key r" for r using assms(2) by (auto simp: g_def)
  have u: "upd P f (jobs d) = map g (jobs d)" by (simp add: upd_def g_def)
  have "map j_id (map g (jobs d)) = map j_id (jobs d)" by (simp add: g)
  with assms(1) have ids: "distinct (map j_id (map g (jobs d)))" by (simp only: wf_jobs_def)
  have below: "\<forall>j\<in>set (map g (jobs d)). j_id j < next_job d"
    using assms(1) g(1) by (simp add: wf_jobs_def)
  have "g i = g j" if "i \<in> set (jobs d)" "j \<in> set (jobs d)" "j_key (g i) \<noteq> None"
    "j_key (g i) = j_key (g j)" for i j
  proof -
    have "i = j" using that assms(1) unfolding g wf_jobs_def by blast
    then show ?thesis by simp
  qed
  then have "\<forall>i\<in>set (map g (jobs d)). \<forall>j\<in>set (map g (jobs d)).
      j_key i \<noteq> None \<longrightarrow> j_key i = j_key j \<longrightarrow> i = j" by (auto simp del: g)
  moreover have sel: "jobs (d\<lparr>jobs := x\<rparr>) = x" "next_job (d\<lparr>jobs := x\<rparr>) = next_job d" for x
    by simp_all
  ultimately show ?thesis unfolding wf_jobs_def u sel using ids below by blast
qed

lemma wf_jobs_lease: "wf_jobs d \<Longrightarrow> wf_jobs (snd (lease q d))"
  unfolding lease_def by (auto split: option.splits intro: wf_jobs_upd simp: lease_row_def)

lemma wf_jobs_complete: "wf_jobs d \<Longrightarrow> wf_jobs (complete i d)"
  unfolding complete_def by (rule wf_jobs_upd) simp_all

lemma wf_jobs_fail: "wf_jobs d \<Longrightarrow> wf_jobs (fail jb e p d)"
  unfolding fail_def Let_def by (auto intro: wf_jobs_upd)

lemma wf_jobs_reap: "wf_jobs d \<Longrightarrow> wf_jobs (snd (reap_expired d))"
  unfolding reap_expired_def by (auto intro: wf_jobs_upd)

section \<open>Leasing\<close>

lemma lease_Some:
  assumes "lease q d = (Some jb, d')"
  obtains j where "j \<in> set (jobs d)" "leasable d q j" "jb = job_of_row (lease_row d j)"
    "d' = d\<lparr>jobs := upd (\<lambda>r. j_id r = j_id j) (lease_row d) (jobs d)\<rparr>"
    "\<forall>i\<in>set (jobs d). leasable d q i \<longrightarrow> j_id j \<le> j_id i"
proof -
  from assms obtain j where j: "least_by (int \<circ> j_id) (sel (leasable d q) (jobs d)) = Some j"
    and r: "jb = job_of_row (lease_row d j)"
    "d' = d\<lparr>jobs := upd (\<lambda>r. j_id r = j_id j) (lease_row d) (jobs d)\<rparr>"
    by (auto simp: lease_def split: option.splits)
  from least_by_SomeD [OF j] r show ?thesis by (intro that) auto
qed

lemma lease_None: "fst (lease q d) = None \<longleftrightarrow> (\<forall>j\<in>set (jobs d). \<not> leasable d q j)"
  by (auto simp: lease_def split: option.splits dest!: least_by_SomeD)
    (auto simp: sel_def filter_empty_conv)

lemma lease_frame [simp, frame]:
  "touches (snd (lease q d)) = touches d" "prospects (snd (lease q d)) = prospects d"
  "counters (snd (lease q d)) = counters d" "now (snd (lease q d)) = now d"
  "suppressions (snd (lease q d)) = suppressions d" "tombstones (snd (lease q d)) = tombstones d"
  "locked_jobs (snd (lease q d)) = locked_jobs d" "entities (snd (lease q d)) = entities d"
  by (auto simp: lease_def split: option.splits)

text \<open>A leased job is not handed out again while its row stays leased.\<close>

lemma lease_exclusive:
  assumes "wf_jobs d" and "lease q d = (Some a, d1)" and "lease q' d1 = (Some b, d2)"
  shows "jb_id b \<noteq> jb_id a"
proof
  assume eq: "jb_id b = jb_id a"
  from assms(2) obtain j where j: "j \<in> set (jobs d)" "a = job_of_row (lease_row d j)"
    and d1: "d1 = d\<lparr>jobs := upd (\<lambda>r. j_id r = j_id j) (lease_row d) (jobs d)\<rparr>" by (rule lease_Some)
  from assms(3) obtain i where i: "i \<in> set (jobs d1)" "leasable d1 q' i"
    "b = job_of_row (lease_row d1 i)" by (rule lease_Some)
  with eq j have "j_id i = j_id j" by (simp add: job_of_row_def lease_row_def)
  with i(1) d1 have "j_status i = Leased"
    by (auto simp: set_upd lease_row_def split: if_splits)
  with i(2) show False by (simp add: leasable_def)
qed

end
