(* ===== verification/Safety.thy ===== *)
theory Safety
  imports Canonical Jobs
begin

text \<open>
  The safety services every outbound path consults: \<open>core/control.py\<close> (halt and kill-switch
  flags), \<open>core/suppression.py\<close> (who may not be contacted) and \<open>core/escalations.py\<close> (the
  hand-off to a human).
\<close>

definition GLOBAL_SCOPE :: pystr where
  "GLOBAL_SCOPE = ''global''"

definition HUMAN_ACTOR_PREFIX :: pystr where
  "HUMAN_ACTOR_PREFIX = ''operator:''"

definition human :: "pystr \<Rightarrow> bool" where
  "human actor \<longleftrightarrow> startswith actor HUMAN_ACTOR_PREFIX"

section \<open>control.py\<close>

definition halt :: "pystr \<Rightarrow> pystr \<Rightarrow> pystr \<Rightarrow> db \<Rightarrow> db" where
  "halt scope actor flag d =
     enqueue_key ''control'' [(''op'', JStr ''pause_all_campaigns''), (''scope'', JStr scope)]
       (fstr [''halt:'', scope, '':'', flag])
       (d\<lparr>flags := upsert (\<lambda>f. cf_scope f = scope) (\<lambda>f. f\<lparr>cf_flag := flag, cf_by := actor\<rparr>)
             \<lparr>cf_scope = scope, cf_flag = flag, cf_by = actor\<rparr> (flags d)\<rparr>)"

definition resume :: "pystr \<Rightarrow> pystr \<Rightarrow> db \<Rightarrow> exc + bool \<times> db" where
  "resume scope actor d =
     (if \<not> human actor
      then Inl (ResumeRequiresHumanError
             (fstr [''resume requires a human operator actor, got '', py_repr actor, '' (invariant I-2)'']))
      else Inr (0 < cnt (\<lambda>f. cf_scope f = scope) (flags d),
                audit ''control_flag'' scope ''resume'' [] actor
                  (d\<lparr>flags := del (\<lambda>f. cf_scope f = scope) (flags d)\<rparr>)))"

definition halted_scopes :: "db \<Rightarrow> pystr \<Rightarrow> pystr list" where
  "halted_scopes d tenant =
     map cf_scope (sel (\<lambda>f. cf_scope f = GLOBAL_SCOPE \<or> cf_scope f = tenant) (flags d))"

section \<open>suppression.py\<close>

definition suppress ::
  "pystr \<Rightarrow> pystr \<Rightarrow> pystr \<Rightarrow> int option \<Rightarrow> bool \<Rightarrow> db \<Rightarrow> exc + pystr \<times> db" where
  "suppress email scope reason expires_at propagate d =
     bindE (canonicalize (idna d) email) (\<lambda>canonical.
       let d1 = d\<lparr>suppressions :=
             upsert (\<lambda>s. s_email s = canonical \<and> s_scope s = scope)
               (\<lambda>s. s\<lparr>s_reason := reason, s_expires := expires_at, s_created := epoch (now d)\<rparr>)
               \<lparr>s_email = canonical, s_scope = scope, s_reason = reason, s_expires = expires_at,
                s_created = epoch (now d)\<rparr> (suppressions d)\<rparr>;
           d2 = (if propagate
                 then enqueue_key ''control''
                   [(''op'', JStr ''pause_lead''), (''email_canonical'', JStr canonical), (''scope'', JStr scope)]
                   (fstr [''pause:'', canonical, '':'', scope, '':'', reason]) d1
                 else d1)
       in Inr (canonical, d2))"

definition live_suppression :: "db \<Rightarrow> pystr \<Rightarrow> pystr \<Rightarrow> bool" where
  "live_suppression d email tenant \<longleftrightarrow>
     (\<exists>s\<in>set (suppressions d). s_email s = email \<and> (s_scope s = GLOBAL_SCOPE \<or> s_scope s = tenant)
        \<and> not_expired d s)"

definition is_suppressed :: "db \<Rightarrow> pystr \<Rightarrow> pystr \<Rightarrow> exc + bool" where
  "is_suppressed d email tenant =
     bindE (tombstone_hash (idna d) email) (\<lambda>h.
       Inr (live_suppression d email tenant \<or> (\<exists>t\<in>set (tombstones d). tb_hash t = h)))"

text \<open>\<open>except ValueError\<close> covers only the canonicalization: \<open>InvalidEmailError\<close> is one.\<close>

definition screen_at_ingest :: "db \<Rightarrow> pystr \<Rightarrow> pystr \<Rightarrow> exc + bool" where
  "screen_at_ingest d email_raw tenant =
     (case canonicalize (idna d) email_raw of
        Inl _ \<Rightarrow> Inr False
      | Inr canonical \<Rightarrow> bindE (is_suppressed d canonical tenant) (\<lambda>b. Inr (\<not> b)))"

section \<open>escalations.py\<close>

definition escalate ::
  "pystr option \<Rightarrow> pystr \<Rightarrow> pystr \<Rightarrow> pystr \<Rightarrow> payload \<Rightarrow> db \<Rightarrow> db" where
  "escalate tenant ty subj reason pl d =
     (let (i, d1) = fresh_uuid d
      in d1\<lparr>escalations := ins \<lparr>es_id = i, es_tenant = tenant, es_type = ty, es_subject = subj,
              es_reason = reason, es_payload = pl, es_open = True, es_created = epoch (now d),
              es_resolved_at = None, es_by = None\<rparr> (escalations d)\<rparr>)"

definition list_open :: "db \<Rightarrow> pystr option \<Rightarrow> escalation_row list" where
  "list_open d tenant =
     sort_key es_created (sel (\<lambda>e. es_open e \<and> (tenant = None \<or> es_tenant e = tenant)) (escalations d))"

definition resolve_escalation :: "uuid \<Rightarrow> pystr \<Rightarrow> pystr \<Rightarrow> db \<Rightarrow> exc + bool \<times> db" where
  "resolve_escalation i actor note d =
     (if \<not> human actor
      then Inl (PermissionError (fstr [''resolving escalations requires a human actor, got '', py_repr actor]))
      else
        let P = (\<lambda>e. es_id e = i \<and> es_open e); n = cnt P (escalations d);
            d1 = d\<lparr>escalations := upd P (\<lambda>e. e\<lparr>es_open := False, es_resolved_at := Some (epoch (now d)),
                   es_by := Some actor\<rparr>) (escalations d)\<rparr>
        in Inr (0 < n, if 0 < n then audit ''escalation'' i ''resolved'' [(''note'', JStr note)] actor d1 else d1))"

section \<open>Frames\<close>

lemma escalate_frame [simp, frame]:
  "touches (escalate t ty s r pl d) = touches d" "prospects (escalate t ty s r pl d) = prospects d"
  "entities (escalate t ty s r pl d) = entities d" "counters (escalate t ty s r pl d) = counters d"
  "suppressions (escalate t ty s r pl d) = suppressions d" "jobs (escalate t ty s r pl d) = jobs d"
  "tombstones (escalate t ty s r pl d) = tombstones d" "now (escalate t ty s r pl d) = now d"
  "flags (escalate t ty s r pl d) = flags d" "replies (escalate t ty s r pl d) = replies d"
  "tenants (escalate t ty s r pl d) = tenants d" "vstats (escalate t ty s r pl d) = vstats d"
  "next_job (escalate t ty s r pl d) = next_job d" "idna (escalate t ty s r pl d) = idna d"
  "audits (escalate t ty s r pl d) = audits d" "tasks (escalate t ty s r pl d) = tasks d"
  "evidence (escalate t ty s r pl d) = evidence d" "rng (escalate t ty s r pl d) = rng d"
  "entity_keys (escalate t ty s r pl d) = entity_keys d"
  by (simp_all add: escalate_def fresh_uuid_def)

lemma suppress_frame [frame]:
  assumes "suppress e sc r x p d = Inr (c, d')"
  shows "touches d' = touches d" "prospects d' = prospects d" "entities d' = entities d"
    "counters d' = counters d" "tombstones d' = tombstones d" "now d' = now d" "flags d' = flags d"
    "idna d' = idna d" "vstats d' = vstats d" "replies d' = replies d" "tenants d' = tenants d"
    "pevents d' = pevents d" "audits d' = audits d" "rng d' = rng d" "draws d' = draws d"
  using assms by (auto simp: suppress_def bindE_eq_Inr Let_def split: if_splits)

lemma halt_frame [simp, frame]:
  "touches (halt s a f d) = touches d" "counters (halt s a f d) = counters d"
  "suppressions (halt s a f d) = suppressions d" "now (halt s a f d) = now d"
  "tombstones (halt s a f d) = tombstones d" "prospects (halt s a f d) = prospects d"
  by (simp_all add: halt_def)

section \<open>Halting\<close>

lemma halt_halts: "scope = GLOBAL_SCOPE \<or> scope = t \<Longrightarrow> scope \<in> set (halted_scopes (halt scope actor flag d) t)"
proof -
  assume sc: "scope = GLOBAL_SCOPE \<or> scope = t"
  have "\<exists>f\<in>set (flags (halt scope actor flag d)). cf_scope f = scope"
    unfolding halt_def by (simp, rule upsert_ex) auto
  then obtain f where f: "f \<in> set (flags (halt scope actor flag d))" "cf_scope f = scope" by blast
  with sc have "f \<in> {r \<in> set (flags (halt scope actor flag d)).
      cf_scope r = GLOBAL_SCOPE \<or> cf_scope r = t}" by auto
  then have "cf_scope f \<in> set (halted_scopes (halt scope actor flag d) t)"
    unfolding halted_scopes_def set_map set_sel by (rule imageI)
  then show ?thesis by (simp only: f(2))
qed

lemma halted_scopes_empty:
  "halted_scopes d t = [] \<longleftrightarrow> (\<forall>f\<in>set (flags d). cf_scope f \<noteq> GLOBAL_SCOPE \<and> cf_scope f \<noteq> t)"
  by (auto simp: halted_scopes_def sel_def filter_empty_conv)

lemma resume_not_human: "\<not> human actor \<Longrightarrow> \<exists>e. resume scope actor d = Inl e"
  by (simp add: resume_def)

section \<open>Suppression\<close>

text \<open>The interface the send path and the event handlers rely on.\<close>

locale suppression_service =
  fixes supp :: "pystr \<Rightarrow> pystr \<Rightarrow> pystr \<Rightarrow> 's \<Rightarrow> exc + 's"
    and blocked :: "'s \<Rightarrow> pystr \<Rightarrow> pystr \<Rightarrow> bool"
    and canon :: "'s \<Rightarrow> pystr \<Rightarrow> exc + pystr"
  assumes supp_blocks: "supp e sc r s = Inr s' \<Longrightarrow> canon s e = Inr c \<Longrightarrow>
      sc = GLOBAL_SCOPE \<or> sc = t \<Longrightarrow> blocked s' c t"
    and supp_monotone: "supp e sc r s = Inr s' \<Longrightarrow> blocked s a t \<Longrightarrow> blocked s' a t"
    and supp_canon: "supp e sc r s = Inr s' \<Longrightarrow> canon s' x = canon s x"
    and supp_ok: "canon s e = Inr c \<Longrightarrow> \<exists>s'. supp e sc r s = Inr s'"
begin

text \<open>Suppressing a list of addresses one by one blocks every one of them.\<close>

lemma suppress_all_blocks:
  assumes "foldE (\<lambda>e. supp e GLOBAL_SCOPE r) es s = Inr s'" and "e \<in> set es" and "canon s e = Inr c"
  shows "blocked s' c t"
  using assms
proof (induction es arbitrary: s)
  case (Cons x es)
  from Cons.prems(1) obtain s1 where s1: "supp x GLOBAL_SCOPE r s = Inr s1"
    "foldE (\<lambda>e. supp e GLOBAL_SCOPE r) es s1 = Inr s'" by (auto simp: bindE_eq_Inr)
  have keep: "blocked u a t" if "foldE (\<lambda>e. supp e GLOBAL_SCOPE r) ys v = Inr u" "blocked v a t" for ys u v a
    using that by (rule foldE_invariant [where I = "\<lambda>s. blocked s a t"]) (rule supp_monotone)
  show ?case
  proof (cases "e = x")
    case True
    with s1(1) Cons.prems(3) have "blocked s1 c t" by (auto intro: supp_blocks)
    with s1(2) show ?thesis by (rule keep)
  next
    case False
    with Cons.prems(2) have "e \<in> set es" by simp
    with s1 Cons.prems(3) show ?thesis by (intro Cons.IH [of s1]) (simp_all add: supp_canon)
  qed
qed simp

text \<open>Two spellings of one address block each other.\<close>

lemma alias_blocked:
  assumes "supp e GLOBAL_SCOPE r s = Inr s'" and "canon s e = Inr c" and "canon s e' = Inr c"
  shows "\<exists>a. canon s' e' = Inr a \<and> blocked s' a t"
  using assms supp_blocks supp_canon by metis

end

definition supp_unbounded :: "pystr \<Rightarrow> pystr \<Rightarrow> pystr \<Rightarrow> db \<Rightarrow> exc + db" where
  "supp_unbounded e sc r d = bindE (suppress e sc r None True d) (\<lambda>(c, d'). Inr d')"

lemma live_suppression_suppress:
  assumes "suppress e sc r None p d = Inr (c, d')" and "sc = GLOBAL_SCOPE \<or> sc = t"
  shows "live_suppression d' c t"
proof -
  have sup: "suppressions d' = upsert (\<lambda>s. s_email s = c \<and> s_scope s = sc)
      (\<lambda>s. s\<lparr>s_reason := r, s_expires := None, s_created := epoch (now d)\<rparr>)
      \<lparr>s_email = c, s_scope = sc, s_reason = r, s_expires = None, s_created = epoch (now d)\<rparr>
      (suppressions d)"
    using assms(1) by (auto simp: suppress_def bindE_eq_Inr Let_def split: if_splits)
  have "\<exists>s\<in>set (suppressions d'). s_email s = c \<and> s_scope s = sc \<and> s_expires s = None"
    unfolding sup by (rule upsert_ex) auto
  with assms(2) show ?thesis by (auto simp: live_suppression_def not_expired_def)
qed

lemma live_suppression_mono:
  assumes "suppress e sc r None p d = Inr (c, d')" and "live_suppression d a t"
  shows "live_suppression d' a t"
proof -
  from assms(2) obtain s where s: "s \<in> set (suppressions d)" "s_email s = a"
    "s_scope s = GLOBAL_SCOPE \<or> s_scope s = t" "not_expired d s" by (auto simp: live_suppression_def)
  let ?K = "\<lambda>s. s_email s = c \<and> s_scope s = sc"
  let ?f = "\<lambda>s. s\<lparr>s_reason := r, s_expires := None, s_created := epoch (now d)\<rparr>"
  have sup: "suppressions d' = upsert ?K ?f \<lparr>s_email = c, s_scope = sc, s_reason = r, s_expires = None,
      s_created = epoch (now d)\<rparr> (suppressions d)" and n: "now d' = now d"
    using assms(1) by (auto simp: suppress_def bindE_eq_Inr Let_def split: if_splits)
  have "(if ?K s then ?f s else s) \<in> set (suppressions d')"
    unfolding sup by (rule upsert_keep [OF s(1)])
  moreover have "not_expired d' (if ?K s then ?f s else s)"
    using s(4) unfolding not_expired_def n by (cases "?K s") auto
  ultimately show ?thesis using s(2,3) unfolding live_suppression_def
    by (intro bexI [of _ "if ?K s then ?f s else s"]) auto
qed

interpretation ps: suppression_service supp_unbounded
  "\<lambda>d a t. live_suppression d a t" "\<lambda>d. canonicalize (idna d)"
proof unfold_locales
  show "live_suppression s' c t"
    if "supp_unbounded e sc r s = Inr s'" "canonicalize (idna s) e = Inr c" "sc = GLOBAL_SCOPE \<or> sc = t"
    for e sc r s s' c t
  proof -
    from that(1) obtain c' where c: "suppress e sc r None True s = Inr (c', s')"
      by (auto simp: supp_unbounded_def bindE_eq_Inr)
    with that(2) have "c' = c" by (auto simp: suppress_def Let_def)
    with c that(3) show ?thesis by (auto intro: live_suppression_suppress)
  qed
  show "live_suppression s' a t" if "supp_unbounded e sc r s = Inr s'" "live_suppression s a t"
    for e sc r s s' a t
    using that by (auto simp: supp_unbounded_def bindE_eq_Inr intro: live_suppression_mono)
  show "canonicalize (idna s') x = canonicalize (idna s) x" if "supp_unbounded e sc r s = Inr s'"
    for e sc r s s' x
    using that by (auto simp: supp_unbounded_def bindE_eq_Inr dest: suppress_frame(8))
  show "\<exists>s'. supp_unbounded e sc r s = Inr s'" if "canonicalize (idna s) e = Inr c" for e sc r s c
    using that by (simp add: supp_unbounded_def suppress_def Let_def)
qed

end
