(* ===== verification/Entities.thy ===== *)
theory Entities
  imports Dryrun Safety
begin

text \<open>
  \<open>core/entity.py\<close>: the person or organisation behind a candidate, found by exact keys. Keys are
  unique over the whole table; the lookup is for the tenant's own entities.
\<close>

section \<open>Keys\<close>

definition phonedigits :: "pystr option \<Rightarrow> pystr" where
  "phonedigits phone =
     (let ds = filter is_digit (the_default [] phone) in drop (length ds - 10) ds)"

definition domain_of_site :: "pystr option \<Rightarrow> pystr" where
  "domain_of_site website =
     (case website of
        None \<Rightarrow> []
      | Some w \<Rightarrow>
          let rest = (case find_sub w ''//'' of None \<Rightarrow> w | Some i \<Rightarrow> drop (i + 2) w);
              host = lower (before_char (CHR ''/'') rest)
          in if startswith host ''www.'' then drop 4 host else host)"

definition ref_key :: "pystr \<Rightarrow> payload \<Rightarrow> (pystr \<times> pystr) list" where
  "ref_key name ref = (case map_of ref name of None \<Rightarrow> [] | Some j \<Rightarrow> if truthy j then [(name, jstr j)] else [])"

definition deterministic_keys :: "(pystr \<Rightarrow> pystr option) \<Rightarrow> candidate \<Rightarrow> (pystr \<times> pystr) list" where
  "deterministic_keys codec cand =
     (case cd_email cand of
        None \<Rightarrow> []
      | Some e \<Rightarrow> if e = [] then [] else
          (case canonicalize codec e of Inl _ \<Rightarrow> [] | Inr c \<Rightarrow> [(''email_canonical'', c)])) @
     ref_key ''npi'' (cd_ref cand) @ ref_key ''place_id'' (cd_ref cand) @
     (let dm = domain_of_site (cd_website cand); ph = phonedigits (cd_phone cand)
      in if dm \<noteq> [] \<and> ph \<noteq> [] then [(''domain_phone'', fstr [dm, ''|'', ph])] else [])"

section \<open>resolve_entity\<close>

record resolution =
  re_entity :: uuid
  re_created :: bool
  re_conflict :: bool

definition tenant_entity :: "db \<Rightarrow> uuid \<Rightarrow> uuid \<Rightarrow> bool" where
  "tenant_entity d tid eid \<longleftrightarrow> (\<exists>e\<in>set (entities d). e_id e = eid \<and> e_tenant e = tid)"

definition key_entity :: "db \<Rightarrow> uuid \<Rightarrow> pystr \<times> pystr \<Rightarrow> uuid option" where
  "key_entity d tid kv =
     map_option k_entity (fetch (\<lambda>k. k_type k = fst kv \<and> k_value k = snd kv \<and> tenant_entity d tid (k_entity k))
                            (entity_keys d))"

definition attach :: "uuid \<Rightarrow> pystr \<times> pystr \<Rightarrow> key_row list \<Rightarrow> key_row list" where
  "attach eid kv = insert_new (\<lambda>k. k_type k = fst kv \<and> k_value k = snd kv)
     \<lparr>k_entity = eid, k_type = fst kv, k_value = snd kv\<rparr>"

definition new_entity :: "uuid \<Rightarrow> uuid \<Rightarrow> pystr \<Rightarrow> entity_row" where
  "new_entity i tid name = \<lparr>e_id = i, e_tenant = tid, e_name = Some name, e_last_contact = None, e_active = None,
     e_touches = 0, e_status_active = True, e_referral = False\<rparr>"

definition resolve_entity :: "uuid \<Rightarrow> candidate \<Rightarrow> db \<Rightarrow> resolution \<times> db" where
  "resolve_entity tid cand d =
     (let keys = deterministic_keys (idna d) cand;
          matched = first_seen (List.map_filter (key_entity d tid) keys);
          (eid, d1) = (case matched of
              m # _ \<Rightarrow> (m, d)
            | [] \<Rightarrow> (let (i, d') = fresh_uuid d
                     in (i, d'\<lparr>entities := ins (new_entity i tid (cd_name cand)) (entities d')\<rparr>)))
      in (\<lparr>re_entity = eid, re_created = (matched = []), re_conflict = (1 < length matched)\<rparr>,
          d1\<lparr>entity_keys := fold (attach eid) keys (entity_keys d1)\<rparr>))"

section \<open>Resolving again finds the same entity\<close>

lemma hd_first_seen: "xs \<noteq> [] \<Longrightarrow> first_seen xs \<noteq> [] \<and> hd (first_seen xs) = hd xs"
proof (induction xs rule: rev_induct)
  case (snoc x xs)
  show ?case
  proof (cases "xs = []")
    case True
    then show ?thesis by (simp add: first_seen_def)
  next
    case False
    with snoc.IH have ih: "first_seen xs \<noteq> []" "hd (first_seen xs) = hd xs" by auto
    have "first_seen (xs @ [x]) = (if x \<in> set xs then first_seen xs else first_seen xs @ [x])"
      by (simp add: first_seen_def)
    with ih False show ?thesis by auto
  qed
qed simp

lemma set_first_seen [simp]: "set (first_seen xs) = set xs"
  by (simp add: first_seen_def)

lemma first_seen_Nil [simp]: "first_seen xs = [] \<longleftrightarrow> xs = []"
  by (simp add: first_seen_def)

text \<open>Keys once there keep their entity.\<close>

definition key_at :: "key_row list \<Rightarrow> pystr \<times> pystr \<Rightarrow> uuid option" where
  "key_at ks kv = map_option k_entity (fetch (\<lambda>k. k_type k = fst kv \<and> k_value k = snd kv) ks)"

lemma key_at_attach:
  "key_at (attach eid kv ks) kv' =
     (case key_at ks kv' of Some x \<Rightarrow> Some x | None \<Rightarrow> if kv' = kv then Some eid else None)"
proof (cases "\<exists>k\<in>set ks. k_type k = fst kv \<and> k_value k = snd kv")
  case True
  then have a: "attach eid kv ks = ks" by (simp add: attach_def insert_new_def)
  have "key_at ks kv \<noteq> None" using True by (simp add: key_at_def fetch_None)
  then show ?thesis unfolding a by (auto split: option.splits)
next
  case False
  then have "attach eid kv ks = ins \<lparr>k_entity = eid, k_type = fst kv, k_value = snd kv\<rparr> ks"
    by (auto simp: attach_def insert_new_def)
  then show ?thesis by (auto simp: key_at_def fetch_ins prod_eq_iff split: option.splits)
qed

lemma key_at_fold:
  "key_at (fold (attach eid) kvs ks) kv =
     (case key_at ks kv of Some x \<Rightarrow> Some x | None \<Rightarrow> if kv \<in> set kvs then Some eid else None)"
  by (induction kvs arbitrary: ks) (auto simp: key_at_attach split: option.splits)

text \<open>Every key of the candidate that is taken is taken by the tenant.\<close>

definition own_keys :: "db \<Rightarrow> uuid \<Rightarrow> candidate \<Rightarrow> bool" where
  "own_keys d tid cand \<longleftrightarrow>
     (\<forall>kv\<in>set (deterministic_keys (idna d) cand). \<forall>k\<in>set (entity_keys d).
        k_type k = fst kv \<and> k_value k = snd kv \<longrightarrow> tenant_entity d tid (k_entity k))"

lemma key_entity_own:
  assumes "\<And>k. k \<in> set (entity_keys d) \<Longrightarrow> k_type k = fst kv \<Longrightarrow> k_value k = snd kv \<Longrightarrow> tenant_entity d tid (k_entity k)"
  shows "key_entity d tid kv = key_at (entity_keys d) kv"
proof -
  have "fetch (\<lambda>k. k_type k = fst kv \<and> k_value k = snd kv \<and> tenant_entity d tid (k_entity k)) ks =
      fetch (\<lambda>k. k_type k = fst kv \<and> k_value k = snd kv) ks" if "set ks \<subseteq> set (entity_keys d)" for ks
    using that assms by (induction ks) auto
  then show ?thesis by (simp add: key_entity_def key_at_def)
qed

lemma set_fold_attach:
  "k \<in> set (fold (attach eid) kvs ks) \<Longrightarrow> k \<in> set ks \<or> (k_entity k = eid \<and> (k_type k, k_value k) \<in> set kvs)"
proof (induction kvs arbitrary: ks)
  case (Cons kv kvs)
  then have "k \<in> set (attach eid kv ks) \<or> (k_entity k = eid \<and> (k_type k, k_value k) \<in> set kvs)" by simp
  then show ?case by (auto simp: attach_def insert_new_def split: if_splits)
qed simp

lemma resolve_entity_again:
  assumes "own_keys d tid cand" and "resolve_entity tid cand d = (r, d1)"
    and "deterministic_keys (idna d) cand \<noteq> []"
  shows "re_entity (fst (resolve_entity tid cand d1)) = re_entity r \<and> \<not> re_created (fst (resolve_entity tid cand d1))"
proof -
  let ?keys = "deterministic_keys (idna d) cand"
  define matched where "matched = first_seen (List.map_filter (key_entity d tid) ?keys)"
  define eid where "eid = (case matched of m # _ \<Rightarrow> m | [] \<Rightarrow> fst (fresh_uuid d))"
  have ke: "key_entity d tid kv = key_at (entity_keys d) kv" if "kv \<in> set ?keys" for kv
    using assms(1) that by (intro key_entity_own) (auto simp: own_keys_def)
  have r: "re_entity r = eid" "entity_keys d1 = fold (attach eid) ?keys (entity_keys d)" "idna d1 = idna d"
    "set (entities d) \<subseteq> set (entities d1)" "matched = [] \<Longrightarrow> tenant_entity d1 tid eid"
    using assms(2) unfolding eid_def matched_def [symmetric]
    by (auto simp: resolve_entity_def Let_def matched_def [symmetric] fresh_uuid_def tenant_entity_def new_entity_def
        split: list.splits)
  obtain kv rest where k: "?keys = kv # rest" using assms(3) by (cases ?keys) auto
  have at1: "key_at (entity_keys d1) kv = Some eid"
  proof (cases "key_at (entity_keys d) kv")
    case None
    then show ?thesis unfolding r(2) key_at_fold by (simp add: k)
  next
    case (Some x)
    have "List.map_filter (key_entity d tid) ?keys \<noteq> [] \<and> hd (List.map_filter (key_entity d tid) ?keys) = x"
      using ke [of kv] Some by (simp add: k List.map_filter_def)
    with hd_first_seen have "matched \<noteq> []" "hd matched = x" unfolding matched_def by blast+
    then have "eid = x" by (cases matched) (simp_all add: eid_def)
    with Some show ?thesis unfolding r(2) key_at_fold by simp
  qed
  have own1: "tenant_entity d1 tid (k_entity q)" if "q \<in> set (entity_keys d1)" "k_type q = fst kv" "k_value q = snd kv" for q
  proof -
    have mono: "tenant_entity d tid x \<Longrightarrow> tenant_entity d1 tid x" for x
      using r(4) by (auto simp: tenant_entity_def)
    from set_fold_attach [of q eid ?keys "entity_keys d"] that(1) r(2)
    consider "q \<in> set (entity_keys d)" | "k_entity q = eid" by auto
    then show ?thesis
    proof cases
      case 1
      have "kv \<in> set ?keys" by (simp add: k)
      with assms(1) 1 that(2,3) have "tenant_entity d tid (k_entity q)" unfolding own_keys_def by blast
      then show ?thesis by (rule mono)
    next
      case 2
      show ?thesis
      proof (cases "matched = []")
        case True
        with r(5) 2 show ?thesis by simp
      next
        case False
        then have "eid \<in> set matched" by (cases matched) (simp_all add: eid_def)
        then have "eid \<in> set (List.map_filter (key_entity d tid) ?keys)" by (simp add: matched_def)
        then obtain kv' where "key_entity d tid kv' = Some eid" by (auto simp: List.map_filter_def)
        then have "tenant_entity d tid eid" by (auto simp: key_entity_def dest: fetch_SomeD)
        with mono 2 show ?thesis by simp
      qed
    qed
  qed
  have "key_entity d1 tid kv = Some eid" using key_entity_own [of d1 kv tid] own1 at1 by simp
  then have "List.map_filter (key_entity d1 tid) ?keys = eid # List.map_filter (key_entity d1 tid) rest"
    by (simp add: k List.map_filter_def)
  then have "List.map_filter (key_entity d1 tid) ?keys \<noteq> []"
    "hd (List.map_filter (key_entity d1 tid) ?keys) = eid" by simp_all
  with hd_first_seen have "first_seen (List.map_filter (key_entity d1 tid) ?keys) \<noteq> []"
    "hd (first_seen (List.map_filter (key_entity d1 tid) ?keys)) = eid" by metis+
  then obtain rest' where m1: "first_seen (List.map_filter (key_entity d1 tid) ?keys) = eid # rest'"
    by (metis list.collapse)
  then show ?thesis by (simp add: resolve_entity_def Let_def r(1,3) m1 del: first_seen_Nil)
qed

end
