(* ===== verification/Proposals.thy ===== *)
theory Proposals
  imports Safety
begin

text \<open>
  \<open>core/proposals.py\<close> (the propose, approve and decline loop of the discovery agent, and the
  policy that lets some kinds apply without a human) and \<open>core/sender_profile.py\<close> (the one way
  researched content becomes trusted, through a human's approval). The model call that drafts
  a profile is an argument.
\<close>

section \<open>proposals.py\<close>

definition DECLINE_MEMORY_DAYS :: int where
  "DECLINE_MEMORY_DAYS = 90"

definition AUTO_APPLICABLE :: "pystr list" where
  "AUTO_APPLICABLE = [''budget_shift'', ''rebalance'']"

definition remembered :: "db \<Rightarrow> proposal_row \<Rightarrow> bool" where
  "remembered d p \<longleftrightarrow> pr_status p = Prop_open \<or>
     pr_status p = Prop_declined \<and>
     (case pr_resolved_at p of None \<Rightarrow> False | Some t \<Rightarrow> t > epoch (now d) - DECLINE_MEMORY_DAYS * 86400)"

definition propose ::
  "pystr \<Rightarrow> pystr \<Rightarrow> pystr \<Rightarrow> payload \<Rightarrow> payload \<Rightarrow> pystr option \<Rightarrow> db \<Rightarrow> uuid option \<times> db" where
  "propose tenant kind summary pl ev dedupe d =
     (if (case dedupe of None \<Rightarrow> False | Some k \<Rightarrow> k \<noteq> [] \<and>
            (\<exists>p\<in>set (proposals d). pr_tenant p = tenant \<and> pr_key p = Some k \<and> remembered d p))
      then (None, d)
      else let (i, d1) = fresh_uuid d
           in (Some i, d1\<lparr>proposals := ins \<lparr>pr_id = i, pr_tenant = tenant, pr_kind = kind, pr_summary = summary,
                 pr_payload = pl, pr_evidence = ev, pr_status = Prop_open, pr_key = dedupe,
                 pr_created = epoch (now d), pr_resolved_at = None, pr_by = None\<rparr> (proposals d1)\<rparr>))"

definition open_proposals :: "db \<Rightarrow> pystr option \<Rightarrow> proposal_row list" where
  "open_proposals d tenant =
     sort_key pr_created (sel (\<lambda>p. pr_status p = Prop_open \<and> (tenant = None \<or> tenant = Some (pr_tenant p))) (proposals d))"

definition get_open :: "db \<Rightarrow> uuid \<Rightarrow> proposal_row option" where
  "get_open d i = fetch (\<lambda>p. pr_id p = i \<and> pr_status p = Prop_open) (proposals d)"

definition audit_proposal :: "uuid \<Rightarrow> pystr \<Rightarrow> pystr \<Rightarrow> payload \<Rightarrow> db \<Rightarrow> db" where
  "audit_proposal i event actor pl d = audit ''proposal'' i event pl actor d"

definition decline :: "uuid \<Rightarrow> pystr \<Rightarrow> pystr \<Rightarrow> db \<Rightarrow> exc + bool \<times> db" where
  "decline i actor note d =
     (if \<not> human actor
      then Inl (PermissionError (fstr [''declining a proposal requires a human actor, got '', py_repr actor]))
      else
        let P = (\<lambda>p. pr_id p = i \<and> pr_status p = Prop_open); n = cnt P (proposals d);
            d1 = d\<lparr>proposals := upd P (\<lambda>p. p\<lparr>pr_status := Prop_declined, pr_resolved_at := Some (epoch (now d)),
                   pr_by := Some actor\<rparr>) (proposals d)\<rparr>
        in Inr (0 < n, if 0 < n then audit_proposal i ''declined'' actor [(''note'', JStr note)] d1 else d1))"

definition cohort_cap :: "pystr \<Rightarrow> db \<Rightarrow> counter_row \<Rightarrow> bool" where
  "cohort_cap cohort d c \<longleftrightarrow> c_type c = Cohort_month \<and> c_id c = cohort \<and> c_period c = month_str (now d)"

text \<open>\<open>int(x)\<close> on the payload's amount: a JSON integer, a truth value or a text of one.\<close>

fun digits :: "nat \<Rightarrow> pystr \<Rightarrow> nat option" where
  "digits acc [] = Some acc"
| "digits acc (c # s) = (if is_digit c then digits (acc * 10 + (code c - 48)) s else None)"

definition to_int :: "json \<Rightarrow> exc + int" where
  "to_int j = (case j of
       JInt i \<Rightarrow> Inr i | JBool b \<Rightarrow> Inr (if b then 1 else 0)
     | JNum r \<Rightarrow> Inr (if r < 0 then - \<lfloor>- r\<rfloor> else \<lfloor>r\<rfloor>)
     | JStr s \<Rightarrow> (let t = strip s; sg = (case t of [] \<Rightarrow> [] | c # u \<Rightarrow> if c = CHR ''-'' \<or> c = CHR ''+'' then u else t)
          in case (if sg = [] then None else digits 0 sg) of
               None \<Rightarrow> Inl (ValueError ''invalid literal for int()'')
             | Some n \<Rightarrow> Inr (if startswith t ''-'' then - int n else int n))
     | _ \<Rightarrow> Inl (OtherError ''TypeError''))"

definition shift_cap :: "int \<Rightarrow> pystr \<Rightarrow> db \<Rightarrow> db" where
  "shift_cap delta cohort d =
     d\<lparr>counters := upd (cohort_cap cohort d) (\<lambda>c. c\<lparr>c_cap := max (c_cap c + delta) 0\<rparr>) (counters d)\<rparr>"

definition apply_shift :: "payload \<Rightarrow> db \<Rightarrow> exc + db" where
  "apply_shift pl d =
     bindE (jget pl ''amount'') (\<lambda>a. bindE (to_int a) (\<lambda>delta.
       bindE (jget_str pl ''from_cohort'') (\<lambda>src. bindE (jget_str pl ''to_cohort'') (\<lambda>dst.
         Inr (shift_cap delta dst (shift_cap (- delta) src d))))))"

definition apply_proposal :: "proposal_row \<Rightarrow> db \<Rightarrow> exc + db" where
  "apply_proposal p d =
     (if pr_kind p = ''rebalance'' \<and> map_of (pr_payload p) ''action'' = Some (JStr ''pause'')
      then bindE (jget_str (pr_payload p) ''cohort'') (\<lambda>c.
             Inr (d\<lparr>counters := upd (cohort_cap c d) (\<lambda>r. r\<lparr>c_cap := 0\<rparr>) (counters d)\<rparr>))
      else if pr_kind p \<noteq> ''rebalance'' \<and> pr_kind p \<noteq> ''budget_shift'' then Inr d
      else apply_shift (pr_payload p) d)"

definition approve :: "uuid \<Rightarrow> pystr \<Rightarrow> bool \<Rightarrow> db \<Rightarrow> exc + bool \<times> db" where
  "approve i actor auto d =
     (if \<not> auto \<and> \<not> human actor
      then Inl (PermissionError (fstr [''approving a proposal requires a human actor, got '', py_repr actor]))
      else (case get_open d i of
          None \<Rightarrow> Inr (False, d)
        | Some p \<Rightarrow>
            if auto \<and> pr_kind p \<notin> set AUTO_APPLICABLE
            then Inl (PermissionError (fstr [''proposal kind '', py_repr (pr_kind p),
                   '' is always-human; cannot auto-apply (FR-0.3)'']))
            else bindE (apply_proposal p d) (\<lambda>d1.
              Inr (True, audit_proposal i ''approved'' actor
                     [(''kind'', JStr (pr_kind p)), (''auto'', JBool auto)]
                     (d1\<lparr>proposals := upd (\<lambda>q. pr_id q = i) (\<lambda>q. q\<lparr>pr_status := Prop_approved,
                         pr_resolved_at := Some (epoch (now d1)), pr_by := Some actor\<rparr>) (proposals d1)\<rparr>)))))"

fun review_all :: "proposal_row list \<Rightarrow> db \<Rightarrow> exc + uuid list \<times> db" where
  "review_all [] d = Inr ([], d)"
| "review_all (p # ps) d =
     (if pr_kind p \<in> set AUTO_APPLICABLE
      then bindE (approve (pr_id p) ''system:autonomy'' True d) (\<lambda>(ok, d1).
             bindE (review_all ps d1) (\<lambda>(is, d2). Inr (if ok then pr_id p # is else is, d2)))
      else review_all ps d)"

definition auto_review :: "pystr \<Rightarrow> pystr \<Rightarrow> db \<Rightarrow> exc + uuid list \<times> db" where
  "auto_review tenant cohort_launch d =
     (if cohort_launch \<noteq> ''auto_within_budget'' then Inr ([], d)
      else review_all (open_proposals d (Some tenant)) d)"

section \<open>sender_profile.py\<close>

definition propose_profile ::
  "exc + (pystr \<times> pystr \<times> pystr) list \<Rightarrow> pystr \<Rightarrow> db \<Rightarrow> exc + uuid \<times> db" where
  "propose_profile research tenant d =
     bindE research (\<lambda>facts. let (i, d1) = fresh_uuid d
       in Inr (i, d1\<lparr>profiles := ins \<lparr>sp_id = i, sp_tenant = tenant, sp_facts = facts, sp_status = Prof_proposed,
            sp_by = None, sp_created = epoch (now d), sp_resolved_at = None\<rparr> (profiles d1)\<rparr>))"

definition approve_profile :: "uuid \<Rightarrow> pystr \<Rightarrow> db \<Rightarrow> exc + bool \<times> db" where
  "approve_profile i actor d =
     (if \<not> human actor
      then Inl (PermissionError (fstr [''sender-profile approval requires a human, got '', py_repr actor]))
      else
        let P = (\<lambda>r. sp_id r = i \<and> sp_status r = Prof_proposed); t = Some (epoch (now d))
        in (case fetch P (profiles d) of
              None \<Rightarrow> Inr (False, d)
            | Some row \<Rightarrow>
                let ps = upd P (\<lambda>r. r\<lparr>sp_status := Prof_approved, sp_by := Some actor, sp_resolved_at := t\<rparr>) (profiles d);
                    ps' = upd (\<lambda>r. sp_tenant r = sp_tenant row \<and> sp_status r = Prof_approved \<and> sp_id r \<noteq> i)
                            (\<lambda>r. r\<lparr>sp_status := Prof_superseded, sp_resolved_at := t\<rparr>) ps
                in Inr (True, audit ''sender_profile'' i ''approved'' [] actor (d\<lparr>profiles := ps'\<rparr>))))"

text \<open>\<open>ORDER BY resolved_at DESC LIMIT 1\<close>; the slugs of a profile's facts are the keys.\<close>

definition approved_facts :: "db \<Rightarrow> pystr \<Rightarrow> (pystr \<times> pystr) list" where
  "approved_facts d tenant =
     (case least_by (\<lambda>r. - the_default 0 (sp_resolved_at r))
             (sel (\<lambda>r. sp_tenant r = tenant \<and> sp_status r = Prof_approved) (profiles d)) of
        None \<Rightarrow> []
      | Some r \<Rightarrow> rev (map (\<lambda>(sl, f, u). (sl, f)) (sp_facts r)))"

section \<open>Proposals\<close>

lemma open_blocks:
  assumes "p \<in> set (proposals d)" and "pr_tenant p = tenant" and "pr_key p = Some k" and "k \<noteq> []" and "remembered d p"
  shows "propose tenant kind s pl ev (Some k) d = (None, d)"
  using assms by (auto simp: propose_def)

lemma apply_proposal_frame:
  "apply_proposal p d = Inr d' \<Longrightarrow> d' = d\<lparr>counters := counters d'\<rparr>"
  by (auto simp: apply_proposal_def apply_shift_def shift_cap_def bindE_eq_Inr split: if_splits)

lemma approve_True:
  assumes "approve i actor auto d = Inr (True, d')"
  obtains p d1 pl where "get_open d i = Some p" "apply_proposal p d = Inr d1" "auto \<or> human actor"
    "auto \<longrightarrow> pr_kind p \<in> set AUTO_APPLICABLE"
    "d' = audit_proposal i ''approved'' actor pl
       (d1\<lparr>proposals := upd (\<lambda>q. pr_id q = i) (\<lambda>q. q\<lparr>pr_status := Prop_approved,
          pr_resolved_at := Some (epoch (now d1)), pr_by := Some actor\<rparr>) (proposals d1)\<rparr>)"
proof (cases "\<not> auto \<and> \<not> human actor")
  case True
  with assms show ?thesis by (simp add: approve_def)
next
  case False
  show ?thesis
  proof (cases "get_open d i")
    case None
    with assms False show ?thesis by (simp add: approve_def)
  next
    case (Some p)
    have k: "auto \<longrightarrow> pr_kind p \<in> set AUTO_APPLICABLE"
      using assms False Some unfolding approve_def by (cases "auto \<and> pr_kind p \<notin> set AUTO_APPLICABLE") simp_all
    with assms False Some obtain d1 where d1: "apply_proposal p d = Inr d1"
      unfolding approve_def by (cases "apply_proposal p d") auto
    have n: "\<not> (auto \<and> pr_kind p \<notin> set AUTO_APPLICABLE)" using k by blast
    have "d' = audit_proposal i ''approved'' actor [(''kind'', JStr (pr_kind p)), (''auto'', JBool auto)]
       (d1\<lparr>proposals := upd (\<lambda>q. pr_id q = i) (\<lambda>q. q\<lparr>pr_status := Prop_approved,
          pr_resolved_at := Some (epoch (now d1)), pr_by := Some actor\<rparr>) (proposals d1)\<rparr>)"
      using assms n unfolding approve_def if_not_P [OF False] Some option.case if_not_P [OF n] d1 by simp
    then show ?thesis using False by (intro that [OF Some d1 _ k]) auto
  qed
qed

lemma upd_clears:
  "(\<And>r. P r \<Longrightarrow> \<not> Q (f r)) \<Longrightarrow> (\<And>r. \<not> P r \<Longrightarrow> \<not> Q r) \<Longrightarrow> \<forall>r\<in>set (upd P f t). \<not> Q r"
  by (induction t) auto

lemma approve_closes:
  assumes "approve i actor auto d = Inr (True, d')"
  shows "get_open d' i = None"
proof (rule approve_True [OF assms])
  fix p d1 pl assume "d' = audit_proposal i ''approved'' actor pl
       (d1\<lparr>proposals := upd (\<lambda>q. pr_id q = i) (\<lambda>q. q\<lparr>pr_status := Prop_approved,
          pr_resolved_at := Some (epoch (now d1)), pr_by := Some actor\<rparr>) (proposals d1)\<rparr>)"
  then have "proposals d' = upd (\<lambda>q. pr_id q = i) (\<lambda>q. q\<lparr>pr_status := Prop_approved,
          pr_resolved_at := Some (epoch (now d1)), pr_by := Some actor\<rparr>) (proposals d1)"
    by (simp only: audit_proposal_def audit_frame) simp
  then have e: "proposals d' = upd (\<lambda>q. pr_id q = i) (\<lambda>q. q\<lparr>pr_status := Prop_approved,
          pr_resolved_at := Some (epoch (now d1)), pr_by := Some actor\<rparr>) (proposals d1)" .
  have "\<forall>q\<in>set (proposals d'). \<not> (pr_id q = i \<and> pr_status q = Prop_open)"
    unfolding e by (rule upd_clears) simp_all
  then show ?thesis unfolding get_open_def fetch_None .
qed

text \<open>The total of the caps of the month's cohorts, and what a shift does to it.\<close>

definition total_cap :: "db \<Rightarrow> int" where
  "total_cap d = sum_list (map c_cap (counters d))"

lemma total_shift:
  "total_cap (shift_cap delta cohort d) =
     total_cap d + sum_list (map (\<lambda>c. max (c_cap c + delta) 0 - c_cap c) (filter (cohort_cap cohort d) (counters d)))"
  using sum_list_map_cond_update [of c_cap "cohort_cap cohort d" "\<lambda>c. c\<lparr>c_cap := max (c_cap c + delta) 0\<rparr>" "counters d"]
  by (simp add: total_cap_def shift_cap_def upd_def)

section \<open>Profiles\<close>

text \<open>One approved profile per tenant.\<close>

definition one_approved :: "db \<Rightarrow> bool" where
  "one_approved d \<longleftrightarrow> (\<forall>a\<in>set (profiles d). \<forall>b\<in>set (profiles d).
     sp_status a = Prof_approved \<longrightarrow> sp_status b = Prof_approved \<longrightarrow> sp_tenant a = sp_tenant b \<longrightarrow> sp_id a = sp_id b)"

lemma approve_profile_cases:
  assumes "approve_profile i actor d = Inr (b, d')"
  shows "human actor" and "\<not> b \<Longrightarrow> d' = d"
  using assms by (auto simp: approve_profile_def Let_def split: if_splits option.splits)

end
