(* ===== verification/Gatekeeper.thy ===== *)
theory Gatekeeper
  imports Validators
begin

text \<open>
  \<open>core/gatekeeper.py\<close>: the gates of the single send path, in their pinned order, against the
  storage protocol \<open>GateStore\<close>. The protocol is a record of operations over a state \<open>'s\<close>; a
  query may raise, an operation returns the new state. \<open>claim\<close> never raises: an exception of
  any gate becomes an \<open>INTERNAL\<close> refusal, with the state as the gates before it left it. The
  per-gate results dictionary reaches the outside only through \<open>persist_claim\<close>.
\<close>

section \<open>Types\<close>

datatype refusal_reason =
  HALTED | VALIDATION | SUPPRESSED | FREQUENCY | BUDGET | NO_CAPACITY | CONFIDENCE | INTERNAL

fun reason_str :: "refusal_reason \<Rightarrow> pystr" where
  "reason_str HALTED = ''halted''" | "reason_str VALIDATION = ''validation''"
| "reason_str SUPPRESSED = ''suppressed''" | "reason_str FREQUENCY = ''frequency''"
| "reason_str BUDGET = ''budget''" | "reason_str NO_CAPACITY = ''no_capacity''"
| "reason_str CONFIDENCE = ''confidence''" | "reason_str INTERNAL = ''internal''"

datatype gate_profile = COLD | REPLY | FOLLOWUP

record refusal =
  rf_reason :: refusal_reason
  rf_detail :: pystr
  rf_terminal :: bool

record claimed_touch =
  ct_touch :: uuid
  ct_tenant :: pystr
  ct_mailbox :: pystr
  ct_sha :: pystr
  ct_recipient :: pystr

record draft_touch =
  dt_touch :: uuid
  dt_tenant :: pystr
  dt_entity :: uuid
  dt_email :: pystr
  dt_draft :: draft
  dt_hash :: pystr
  dt_grounded :: "pystr option"
  dt_profile :: gate_profile
  dt_ctx :: vctx
  dt_cohort :: pystr
  dt_prospect :: uuid

datatype claim_result = Granted claimed_touch | Refused refusal

type_synonym gate_results = "(pystr \<times> pystr) list"

record 's gate_store =
  gs_halted_scopes :: "'s \<Rightarrow> pystr \<Rightarrow> exc + pystr list"
  gs_is_suppressed :: "'s \<Rightarrow> pystr \<Rightarrow> pystr \<Rightarrow> exc + bool"
  gs_frequency_ok :: "'s \<Rightarrow> uuid \<Rightarrow> pystr \<Rightarrow> exc + bool"
  gs_continuation_ok :: "'s \<Rightarrow> uuid \<Rightarrow> uuid \<Rightarrow> exc + bool"
  gs_try_consume :: "pystr \<Rightarrow> draft_touch \<Rightarrow> 's \<Rightarrow> exc + bool \<times> 's"
  gs_release :: "pystr \<Rightarrow> draft_touch \<Rightarrow> 's \<Rightarrow> exc + 's"
  gs_pick_mailbox :: "pystr \<Rightarrow> 's \<Rightarrow> exc + pystr option \<times> 's"
  gs_confidence :: "'s \<Rightarrow> pystr \<Rightarrow> pystr \<Rightarrow> exc + bool"
  gs_persist :: "draft_touch \<Rightarrow> pystr \<Rightarrow> gate_results \<Rightarrow> 's \<Rightarrow> exc + 's"

section \<open>claim\<close>

definition refuse :: "pystr \<Rightarrow> refusal_reason \<Rightarrow> bool \<Rightarrow> pystr \<Rightarrow> claim_result" where
  "refuse gate reason terminal detail =
     Refused \<lparr>rf_reason = reason, rf_detail = (if detail = [] then gate else detail), rf_terminal = terminal\<rparr>"

definition internal :: "exc \<Rightarrow> claim_result" where
  "internal e = Refused \<lparr>rf_reason = INTERNAL, rf_detail = exc_repr e, rf_terminal = False\<rparr>"

definition findings_detail :: "finding list \<Rightarrow> pystr" where
  "findings_detail fs = join ''; '' (map (\<lambda>f. fstr [violation_str (fi_code f), '':'', fi_detail f]) fs)"

definition volume :: "gate_profile \<Rightarrow> bool" where
  "volume p \<longleftrightarrow> p = COLD \<or> p = FOLLOWUP"

text \<open>Gates 1 to 4: no side effect. \<open>Inr\<close> carries the results so far.\<close>

definition claim_checks ::
  "registry \<Rightarrow> 's gate_store \<Rightarrow> draft_touch \<Rightarrow> 's \<Rightarrow> claim_result + gate_results" where
  "claim_checks reg S t s =
    (case gs_halted_scopes S s (dt_tenant t) of Inl e \<Rightarrow> Inl (internal e) | Inr scopes \<Rightarrow>
     if scopes \<noteq> [] then Inl (refuse ''halt'' HALTED False []) else
     if content_hash (dt_draft t) \<noteq> dt_hash t then Inl (refuse ''content_hash'' VALIDATION True []) else
     case validate reg (dt_draft t) (dt_ctx t) of Inl e \<Rightarrow> Inl (internal e) | Inr findings \<Rightarrow>
     if findings \<noteq> [] then Inl (refuse ''validators'' VALIDATION True (findings_detail findings)) else
     if dt_grounded t \<noteq> Some (dt_hash t) then Inl (refuse ''groundedness'' VALIDATION True []) else
     case gs_is_suppressed S s (dt_email t) (dt_tenant t) of Inl e \<Rightarrow> Inl (internal e) | Inr hit \<Rightarrow>
     if hit then Inl (refuse ''suppression'' SUPPRESSED True []) else
     let results = [(''halt'', ''pass''), (''validators'', ''pass''), (''suppression'', ''pass'')]
     in case dt_profile t of
       COLD \<Rightarrow>
         (case gs_frequency_ok S s (dt_entity t) (dt_tenant t) of Inl e \<Rightarrow> Inl (internal e) | Inr ok \<Rightarrow>
          if \<not> ok then Inl (refuse ''frequency'' FREQUENCY True [])
          else Inr (results @ [(''frequency'', ''pass'')]))
     | FOLLOWUP \<Rightarrow>
         (case gs_continuation_ok S s (dt_entity t) (dt_prospect t) of Inl e \<Rightarrow> Inl (internal e) | Inr ok \<Rightarrow>
          if \<not> ok then Inl (refuse ''frequency'' FREQUENCY True [])
          else Inr (results @ [(''frequency'', ''pass(continuation)'')]))
     | REPLY \<Rightarrow> Inr results)"

text \<open>Giving the budget back when a gate after it refuses.\<close>

definition give_back ::
  "'s gate_store \<Rightarrow> draft_touch \<Rightarrow> claim_result \<Rightarrow> 's \<Rightarrow> claim_result \<times> 's" where
  "give_back S t r s =
     (if volume (dt_profile t)
      then (case gs_release S (dt_tenant t) t s of Inl e \<Rightarrow> (internal e, s) | Inr s' \<Rightarrow> (r, s'))
      else (r, s))"

text \<open>Gates 6 to 8: mailbox, confidence, persist.\<close>

definition claim_mailbox ::
  "'s gate_store \<Rightarrow> draft_touch \<Rightarrow> gate_results \<Rightarrow> 's \<Rightarrow> claim_result \<times> 's" where
  "claim_mailbox S t results s =
    (case gs_pick_mailbox S (dt_tenant t) s of Inl e \<Rightarrow> (internal e, s)
     | Inr (None, s1) \<Rightarrow> give_back S t (refuse ''mailbox'' NO_CAPACITY False []) s1
     | Inr (Some mailbox, s1) \<Rightarrow>
       (case gs_confidence S s1 (dt_email t) (dt_tenant t) of Inl e \<Rightarrow> (internal e, s1) | Inr ok \<Rightarrow>
        if \<not> ok then give_back S t (refuse ''confidence'' CONFIDENCE True []) s1 else
        case gs_persist S t mailbox
               (results @ [(''mailbox'', mailbox), (''confidence'', ''pass'')]) s1 of
          Inl e \<Rightarrow> (internal e, s1)
        | Inr s2 \<Rightarrow> (Granted \<lparr>ct_touch = dt_touch t, ct_tenant = dt_tenant t, ct_mailbox = mailbox,
                               ct_sha = dt_hash t, ct_recipient = dt_email t\<rparr>, s2)))"

definition claim ::
  "registry \<Rightarrow> 's gate_store \<Rightarrow> draft_touch \<Rightarrow> 's \<Rightarrow> claim_result \<times> 's" where
  "claim reg S t s =
    (case claim_checks reg S t s of
       Inl r \<Rightarrow> (r, s)
     | Inr results \<Rightarrow>
         if volume (dt_profile t)
         then (case gs_try_consume S (dt_tenant t) t s of Inl e \<Rightarrow> (internal e, s)
               | Inr (ok, s1) \<Rightarrow>
                   if \<not> ok then (refuse ''budget'' BUDGET False [], s1)
                   else claim_mailbox S t (results @ [(''budget'', ''pass'')]) s1)
         else claim_mailbox S t results s)"

section \<open>reissue\<close>

record snapshot =
  sn_touch :: uuid
  sn_tenant :: pystr
  sn_mailbox :: pystr
  sn_sha :: pystr
  sn_recipient :: pystr

definition reissue :: "(uuid \<Rightarrow> exc + snapshot option) \<Rightarrow> uuid \<Rightarrow> claim_result" where
  "reissue load_claimed i =
     (case load_claimed i of
        Inl e \<Rightarrow> internal e
      | Inr None \<Rightarrow> Refused \<lparr>rf_reason = VALIDATION, rf_detail = ''not claimed/sendable'', rf_terminal = True\<rparr>
      | Inr (Some sn) \<Rightarrow> Granted \<lparr>ct_touch = sn_touch sn, ct_tenant = sn_tenant sn,
          ct_mailbox = sn_mailbox sn, ct_sha = sn_sha sn, ct_recipient = sn_recipient sn\<rparr>)"

section \<open>What a granted claim has passed\<close>

lemma refuse_internal_not_Granted [simp]:
  "refuse g r t dt \<noteq> Granted c" "internal e \<noteq> Granted c"
  by (simp_all add: refuse_def internal_def)

lemma give_back_not_Granted:
  "(\<And>c. r \<noteq> Granted c) \<Longrightarrow> fst (give_back S t r s) \<noteq> Granted c"
  by (auto simp: give_back_def split: sum.splits)

text \<open>The gates without side effect, as conditions on the store.\<close>

definition checks_pass :: "registry \<Rightarrow> 's gate_store \<Rightarrow> draft_touch \<Rightarrow> 's \<Rightarrow> bool" where
  "checks_pass reg S t s \<longleftrightarrow>
     gs_halted_scopes S s (dt_tenant t) = Inr [] \<and>
     content_hash (dt_draft t) = dt_hash t \<and>
     validate reg (dt_draft t) (dt_ctx t) = Inr [] \<and>
     dt_grounded t = Some (dt_hash t) \<and>
     gs_is_suppressed S s (dt_email t) (dt_tenant t) = Inr False \<and>
     (dt_profile t = COLD \<longrightarrow> gs_frequency_ok S s (dt_entity t) (dt_tenant t) = Inr True) \<and>
     (dt_profile t = FOLLOWUP \<longrightarrow> gs_continuation_ok S s (dt_entity t) (dt_prospect t) = Inr True)"

lemma claim_checks_Inr: "(\<exists>results. claim_checks reg S t s = Inr results) \<longleftrightarrow> checks_pass reg S t s"
  by (auto simp: claim_checks_def checks_pass_def Let_def split: sum.splits gate_profile.splits if_splits)

lemma claim_checks_Inl: "claim_checks reg S t s = Inl r \<Longrightarrow> r \<noteq> Granted c"
  by (auto simp: claim_checks_def Let_def split: sum.splits gate_profile.splits if_splits)

lemma claim_mailbox_Granted:
  assumes "claim_mailbox S t results s = (Granted c, s')"
  obtains m s1 where "gs_pick_mailbox S (dt_tenant t) s = Inr (Some m, s1)"
    "gs_confidence S s1 (dt_email t) (dt_tenant t) = Inr True"
    "gs_persist S t m (results @ [(''mailbox'', m), (''confidence'', ''pass'')]) s1 = Inr s'"
    "c = \<lparr>ct_touch = dt_touch t, ct_tenant = dt_tenant t, ct_mailbox = m, ct_sha = dt_hash t,
          ct_recipient = dt_email t\<rparr>"
proof -
  have gb: "give_back S t (refuse g rs tm dt) s1 \<noteq> (Granted c, s')" for g rs tm dt s1
    using give_back_not_Granted [of "refuse g rs tm dt" S t s1 c] by (metis fst_conv refuse_internal_not_Granted(1))
  from assms that show ?thesis
    by (auto simp: claim_mailbox_def gb split: sum.splits prod.splits option.splits if_splits)
qed

lemma claim_Granted:
  assumes "claim reg S t s = (Granted c, s')"
  obtains results s0 where "checks_pass reg S t s"
    "volume (dt_profile t) \<Longrightarrow> gs_try_consume S (dt_tenant t) t s = Inr (True, s0)"
    "\<not> volume (dt_profile t) \<Longrightarrow> s0 = s"
    "claim_mailbox S t results s0 = (Granted c, s')"
proof (cases "claim_checks reg S t s")
  case (Inl r)
  with assms claim_checks_Inl [OF Inl] show ?thesis by (auto simp: claim_def)
next
  case (Inr results)
  then have "\<exists>results. claim_checks reg S t s = Inr results" by blast
  then have "checks_pass reg S t s" by (simp only: claim_checks_Inr)
  with assms Inr that show ?thesis
    by (auto simp: claim_def split: sum.splits prod.splits if_splits)
qed

section \<open>Refusals leave the volume ledger as it was\<close>

text \<open>
  What the gatekeeper needs of a store so that a refusal does not leak budget: a refused
  consumption changes nothing, a mailbox pick is not entered in the ledger, and a release
  undoes the consumption it follows.
\<close>

locale gate_ledger =
  fixes S :: "'s gate_store"
    and ledger :: "'s \<Rightarrow> 'l"
    and ok :: "'s \<Rightarrow> bool"
  assumes consume_refused: "ok s \<Longrightarrow> gs_try_consume S tn t s = Inr (False, s') \<Longrightarrow> ledger s' = ledger s"
    and consume_ok: "ok s \<Longrightarrow> gs_try_consume S tn t s = Inr (True, s') \<Longrightarrow> ok s'"
    and mailbox_ledger: "ok s \<Longrightarrow> gs_pick_mailbox S tn s = Inr (m, s') \<Longrightarrow> ledger s' = ledger s \<and> ok s'"
    and release_undoes: "ok s \<Longrightarrow> gs_try_consume S tn t s = Inr (True, s1) \<Longrightarrow> ok s2 \<Longrightarrow>
      ledger s2 = ledger s1 \<Longrightarrow> gs_release S tn t s2 = Inr s3 \<Longrightarrow> ledger s3 = ledger s"
begin

lemma mailbox_refusal:
  assumes "claim_mailbox S t results s1 = (Refused r, s')" and "rf_reason r \<noteq> INTERNAL" and "ok s1"
    and "\<not> volume (dt_profile t) \<Longrightarrow> ledger s1 = l"
    and "\<And>s2 s3. volume (dt_profile t) \<Longrightarrow> ok s2 \<Longrightarrow> ledger s2 = ledger s1 \<Longrightarrow>
      gs_release S (dt_tenant t) t s2 = Inr s3 \<Longrightarrow> ledger s3 = l"
  shows "ledger s' = l"
proof -
  have gb: "ledger s' = l" if "give_back S t q s2 = (Refused r, s')" "ok s2" "ledger s2 = ledger s1" for q s2
  proof (cases "volume (dt_profile t)")
    case False
    with that(1) have "s' = s2" by (simp add: give_back_def)
    with that(3) assms(4) [OF False] show ?thesis by simp
  next
    case True
    show ?thesis
    proof (cases "gs_release S (dt_tenant t) t s2")
      case (Inl e)
      with that(1) True have "r = r\<lparr>rf_reason := INTERNAL\<rparr>" by (auto simp: give_back_def internal_def)
      then have "rf_reason r = INTERNAL" by (metis refusal.select_convs(1) refusal.surjective refusal.update_convs(1))
      with assms(2) show ?thesis by blast
    next
      case (Inr s3)
      with that(1) True have "s' = s3" by (simp add: give_back_def)
      with assms(5) [OF True that(2,3) Inr] show ?thesis by simp
    qed
  qed
  show ?thesis
  proof (cases "gs_pick_mailbox S (dt_tenant t) s1")
    case (Inl e)
    with assms(1,2) show ?thesis by (auto simp: claim_mailbox_def internal_def)
  next
    case (Inr p)
    obtain m s2 where p: "p = (m, s2)" by (cases p)
    have k: "ledger s2 = ledger s1" "ok s2" using mailbox_ledger [OF assms(3), of "dt_tenant t" m s2] Inr p by auto
    show ?thesis
    proof (cases m)
      case None
      with assms(1) Inr p have "give_back S t (refuse ''mailbox'' NO_CAPACITY False []) s2 = (Refused r, s')"
        by (simp add: claim_mailbox_def)
      then show ?thesis by (rule gb [OF _ k(2,1)])
    next
      case (Some b)
      show ?thesis
      proof (cases "gs_confidence S s2 (dt_email t) (dt_tenant t) = Inr False")
        case True
        with assms(1) Inr p Some have "give_back S t (refuse ''confidence'' CONFIDENCE True []) s2 = (Refused r, s')"
          by (simp add: claim_mailbox_def)
        then show ?thesis by (rule gb [OF _ k(2,1)])
      next
        case False
        with assms(1,2) Inr p Some show ?thesis
          by (auto simp: claim_mailbox_def internal_def split: sum.splits if_splits)
      qed
    qed
  qed
qed

lemma refusal_keeps_ledger:
  assumes "claim reg S t s = (Refused r, s')" and "rf_reason r \<noteq> INTERNAL" and "ok s"
  shows "ledger s' = ledger s"
proof (cases "claim_checks reg S t s")
  case (Inl q)
  with assms(1) show ?thesis by (simp add: claim_def)
next
  case (Inr results)
  show ?thesis
  proof (cases "volume (dt_profile t)")
    case False
    with assms(1) Inr have "claim_mailbox S t results s = (Refused r, s')" by (simp add: claim_def)
    then show ?thesis by (rule mailbox_refusal [OF _ assms(2,3)]) (simp_all add: False)
  next
    case True
    show ?thesis
    proof (cases "gs_try_consume S (dt_tenant t) t s")
      case (Inl e)
      with assms Inr True show ?thesis by (auto simp: claim_def internal_def)
    next
      case c: (Inr p)
      obtain b s1 where p: "p = (b, s1)" by (cases p)
      show ?thesis
      proof (cases b)
        case False
        with assms(1) Inr True c p have "s' = s1" by (simp add: claim_def)
        moreover have "gs_try_consume S (dt_tenant t) t s = Inr (False, s1)" using c p False by simp
        ultimately show ?thesis using consume_refused [OF assms(3)] by blast
      next
        case b: True
        with assms(1) Inr True c p
        have cm: "claim_mailbox S t (results @ [(''budget'', ''pass'')]) s1 = (Refused r, s')"
          by (simp add: claim_def)
        have c': "gs_try_consume S (dt_tenant t) t s = Inr (True, s1)" using c p b by simp
        show ?thesis
          by (rule mailbox_refusal [OF cm assms(2) consume_ok [OF assms(3) c']])
            (simp add: True, rule release_undoes [OF assms(3) c'])
      qed
    qed
  qed
qed

end

end
