(* ===== verification/Store_pg.thy ===== *)
theory Store_pg
  imports Gatekeeper Safety
begin

text \<open>
  \<open>core/store_pg.py\<close>: the PostgreSQL gate store. Every method runs in one open transaction, so
  the state is the database; row locks make concurrent claims on one entity or counter wait,
  which is the atomicity of a transaction here.
\<close>

section \<open>Configuration\<close>

definition DEFAULT_MIN_CAMPAIGN_GAP_DAYS :: int where
  "DEFAULT_MIN_CAMPAIGN_GAP_DAYS = 90"

definition DEFAULT_ANNUAL_TOUCH_CAP :: int where
  "DEFAULT_ANNUAL_TOUCH_CAP = 8"

record pg_config =
  min_gap_days :: int
  annual_cap :: int

definition pg_default :: pg_config where
  "pg_default = \<lparr>min_gap_days = DEFAULT_MIN_CAMPAIGN_GAP_DAYS, annual_cap = DEFAULT_ANNUAL_TOUCH_CAP\<rparr>"

definition month :: "db \<Rightarrow> pystr" where
  "month d = month_str (now d)"

definition today :: "db \<Rightarrow> pystr" where
  "today d = today_str (now d)"

section \<open>Gates 4 and 4f: frequency\<close>

definition frequency_ok :: "pg_config \<Rightarrow> db \<Rightarrow> uuid \<Rightarrow> bool" where
  "frequency_ok cfg d eid =
     (case entity_of d eid of
        None \<Rightarrow> False
      | Some e \<Rightarrow>
          if e_active e \<noteq> None then False
          else if e_touches e \<ge> annual_cap cfg then False
          else (case e_last_contact e of
                  None \<Rightarrow> True
                | Some contact \<Rightarrow> \<not> (epoch (now d) - contact) div 86400 < min_gap_days cfg))"

definition sequence_continuation_ok :: "pg_config \<Rightarrow> db \<Rightarrow> uuid \<Rightarrow> uuid \<Rightarrow> bool" where
  "sequence_continuation_ok cfg d eid pid =
     (case entity_of d eid of
        None \<Rightarrow> False
      | Some e \<Rightarrow>
          (case Option.bind (e_active e) (touch_of d) of
             None \<Rightarrow> False
           | Some tc \<Rightarrow> if t_prospect tc \<noteq> pid then False else e_touches e < annual_cap cfg))"

section \<open>Gate 5: volume budgets\<close>

definition is_counter :: "scope_type \<Rightarrow> pystr \<Rightarrow> pystr \<Rightarrow> counter_row \<Rightarrow> bool" where
  "is_counter st si p c \<longleftrightarrow> c_type c = st \<and> c_id c = si \<and> c_period c = p"

text \<open>The guarded increment of one counter, with its row count.\<close>

definition consume_one :: "scope_type \<Rightarrow> pystr \<Rightarrow> db \<Rightarrow> nat \<times> db" where
  "consume_one st si d =
     (let P = (\<lambda>c. is_counter st si (month d) c \<and> c_used c < c_cap c)
      in (cnt P (counters d), d\<lparr>counters := upd P (\<lambda>c. c\<lparr>c_used := c_used c + 1\<rparr>) (counters d)\<rparr>))"

fun scope_str :: "scope_type \<Rightarrow> pystr" where
  "scope_str Tenant_month = ''tenant_month''"
| "scope_str Cohort_month = ''cohort_month''"
| "scope_str Mailbox_day = ''mailbox_day''"

definition adjust :: "scope_type \<Rightarrow> pystr \<Rightarrow> int \<Rightarrow> pystr \<Rightarrow> db \<Rightarrow> db" where
  "adjust st si delta why d =
     audit ''counter'' (fstr [scope_str st, '':'', si]) ''adjustment''
       [(''delta'', JInt delta), (''why'', JStr why)] ''system:gatekeeper''
       (d\<lparr>counters := upd (is_counter st si (month d))
             (\<lambda>c. c\<lparr>c_used := max (c_used c + delta) 0\<rparr>) (counters d)\<rparr>)"

definition try_consume_budget :: "pystr \<Rightarrow> draft_touch \<Rightarrow> db \<Rightarrow> bool \<times> db" where
  "try_consume_budget tenant t d =
     (let (n, d1) = consume_one Tenant_month tenant d
      in if n = 0 then (False, d1)
         else let (m, d2) = consume_one Cohort_month (dt_cohort t) d1
              in if m = 0 then (False, adjust Tenant_month tenant (- 1) ''cohort cap refusal'' d2)
                 else (True, d2))"

definition release_budget :: "pystr \<Rightarrow> draft_touch \<Rightarrow> db \<Rightarrow> db" where
  "release_budget tenant t d =
     adjust Cohort_month (dt_cohort t) (- 1) ''downstream refusal''
       (adjust Tenant_month tenant (- 1) ''downstream refusal'' d)"

section \<open>Gate 6: mailbox capacity\<close>

definition day_counter :: "pystr \<Rightarrow> mailbox_row \<Rightarrow> counter_row" where
  "day_counter p m = \<lparr>c_type = Mailbox_day, c_id = m_box m, c_period = p, c_used = 0, c_cap = m_cap m\<rparr>"

definition ensure_day_counters :: "pystr \<Rightarrow> db \<Rightarrow> db" where
  "ensure_day_counters tenant d =
     d\<lparr>counters := fold (\<lambda>m. insert_new (is_counter Mailbox_day (m_box m) (today d)) (day_counter (today d) m))
        (sel (\<lambda>m. m_tenant m = tenant) (mailboxes d)) (counters d)\<rparr>"

definition mailbox_open :: "pystr \<Rightarrow> db \<Rightarrow> counter_row \<Rightarrow> bool" where
  "mailbox_open tenant d c \<longleftrightarrow>
     c_type c = Mailbox_day \<and> c_period c = today d \<and> c_used c < c_cap c \<and>
     c_id c \<notin> set (locked_boxes d) \<and>
     (\<exists>m\<in>set (mailboxes d). m_box m = c_id c \<and> m_tenant m = tenant \<and> m_warm m)"

definition pick_mailbox :: "pystr \<Rightarrow> db \<Rightarrow> pystr option \<times> db" where
  "pick_mailbox tenant d =
     (let d1 = ensure_day_counters tenant d
      in case least_by c_used (sel (mailbox_open tenant d1) (counters d1)) of
           None \<Rightarrow> (None, d1)
         | Some c \<Rightarrow> (Some (c_id c),
             d1\<lparr>counters := upd (is_counter Mailbox_day (c_id c) (today d))
                   (\<lambda>c. c\<lparr>c_used := c_used c + 1\<rparr>) (counters d1)\<rparr>))"

section \<open>Gates 7 and 8\<close>

definition confidence_sendable :: "db \<Rightarrow> pystr \<Rightarrow> pystr \<Rightarrow> bool" where
  "confidence_sendable d email tenant \<longleftrightarrow>
     (\<exists>p\<in>set (prospects d). p_email p = Some email \<and> p_conf p = Some Verified \<and>
        slug_of d (p_tenant p) = Some tenant)"

definition persist_claim ::
  "draft_touch \<Rightarrow> pystr \<Rightarrow> gate_results \<Rightarrow> db \<Rightarrow> exc + db" where
  "persist_claim t mailbox results d =
     bindE (update_touch_status (\<lambda>r. t_id r = dt_touch t \<and> t_status r = Drafted)
              (\<lambda>r. r\<lparr>t_status := Claimed, t_claimed_at := Some (epoch (now d)), t_mailbox := Some mailbox\<rparr>) d)
       (\<lambda>(claimed, d1).
         if claimed = 0
         then Inl (RuntimeError (fstr [''touch '', dt_touch t, '' not in '', sq, ''drafted'', sq, '' state'']))
         else
           let d2 = (if volume (dt_profile t)
                     then d1\<lparr>entities := upd (\<lambda>e. e_id e = dt_entity t)
                            (\<lambda>e. e\<lparr>e_active := Some (dt_touch t), e_last_contact := Some (epoch (now d)),
                                   e_touches := e_touches e + 1\<rparr>) (entities d1)\<rparr>
                     else d1);
               d3 = d2\<lparr>traces := upsert (\<lambda>r. tr_touch r = dt_touch t)
                      (\<lambda>r. r\<lparr>tr_gates := results, tr_version := claim_registry_version (dt_ctx t)\<rparr>)
                      \<lparr>tr_touch = dt_touch t, tr_gates = results,
                       tr_version = claim_registry_version (dt_ctx t)\<rparr> (traces d2)\<rparr>
           in Inr (audit ''touch'' (dt_touch t) ''claimed'' [] ''system:gatekeeper'' d3))"

definition pg_store :: "pg_config \<Rightarrow> db gate_store" where
  "pg_store cfg = \<lparr>
     gs_halted_scopes = (\<lambda>d t. Inr (halted_scopes d t)),
     gs_is_suppressed = is_suppressed,
     gs_frequency_ok = (\<lambda>d e t. Inr (frequency_ok cfg d e)),
     gs_continuation_ok = (\<lambda>d e p. Inr (sequence_continuation_ok cfg d e p)),
     gs_try_consume = (\<lambda>tn t d. Inr (try_consume_budget tn t d)),
     gs_release = (\<lambda>tn t d. Inr (release_budget tn t d)),
     gs_pick_mailbox = (\<lambda>tn d. Inr (pick_mailbox tn d)),
     gs_confidence = (\<lambda>d e t. Inr (confidence_sendable d e t)),
     gs_persist = persist_claim\<rparr>"

section \<open>Dispatch reissue\<close>

text \<open>\<open>load_claimed\<close>: the join needs the prospect and the tenant row; halt and suppression are
  looked at again.\<close>

definition load_claimed :: "db \<Rightarrow> uuid \<Rightarrow> exc + snapshot option" where
  "load_claimed d i =
     (case fetch (\<lambda>t. t_id t = i \<and> t_status t = Claimed \<and> t_mailbox t \<noteq> None) (touches d) of
        None \<Rightarrow> Inr None
      | Some tc \<Rightarrow>
      (case prospect_of d (t_prospect tc) of
        None \<Rightarrow> Inr None
      | Some p \<Rightarrow>
      (case slug_of d (p_tenant p) of
        None \<Rightarrow> Inr None
      | Some tenant \<Rightarrow>
          if halted_scopes d tenant \<noteq> [] then Inr None
          else (case p_email p of
              None \<Rightarrow> Inr None
            | Some email \<Rightarrow> bindE (is_suppressed d email tenant) (\<lambda>hit.
                if hit then Inr None
                else Inr (Some \<lparr>sn_touch = i, sn_tenant = tenant, sn_mailbox = the_default [] (t_mailbox tc),
                       sn_sha = t_hash tc, sn_recipient = email\<rparr>))))))"

section \<open>Counters\<close>

text \<open>The table's primary key, and the bounds its writers keep.\<close>

definition counter_key :: "counter_row \<Rightarrow> scope_type \<times> pystr \<times> pystr" where
  "counter_key c = (c_type c, c_id c, c_period c)"

definition counters_ok :: "db \<Rightarrow> bool" where
  "counters_ok d \<longleftrightarrow> distinct (map counter_key (counters d)) \<and> (\<forall>c\<in>set (counters d). 0 \<le> c_used c)"

text \<open>The volume ledger: the month, and the counters that are not a mailbox's.\<close>

definition not_box :: "counter_row \<Rightarrow> bool" where
  "not_box c \<longleftrightarrow> c_type c \<noteq> Mailbox_day"

definition volume_ledger :: "db \<Rightarrow> pystr \<times> counter_row list" where
  "volume_ledger d = (month d, filter not_box (counters d))"

definition bump :: "(counter_row \<Rightarrow> bool) \<Rightarrow> (int \<Rightarrow> int) \<Rightarrow> counter_row list \<Rightarrow> counter_row list" where
  "bump P g = upd P (\<lambda>c. c\<lparr>c_used := g (c_used c)\<rparr>)"

lemma map_key_bump [simp]: "map counter_key (bump P g t) = map counter_key t"
  unfolding bump_def by (rule distinct_map_upd) (simp add: counter_key_def)

lemma bump_used_nonneg:
  "\<forall>c\<in>set t. 0 \<le> c_used c \<Longrightarrow> (\<And>u. 0 \<le> u \<Longrightarrow> 0 \<le> g u) \<Longrightarrow> \<forall>c\<in>set (bump P g t). 0 \<le> c_used c"
  unfolding bump_def by (rule list_all_upd) auto

lemma filter_bump_box:
  "(\<And>c. P c \<Longrightarrow> \<not> not_box c) \<Longrightarrow> filter not_box (bump P g t) = filter not_box t"
  unfolding bump_def by (induction t) (auto simp: not_box_def)

lemma filter_bump: "filter not_box (bump P g t) = bump P g (filter not_box t)"
  unfolding bump_def by (induction t) (auto simp: not_box_def)

text \<open>Adding one under the cap and taking it back is nothing.\<close>

lemma bump_undo:
  assumes "\<forall>c\<in>set t. 0 \<le> c_used c" and "\<forall>c\<in>set t. K c \<longrightarrow> c_used c < c_cap c"
    and "\<And>c u. K (c\<lparr>c_used := u\<rparr>) = K c"
  shows "bump K (\<lambda>u. max (u - 1) 0) (bump (\<lambda>c. K c \<and> c_used c < c_cap c) (\<lambda>u. u + 1) t) = t"
  using assms(1,2) by (induction t) (auto simp: bump_def assms(3))

lemma bump_disjoint_commute:
  assumes "\<And>c u. K (c\<lparr>c_used := u\<rparr>) = K c" "\<And>c u. Q (c\<lparr>c_used := u\<rparr>) = Q c" "\<And>c. K c \<Longrightarrow> \<not> Q c"
  shows "bump Q h (bump (\<lambda>c. K c \<and> R c) g t) = bump (\<lambda>c. K c \<and> R c) g (bump Q h t)"
  using assms by (induction t) (auto simp: bump_def)

lemma is_counter_used [simp]: "is_counter st si p (c\<lparr>c_used := u\<rparr>) = is_counter st si p c"
  by (simp add: is_counter_def)

lemma is_counter_unique:
  assumes "counters_ok d" and "c \<in> set (counters d)" "c' \<in> set (counters d)"
    and "is_counter st si p c" "is_counter st si p c'"
  shows "c = c'"
proof -
  have "inj_on counter_key (set (counters d))" using assms(1) by (simp add: counters_ok_def distinct_map)
  moreover have "counter_key c = counter_key c'" using assms(4,5) by (simp add: is_counter_def counter_key_def)
  ultimately show ?thesis using assms(2,3) by (blast dest: inj_onD)
qed

lemma consume_room:
  assumes "counters_ok d" and "fst (consume_one st si d) \<noteq> 0" and "c \<in> set (counters d)"
    and "is_counter st si (month d) c"
  shows "c_used c < c_cap c"
proof -
  from assms(2) have "0 < cnt (\<lambda>c. is_counter st si (month d) c \<and> c_used c < c_cap c) (counters d)"
    by (simp add: consume_one_def Let_def)
  then obtain c' where c': "c' \<in> set (counters d)" "is_counter st si (month d) c'" "c_used c' < c_cap c'"
    by (auto simp: cnt_pos)
  with is_counter_unique [OF assms(1) c'(1) assms(3) c'(2) assms(4)] show ?thesis by simp
qed

lemma consume_none: "fst (consume_one st si d) = 0 \<Longrightarrow> snd (consume_one st si d) = d"
  by (simp add: consume_one_def Let_def cnt_0 upd_no_match)

lemma counters_consume [simp]:
  "counters (snd (consume_one st si d)) =
     bump (\<lambda>c. is_counter st si (month d) c \<and> c_used c < c_cap c) (\<lambda>u. u + 1) (counters d)"
  by (simp add: consume_one_def Let_def bump_def)

lemma now_store [simp]:
  "now (snd (consume_one st si d)) = now d" "now (adjust st si k w d) = now d"
  "now (ensure_day_counters tn d) = now d"
  by (simp_all add: consume_one_def Let_def adjust_def ensure_day_counters_def)

lemma month_store [simp]:
  "month (snd (consume_one st si d)) = month d" "month (adjust st si k w d) = month d"
  by (simp_all add: month_def)

lemma counters_adjust [simp]:
  "counters (adjust st si k w d) = bump (is_counter st si (month d)) (\<lambda>u. max (u + k) 0) (counters d)"
  by (simp add: adjust_def bump_def)

lemma counters_ok_bump:
  assumes "counters_ok d" and "counters d' = bump P g (counters d)" and "\<And>u. 0 \<le> u \<Longrightarrow> 0 \<le> g u"
  shows "counters_ok d'"
proof -
  from assms(1) have nn: "\<forall>c\<in>set (counters d). 0 \<le> c_used c" by (simp add: counters_ok_def)
  have dk: "distinct (map counter_key (counters d))" using assms(1) by (simp add: counters_ok_def)
  have "\<forall>c\<in>set (bump P g (counters d)). 0 \<le> c_used c"
    using nn assms(3) by (rule bump_used_nonneg)
  with dk show ?thesis by (simp add: counters_ok_def assms(2))
qed

lemma counters_ok_consume: "counters_ok d \<Longrightarrow> counters_ok (snd (consume_one st si d))"
  using counters_ok_bump [OF _ counters_consume] by simp

lemma counters_ok_adjust: "counters_ok d \<Longrightarrow> counters_ok (adjust st si k w d)"
  using counters_ok_bump [OF _ counters_adjust] by simp

text \<open>The two consumptions, seen apart.\<close>

lemma try_consume_cases:
  obtains (tenant_full) "try_consume_budget tn t d = (False, d)"
  | (cohort_full) d1 where "d1 = snd (consume_one Tenant_month tn d)" "fst (consume_one Tenant_month tn d) \<noteq> 0"
      "try_consume_budget tn t d = (False, adjust Tenant_month tn (- 1) ''cohort cap refusal'' d1)"
  | (consumed) d1 where "d1 = snd (consume_one Tenant_month tn d)" "fst (consume_one Tenant_month tn d) \<noteq> 0"
      "fst (consume_one Cohort_month (dt_cohort t) d1) \<noteq> 0"
      "try_consume_budget tn t d = (True, snd (consume_one Cohort_month (dt_cohort t) d1))"
proof -
  let ?c = "consume_one Tenant_month tn d"
  let ?k = "consume_one Cohort_month (dt_cohort t) (snd ?c)"
  consider "fst ?c = 0" | "fst ?c \<noteq> 0" "fst ?k = 0" | "fst ?c \<noteq> 0" "fst ?k \<noteq> 0" by blast
  then show ?thesis
  proof cases
    case 1
    then have "try_consume_budget tn t d = (False, d)"
      using consume_none [OF 1] by (simp add: try_consume_budget_def split_beta)
    then show ?thesis by (rule tenant_full)
  next
    case 2
    then have "try_consume_budget tn t d = (False, adjust Tenant_month tn (- 1) ''cohort cap refusal'' (snd ?c))"
      using consume_none [OF 2(2)] by (simp add: try_consume_budget_def split_beta)
    then show ?thesis by (rule cohort_full [OF refl 2(1)])
  next
    case 3
    then have "try_consume_budget tn t d = (True, snd ?k)" by (simp add: try_consume_budget_def split_beta)
    then show ?thesis by (rule consumed [OF refl 3])
  qed
qed

text \<open>Consuming one and giving it back.\<close>

lemma consume_adjust:
  assumes "counters_ok d" and "fst (consume_one st si d) \<noteq> 0"
  shows "bump (is_counter st si (month d)) (\<lambda>u. max (u + - 1) 0) (counters (snd (consume_one st si d))) = counters d"
proof -
  have nn: "\<forall>c\<in>set (counters d). 0 \<le> c_used c" using assms(1) by (simp add: counters_ok_def)
  have room: "\<forall>c\<in>set (counters d). is_counter st si (month d) c \<longrightarrow> c_used c < c_cap c"
    using consume_room [OF assms] by blast
  show ?thesis using bump_undo [OF nn room is_counter_used] by simp
qed

section \<open>The store keeps the gatekeeper's contract\<close>

lemma box_counter [simp]:
  "is_counter Mailbox_day si p c \<Longrightarrow> \<not> not_box c"
  "is_counter Tenant_month si p c \<Longrightarrow> not_box c" "is_counter Cohort_month si p c \<Longrightarrow> not_box c"
  by (auto simp: is_counter_def not_box_def)

lemma filter_insert_new_day:
  "filter not_box (fold (\<lambda>m. insert_new (K m) (day_counter p m)) ms t) = filter not_box t"
  by (induction ms arbitrary: t) (auto simp: insert_new_def ins_def day_counter_def not_box_def)

lemma counters_ok_insert_day:
  assumes "distinct (map counter_key t) \<and> (\<forall>c\<in>set t. 0 \<le> c_used c)"
  shows "distinct (map counter_key (insert_new (is_counter Mailbox_day (m_box m) p) (day_counter p m) t)) \<and>
    (\<forall>c\<in>set (insert_new (is_counter Mailbox_day (m_box m) p) (day_counter p m) t). 0 \<le> c_used c)"
  using assms by (auto simp: insert_new_def ins_def day_counter_def counter_key_def is_counter_def)

lemma counters_ok_ensure: "counters_ok d \<Longrightarrow> counters_ok (ensure_day_counters tn d)"
  unfolding counters_ok_def ensure_day_counters_def
  by simp (rule fold_invariant_set [where I = "\<lambda>t. distinct (map counter_key t) \<and> (\<forall>c\<in>set t. 0 \<le> c_used c)"],
    simp, rule counters_ok_insert_day)

lemma pick_mailbox_cases:
  obtains (none) "pick_mailbox tn d = (None, ensure_day_counters tn d)"
      "\<forall>c\<in>set (counters (ensure_day_counters tn d)). \<not> mailbox_open tn (ensure_day_counters tn d) c"
  | (some) c where "c \<in> set (counters (ensure_day_counters tn d))" "mailbox_open tn (ensure_day_counters tn d) c"
      "fst (pick_mailbox tn d) = Some (c_id c)"
      "counters (snd (pick_mailbox tn d)) =
         bump (is_counter Mailbox_day (c_id c) (today d)) (\<lambda>u. u + 1) (counters (ensure_day_counters tn d))"
      "now (snd (pick_mailbox tn d)) = now d"
proof (cases "least_by c_used (sel (mailbox_open tn (ensure_day_counters tn d)) (counters (ensure_day_counters tn d)))")
  case None
  then show ?thesis by (intro none) (auto simp: pick_mailbox_def Let_def sel_def filter_empty_conv)
next
  case (Some c)
  from least_by_SomeD [OF Some] have "c \<in> set (counters (ensure_day_counters tn d))"
    "mailbox_open tn (ensure_day_counters tn d) c" by auto
  then show ?thesis using Some by (intro some [of c]) (simp_all add: pick_mailbox_def Let_def bump_def)
qed

lemma volume_ledger_pick: "volume_ledger (snd (pick_mailbox tn d)) = volume_ledger d"
proof (cases rule: pick_mailbox_cases [of tn d])
  case none
  then show ?thesis by (simp add: volume_ledger_def month_def) (simp add: ensure_day_counters_def filter_insert_new_day)
next
  case (some c)
  then show ?thesis by (simp add: volume_ledger_def month_def filter_bump_box)
      (simp add: ensure_day_counters_def filter_insert_new_day)
qed

lemma counters_ok_pick:
  assumes "counters_ok d" shows "counters_ok (snd (pick_mailbox tn d))"
proof (cases rule: pick_mailbox_cases [of tn d])
  case none
  then show ?thesis by (simp add: counters_ok_ensure [OF assms])
next
  case (some c)
  show ?thesis by (rule counters_ok_bump [OF counters_ok_ensure [OF assms] some(4)]) simp
qed

lemma volume_ledger_counters: "counters d' = counters d \<Longrightarrow> now d' = now d \<Longrightarrow> volume_ledger d' = volume_ledger d"
  by (simp add: volume_ledger_def month_def)

lemma consume_refused_ledger:
  assumes "counters_ok d" and "try_consume_budget tn t d = (False, d')"
  shows "volume_ledger d' = volume_ledger d"
proof (cases rule: try_consume_cases [of tn t d])
  case (cohort_full d1)
  with assms(2) have "counters d' = counters d" "now d' = now d"
    using consume_adjust [OF assms(1) cohort_full(2)] by auto
  then show ?thesis by (rule volume_ledger_counters)
qed (use assms in auto)

lemma consume_ok_counters:
  assumes "counters_ok d" and "try_consume_budget tn t d = (True, d')"
  shows "counters_ok d'"
  by (cases rule: try_consume_cases [of tn t d]) (use assms in \<open>auto intro!: counters_ok_consume\<close>)

lemma release_undoes_consume:
  assumes ok: "counters_ok d" and c: "try_consume_budget tn t d = (True, d1)"
    and eq: "volume_ledger d2 = volume_ledger d1"
  shows "volume_ledger (release_budget tn t d2) = volume_ledger d"
proof (cases rule: try_consume_cases [of tn t d])
  case (consumed e)
  let ?co = "dt_cohort t" and ?dec = "\<lambda>u::int. max (u + - 1) 0"
  from c consumed have d1: "d1 = snd (consume_one Cohort_month ?co e)" by simp
  have m: "month e = month d" "month d1 = month d" "month d2 = month d"
    using eq d1 consumed(1) by (simp_all add: volume_ledger_def)
  have oke: "counters_ok e" using ok consumed(1) by (simp add: counters_ok_consume)
  have bc: "bump (is_counter Cohort_month ?co (month d)) ?dec (counters d1) = counters e"
    using consume_adjust [OF oke consumed(3)] by (simp add: d1 m)
  have bt: "bump (is_counter Tenant_month tn (month d)) ?dec (counters e) = counters d"
    using consume_adjust [OF ok consumed(2)] by (simp add: consumed(1))
  have swap: "bump (is_counter Cohort_month ?co (month d)) ?dec (bump (is_counter Tenant_month tn (month d)) ?dec x) =
     bump (is_counter Tenant_month tn (month d)) ?dec (bump (is_counter Cohort_month ?co (month d)) ?dec x)" for x
    by (induction x) (auto simp: bump_def is_counter_def)
  have "filter not_box (counters (release_budget tn t d2)) =
      filter not_box (bump (is_counter Cohort_month ?co (month d)) ?dec
        (bump (is_counter Tenant_month tn (month d)) ?dec (counters d1)))"
    using eq by (simp add: release_budget_def m filter_bump volume_ledger_def)
  also have "\<dots> = filter not_box (counters d)" by (simp only: swap bc bt)
  finally show ?thesis by (simp add: volume_ledger_def release_budget_def m)
qed (use c in auto)

interpretation pg: gate_ledger "pg_store cfg" volume_ledger counters_ok
proof unfold_locales
  show "volume_ledger s' = volume_ledger s"
    if "counters_ok s" "gs_try_consume (pg_store cfg) tn t s = Inr (False, s')" for s tn t s'
    using that by (auto simp: pg_store_def intro: consume_refused_ledger)
  show "counters_ok s'"
    if "counters_ok s" "gs_try_consume (pg_store cfg) tn t s = Inr (True, s')" for s tn t s'
    using that by (auto simp: pg_store_def intro: consume_ok_counters)
  show "volume_ledger s' = volume_ledger s \<and> counters_ok s'"
    if "counters_ok s" "gs_pick_mailbox (pg_store cfg) tn s = Inr (m, s')" for s tn m s'
    using that volume_ledger_pick [of tn s] counters_ok_pick [of s tn] by (auto simp: pg_store_def)
  show "volume_ledger s3 = volume_ledger s"
    if "counters_ok s" "gs_try_consume (pg_store cfg) tn t s = Inr (True, s1)" "counters_ok s2"
      "volume_ledger s2 = volume_ledger s1" "gs_release (pg_store cfg) tn t s2 = Inr s3"
    for s tn t s1 s2 s3
    using that by (auto simp: pg_store_def intro: release_undoes_consume)
qed

section \<open>Persisting a claim\<close>

lemma persist_claim_Inr:
  assumes "persist_claim t mailbox results d = Inr d'"
  obtains tc where "tc \<in> set (touches d)" "t_id tc = dt_touch t" "t_status tc = Drafted"
    "touches d' = upd (\<lambda>r. t_id r = dt_touch t \<and> t_status r = Drafted)
       (\<lambda>r. r\<lparr>t_status := Claimed, t_claimed_at := Some (epoch (now d)), t_mailbox := Some mailbox\<rparr>) (touches d)"
    "counters d' = counters d" "suppressions d' = suppressions d" "prospects d' = prospects d"
    "entities d' = (if volume (dt_profile t) then upd (\<lambda>e. e_id e = dt_entity t)
        (\<lambda>e. e\<lparr>e_active := Some (dt_touch t), e_last_contact := Some (epoch (now d)),
               e_touches := e_touches e + 1\<rparr>) (entities d) else entities d)"
  using assms unfolding persist_claim_def
  by (auto simp: bindE_eq_Inr Let_def cnt_pos split: if_splits dest!: update_touch_status_Inr)

end
