(* ===== verification/Learning.thy ===== *)
theory Learning
  imports Config
begin

text \<open>
  \<open>stats/bandit.py\<close> and \<open>stats/persistence.py\<close>: Thompson sampling over the variants of a
  persona, the guardrails that pause a variant, and the table \<open>variant_stats\<close> they read and
  write. Rates are exact rationals where the code has floats; the \<open>k\<close>-th sample of the
  random generator is the argument \<open>beta k\<close>.
\<close>

section \<open>bandit.py\<close>

definition KAPPA :: rat where "KAPPA = 20"

definition TAU :: rat where "TAU = 50"

definition GUARDRAIL_MIN_TRIALS :: int where
  "GUARDRAIL_MIN_TRIALS = 10"

definition GUARDRAIL_LIMITS :: "(pystr \<times> rat) list" where
  "GUARDRAIL_LIMITS =
     [(''complaint_rate'', 2 / 1000), (''unsub_rate'', 2 / 100), (''bounce_rate'', 5 / 100)]"

record variant_arm =
  ar_id :: pystr
  ar_trials :: int
  ar_successes :: int
  ar_attrs :: "(pystr \<times> pystr) list"
  ar_paused :: bool
  ar_complaints :: int
  ar_unsubs :: int
  ar_bounces :: int

definition posterior :: "variant_arm \<Rightarrow> rat \<Rightarrow> rat \<times> rat" where
  "posterior a prior_p =
     (KAPPA * prior_p + of_int (ar_successes a),
      KAPPA * (1 - prior_p) + of_int (ar_trials a - ar_successes a))"

definition pooled_rate :: "int \<Rightarrow> int \<Rightarrow> rat \<Rightarrow> rat" where
  "pooled_rate s n global_rate = (of_int s + TAU * global_rate) / (of_int n + TAU)"

definition prior_for ::
  "(pystr \<times> pystr) list \<Rightarrow> (pystr \<times> pystr \<Rightarrow> rat option) \<Rightarrow> rat \<Rightarrow> rat" where
  "prior_for attributes effects global_rate =
     (if attributes = [] then global_rate
      else sum_list (map (\<lambda>kv. the_default global_rate (effects kv)) attributes)
             / of_nat (length attributes))"

definition sample_of ::
  "(nat \<Rightarrow> rat \<Rightarrow> rat \<Rightarrow> rat) \<Rightarrow> (pystr \<times> pystr \<Rightarrow> rat option) \<Rightarrow> rat \<Rightarrow> nat \<Rightarrow> variant_arm \<Rightarrow> rat" where
  "sample_of beta effects rate k a =
     (case posterior a (prior_for (ar_attrs a) effects rate) of (al, be) \<Rightarrow> beta k al be)"

text \<open>The loop over the live arms: a later arm wins only with a greater sample.\<close>

fun best_arm :: "(nat \<Rightarrow> variant_arm \<Rightarrow> rat) \<Rightarrow> nat \<Rightarrow> (rat \<times> variant_arm) option \<Rightarrow> variant_arm list \<Rightarrow>
  (rat \<times> variant_arm) option" where
  "best_arm f k best [] = best"
| "best_arm f k best (a # as) =
     best_arm f (Suc k)
       (case best of
          None \<Rightarrow> Some (f k a, a)
        | Some (x, b) \<Rightarrow> if f k a > x then Some (f k a, a) else Some (x, b)) as"

definition select ::
  "variant_arm list \<Rightarrow> (pystr \<times> pystr \<Rightarrow> rat option) \<Rightarrow> rat \<Rightarrow> (nat \<Rightarrow> rat \<Rightarrow> rat \<Rightarrow> rat) \<Rightarrow> exc + variant_arm" where
  "select arms effects rate beta =
     (case best_arm (sample_of beta effects rate) 0 None (filter (\<lambda>a. \<not> ar_paused a) arms) of
        None \<Rightarrow> Inl (ValueError ''no live variants to select from'')
      | Some (_, a) \<Rightarrow> Inr a)"

definition guardrail_breaches :: "variant_arm \<Rightarrow> pystr list" where
  "guardrail_breaches a =
     (if ar_trials a < GUARDRAIL_MIN_TRIALS then []
      else let n = rat_of_int (ar_trials a);
               rates = [(''complaint_rate'', rat_of_int (ar_complaints a) / n),
                        (''unsub_rate'', rat_of_int (ar_unsubs a) / n),
                        (''bounce_rate'', rat_of_int (ar_bounces a) / n)]
           in map fst (filter (\<lambda>(name, r). r > the_default 0 (map_of GUARDRAIL_LIMITS name)) rates))"

section \<open>persistence.py\<close>

datatype stat_column = Trials | Successes | Complaints | Unsubs | Bounces

fun bump_column :: "stat_column \<Rightarrow> vstat_row \<Rightarrow> vstat_row" where
  "bump_column Trials r = r\<lparr>v_trials := v_trials r + 1\<rparr>"
| "bump_column Successes r = r\<lparr>v_successes := v_successes r + 1\<rparr>"
| "bump_column Complaints r = r\<lparr>v_complaints := v_complaints r + 1\<rparr>"
| "bump_column Unsubs r = r\<lparr>v_unsubs := v_unsubs r + 1\<rparr>"
| "bump_column Bounces r = r\<lparr>v_bounces := v_bounces r + 1\<rparr>"

definition new_stats :: "pystr \<Rightarrow> pystr \<Rightarrow> (pystr \<times> pystr) list \<Rightarrow> vstat_row" where
  "new_stats tenant vid attrs = \<lparr>v_tenant = tenant, v_id = vid, v_attrs = attrs, v_trials = 0,
     v_successes = 0, v_complaints = 0, v_unsubs = 0, v_bounces = 0, v_paused = False\<rparr>"

definition is_stat :: "pystr \<Rightarrow> pystr \<Rightarrow> vstat_row \<Rightarrow> bool" where
  "is_stat tenant vid r \<longleftrightarrow> v_tenant r = tenant \<and> v_id r = vid"

definition upsert_stat :: "pystr \<Rightarrow> pystr \<Rightarrow> stat_column \<Rightarrow> db \<Rightarrow> db" where
  "upsert_stat tenant vid col d =
     d\<lparr>vstats := upsert (is_stat tenant vid) (bump_column col) (bump_column col (new_stats tenant vid []))
                  (vstats d)\<rparr>"

definition record_trial :: "pystr \<Rightarrow> pystr \<Rightarrow> (pystr \<times> pystr) list \<Rightarrow> db \<Rightarrow> db" where
  "record_trial tenant vid attrs d =
     d\<lparr>vstats := upsert (is_stat tenant vid) (bump_column Trials)
                  (bump_column Trials (new_stats tenant vid attrs)) (vstats d)\<rparr>"

definition record_success :: "pystr \<Rightarrow> pystr \<Rightarrow> db \<Rightarrow> db" where
  "record_success tenant vid = upsert_stat tenant vid Successes"

definition row_to_arm :: "vstat_row \<Rightarrow> variant_arm" where
  "row_to_arm r = \<lparr>ar_id = v_id r, ar_trials = v_trials r, ar_successes = v_successes r,
     ar_attrs = v_attrs r, ar_paused = v_paused r, ar_complaints = v_complaints r,
     ar_unsubs = v_unsubs r, ar_bounces = v_bounces r\<rparr>"

definition load_one :: "pystr \<Rightarrow> pystr \<Rightarrow> db \<Rightarrow> variant_arm option" where
  "load_one tenant vid d = map_option row_to_arm (fetch (is_stat tenant vid) (vstats d))"

definition record_guardrail :: "pystr \<Rightarrow> pystr \<Rightarrow> stat_column \<Rightarrow> db \<Rightarrow> bool \<times> db" where
  "record_guardrail tenant vid col d =
     (let d1 = upsert_stat tenant vid col d
      in case load_one tenant vid d1 of
           None \<Rightarrow> (False, d1)
         | Some arm \<Rightarrow>
             if ar_paused arm then (False, d1)
             else if guardrail_breaches arm = [] then (False, d1)
             else (True, audit ''variant'' vid ''guardrail_paused''
               [(''tenant'', JStr tenant), (''breaches'', JList (map JStr (guardrail_breaches arm)))]
               ''system:learning''
               (d1\<lparr>vstats := upd (is_stat tenant vid) (\<lambda>r. r\<lparr>v_paused := True\<rparr>) (vstats d1)\<rparr>)))"

definition cold_arm :: "variant_spec \<Rightarrow> variant_arm" where
  "cold_arm v = \<lparr>ar_id = vs_id v, ar_trials = 0, ar_successes = 0, ar_attrs = vs_attrs v,
     ar_paused = False, ar_complaints = 0, ar_unsubs = 0, ar_bounces = 0\<rparr>"

definition load_arms :: "db \<Rightarrow> pystr \<Rightarrow> variant_spec list \<Rightarrow> variant_arm list" where
  "load_arms d tenant variants =
     (let rows = sel (\<lambda>r. v_tenant r = tenant \<and> v_id r \<in> set (map vs_id variants)) (vstats d);
          by_id = map (\<lambda>r. (v_id r, row_to_arm r)) rows
      in map (\<lambda>v. the_default (cold_arm v) (map_of (rev by_id) (vs_id v))) variants)"

definition global_success_rate :: "db \<Rightarrow> pystr \<Rightarrow> rat" where
  "global_success_rate d tenant =
     (let rows = sel (\<lambda>r. v_tenant r = tenant) (vstats d);
          s = sum_list (map v_successes rows); n = sum_list (map v_trials rows)
      in if n < 50 then 5 / 100 else max (of_int s / of_int n) (5 / 1000))"

definition select_variant ::
  "(nat \<Rightarrow> rat \<Rightarrow> rat \<Rightarrow> rat) \<Rightarrow> db \<Rightarrow> pystr \<Rightarrow> variant_spec list \<Rightarrow>
     exc + variant_spec \<times> rat \<times> rat \<times> rat" where
  "select_variant beta d tenant variants =
     (let arms = load_arms d tenant variants; rate = global_success_rate d tenant
      in bindE (select arms (\<lambda>_. None) rate beta) (\<lambda>chosen.
           case List.find (\<lambda>v. vs_id v = ar_id chosen) variants of
             None \<Rightarrow> Inl (OtherError ''StopIteration'')
           | Some spec \<Rightarrow> (case posterior chosen rate of (al, be) \<Rightarrow> Inr (spec, al, be, rate))))"

section \<open>Frames\<close>

lemma learning_frame [simp, frame]:
  "touches (upsert_stat t v c d) = touches d" "prospects (upsert_stat t v c d) = prospects d"
  "entities (upsert_stat t v c d) = entities d" "counters (upsert_stat t v c d) = counters d"
  "jobs (upsert_stat t v c d) = jobs d" "suppressions (upsert_stat t v c d) = suppressions d"
  "now (upsert_stat t v c d) = now d" "tombstones (upsert_stat t v c d) = tombstones d"
  "idna (upsert_stat t v c d) = idna d" "tenants (upsert_stat t v c d) = tenants d"
  "touches (record_trial t v a d) = touches d" "prospects (record_trial t v a d) = prospects d"
  "entities (record_trial t v a d) = entities d" "counters (record_trial t v a d) = counters d"
  "jobs (record_trial t v a d) = jobs d" "suppressions (record_trial t v a d) = suppressions d"
  "now (record_trial t v a d) = now d" "tenants (record_trial t v a d) = tenants d"
  "flags (record_trial t v a d) = flags d" "tombstones (record_trial t v a d) = tombstones d"
  "next_job (record_trial t v a d) = next_job d"
  by (simp_all add: upsert_stat_def record_trial_def)

lemma record_guardrail_frame [simp, frame]:
  "touches (snd (record_guardrail t v c d)) = touches d"
  "prospects (snd (record_guardrail t v c d)) = prospects d"
  "entities (snd (record_guardrail t v c d)) = entities d"
  "suppressions (snd (record_guardrail t v c d)) = suppressions d"
  "tombstones (snd (record_guardrail t v c d)) = tombstones d"
  "now (snd (record_guardrail t v c d)) = now d" "idna (snd (record_guardrail t v c d)) = idna d"
  "jobs (snd (record_guardrail t v c d)) = jobs d" "tenants (snd (record_guardrail t v c d)) = tenants d"
  by (auto simp: record_guardrail_def Let_def split: option.splits)

section \<open>Selection\<close>

lemma best_arm_max:
  assumes "best_arm f k best as = Some (x, a)"
  shows "(best = Some (x, a) \<or> (\<exists>i<length as. a = as ! i \<and> x = f (k + i) a)) \<and>
    (\<forall>i<length as. f (k + i) (as ! i) \<le> x) \<and> (\<forall>y b. best = Some (y, b) \<longrightarrow> y \<le> x)"
  using assms
proof (induction as arbitrary: k best)
  case (Cons b as)
  let ?best = "case best of None \<Rightarrow> Some (f k b, b)
    | Some (x, c) \<Rightarrow> if f k b > x then Some (f k b, b) else Some (x, c)"
  from Cons.prems have "best_arm f (Suc k) ?best as = Some (x, a)" by simp
  note IH = Cons.IH [OF this]
  have new: "\<exists>y c. ?best = Some (y, c) \<and> f k b \<le> y \<and> (\<forall>z e. best = Some (z, e) \<longrightarrow> z \<le> y) \<and>
      (?best = Some (f k b, b) \<or> ?best = best)"
    by (auto split: option.splits)
  then obtain y c where y: "?best = Some (y, c)" "f k b \<le> y" "\<forall>z e. best = Some (z, e) \<longrightarrow> z \<le> y"
    "?best = Some (f k b, b) \<or> ?best = best" by blast
  from IH y(1) have yx: "y \<le> x" by blast
  have all: "f (k + i) ((b # as) ! i) \<le> x" if "i < length (b # as)" for i
  proof (cases i)
    case 0
    then show ?thesis using y(2) yx by simp
  next
    case (Suc j)
    then show ?thesis using IH that by simp
  qed
  have mem: "best = Some (x, a) \<or> (\<exists>i<length (b # as). a = (b # as) ! i \<and> x = f (k + i) a)"
  proof (cases "?best = Some (x, a)")
    case True
    with y(4) show ?thesis by auto
  next
    case False
    with IH obtain i where "i < length as" "a = as ! i" "x = f (Suc k + i) a" by blast
    then have "Suc i < length (b # as) \<and> a = (b # as) ! Suc i \<and> x = f (k + Suc i) a" by simp
    then show ?thesis by blast
  qed
  show ?case using all mem y(3) yx by fastforce
qed simp

lemma best_arm_None: "best_arm f k best as = None \<longleftrightarrow> best = None \<and> as = []"
  by (induction as arbitrary: k best) (auto split: option.splits)

lemma select_Inr:
  assumes "select arms effects rate beta = Inr a"
  shows "a \<in> set arms \<and> \<not> ar_paused a"
proof -
  from assms obtain x where b: "best_arm (sample_of beta effects rate) 0 None
      (filter (\<lambda>a. \<not> ar_paused a) arms) = Some (x, a)"
    by (auto simp: select_def split: option.splits)
  from best_arm_max [OF b] have "a \<in> set (filter (\<lambda>a. \<not> ar_paused a) arms)"
    by (auto simp del: set_filter)
  then show ?thesis by simp
qed

lemma select_total: "(\<exists>a. select arms effects rate beta = Inr a) \<longleftrightarrow> (\<exists>a\<in>set arms. \<not> ar_paused a)"
proof -
  have "(\<exists>a. select arms effects rate beta = Inr a) \<longleftrightarrow>
      best_arm (sample_of beta effects rate) 0 None (filter (\<lambda>a. \<not> ar_paused a) arms) \<noteq> None"
    by (auto simp: select_def split: option.splits)
  then show ?thesis by (auto simp: best_arm_None filter_empty_conv)
qed

lemma load_arms_ids: "map ar_id (load_arms d tenant variants) = map vs_id variants"
proof -
  have "ar_id (the_default (cold_arm v) (map_of (rev (map (\<lambda>r. (v_id r, row_to_arm r)) rows)) (vs_id v))) = vs_id v"
    for v rows
  proof (cases "map_of (rev (map (\<lambda>r. (v_id r, row_to_arm r)) rows)) (vs_id v)")
    case (Some a)
    then have "(vs_id v, a) \<in> set (rev (map (\<lambda>r. (v_id r, row_to_arm r)) rows))" by (rule map_of_SomeD)
    with Some show ?thesis by (auto simp: row_to_arm_def)
  qed (simp add: cold_arm_def)
  then show ?thesis by (simp add: load_arms_def Let_def)
qed

lemma load_arms_row:
  assumes "a \<in> set (load_arms d tenant variants)"
  shows "(\<exists>r\<in>set (vstats d). is_stat tenant (ar_id a) r \<and> a = row_to_arm r) \<or>
    (\<exists>v\<in>set variants. a = cold_arm v)"
proof -
  from assms obtain v where v: "v \<in> set variants" "a = the_default (cold_arm v) (map_of (rev (map (\<lambda>r. (v_id r, row_to_arm r))
      (sel (\<lambda>r. v_tenant r = tenant \<and> v_id r \<in> set (map vs_id variants)) (vstats d)))) (vs_id v))"
    (is "a = the_default _ ?m") by (auto simp: load_arms_def Let_def)
  show ?thesis
  proof (cases ?m)
    case (Some x)
    then have "(vs_id v, x) \<in> set (rev (map (\<lambda>r. (v_id r, row_to_arm r))
      (sel (\<lambda>r. v_tenant r = tenant \<and> v_id r \<in> set (map vs_id variants)) (vstats d))))"
      by (rule map_of_SomeD)
    with v Some show ?thesis by (auto simp: is_stat_def row_to_arm_def)
  qed (use v in auto)
qed

section \<open>Guardrails\<close>

text \<open>A key of the table.\<close>

definition stats_ok :: "db \<Rightarrow> bool" where
  "stats_ok d \<longleftrightarrow> distinct (map (\<lambda>r. (v_tenant r, v_id r)) (vstats d))"

lemma is_stat_bump [simp]: "is_stat t v (bump_column c r) = is_stat t v r"
  by (cases c) (simp_all add: is_stat_def)

lemma v_paused_bump [simp]: "v_paused (bump_column c r) = v_paused r"
  by (cases c) simp_all

lemma is_stat_new [simp]: "is_stat t v (new_stats t v a)"
  by (simp add: is_stat_def new_stats_def)

lemma fetch_upsert_stat:
  "fetch (is_stat t v) (upsert (is_stat t v) (bump_column c) r0 rows) =
    (case fetch (is_stat t v) rows of Some r \<Rightarrow> Some (bump_column c r)
     | None \<Rightarrow> if is_stat t v r0 then Some r0 else None)"
proof (cases "fetch (is_stat t v) rows")
  case None
  then have "\<forall>r\<in>set rows. \<not> is_stat t v r" by (simp add: fetch_None)
  then have "upsert (is_stat t v) (bump_column c) r0 rows = ins r0 rows" by (auto simp: upsert_def)
  with None show ?thesis by (simp add: fetch_ins)
next
  case (Some r)
  then have "r \<in> set rows" "is_stat t v r" by (auto dest: fetch_SomeD)
  then have "upsert (is_stat t v) (bump_column c) r0 rows = upd (is_stat t v) (bump_column c) rows"
    by (auto simp: upsert_def)
  with Some \<open>is_stat t v r\<close> show ?thesis by (simp add: fetch_upd)
qed

lemma load_one_upsert:
  "load_one t v (upsert_stat t v c d) =
     Some (row_to_arm (bump_column c (the_default (new_stats t v []) (fetch (is_stat t v) (vstats d)))))"
  by (simp add: load_one_def upsert_stat_def fetch_upsert_stat split: option.splits)

lemma load_one_paused:
  assumes "record_guardrail t v c d = (True, d')"
  shows "\<exists>a. load_one t v d' = Some a \<and> ar_paused a"
proof -
  from assms have "vstats d' = upd (is_stat t v) (\<lambda>r. r\<lparr>v_paused := True\<rparr>) (vstats (upsert_stat t v c d))"
    by (auto simp: record_guardrail_def Let_def split: option.splits if_splits)
  moreover obtain r where r: "fetch (is_stat t v) (vstats (upsert_stat t v c d)) = Some r"
    using load_one_upsert [of t v c d] by (auto simp: load_one_def)
  moreover from r have "is_stat t v r" by (auto dest: fetch_SomeD)
  moreover have "is_stat t v (r'\<lparr>v_paused := True\<rparr>) = is_stat t v r'" for r' by (simp add: is_stat_def)
  ultimately show ?thesis by (simp add: load_one_def fetch_upd row_to_arm_def)
qed

text \<open>Nothing in this module clears a pause.\<close>

definition paused_rows :: "pystr \<Rightarrow> pystr \<Rightarrow> vstat_row list \<Rightarrow> bool" where
  "paused_rows t v rows \<longleftrightarrow> (\<exists>r\<in>set rows. is_stat t v r) \<and> (\<forall>r\<in>set rows. is_stat t v r \<longrightarrow> v_paused r)"

definition paused_in :: "db \<Rightarrow> pystr \<Rightarrow> pystr \<Rightarrow> bool" where
  "paused_in d t v \<longleftrightarrow> paused_rows t v (vstats d)"

lemma paused_rows_upd:
  assumes "paused_rows t v rows" and "\<And>r. is_stat t v (g r) = is_stat t v r"
    and "\<And>r. v_paused r \<Longrightarrow> v_paused (g r)"
  shows "paused_rows t v (upd K g rows)"
proof -
  from assms(1) obtain r where r: "r \<in> set rows" "is_stat t v r" by (auto simp: paused_rows_def)
  then have "(if K r then g r else r) \<in> set (upd K g rows)" by (auto simp: set_upd)
  moreover have "is_stat t v (if K r then g r else r)" using r(2) assms(2) by simp
  moreover have "v_paused x" if "x \<in> set (upd K g rows)" "is_stat t v x" for x
    using that assms by (auto simp: paused_rows_def set_upd split: if_splits)
  ultimately show ?thesis unfolding paused_rows_def by blast
qed

lemma paused_rows_upsert:
  assumes "paused_rows t v rows" and "\<And>r. is_stat t v (g r) = is_stat t v r"
    and "\<And>r. v_paused r \<Longrightarrow> v_paused (g r)" and "is_stat t' v' r0"
  shows "paused_rows t v (upsert (is_stat t' v') g r0 rows)"
proof (cases "\<exists>x\<in>set rows. is_stat t' v' x")
  case True
  then show ?thesis using paused_rows_upd [OF assms(1-3)] by (simp add: upsert_def)
next
  case False
  with assms(1,4) have "\<not> is_stat t v r0" by (auto simp: paused_rows_def is_stat_def)
  with False assms(1) show ?thesis by (auto simp: upsert_def paused_rows_def)
qed

lemma paused_upsert: "paused_in d t v \<Longrightarrow> paused_in (upsert_stat t' v' c d) t v"
  unfolding paused_in_def upsert_stat_def by simp (rule paused_rows_upsert, auto)

lemma paused_trial: "paused_in d t v \<Longrightarrow> paused_in (record_trial t' v' a d) t v"
  unfolding paused_in_def record_trial_def by simp (rule paused_rows_upsert, auto simp: is_stat_def new_stats_def)

lemma paused_guardrail: "paused_in d t v \<Longrightarrow> paused_in (snd (record_guardrail t' v' c d)) t v"
proof -
  assume "paused_in d t v"
  then have p: "paused_in (upsert_stat t' v' c d) t v" by (rule paused_upsert)
  have "paused_rows t v (upd (is_stat t' v') (\<lambda>r. r\<lparr>v_paused := True\<rparr>) (vstats (upsert_stat t' v' c d)))"
    using p unfolding paused_in_def by (rule paused_rows_upd) (simp_all add: is_stat_def)
  with p show ?thesis
    by (simp add: record_guardrail_def Let_def paused_in_def split: option.splits)
qed

lemma record_guardrail_pauses:
  assumes "record_guardrail t v c d = (True, d')"
  shows "paused_in d' t v"
proof -
  let ?rows = "vstats (upsert_stat t v c d)"
  have d': "vstats d' = upd (is_stat t v) (\<lambda>r. r\<lparr>v_paused := True\<rparr>) ?rows"
    using assms by (auto simp: record_guardrail_def Let_def split: option.splits if_splits)
  have same: "is_stat t v (r\<lparr>v_paused := True\<rparr>) = is_stat t v r" for r by (simp add: is_stat_def)
  have "\<exists>r\<in>set ?rows. is_stat t v r" unfolding upsert_stat_def by simp (rule upsert_ex, auto)
  then obtain r where r: "r \<in> set ?rows" "is_stat t v r" by blast
  then have "r\<lparr>v_paused := True\<rparr> \<in> set (vstats d')" unfolding d' set_upd by (auto intro!: image_eqI [of _ _ r])
  moreover have "\<forall>x\<in>set (vstats d'). is_stat t v x \<longrightarrow> v_paused x" unfolding d' set_upd by (auto simp: same)
  ultimately show ?thesis using r(2) same by (auto simp: paused_in_def paused_rows_def)
qed

text \<open>A paused variant that is the table's only row of its key is never chosen.\<close>

lemma select_variant_not_paused:
  assumes "select_variant beta d tenant variants = Inr (spec, snap)" and "paused_in d tenant (vs_id spec)"
  shows False
proof -
  from assms(1) obtain a where a: "select (load_arms d tenant variants) (\<lambda>_. None) (global_success_rate d tenant) beta = Inr a"
    "List.find (\<lambda>v. vs_id v = ar_id a) variants = Some spec"
    by (auto simp: select_variant_def Let_def bindE_eq_Inr split_beta split: option.splits)
  from find_Some_set [OF a(2)] have id: "vs_id spec = ar_id a" by simp
  from select_Inr [OF a(1)] have mem: "a \<in> set (load_arms d tenant variants)" "\<not> ar_paused a" by auto
  from mem(1) obtain v where v: "v \<in> set variants" "a = the_default (cold_arm v) (map_of (rev (map (\<lambda>r. (v_id r, row_to_arm r))
      (sel (\<lambda>r. v_tenant r = tenant \<and> v_id r \<in> set (map vs_id variants)) (vstats d)))) (vs_id v))"
    (is "a = the_default _ (?m (vs_id v))") by (auto simp: load_arms_def Let_def)
  have va: "vs_id v = ar_id a"
  proof (cases "?m (vs_id v)")
    case (Some x)
    from map_of_SomeD [OF this] v(2) Some show ?thesis by (auto simp: row_to_arm_def)
  qed (use v(2) in \<open>simp add: cold_arm_def\<close>)
  from assms(2) obtain r where r: "r \<in> set (vstats d)" "is_stat tenant (vs_id v) r"
    by (auto simp: paused_in_def paused_rows_def id va)
  then have "?m (vs_id v) \<noteq> None" using v(1) by (auto simp: map_of_eq_None_iff is_stat_def image_iff)
  then obtain x where x: "?m (vs_id v) = Some x" by blast
  from map_of_SomeD [OF x] obtain s where s: "s \<in> set (vstats d)" "is_stat tenant (vs_id v) s" "x = row_to_arm s"
    by (auto simp: is_stat_def)
  with assms(2) have "v_paused s" by (simp add: paused_in_def paused_rows_def id va)
  with v(2) x s(3) mem(2) show False by (simp add: row_to_arm_def)
qed

end
