(* ===== verification/Lifecycle.thy ===== *)
theory Lifecycle
  imports Schema
begin

text \<open>
  \<open>core/states.py\<close> and \<open>core/lifecycle.py\<close>: the state machine of a prospect and the one writer
  of \<open>prospects.state\<close>.
\<close>

section \<open>states.py\<close>

fun TRANSITIONS :: "prospect_state \<Rightarrow> prospect_state list" where
  "TRANSITIONS Discovered = [Enriched, Unenrichable, Forgotten]"
| "TRANSITIONS Enriched = [Qualified, Disqualified, Forgotten]"
| "TRANSITIONS Qualified = [Queued, Forgotten]"
| "TRANSITIONS Queued = [Contacted, Disqualified, Forgotten]"
| "TRANSITIONS Contacted = [Engaged, Converted, Bounced, Declined, Unsubscribed, No_response, Forgotten]"
| "TRANSITIONS Engaged = [Converted, Declined, Unsubscribed, No_response, Forgotten]"
| "TRANSITIONS No_response = [Queued, Forgotten]"
| "TRANSITIONS Converted = [Forgotten]"
| "TRANSITIONS Disqualified = [Forgotten]"
| "TRANSITIONS Unenrichable = [Forgotten]"
| "TRANSITIONS Bounced = [Forgotten]"
| "TRANSITIONS Declined = [Forgotten]"
| "TRANSITIONS Unsubscribed = [Forgotten]"
| "TRANSITIONS Forgotten = []"

definition CONTACTABLE_STATES :: "prospect_state list" where
  "CONTACTABLE_STATES = [Queued, Contacted, Engaged]"

fun state_str :: "prospect_state \<Rightarrow> pystr" where
  "state_str Discovered = ''discovered''" | "state_str Enriched = ''enriched''"
| "state_str Qualified = ''qualified''" | "state_str Queued = ''queued''"
| "state_str Contacted = ''contacted''" | "state_str Engaged = ''engaged''"
| "state_str Converted = ''converted''" | "state_str Disqualified = ''disqualified''"
| "state_str Unenrichable = ''unenrichable''" | "state_str Bounced = ''bounced''"
| "state_str Declined = ''declined''" | "state_str Unsubscribed = ''unsubscribed''"
| "state_str No_response = ''no_response''" | "state_str Forgotten = ''forgotten''"

definition assert_transition :: "prospect_state \<Rightarrow> prospect_state \<Rightarrow> exc + unit" where
  "assert_transition current target =
     (if target \<notin> set (TRANSITIONS current)
      then Inl (TransitionError (fstr [''illegal transition '', state_str current, '' -> '', state_str target]))
      else Inr ())"

section \<open>lifecycle.py\<close>

definition set_state :: "uuid \<Rightarrow> prospect_state \<Rightarrow> db \<Rightarrow> db" where
  "set_state pid s d = d\<lparr>prospects := upd (\<lambda>p. p_id p = pid) (\<lambda>p. p\<lparr>p_state := s\<rparr>) (prospects d)\<rparr>"

definition transition ::
  "uuid \<Rightarrow> prospect_state \<Rightarrow> pystr \<Rightarrow> pystr \<Rightarrow> db \<Rightarrow> exc + db" where
  "transition pid target actor reason d =
     (case prospect_of d pid of
        None \<Rightarrow> Inl (LookupError (fstr [''prospect '', pid, '' not found'']))
      | Some p \<Rightarrow> bindE (assert_transition (p_state p) target) (\<lambda>_.
          Inr (audit ''prospect'' pid ''transition''
            [(''from'', JStr (state_str (p_state p))), (''to'', JStr (state_str target)),
             (''reason'', JStr reason)] actor (set_state pid target d))))"

section \<open>The machine\<close>

inductive tstep :: "prospect_state \<Rightarrow> prospect_state \<Rightarrow> bool" where
  tstep: "t \<in> set (TRANSITIONS s) \<Longrightarrow> tstep s t"

inductive reaches :: "prospect_state \<Rightarrow> prospect_state \<Rightarrow> bool" where
  refl: "reaches s s"
| step: "reaches s t \<Longrightarrow> tstep t u \<Longrightarrow> reaches s u"

inductive_simps tstep_from [simp]: "tstep s t"
inductive_cases reachesE: "reaches s t"

text \<open>The states nobody leaves but to \<open>forgotten\<close>.\<close>

definition exits :: "prospect_state list" where
  "exits = [Converted, Disqualified, Unenrichable, Bounced, Declined, Unsubscribed, Forgotten]"

lemma exits_closed: "s \<in> set exits \<Longrightarrow> tstep s t \<Longrightarrow> t = Forgotten"
  by (auto simp: exits_def)

lemma reaches_from_exit: "reaches s t \<Longrightarrow> s \<in> set exits \<Longrightarrow> t = s \<or> t = Forgotten"
proof (induction rule: reaches.induct)
  case (step s t u)
  then have "t \<in> set exits" by (auto simp: exits_def)
  with step show ?case using exits_closed by blast
qed simp

text \<open>A rank that only the cooldown edge lowers: what bounds the way through the machine.\<close>

fun rank :: "prospect_state \<Rightarrow> nat" where
  "rank Discovered = 0" | "rank Enriched = 1" | "rank Qualified = 2" | "rank Queued = 3"
| "rank Contacted = 4" | "rank Engaged = 5" | "rank No_response = 6" | "rank Forgotten = 8"
| "rank _ = 7"

lemma tstep_rank: "tstep s t \<Longrightarrow> rank s < rank t \<or> (s = No_response \<and> t = Queued)"
  by (cases s) auto

text \<open>The states that presuppose that mail was sent or the prospect answered.\<close>

definition after_contact :: "prospect_state set" where
  "after_contact = {Contacted, Engaged, No_response, Declined, Unsubscribed, Bounced, Converted}"

lemma into_after_contact: "tstep t u \<Longrightarrow> u \<in> after_contact \<Longrightarrow> t = Queued \<or> t \<in> after_contact"
  by (cases t; cases u) (simp_all add: after_contact_def)

lemma after_contact_via_queued:
  "reaches s t \<Longrightarrow> t \<in> after_contact \<Longrightarrow> s \<notin> after_contact \<Longrightarrow> reaches s Queued \<and> reaches Queued t"
proof (induction rule: reaches.induct)
  case (step s t u)
  from into_after_contact [OF step.hyps(2) step.prems(1)]
  have "reaches s Queued \<and> reaches Queued t"
    using step by (auto intro: reaches.refl)
  with step.hyps(2) show ?case by (blast intro: reaches.step)
qed simp

section \<open>transition\<close>

lemma transition_Inr:
  assumes "transition pid target actor reason d = Inr d'"
  obtains p where "prospect_of d pid = Some p" "target \<in> set (TRANSITIONS (p_state p))"
    "prospects d' = prospects (set_state pid target d)"
  using assms
  by (auto simp: transition_def assert_transition_def bindE_eq_Inr split: option.splits if_splits)

lemma transition_eq:
  "transition pid target actor reason d = Inr d' \<Longrightarrow>
    \<exists>pl. d' = audit ''prospect'' pid ''transition'' pl actor (set_state pid target d)"
  by (auto simp: transition_def assert_transition_def bindE_eq_Inr split: option.splits if_splits)

lemma set_state_frame [simp, frame]:
  "touches (set_state i s d) = touches d" "entities (set_state i s d) = entities d"
  "counters (set_state i s d) = counters d" "suppressions (set_state i s d) = suppressions d"
  "tombstones (set_state i s d) = tombstones d" "now (set_state i s d) = now d"
  "jobs (set_state i s d) = jobs d" "tenants (set_state i s d) = tenants d"
  "vstats (set_state i s d) = vstats d" "replies (set_state i s d) = replies d"
  "flags (set_state i s d) = flags d" "idna (set_state i s d) = idna d"
  "next_job (set_state i s d) = next_job d" "audits (set_state i s d) = audits d"
  "rng (set_state i s d) = rng d" "draws (set_state i s d) = draws d"
  "pevents (set_state i s d) = pevents d" "escalations (set_state i s d) = escalations d"
  by (simp_all add: set_state_def)

lemma transition_frame [frame]:
  assumes "transition pid target actor reason d = Inr d'"
  shows "touches d' = touches d" "entities d' = entities d" "counters d' = counters d"
    "suppressions d' = suppressions d" "tombstones d' = tombstones d" "now d' = now d"
    "jobs d' = jobs d" "tenants d' = tenants d" "vstats d' = vstats d" "replies d' = replies d"
    "flags d' = flags d" "idna d' = idna d" "next_job d' = next_job d" "rng d' = rng d"
    "draws d' = draws d" "pevents d' = pevents d"
  using transition_eq [OF assms] by auto

lemma prospect_of_set_state:
  "prospect_of (set_state i s d) j =
     map_option (\<lambda>p. if p_id p = i then p\<lparr>p_state := s\<rparr> else p) (prospect_of d j)"
  unfolding prospect_of_def set_state_def by (simp add: fetch_upd)

lemma prospect_of_audit [simp]: "prospect_of (audit a b c e f d) j = prospect_of d j"
  by (simp add: prospect_of_def)

text \<open>A write never raises for a legal edge, and moves exactly that prospect.\<close>

lemma transition_ok:
  assumes "prospect_of d pid = Some p" and "target \<in> set (TRANSITIONS (p_state p))"
  shows "\<exists>d'. transition pid target actor reason d = Inr d' \<and>
    prospect_of d' pid = Some (p\<lparr>p_state := target\<rparr>)"
  using assms
  by (auto simp: transition_def assert_transition_def prospect_of_set_state dest: prospect_of_SomeD)

lemma transition_illegal:
  assumes "prospect_of d pid = Some p" and "target \<notin> set (TRANSITIONS (p_state p))"
  shows "\<exists>m. transition pid target actor reason d = Inl (TransitionError m)"
  using assms by (simp add: transition_def assert_transition_def)

end
