(* ===== verification/Attribution.thy ===== *)
theory Attribution
  imports Learning Lifecycle Jobs
begin

text \<open>
  \<open>core/attribution.py\<close>: the signed touch token every outbound link carries, its verification,
  and the attribution of a conversion to a touch. A key is the bytes of the deployment's
  secret. \<open>uuid.UUID(s)\<close> is modelled on ASCII text as the standard library parses it.
\<close>

section \<open>uuid.UUID\<close>

definition hexval :: "char \<Rightarrow> nat option" where
  "hexval c =
     (if is_digit c then Some (code c - 48)
      else if 97 \<le> code c \<and> code c \<le> 102 then Some (code c - 87)
      else if 65 \<le> code c \<and> code c \<le> 70 then Some (code c - 55) else None)"

text \<open>\<open>int(s, 16)\<close> after a first digit: digits, with single underscores between them.\<close>

fun digits16 :: "nat \<Rightarrow> pystr \<Rightarrow> nat option" where
  "digits16 acc [] = Some acc"
| "digits16 acc (c # s) =
     (case hexval c of
        Some v \<Rightarrow> digits16 (acc * 16 + v) s
      | None \<Rightarrow> if c \<noteq> CHR ''_'' then None
                else (case s of [] \<Rightarrow> None
                  | d # t \<Rightarrow> (case hexval d of None \<Rightarrow> None | Some v \<Rightarrow> digits16 (acc * 16 + v) t)))"

definition drop_prefix :: "pystr \<Rightarrow> pystr \<Rightarrow> pystr" where
  "drop_prefix p s = (if startswith s p then drop (length p) s else s)"

definition int16 :: "pystr \<Rightarrow> nat option" where
  "int16 txt =
     (let s = drop_prefix ''+'' (strip txt);
          s' = (if startswith s ''0x'' \<or> startswith s ''0X'' then drop_prefix ''_'' (drop 2 s) else s)
      in case s' of [] \<Rightarrow> None | c # t \<Rightarrow> (case hexval c of None \<Rightarrow> None | Some v \<Rightarrow> digits16 v t))"

text \<open>\<open>s.replace(w, "")\<close> for a non-empty word.\<close>

function remove_word :: "pystr \<Rightarrow> pystr \<Rightarrow> pystr" where
  "remove_word w [] = []"
| "remove_word w (c # s) =
     (if w \<noteq> [] \<and> startswith (c # s) w then remove_word w (drop (length w) (c # s)) else c # remove_word w s)"
  by pat_completeness auto
termination
  by (relation "measure (\<lambda>(w, s). length s)") auto

definition strip_braces :: "pystr \<Rightarrow> pystr" where
  "strip_braces s =
     (let b = (\<lambda>c. c = CHR ''{'' \<or> c = CHR ''}'') in rev (dropWhile b (rev (dropWhile b s))))"

definition parse_uuid :: "pystr \<Rightarrow> nat option" where
  "parse_uuid s =
     (let h = remove_char (CHR ''-'') (strip_braces (remove_word ''uuid:'' (remove_word ''urn:'' s)))
      in if length h \<noteq> 32 then None else int16 h)"

fun hexn :: "nat \<Rightarrow> nat \<Rightarrow> pystr" where
  "hexn 0 n = []"
| "hexn (Suc k) n = hexn k (n div 16) @ [hex_digit (n mod 16)]"

definition uuid_hex :: "nat \<Rightarrow> pystr" where
  "uuid_hex n = hexn 32 n"

definition uuid_text :: "nat \<Rightarrow> pystr" where
  "uuid_text n =
     (let h = uuid_hex n
      in fstr [take 8 h, ''-'', take 4 (drop 8 h), ''-'', take 4 (drop 12 h), ''-'', take 4 (drop 16 h), ''-'',
               drop 20 h])"

section \<open>Tokens\<close>

definition MAC_LEN :: nat where
  "MAC_LEN = 12"

definition mac_of :: "pystr \<Rightarrow> nat \<Rightarrow> pystr" where
  "mac_of key n = take MAC_LEN (hmac256 key (uuid_hex n))"

definition token_for :: "pystr \<Rightarrow> pystr \<Rightarrow> exc + pystr" where
  "token_for touch_id key =
     (case parse_uuid touch_id of
        None \<Rightarrow> Inl (ValueError ''badly formed hexadecimal UUID string'')
      | Some n \<Rightarrow> Inr (fstr [uuid_hex n, ''.'', mac_of key n]))"

text \<open>\<open>partition(".")\<close> cuts at the first dot. \<open>compare_digest\<close> refuses text that is not ASCII.\<close>

definition verify :: "pystr \<Rightarrow> pystr \<Rightarrow> exc + pystr option" where
  "verify token key =
     (let head = takeWhile (\<lambda>c. c \<noteq> CHR ''.'') token; rest = dropWhile (\<lambda>c. c \<noteq> CHR ''.'') token
      in case rest of
           [] \<Rightarrow> Inr None
         | _ # mac \<Rightarrow> (case parse_uuid head of
             None \<Rightarrow> Inr None
           | Some n \<Rightarrow>
               if \<not> list_all is_ascii mac
               then Inl (OtherError ''comparing strings with non-ASCII characters is not supported'')
               else if mac_of key n \<noteq> mac then Inr None
               else Inr (Some (uuid_text n))))"

text \<open>\<open>key_from_env\<close>: an unset or empty variable is no key.\<close>

definition key_from_env :: "pystr option \<Rightarrow> pystr option" where
  "key_from_env env = (case env of None \<Rightarrow> None | Some s \<Rightarrow> if s = [] then None else Some s)"

definition append_token :: "pystr \<Rightarrow> pystr \<Rightarrow> pystr" where
  "append_token token url =
     fstr [url, if CHR ''?'' \<in> set url then ''&'' else ''?'', ''t='', token]"

definition tokenize_links :: "pystr \<Rightarrow> pystr \<Rightarrow> pystr \<Rightarrow> exc + pystr" where
  "tokenize_links body touch_id key =
     bindE (token_for touch_id key) (\<lambda>token. Inr (sub URL (append_token token) body))"

section \<open>record_conversion\<close>

definition record_conversion :: "uuid \<Rightarrow> db \<Rightarrow> exc + bool \<times> db" where
  "record_conversion touch_id d =
     (case touch_of d touch_id of
        None \<Rightarrow> Inr (False, d)
      | Some tc \<Rightarrow> (case prospect_of d (t_prospect tc) of
        None \<Rightarrow> Inr (False, d)
      | Some p \<Rightarrow> (case slug_of d (p_tenant p) of
        None \<Rightarrow> Inr (False, d)
      | Some tenant \<Rightarrow>
          if p_state p = Converted then Inr (False, d)
          else (case transition (p_id p) Converted ''system:attribution'' (fstr [''touch '', touch_id]) d of
              Inl (TransitionError _) \<Rightarrow> Inr (False, d)
            | Inl e \<Rightarrow> Inl e
            | Inr d1 \<Rightarrow>
                let d2 = (case t_variant tc of
                      None \<Rightarrow> d1
                    | Some v \<Rightarrow> if v = [] then d1 else record_success tenant v d1);
                    d3 = enqueue_key ''referral'' [(''prospect_id'', JStr (p_id p))]
                           (fstr [''referral:'', p_id p]) d2
                in Inr (True, audit ''touch'' touch_id ''converted'' [] ''system:attribution'' d3)))))"

section \<open>Hexadecimal round trips\<close>

lemma code_hex_digit: "n < 16 \<Longrightarrow> code (hex_digit n) = (if n < 10 then 48 + n else 87 + n)"
  by (simp add: hex_digit_def)

lemma hexval_hex_digit [simp]: "n < 16 \<Longrightarrow> hexval (hex_digit n) = Some n"
  by (auto simp: hexval_def is_digit_def code_hex_digit)

lemma length_hexn [simp]: "length (hexn k n) = k"
  by (induction k arbitrary: n) auto

lemma hexn_digit: "c \<in> set (hexn k n) \<Longrightarrow> \<exists>v<16. c = hex_digit v"
  by (induction k arbitrary: n) (auto intro: exI [of _ "n mod 16" for n])

lemma digits16_append:
  "digits16 a s = Some b \<Longrightarrow> list_all (\<lambda>c. hexval c \<noteq> None) s \<Longrightarrow> digits16 a (s @ t) = digits16 b t"
  by (induction s arbitrary: a) (auto split: option.splits)

lemma digits16_hexn: "digits16 a (hexn k n) = Some (a * 16 ^ k + n mod 16 ^ k)"
proof (induction k arbitrary: n)
  case (Suc k)
  have "list_all (\<lambda>c. hexval c \<noteq> None) (hexn k (n div 16))"
    by (auto simp: list_all_iff dest!: hexn_digit)
  with Suc [of "n div 16"] have "digits16 a (hexn (Suc k) n) =
      digits16 (a * 16 ^ k + (n div 16) mod 16 ^ k) [hex_digit (n mod 16)]"
    by (simp add: digits16_append)
  also have "\<dots> = Some (a * 16 ^ Suc k + (16 * ((n div 16) mod 16 ^ k) + n mod 16))"
    by simp
  also have "16 * ((n div 16) mod 16 ^ k) + n mod 16 = n mod 16 ^ Suc k"
    by (simp add: mod_mult2_eq)
  finally show ?case .
qed simp

lemma digits16_bound: "digits16 a s = Some b \<Longrightarrow> b < (a + 1) * 16 ^ length s"
proof (induction a s rule: digits16.induct)
  case (2 a c s)
  show ?case
  proof (cases "hexval c")
    case (Some v)
    then have "v < 16" by (auto simp: hexval_def is_digit_def split: if_splits)
    from 2(2) [OF Some] 2(3) Some have "b < (a * 16 + v + 1) * 16 ^ length s" by simp
    also have "\<dots> \<le> (a * 16 + 16) * 16 ^ length s" using \<open>v < 16\<close> by (intro mult_right_mono) auto
    finally show ?thesis by (simp add: algebra_simps)
  next
    case None
    with 2(3) obtain d t v where s: "c = CHR ''_''" "s = d # t" "hexval d = Some v" "digits16 (a * 16 + v) t = Some b"
      by (auto split: if_splits list.splits option.splits)
    then have "v < 16" by (auto simp: hexval_def is_digit_def split: if_splits)
    have "b < (a * 16 + v + 1) * 16 ^ length t" using 2(1) None s by simp
    also have "\<dots> \<le> (a * 16 + 16) * 16 ^ length t" using \<open>v < 16\<close> by (intro mult_right_mono) auto
    also have "\<dots> \<le> (a + 1) * 16 ^ length (c # s)" by (simp add: s(2) algebra_simps)
    finally show ?thesis .
  qed
qed simp

lemma length_drop_prefix: "length (drop_prefix p s) \<le> length s"
  by (simp add: drop_prefix_def)

lemma length_strip: "length (strip s) \<le> length s"
proof -
  have "length (rstrip t) \<le> length t" for t
    using length_dropWhile_le [of is_space "rev t"] by (simp add: rstrip_def)
  then show ?thesis using length_dropWhile_le [of is_space s] unfolding strip_def lstrip_def
    by (meson le_trans)
qed

lemma int16_bound:
  assumes "int16 s = Some n" shows "n < 16 ^ length s"
proof -
  define u where "u = drop_prefix ''+'' (strip s)"
  define w where "w = (if startswith u ''0x'' \<or> startswith u ''0X'' then drop_prefix ''_'' (drop 2 u) else u)"
  have "length u \<le> length s" unfolding u_def using length_drop_prefix length_strip le_trans by blast
  moreover have "length (drop_prefix ''_'' (drop 2 u)) \<le> length u"
    using length_drop_prefix [of "''_''" "drop 2 u"] by (rule order_trans) simp
  then have "length w \<le> length u" by (simp add: w_def)
  ultimately have len: "length w \<le> length s" by simp
  from assms obtain c t v where w: "w = c # t" "hexval c = Some v" "digits16 v t = Some n"
    unfolding int16_def Let_def u_def [symmetric] w_def [symmetric]
    by (auto split: list.splits option.splits)
  have "v < 16" using w(2) by (auto simp: hexval_def is_digit_def split: if_splits)
  have "n < (v + 1) * 16 ^ length t" by (rule digits16_bound [OF w(3)])
  also have "\<dots> \<le> 16 * 16 ^ length t" using \<open>v < 16\<close> by (intro mult_right_mono) auto
  also have "\<dots> = 16 ^ length w" by (simp add: w(1))
  also have "\<dots> \<le> (16::nat) ^ length s" using len by (intro power_increasing) auto
  finally show ?thesis .
qed

lemma parse_uuid_bound: "parse_uuid s = Some n \<Longrightarrow> n < 16 ^ 32"
  by (auto simp: parse_uuid_def Let_def split: if_splits dest!: int16_bound)

text \<open>Text made of hexadecimal digits, and dashes.\<close>

definition hexy :: "char \<Rightarrow> bool" where
  "hexy c \<longleftrightarrow> hexval c \<noteq> None \<and> is_ascii c"

lemma hexy_cases: "hexy c \<Longrightarrow> 48 \<le> code c \<and> code c \<le> 57 \<or> 65 \<le> code c \<and> code c \<le> 70 \<or> 97 \<le> code c \<and> code c \<le> 102"
  by (auto simp: hexy_def hexval_def is_digit_def split: if_splits)

lemma hexy_hexn: "c \<in> set (hexn k n) \<Longrightarrow> hexy c"
  by (auto simp: hexy_def is_ascii_def code_hex_digit dest!: hexn_digit)

lemma not_hexy [simp]:
  "\<not> hexy (CHR ''u'')" "\<not> hexy (CHR ''{'')" "\<not> hexy (CHR ''}'')" "\<not> hexy (CHR ''+'')" "\<not> hexy (CHR ''x'')"
  "\<not> hexy (CHR ''X'')" "\<not> hexy (CHR ''.'')" "\<not> hexy (CHR ''-'')"
  by (auto dest!: hexy_cases simp: code_def)

lemma remove_word_id: "a \<notin> set s \<Longrightarrow> remove_word (a # w) s = s"
  by (induction "a # w" s rule: remove_word.induct) (auto simp: startswith_def)

lemma strip_braces_id: "CHR ''{'' \<notin> set s \<Longrightarrow> CHR ''}'' \<notin> set s \<Longrightarrow> strip_braces s = s"
proof -
  assume a: "CHR ''{'' \<notin> set s" "CHR ''}'' \<notin> set s"
  have id: "dropWhile (\<lambda>c. c = CHR ''{'' \<or> c = CHR ''}'') t = t" if "set t \<subseteq> set s" for t
    using that a by (cases t) auto
  show ?thesis unfolding strip_braces_def Let_def using id [of s] id [of "rev s"] by simp
qed

lemma int16_hexy:
  assumes "s \<noteq> []" and "\<forall>c\<in>set s. hexy c"
  shows "int16 s = digits16 0 s"
proof -
  have "blank_free s" using assms(2) by (auto simp: blank_free_def list_all_iff is_space_def dest!: hexy_cases)
  then have st: "strip s = s" by (rule strip_blank_free)
  obtain c t where s: "s = c # t" using assms(1) by (cases s) auto
  have c: "hexy c" using assms(2) s by simp
  then have np: "drop_prefix ''+'' s = s" by (auto simp: drop_prefix_def startswith_def s)
  have "\<not> startswith s ''0x'' \<and> \<not> startswith s ''0X''"
    using assms(2) by (auto simp: startswith_def s) (cases t; auto)+
  with st np s show ?thesis by (auto simp: int16_def Let_def split: option.splits)
      (use c in \<open>auto simp: hexy_def\<close>)
qed

lemma parse_uuid_clean:
  assumes "\<forall>c\<in>set s. hexy c \<or> c = CHR ''-''" and "remove_char (CHR ''-'') s = hexn 32 n" and "n < 16 ^ 32"
  shows "parse_uuid s = Some n"
proof -
  have "CHR ''u'' \<notin> set s" using assms(1) by auto
  then have r: "remove_word ''uuid:'' (remove_word ''urn:'' s) = s" by (simp add: remove_word_id)
  have "strip_braces s = s" using assms(1) by (intro strip_braces_id) auto
  moreover have "int16 (hexn 32 n) = digits16 0 (hexn 32 n)"
    by (rule int16_hexy) (auto simp: hexy_hexn simp flip: length_0_conv)
  ultimately show ?thesis using r assms(2,3)
    by (simp add: parse_uuid_def digits16_hexn)
qed

lemma remove_dash_hexy: "\<forall>c\<in>set s. hexy c \<Longrightarrow> remove_char (CHR ''-'') s = s"
  by (auto simp: remove_char_def filter_id_conv)

lemma parse_uuid_hex: "n < 16 ^ 32 \<Longrightarrow> parse_uuid (uuid_hex n) = Some n"
  by (rule parse_uuid_clean) (auto simp: uuid_hex_def hexy_hexn intro!: remove_dash_hexy)

lemma parse_uuid_text:
  assumes "n < 16 ^ 32" shows "parse_uuid (uuid_text n) = Some n"
proof (rule parse_uuid_clean [OF _ _ assms])
  let ?h = "hexn 32 n"
  have h: "\<forall>c\<in>set ?h. hexy c" by (simp add: hexy_hexn)
  show "\<forall>c\<in>set (uuid_text n). hexy c \<or> c = CHR ''-''"
    using h by (auto simp: uuid_text_def uuid_hex_def Let_def fstr_def dest: in_set_takeD in_set_dropD)
  have r: "remove_char (CHR ''-'') (take i (drop j ?h)) = take i (drop j ?h)"
    "remove_char (CHR ''-'') (take i ?h) = take i ?h" "remove_char (CHR ''-'') (drop j ?h) = drop j ?h" for i j
    using h by (auto intro!: remove_dash_hexy dest: in_set_takeD in_set_dropD)
  have "remove_char (CHR ''-'') (uuid_text n) =
      take 8 ?h @ take 4 (drop 8 ?h) @ take 4 (drop 12 ?h) @ take 4 (drop 16 ?h) @ drop 20 ?h"
    using r by (simp add: uuid_text_def uuid_hex_def Let_def fstr_def remove_char_def)
  also have "\<dots> = ?h" by (simp add: append_take_drop_id flip: append_assoc take_add)
  finally show "remove_char (CHR ''-'') (uuid_text n) = ?h" .
qed

section \<open>Tokens verify\<close>

lemma ascii_hex_digit: "n < 16 \<Longrightarrow> is_ascii (hex_digit n)"
  by (simp add: is_ascii_def code_hex_digit)

lemma be_bytes_range: "b \<in> set (be_bytes k n) \<Longrightarrow> 0 \<le> b \<and> b < 256"
  by (induction k arbitrary: n) auto

lemma ascii_hexdigest: "\<forall>b\<in>set bs. 0 \<le> b \<and> b < 256 \<Longrightarrow> list_all is_ascii (hexdigest bs)"
  unfolding hexdigest_def list_all_iff by (auto intro!: ascii_hex_digit simp: nat_less_iff)

lemma ascii_hmac: "list_all is_ascii (hmac256 key m)"
proof -
  have "\<forall>b\<in>set (sha256_bytes bs). 0 \<le> b \<and> b < 256" for bs
    by (auto simp: sha256_bytes_def dest!: be_bytes_range)
  then show ?thesis unfolding hmac256_def Let_def by (intro ascii_hexdigest) blast
qed

lemma ascii_mac: "list_all is_ascii (mac_of key n)"
  using ascii_hmac by (auto simp: mac_of_def list_all_iff dest: in_set_takeD)

lemma verify_token:
  assumes "parse_uuid i = Some n"
  shows "\<exists>tok. token_for i key = Inr tok \<and> verify tok key = Inr (Some (uuid_text n))"
proof -
  have "CHR ''.'' \<notin> set (uuid_hex n)" by (auto simp: uuid_hex_def dest: hexy_hexn)
  then have nd: "\<forall>c\<in>set (uuid_hex n). c \<noteq> CHR ''.''" by blast
  have f: "fstr [uuid_hex n, ''.'', mac_of key n] = uuid_hex n @ CHR ''.'' # mac_of key n" by (simp add: fstr_def)
  have "takeWhile (\<lambda>c. c \<noteq> CHR ''.'') (uuid_hex n @ CHR ''.'' # mac_of key n) = uuid_hex n"
    using nd by (subst takeWhile_append2) auto
  moreover have "dropWhile (\<lambda>c. c \<noteq> CHR ''.'') (uuid_hex n @ CHR ''.'' # mac_of key n) = CHR ''.'' # mac_of key n"
    using nd by (subst dropWhile_append2) auto
  ultimately have "verify (fstr [uuid_hex n, ''.'', mac_of key n]) key = Inr (Some (uuid_text n))"
    using parse_uuid_hex [OF parse_uuid_bound [OF assms]] by (simp add: verify_def f ascii_mac)
  with assms show ?thesis by (simp add: token_for_def)
qed

lemma verify_sound:
  assumes "verify tok key = Inr (Some t)"
  shows "\<exists>head n. parse_uuid head = Some n \<and> t = uuid_text n \<and> tok = head @ CHR ''.'' # mac_of key n"
proof -
  let ?p = "\<lambda>c. c \<noteq> CHR ''.''"
  from assms obtain c mac n where d: "dropWhile ?p tok = c # mac" "parse_uuid (takeWhile ?p tok) = Some n"
    "mac_of key n = mac" "t = uuid_text n"
    by (auto simp: verify_def Let_def split: list.splits option.splits if_splits)
  from d(1) have "c = CHR ''.''" by (simp add: dropWhile_eq_Cons_conv)
  then have "tok = takeWhile ?p tok @ CHR ''.'' # mac_of key n"
    using takeWhile_dropWhile_id [of ?p tok] d(1,3) by simp
  with d(2,4) show ?thesis by blast
qed

end
