(* ===== verification/Sendpath.thy ===== *)
theory Sendpath
  imports Store_pg Attribution
begin

text \<open>
  \<open>core/sendpath.py\<close>: queueing a drafted touch, the reviewer's ramp, and the deliver handler,
  which claims, sends and dispatches in one transaction. The deployment's attribution key and
  the provider's \<open>send\<close> are arguments. \<open>deliver\<close> returns the calls it made to the provider
  beside the outcome of its transaction: an exception rolls the database back, not the call.
\<close>

section \<open>queue_draft and the review ramp\<close>

definition KIND_human :: "touch_kind \<Rightarrow> bool" where
  "KIND_human k \<longleftrightarrow> k = Human_task_kind"

definition tokenized_draft ::
  "pystr option \<Rightarrow> uuid \<Rightarrow> touch_kind \<Rightarrow> draft \<Rightarrow> pystr \<Rightarrow> exc + draft \<times> pystr" where
  "tokenized_draft key i kind dr h =
     (case key of
        None \<Rightarrow> Inr (dr, h)
      | Some k \<Rightarrow>
          if KIND_human kind then Inr (dr, h)
          else bindE (tokenize_links (dr_body dr) i k) (\<lambda>tokenized.
            if tokenized \<noteq> dr_body dr
            then (let dr' = \<lparr>dr_subject = dr_subject dr, dr_body = tokenized, dr_step = dr_step dr\<rparr>
                  in Inr (dr', content_hash dr'))
            else Inr (dr, h)))"

definition prior_drafts :: "db \<Rightarrow> pystr \<Rightarrow> pystr option \<Rightarrow> nat" where
  "prior_drafts d campaign variant = cnt (\<lambda>t. t_campaign t = campaign \<and> t_variant t = variant) (touches d)"

definition enqueue_deliver :: "uuid \<Rightarrow> db \<Rightarrow> db" where
  "enqueue_deliver i d =
     enqueue_key ''deliver'' [(''touch_id'', JStr i)] (fstr [''deliver:'', i]) d"

definition queue_draft ::
  "pystr option \<Rightarrow> uuid \<Rightarrow> pystr \<Rightarrow> pystr option \<Rightarrow> int \<Rightarrow> touch_kind \<Rightarrow> draft \<Rightarrow> pystr \<Rightarrow> nat \<Rightarrow>
     db \<Rightarrow> exc + uuid \<times> db" where
  "queue_draft key pid campaign variant step kind dr h approve_first d =
     (let (i, d1) = fresh_uuid d
      in bindE (tokenized_draft key i kind dr h) (\<lambda>(dr', h').
        let hold = (0 < approve_first \<and> prior_drafts d1 campaign variant < approve_first)
        in bindE (insert_touch \<lparr>t_id = i, t_prospect = pid, t_campaign = campaign, t_variant = variant,
               t_step = step, t_kind = kind, t_status = (if hold then Pending_review else Drafted),
               t_subject = Some (dr_subject dr'), t_body = Some (dr_body dr'), t_scrubbed = False,
               t_hash = h', t_claimed_at = None, t_sent_at = None, t_ref = None, t_idem = i,
               t_mailbox = None\<rparr> d1) (\<lambda>d2.
             Inr (i, if hold then d2 else enqueue_deliver i d2))))"

definition audit_review :: "uuid \<Rightarrow> pystr \<Rightarrow> pystr \<Rightarrow> pystr \<Rightarrow> db \<Rightarrow> db" where
  "audit_review i event actor note d = audit ''touch'' i event [(''note'', JStr note)] actor d"

definition pending :: "uuid \<Rightarrow> touch_row \<Rightarrow> bool" where
  "pending i t \<longleftrightarrow> t_id t = i \<and> t_status t = Pending_review"

definition approve_pending :: "uuid \<Rightarrow> pystr \<Rightarrow> db \<Rightarrow> exc + bool \<times> db" where
  "approve_pending i actor d =
     (if \<not> human actor
      then Inl (PermissionError (fstr [''ramp approval requires a human actor, got '', py_repr actor]))
      else bindE (update_touch_status (pending i) (\<lambda>t. t\<lparr>t_status := Drafted\<rparr>) d) (\<lambda>(updated, d1).
        if updated = 0 then Inr (False, d1)
        else Inr (True, audit_review i ''ramp_approved'' actor [] (enqueue_deliver i d1))))"

definition reject_pending :: "uuid \<Rightarrow> pystr \<Rightarrow> pystr \<Rightarrow> db \<Rightarrow> exc + bool \<times> db" where
  "reject_pending i actor note d =
     (if \<not> human actor
      then Inl (PermissionError (fstr [''ramp rejection requires a human actor, got '', py_repr actor]))
      else bindE (update_touch_status (pending i) (\<lambda>t. t\<lparr>t_status := Released\<rparr>) d) (\<lambda>(updated, d1).
        Inr (updated \<noteq> 0, if updated \<noteq> 0 then audit_review i ''ramp_rejected'' actor note d1 else d1)))"

definition list_pending_review :: "db \<Rightarrow> (uuid \<times> pystr \<times> pystr \<times> pystr) list" where
  "list_pending_review d =
     map (\<lambda>t. (t_id t, t_campaign t, the_default [] (t_subject t), the_default [] (t_body t)))
       (sort_key t_id (sel (\<lambda>t. t_status t = Pending_review) (touches d)))"

section \<open>Loading a draft, releasing a sequence\<close>

definition profile_of_kind :: "touch_kind \<Rightarrow> gate_profile" where
  "profile_of_kind k =
     (if k = Agentic_reply_kind then REPLY else if k = Followup_kind then FOLLOWUP else COLD)"

definition load_gate_draft :: "db \<Rightarrow> uuid \<Rightarrow> vctx \<Rightarrow> exc + draft_touch option" where
  "load_gate_draft d i ctx =
     (case touch_of d i of
        None \<Rightarrow> Inr None
      | Some tc \<Rightarrow> (case prospect_of d (t_prospect tc) of
        None \<Rightarrow> Inr None
      | Some p \<Rightarrow> (case slug_of d (p_tenant p) of
        None \<Rightarrow> Inr None
      | Some tenant \<Rightarrow>
          if t_status tc \<noteq> Drafted then Inr None
          else (case p_email p of
              None \<Rightarrow> Inl (PermanentJobError ''prospect has no contactable address'')
            | Some email \<Rightarrow> Inr (Some \<lparr>dt_touch = i, dt_tenant = tenant, dt_entity = p_entity p,
                 dt_email = email,
                 dt_draft = \<lparr>dr_subject = the_default [] (t_subject tc), dr_body = the_default [] (t_body tc),
                             dr_step = t_step tc\<rparr>,
                 dt_hash = t_hash tc, dt_grounded = Some (t_hash tc),
                 dt_profile = profile_of_kind (t_kind tc), dt_ctx = ctx, dt_cohort = p_cohort p,
                 dt_prospect = p_id p\<rparr>)))))"

definition in_sequence :: "db \<Rightarrow> uuid \<Rightarrow> entity_row \<Rightarrow> bool" where
  "in_sequence d pid e \<longleftrightarrow>
     Some (e_id e) = map_option p_entity (prospect_of d pid) \<and>
     (\<exists>t\<in>set (touches d). t_prospect t = pid \<and> e_active e = Some (t_id t))"

definition release_sequence :: "uuid \<Rightarrow> db \<Rightarrow> bool \<times> db" where
  "release_sequence pid d =
     (0 < cnt (in_sequence d pid) (entities d),
      d\<lparr>entities := upd (in_sequence d pid) (\<lambda>e. e\<lparr>e_active := None\<rparr>) (entities d)\<rparr>)"

section \<open>deliver\<close>

type_synonym sequences = "(pystr \<Rightarrow> pystr \<Rightarrow> sequence_spec option) option"

type_synonym provider_call = "claimed_touch \<times> pystr \<times> pystr"

record send_env =
  se_registry :: registry
  se_ctx :: "(pystr \<times> vctx) list"
  se_sequences :: sequences
  se_send :: "claimed_touch \<Rightarrow> pystr \<Rightarrow> pystr \<Rightarrow> exc + payload"

definition plan_next_step :: "sequences \<Rightarrow> uuid \<Rightarrow> draft_touch \<Rightarrow> db \<Rightarrow> exc + db" where
  "plan_next_step seqs pid g d =
     (case seqs of
        None \<Rightarrow> Inr d
      | Some f \<Rightarrow>
          if dt_profile g = REPLY then Inr d
          else (case f (dt_tenant g) (the_default ''None'' (map_option p_persona (prospect_of d pid))) of
              None \<Rightarrow> Inr d
            | Some spec \<Rightarrow>
                let step = dr_step (dt_draft g)
                in if step + 1 \<ge> sq_steps spec then Inr (snd (release_sequence pid d))
                   else if nat step \<ge> length (sq_gaps spec) then Inl (OtherError ''list index out of range'')
                   else Inr (snd (enqueue ''compose''
                          [(''prospect_id'', JStr pid), (''step_index'', JInt (step + 1))]
                          (Some (fstr [''followup:'', pid, '':'', int_str (step + 1)]))
                          (sq_gaps spec ! nat step * 86400) MAX_ATTEMPTS_DEFAULT d))))"

text \<open>After the provider accepted the message.\<close>

definition dispatch ::
  "send_env \<Rightarrow> uuid \<Rightarrow> draft_touch \<Rightarrow> payload \<Rightarrow> db \<Rightarrow> exc + db" where
  "dispatch env i g ref d =
     (let variant = Option.bind (touch_of d i) t_variant;
          d1 = (case variant of None \<Rightarrow> d | Some v \<Rightarrow> if v = [] then d else record_trial (dt_tenant g) v [] d);
          pid = the_default ''None'' (map_option t_prospect (touch_of d1 i))
      in bindE
        (if map_option p_state (prospect_of d1 pid) = Some Queued
         then transition pid Contacted ''system:deliver'' [] d1 else Inr d1) (\<lambda>d2.
         bindE (update_touch_status (\<lambda>t. t_id t = i)
            (\<lambda>t. t\<lparr>t_status := Dispatched, t_sent_at := Some (epoch (now d2)), t_ref := Some ref\<rparr>) d2)
           (\<lambda>(_, d3). plan_next_step (se_sequences env) pid g d3)))"

definition release_touch :: "uuid \<Rightarrow> refusal \<Rightarrow> db \<Rightarrow> exc + db" where
  "release_touch i r d =
     bindE (update_touch_status (\<lambda>t. t_id t = i) (\<lambda>t. t\<lparr>t_status := Released\<rparr>) d) (\<lambda>(_, d1).
       Inr (audit ''touch'' i ''released''
              [(''reason'', JStr (reason_str (rf_reason r))), (''detail'', JStr (rf_detail r))]
              ''system:deliver'' d1))"

fun status_str :: "touch_status \<Rightarrow> pystr" where
  "status_str Drafted = ''drafted''" | "status_str Pending_review = ''pending_review''"
| "status_str Pending_human = ''pending_human''" | "status_str Claimed = ''claimed''"
| "status_str Dispatched = ''dispatched''" | "status_str Sent = ''sent''"
| "status_str Released = ''released''"

definition deliver :: "send_env \<Rightarrow> payload \<Rightarrow> db \<Rightarrow> provider_call list \<times> (exc + db)" where
  "deliver env pl d =
     (case jget_str pl ''touch_id'' of
        Inl e \<Rightarrow> ([], Inl e)
      | Inr i \<Rightarrow>
          let status = map_option t_status (touch_of d i)
          in if status = Some Dispatched \<or> status = Some Sent then ([], Inr d)
             else if status \<noteq> Some Drafted
             then ([], Inl (PermanentJobError (fstr [''touch '', i, '' in state '',
                     case status of None \<Rightarrow> ''None'' | Some s \<Rightarrow> py_repr (status_str s)])))
             else
               let tenant = the_default ''None'' (Option.bind (touch_of d i) (\<lambda>tc.
                      Option.bind (prospect_of d (t_prospect tc)) (\<lambda>p. slug_of d (p_tenant p))))
               in (case map_of (se_ctx env) tenant of
                     None \<Rightarrow> ([], Inl (KeyError tenant))
                   | Some ctx \<Rightarrow>
                  (case load_gate_draft d i ctx of
                     Inl e \<Rightarrow> ([], Inl e)
                   | Inr None \<Rightarrow> ([], Inl (PermanentJobError (fstr [''touch '', i, '' not loadable as drafted''])))
                   | Inr (Some g) \<Rightarrow>
                  (case claim (se_registry env) (pg_store pg_default) g d of
                     (Refused r, d1) \<Rightarrow>
                       ([], if rf_terminal r then release_touch i r d1
                            else Inl (RuntimeError (fstr [''retryable refusal: '', reason_str (rf_reason r)])))
                   | (Granted c, d1) \<Rightarrow>
                       let subject = dr_subject (dt_draft g); body = dr_body (dt_draft g)
                       in ([(c, subject, body)],
                           bindE (se_send env c subject body) (\<lambda>ref. dispatch env i g ref d1))))))"

section \<open>A claim against the database\<close>

lemma store_frames [simp]:
  "prospects (snd (try_consume_budget tn t d)) = prospects d" "tenants (snd (try_consume_budget tn t d)) = tenants d"
  "touches (snd (try_consume_budget tn t d)) = touches d" "entities (snd (try_consume_budget tn t d)) = entities d"
  "mailboxes (snd (try_consume_budget tn t d)) = mailboxes d" "now (snd (try_consume_budget tn t d)) = now d"
  "locked_boxes (snd (try_consume_budget tn t d)) = locked_boxes d"
  "suppressions (snd (try_consume_budget tn t d)) = suppressions d"
  "vstats (snd (try_consume_budget tn t d)) = vstats d" "jobs (snd (try_consume_budget tn t d)) = jobs d"
  by (auto simp: try_consume_budget_def consume_one_def adjust_def Let_def split_beta)

lemma pick_frames [simp]:
  "prospects (snd (pick_mailbox tn d)) = prospects d" "tenants (snd (pick_mailbox tn d)) = tenants d"
  "touches (snd (pick_mailbox tn d)) = touches d" "entities (snd (pick_mailbox tn d)) = entities d"
  "suppressions (snd (pick_mailbox tn d)) = suppressions d" "now (snd (pick_mailbox tn d)) = now d"
  "vstats (snd (pick_mailbox tn d)) = vstats d" "jobs (snd (pick_mailbox tn d)) = jobs d"
  by (auto simp: pick_mailbox_def ensure_day_counters_def Let_def split: option.splits)

lemma release_budget_frames [simp]:
  "touches (release_budget tn t d) = touches d" "prospects (release_budget tn t d) = prospects d"
  "entities (release_budget tn t d) = entities d" "suppressions (release_budget tn t d) = suppressions d"
  "now (release_budget tn t d) = now d" "jobs (release_budget tn t d) = jobs d"
  "tenants (release_budget tn t d) = tenants d" "vstats (release_budget tn t d) = vstats d"
  by (simp_all add: release_budget_def adjust_def)

lemma confidence_sendable_cong:
  "prospects d' = prospects d \<Longrightarrow> tenants d' = tenants d \<Longrightarrow> confidence_sendable d' = confidence_sendable d"
  by (simp add: confidence_sendable_def slug_of_def fun_eq_iff)

text \<open>A counter of this month with room.\<close>

definition has_room :: "scope_type \<Rightarrow> pystr \<Rightarrow> db \<Rightarrow> bool" where
  "has_room st si d \<longleftrightarrow> (\<exists>c\<in>set (counters d). is_counter st si (month d) c \<and> c_used c < c_cap c)"

definition box_of :: "pystr \<Rightarrow> pystr \<Rightarrow> db \<Rightarrow> bool" where
  "box_of m tenant d \<longleftrightarrow> (\<exists>b\<in>set (mailboxes d). m_box b = m \<and> m_tenant b = tenant \<and> m_warm b)"

lemma consume_has_room: "fst (consume_one st si d) \<noteq> 0 \<longleftrightarrow> has_room st si d"
  by (auto simp: consume_one_def Let_def cnt_pos has_room_def)

lemma has_room_other:
  assumes "st \<noteq> st'"
  shows "has_room st si (snd (consume_one st' si' d)) = has_room st si d"
proof -
  have "(\<exists>c\<in>set (bump (\<lambda>c. is_counter st' si' (month d) c \<and> c_used c < c_cap c) (\<lambda>u. u + 1) t).
        is_counter st si (month d) c \<and> c_used c < c_cap c) \<longleftrightarrow>
      (\<exists>c\<in>set t. is_counter st si (month d) c \<and> c_used c < c_cap c)" for t
    using assms by (induction t) (auto simp: bump_def is_counter_def)
  then show ?thesis by (simp add: has_room_def)
qed

lemma try_consume_True:
  assumes "try_consume_budget tn t d = (True, d')"
  shows "has_room Tenant_month tn d" "has_room Cohort_month (dt_cohort t) d"
proof -
  have "has_room Tenant_month tn d \<and> has_room Cohort_month (dt_cohort t) d"
  proof (cases rule: try_consume_cases [of tn t d])
    case (consumed d1)
    then show ?thesis unfolding consumed(1) consume_has_room by (simp add: has_room_other)
  qed (use assms in simp_all)
  then show "has_room Tenant_month tn d" "has_room Cohort_month (dt_cohort t) d" by auto
qed

lemma pick_mailbox_box: "pick_mailbox tn d = (Some m, d') \<Longrightarrow> box_of m tn d"
  by (cases rule: pick_mailbox_cases [of tn d])
    (auto simp: mailbox_open_def ensure_day_counters_def box_of_def)

lemma pg_claim_Granted:
  assumes "claim reg (pg_store cfg) g d = (Granted c, d')"
  shows "checks_pass reg (pg_store cfg) g d"
    "volume (dt_profile g) \<Longrightarrow> has_room Tenant_month (dt_tenant g) d \<and> has_room Cohort_month (dt_cohort g) d"
    "box_of (ct_mailbox c) (dt_tenant g) d" "confidence_sendable d (dt_email g) (dt_tenant g)"
    "c = \<lparr>ct_touch = dt_touch g, ct_tenant = dt_tenant g, ct_mailbox = ct_mailbox c, ct_sha = dt_hash g,
          ct_recipient = dt_email g\<rparr>"
    "\<exists>tc\<in>set (touches d). t_id tc = dt_touch g \<and> t_status tc = Drafted"
    "touches d' = upd (\<lambda>r. t_id r = dt_touch g \<and> t_status r = Drafted)
       (\<lambda>r. r\<lparr>t_status := Claimed, t_claimed_at := Some (epoch (now d)), t_mailbox := Some (ct_mailbox c)\<rparr>) (touches d)"
    "entities d' = (if volume (dt_profile g) then upd (\<lambda>e. e_id e = dt_entity g)
        (\<lambda>e. e\<lparr>e_active := Some (dt_touch g), e_last_contact := Some (epoch (now d)),
               e_touches := e_touches e + 1\<rparr>) (entities d) else entities d)"
    "prospects d' = prospects d" "suppressions d' = suppressions d"
proof -
  obtain results s0 where k: "checks_pass reg (pg_store cfg) g d"
    "volume (dt_profile g) \<Longrightarrow> gs_try_consume (pg_store cfg) (dt_tenant g) g d = Inr (True, s0)"
    "\<not> volume (dt_profile g) \<Longrightarrow> s0 = d"
    "claim_mailbox (pg_store cfg) g results s0 = (Granted c, d')"
    using claim_Granted [OF assms] by blast
  have c0: "volume (dt_profile g) \<Longrightarrow> try_consume_budget (dt_tenant g) g d = (True, s0)"
    using k(2) by (simp add: pg_store_def)
  have f0: "prospects s0 = prospects d" "tenants s0 = tenants d" "touches s0 = touches d"
    "entities s0 = entities d" "mailboxes s0 = mailboxes d" "now s0 = now d" "suppressions s0 = suppressions d"
    using c0 k(3) store_frames [of "dt_tenant g" g d] by (cases "volume (dt_profile g)"; simp)+
  from k(4) obtain m s1 where b: "gs_pick_mailbox (pg_store cfg) (dt_tenant g) s0 = Inr (Some m, s1)"
    "gs_confidence (pg_store cfg) s1 (dt_email g) (dt_tenant g) = Inr True"
    "gs_persist (pg_store cfg) g m (results @ [(''mailbox'', m), (''confidence'', ''pass'')]) s1 = Inr d'"
    "c = \<lparr>ct_touch = dt_touch g, ct_tenant = dt_tenant g, ct_mailbox = m, ct_sha = dt_hash g,
          ct_recipient = dt_email g\<rparr>"
    by (rule claim_mailbox_Granted)
  have p: "pick_mailbox (dt_tenant g) s0 = (Some m, s1)" using b(1) by (simp add: pg_store_def)
  then have f1: "prospects s1 = prospects d" "tenants s1 = tenants d" "touches s1 = touches d"
    "entities s1 = entities d" "now s1 = now d" "suppressions s1 = suppressions d"
    using pick_frames [of "dt_tenant g" s0] f0 by simp_all
  show "checks_pass reg (pg_store cfg) g d" by (rule k)
  show "has_room Tenant_month (dt_tenant g) d \<and> has_room Cohort_month (dt_cohort g) d" if "volume (dt_profile g)"
    using try_consume_True [OF c0 [OF that]] by simp
  show "box_of (ct_mailbox c) (dt_tenant g) d"
    using pick_mailbox_box [OF p] f0(5) by (simp add: box_of_def b(4))
  show "confidence_sendable d (dt_email g) (dt_tenant g)"
    using b(2) confidence_sendable_cong [of s1 d] f1 by (simp add: pg_store_def)
  show "c = \<lparr>ct_touch = dt_touch g, ct_tenant = dt_tenant g, ct_mailbox = ct_mailbox c, ct_sha = dt_hash g,
          ct_recipient = dt_email g\<rparr>" by (simp add: b(4))
  have pc: "persist_claim g m (results @ [(''mailbox'', m), (''confidence'', ''pass'')]) s1 = Inr d'"
    using b(3) by (simp add: pg_store_def)
  have all: "(\<exists>tc\<in>set (touches d). t_id tc = dt_touch g \<and> t_status tc = Drafted) \<and>
    touches d' = upd (\<lambda>r. t_id r = dt_touch g \<and> t_status r = Drafted)
       (\<lambda>r. r\<lparr>t_status := Claimed, t_claimed_at := Some (epoch (now d)), t_mailbox := Some m\<rparr>) (touches d) \<and>
    entities d' = (if volume (dt_profile g) then upd (\<lambda>e. e_id e = dt_entity g)
        (\<lambda>e. e\<lparr>e_active := Some (dt_touch g), e_last_contact := Some (epoch (now d)),
               e_touches := e_touches e + 1\<rparr>) (entities d) else entities d) \<and>
    prospects d' = prospects d \<and> suppressions d' = suppressions d"
  proof (rule persist_claim_Inr [OF pc], goal_cases)
    case (1 tc)
    have "\<exists>tc\<in>set (touches d). t_id tc = dt_touch g \<and> t_status tc = Drafted"
      using 1(1-3) f1(3) by auto
    with 1(4-8) show ?case by (simp only: f1)
  qed
  then show "\<exists>tc\<in>set (touches d). t_id tc = dt_touch g \<and> t_status tc = Drafted"
    "touches d' = upd (\<lambda>r. t_id r = dt_touch g \<and> t_status r = Drafted)
       (\<lambda>r. r\<lparr>t_status := Claimed, t_claimed_at := Some (epoch (now d)), t_mailbox := Some (ct_mailbox c)\<rparr>) (touches d)"
    "entities d' = (if volume (dt_profile g) then upd (\<lambda>e. e_id e = dt_entity g)
        (\<lambda>e. e\<lparr>e_active := Some (dt_touch g), e_last_contact := Some (epoch (now d)),
               e_touches := e_touches e + 1\<rparr>) (entities d) else entities d)"
    "prospects d' = prospects d" "suppressions d' = suppressions d"
    by (simp_all add: b(4))
qed

text \<open>A claim that is refused leaves the touches, the prospects and the entities as they were.\<close>

lemma pg_claim_Refused:
  assumes "claim reg (pg_store cfg) g d = (Refused r, d')"
  shows "touches d' = touches d \<and> prospects d' = prospects d \<and> entities d' = entities d"
proof -
  have gb: "touches s' = touches s \<and> prospects s' = prospects s \<and> entities s' = entities s"
    if "give_back (pg_store cfg) g q s = (x, s')" for q s x s'
    using that by (auto simp: give_back_def pg_store_def split: if_splits)
  have cm: "touches s' = touches s \<and> prospects s' = prospects s \<and> entities s' = entities s"
    if h: "claim_mailbox (pg_store cfg) g results s = (Refused r, s')" for results s s'
  proof -
    obtain m s1 where p: "pick_mailbox (dt_tenant g) s = (m, s1)" by (cases "pick_mailbox (dt_tenant g) s")
    then have f: "touches s1 = touches s" "prospects s1 = prospects s" "entities s1 = entities s"
      using pick_frames [of "dt_tenant g" s] by simp_all
    from h p have "(\<exists>q. give_back (pg_store cfg) g q s1 = (Refused r, s')) \<or> s' = s1"
      by (auto simp: claim_mailbox_def pg_store_def Let_def split: option.splits if_splits sum.splits)
    with gb f show ?thesis by metis
  qed
  obtain b s0 where c: "try_consume_budget (dt_tenant g) g d = (b, s0)"
    by (cases "try_consume_budget (dt_tenant g) g d")
  then have f: "touches s0 = touches d" "prospects s0 = prospects d" "entities s0 = entities d"
    using store_frames [of "dt_tenant g" g d] by simp_all
  have gc: "gs_try_consume (pg_store cfg) (dt_tenant g) g d = Inr (b, s0)" using c by (simp add: pg_store_def)
  from assms gc have "d' = d \<or> d' = s0 \<or> (\<exists>results s. (s = s0 \<or> s = d) \<and>
      claim_mailbox (pg_store cfg) g results s = (Refused r, d'))"
    unfolding claim_def by (auto split: sum.splits if_splits)
  with cm f show ?thesis by metis
qed

section \<open>deliver calls the provider only with a granted claim\<close>

lemma load_gate_draft_Some:
  assumes "load_gate_draft d i ctx = Inr (Some g)"
  obtains tc p tenant email where "touch_of d i = Some tc" "prospect_of d (t_prospect tc) = Some p"
    "slug_of d (p_tenant p) = Some tenant" "t_status tc = Drafted" "p_email p = Some email"
    "g = \<lparr>dt_touch = i, dt_tenant = tenant, dt_entity = p_entity p, dt_email = email,
          dt_draft = \<lparr>dr_subject = the_default [] (t_subject tc), dr_body = the_default [] (t_body tc),
                      dr_step = t_step tc\<rparr>,
          dt_hash = t_hash tc, dt_grounded = Some (t_hash tc), dt_profile = profile_of_kind (t_kind tc),
          dt_ctx = ctx, dt_cohort = p_cohort p, dt_prospect = p_id p\<rparr>"
  using assms by (auto simp: load_gate_draft_def split: option.splits if_splits)

lemma deliver_call:
  assumes "deliver env pl d = (calls, r)" and "calls \<noteq> []"
  obtains i g ctx c d1 where "jget_str pl ''touch_id'' = Inr i" "load_gate_draft d i ctx = Inr (Some g)"
    "map_of (se_ctx env) (dt_tenant g) = Some ctx"
    "claim (se_registry env) (pg_store pg_default) g d = (Granted c, d1)"
    "calls = [(c, dr_subject (dt_draft g), dr_body (dt_draft g))]"
    "r = bindE (se_send env c (dr_subject (dt_draft g)) (dr_body (dt_draft g))) (\<lambda>ref. dispatch env i g ref d1)"
proof -
  let ?tenant = "\<lambda>i. the_default ''None'' (Option.bind (touch_of d i) (\<lambda>tc.
                      Option.bind (prospect_of d (t_prospect tc)) (\<lambda>p. slug_of d (p_tenant p))))"
  from assms obtain i where i: "jget_str pl ''touch_id'' = Inr i"
    by (auto simp: deliver_def split: sum.splits)
  with assms obtain ctx where ctx: "map_of (se_ctx env) (?tenant i) = Some ctx"
    by (auto simp: deliver_def Let_def split: if_splits option.splits)
  with assms i obtain g where g: "load_gate_draft d i ctx = Inr (Some g)"
    by (auto simp: deliver_def Let_def split: if_splits sum.splits option.splits)
  with assms i ctx obtain c d1 where c: "claim (se_registry env) (pg_store pg_default) g d = (Granted c, d1)"
    by (auto simp: deliver_def Let_def split: if_splits prod.splits claim_result.splits)
  from assms i ctx g c
  have "calls = [(c, dr_subject (dt_draft g), dr_body (dt_draft g))]"
    "r = bindE (se_send env c (dr_subject (dt_draft g)) (dr_body (dt_draft g))) (\<lambda>ref. dispatch env i g ref d1)"
    by (auto simp: deliver_def Let_def split: if_splits)
  moreover have "map_of (se_ctx env) (dt_tenant g) = Some ctx"
    using ctx by (rule_tac load_gate_draft_Some [OF g]) simp
  ultimately show ?thesis using that i g c by blast
qed

lemma plan_next_step_frame:
  assumes "plan_next_step seqs pid g d = Inr d'"
  shows "touches d' = touches d \<and> prospects d' = prospects d \<and> counters d' = counters d"
  using assms
  by (auto simp: plan_next_step_def Let_def release_sequence_def split: option.splits if_splits)

lemma fetch_touch_upd:
  assumes "\<And>t. t_id (f t) = t_id t"
  shows "fetch (\<lambda>t. t_id t = i) (upd P f ts) = map_option (\<lambda>t. if P t then f t else t) (fetch (\<lambda>t. t_id t = i) ts)"
  by (rule fetch_upd) (simp add: assms)

lemma dispatch_Inr:
  assumes "dispatch env i g ref d = Inr d'"
  shows "\<exists>n. touch_of d' i = map_option (\<lambda>t. t\<lparr>t_status := Dispatched, t_sent_at := n, t_ref := Some ref\<rparr>) (touch_of d i)"
proof -
  let ?d1 = "case Option.bind (touch_of d i) t_variant of None \<Rightarrow> d
      | Some v \<Rightarrow> if v = [] then d else record_trial (dt_tenant g) v [] d"
  have t1: "touches ?d1 = touches d" by (auto split: option.splits)
  let ?pid = "the_default ''None'' (map_option t_prospect (touch_of ?d1 i))"
  from assms obtain d2 n d3 where d2: "(if map_option p_state (prospect_of ?d1 ?pid) = Some Queued
         then transition ?pid Contacted ''system:deliver'' [] ?d1 else Inr ?d1) = Inr d2"
    and d3: "update_touch_status (\<lambda>t. t_id t = i)
            (\<lambda>t. t\<lparr>t_status := Dispatched, t_sent_at := Some (epoch (now d2)), t_ref := Some ref\<rparr>) d2 = Inr (n, d3)"
    and d': "plan_next_step (se_sequences env) ?pid g d3 = Inr d'"
    unfolding dispatch_def Let_def by (auto simp: bindE_eq_Inr)
  have "touches d2 = touches d" using d2 t1 by (auto dest: transition_frame(1) split: if_splits)
  then have "touches d' = upd (\<lambda>t. t_id t = i)
      (\<lambda>t. t\<lparr>t_status := Dispatched, t_sent_at := Some (epoch (now d2)), t_ref := Some ref\<rparr>) (touches d)"
    using update_touch_status_Inr [OF d3] plan_next_step_frame [OF d'] by simp
  then have "touch_of d' i = map_option (\<lambda>t. t\<lparr>t_status := Dispatched, t_sent_at := Some (epoch (now d2)), t_ref := Some ref\<rparr>)
      (touch_of d i)"
    unfolding touch_of_def by (cases "fetch (\<lambda>t. t_id t = i) (touches d)")
      (auto simp: fetch_touch_upd dest: fetch_SomeD)
  then show ?thesis by blast
qed

lemma deliver_done:
  assumes "jget_str pl ''touch_id'' = Inr i" and "touch_of d i = Some tc"
    and "t_status tc = Dispatched \<or> t_status tc = Sent"
  shows "deliver env pl d = ([], Inr d)"
  using assms by (auto simp: deliver_def Let_def)

text \<open>A delivery that called the provider and committed leaves the touch dispatched.\<close>

lemma deliver_dispatched:
  assumes "deliver env pl d = (calls, Inr d')" and "calls \<noteq> []" and "jget_str pl ''touch_id'' = Inr i"
  shows "\<exists>tc. touch_of d' i = Some tc \<and> t_status tc = Dispatched"
proof -
  from assms(1,2) obtain g ctx c d1 where c: "load_gate_draft d i ctx = Inr (Some g)"
    "claim (se_registry env) (pg_store pg_default) g d = (Granted c, d1)"
    "Inr d' = bindE (se_send env c (dr_subject (dt_draft g)) (dr_body (dt_draft g))) (\<lambda>ref. dispatch env i g ref d1)"
    using assms(3) by (auto elim!: deliver_call)
  from c(3) obtain ref where "dispatch env i g ref d1 = Inr d'"
    by (cases "se_send env c (dr_subject (dt_draft g)) (dr_body (dt_draft g))") auto
  then obtain n where t: "touch_of d' i =
      map_option (\<lambda>t. t\<lparr>t_status := Dispatched, t_sent_at := n, t_ref := Some ref\<rparr>) (touch_of d1 i)"
    using dispatch_Inr by blast
  from c(1) obtain tc where "touch_of d i = Some tc" by (rule load_gate_draft_Some)
  then have "touch_of d1 i \<noteq> None"
    unfolding touch_of_def pg_claim_Granted(7) [OF c(2)] by (simp add: fetch_touch_upd)
  with t show ?thesis by auto
qed

lemma reject_suppressed_drafted [simp]: "t_status (f t) \<noteq> Claimed \<Longrightarrow> \<not> reject_suppressed_touch d (f t)"
  by (simp add: reject_suppressed_touch_def)

text \<open>The reviewer's approval never fails on the triggers, and only a pending draft is released.\<close>

lemma approve_pending_human:
  assumes "human actor" and "touch_of d i = Some tc" and "t_status tc = Pending_review"
  shows "\<exists>d'. approve_pending i actor d = Inr (True, d') \<and>
    (\<exists>t. touch_of d' i = Some t \<and> t_status t = Drafted) \<and>
    (\<exists>j\<in>set (jobs d'). j_key j = Some (fstr [''deliver:'', i]))"
proof -
  from assms(2) have tc: "tc \<in> set (touches d)" "t_id tc = i" using touch_of_SomeD by blast+
  with assms(3) have n: "cnt (pending i) (touches d) \<noteq> 0" by (auto simp: cnt_0 pending_def)
  let ?d1 = "d\<lparr>touches := upd (pending i) (\<lambda>t. t\<lparr>t_status := Drafted\<rparr>) (touches d)\<rparr>"
  have u: "update_touch_status (pending i) (\<lambda>t. t\<lparr>t_status := Drafted\<rparr>) d = Inr (cnt (pending i) (touches d), ?d1)"
    by (simp add: update_touch_status_def enforce_claim_lineage_def)
  have "touch_of ?d1 i = Some (tc\<lparr>t_status := Drafted\<rparr>)"
    using assms(2,3) tc(2) by (simp add: touch_of_def fetch_touch_upd pending_def)
  then have "touch_of (audit_review i ''ramp_approved'' actor [] (enqueue_deliver i ?d1)) i = Some (tc\<lparr>t_status := Drafted\<rparr>)"
    by (simp add: audit_review_def enqueue_deliver_def touch_of_def)
  moreover have "\<exists>j\<in>set (jobs (audit_review i ''ramp_approved'' actor [] (enqueue_deliver i ?d1))). j_key j = Some (fstr [''deliver:'', i])"
    using enqueue_key_present by (auto simp: audit_review_def enqueue_deliver_def)
  ultimately show ?thesis using assms(1) n u by (simp add: approve_pending_def)
qed

end
