(* ===== verification/Envelope.thy ===== *)
theory Envelope
  imports Regex Sha256
begin

text \<open>
  \<open>security/envelope.py\<close>: the one constructor of untrusted blocks, and the tripwire patterns.
  The escape of a close tag uses the fraction slash U+2044, three bytes in UTF-8.
\<close>

section \<open>wrap\<close>

definition OPEN_TAG :: pystr where
  "OPEN_TAG = ''<untrusted''"

definition CLOSE_TAG :: pystr where
  "CLOSE_TAG = ''</untrusted>''"

definition ESCAPE_RE :: rx where
  "ESCAPE_RE = ci (rlit CLOSE_TAG)"

definition ESCAPED :: pystr where
  "ESCAPED = [CHR ''<'', CHR 0xE2, CHR 0x81, CHR 0x84] @ ''untrusted>''"

record envelope =
  ev_text :: pystr
  ev_sha :: pystr
  ev_source :: pystr

definition allowed_sources :: "pystr \<Rightarrow> pystr list" where
  "allowed_sources source =
     [''web'', ''reply'', ''import'', ''research_note''] @
     (if startswith source ''variable:'' then [source] else [])"

definition escape :: "pystr \<Rightarrow> pystr" where
  "escape content = sub ESCAPE_RE (\<lambda>_. ESCAPED) content"

definition wrap :: "pystr \<Rightarrow> pystr \<Rightarrow> pystr \<Rightarrow> exc + envelope" where
  "wrap content source idem =
     (if source \<notin> set (allowed_sources source)
      then Inl (ValueError (fstr [''unknown envelope source: '', py_repr source]))
      else let escaped = escape content; digest = sha256 escaped
           in Inr \<lparr>ev_text = fstr [OPEN_TAG, '' source='', dq, source, dq, '' sha256='', dq, digest, dq,
                     '' idem='', dq, idem, dq, ''>'', nl, escaped, nl, CLOSE_TAG],
                   ev_sha = digest, ev_source = source\<rparr>)"

text \<open>The text of a block of a source that is always allowed.\<close>

definition wrapped :: "pystr \<Rightarrow> pystr \<Rightarrow> pystr \<Rightarrow> pystr" where
  "wrapped content source idem = (case wrap content source idem of Inl _ \<Rightarrow> [] | Inr e \<Rightarrow> ev_text e)"

section \<open>injection_suspects\<close>

definition INJECTION_PATTERNS :: "(pystr \<times> rx) list" where
  "INJECTION_PATTERNS =
    [(''ignore (all |any |your |the |previous |prior )*(instructions|prompts|rules)'',
      rseq [rlit ''ignore '', rstar (ralts [''all '', ''any '', ''your '', ''the '', ''previous '', ''prior '']),
        ralts [''instructions'', ''prompts'', ''rules'']]),
     (''disregard (the|all|your) (above|previous|prior)'',
      rseq [rlit ''disregard '', ralts [''the'', ''all'', ''your''], rchr CHR '' '',
        ralts [''above'', ''previous'', ''prior'']]),
     (''system prompt'', rlit ''system prompt''),
     (''you are now'', rlit ''you are now''),
     (''new instructions?:'', rseq [rlit ''new instruction'', ropt (rchr CHR ''s''), rchr CHR '':'']),
     (''reveal (your|the) (prompt|instructions|configuration|api key)'',
      rseq [rlit ''reveal '', ralts [''your'', ''the''], rchr CHR '' '',
        ralts [''prompt'', ''instructions'', ''configuration'', ''api key'']]),
     ([CHR 0x5C] @ ''bDAN'' @ [CHR 0x5C] @ ''b'', rseq [RWordB, rlit ''DAN'', RWordB]),
     (''act as (an?|the) (unrestricted|jailbroken)'',
      rseq [rlit ''act as '', ralt [rseq [rchr CHR ''a'', ropt (rchr CHR ''n'')], rlit ''the''], rchr CHR '' '',
        ralts [''unrestricted'', ''jailbroken'']])]"

definition injection_suspects :: "pystr \<Rightarrow> pystr list" where
  "injection_suspects content = map fst (filter (\<lambda>(_, p). search (ci p) content \<noteq> None) INJECTION_PATTERNS)"

section \<open>Content cannot close its envelope\<close>

text \<open>A literal pattern, read without case.\<close>

definition ceq :: "char \<Rightarrow> char \<Rightarrow> bool" where
  "ceq d c \<longleftrightarrow> c = d \<or> char_lower c = d \<or> char_upper c = d"

fun lit_prefix :: "pystr \<Rightarrow> pystr \<Rightarrow> bool" where
  "lit_prefix [] s = True"
| "lit_prefix (d # l) s = (case s of [] \<Rightarrow> False | c # t \<Rightarrow> ceq d c \<and> lit_prefix l t)"

lemma mt_ci_rlit: "mt (ci (rlit l)) (p, s) \<noteq> [] \<longleftrightarrow> lit_prefix l s"
proof (induction l arbitrary: p s rule: rlit.induct)
  case 1
  then show ?case by simp
next
  case (2 c)
  then show ?case by (auto simp: rchr_def ceq_def split: list.splits)
next
  case (3 c d l)
  then show ?case by (auto simp: rchr_def ceq_def split: list.splits)
qed

lemma mt_ci_rlit_length: "q \<in> set (mt (ci (rlit l)) (p, s)) \<Longrightarrow> length (snd q) + length l = length s"
proof (induction l arbitrary: p s rule: rlit.induct)
  case (3 c d l)
  then show ?case by (fastforce simp: rchr_def split: list.splits if_splits)
qed (auto simp: rchr_def split: list.splits if_splits)

fun lit_in :: "pystr \<Rightarrow> pystr \<Rightarrow> bool" where
  "lit_in l [] = lit_prefix l []"
| "lit_in l (c # s) = (lit_prefix l (c # s) \<or> lit_in l s)"

text \<open>The text a scan puts back, with every match replaced.\<close>

definition put :: "pystr \<Rightarrow> (char + pystr) list \<Rightarrow> pystr" where
  "put e xs = concat (map (\<lambda>x. case x of Inl c \<Rightarrow> [c] | Inr m \<Rightarrow> e) xs)"

lemma put_simps [simp]: "put e [] = []" "put e (Inl c # xs) = c # put e xs" "put e (Inr m # xs) = e @ put e xs"
  by (simp_all add: put_def)

lemma scan_cases:
  obtains (no) "scan r p (c # s) = Inl c # scan r (Some c) s"
      "mt r (p, c # s) = [] \<or> (\<exists>q qs. mt r (p, c # s) = q # qs \<and> length (snd q) = length (c # s))"
  | (yes) q qs where "mt r (p, c # s) = q # qs" "length (snd q) < length (c # s)"
      "scan r p (c # s) = Inr (match_text (c # s) q) # scan r (fst q) (snd q)"
proof (cases "mt r (p, c # s)")
  case Nil
  then show ?thesis by (intro no) auto
next
  case (Cons q qs)
  then have "suffix (snd q) (c # s)" using mt_suffix [of q r "(p, c # s)"] by simp
  then have "length (snd q) \<le> length (c # s)" by (rule suffix_length_le)
  with Cons no yes show ?thesis by (cases "length (snd q) < length (c # s)") auto
qed

lemma put_prefix_back:
  assumes "e = d # e'"
  shows "lit_prefix u (put e (scan r p s)) \<Longrightarrow> \<forall>x\<in>set u. \<not> ceq x d \<Longrightarrow> lit_prefix u s"
proof (induction u arbitrary: p s)
  case (Cons x u)
  show ?case
  proof (cases s)
    case Nil
    with Cons.prems show ?thesis by simp
  next
    case s: (Cons c t)
    show ?thesis
    proof (cases rule: scan_cases [of r p c t])
      case no
      with Cons.prems s show ?thesis by (auto intro: Cons.IH)
    next
      case yes
      with Cons.prems s assms show ?thesis by simp
    qed
  qed
qed simp

text \<open>The escaped content holds no close tag, in any mixture of cases.\<close>

lemma close_tag: "CLOSE_TAG = CHR ''<'' # CHR ''/'' # ''untrusted>''"
  by (simp add: CLOSE_TAG_def)

lemma lit_in_ESCAPED: "lit_in CLOSE_TAG (ESCAPED @ s) \<longleftrightarrow> lit_in CLOSE_TAG s"
  by (simp add: CLOSE_TAG_def ESCAPED_def ceq_def char_lower_def char_upper_def is_upper_def is_lower_def code_def)

lemma tail_no_open: "\<forall>x\<in>set (CHR ''/'' # ''untrusted>''). \<not> ceq x (CHR ''<'')"
  by (simp add: ceq_def char_lower_def char_upper_def is_upper_def is_lower_def code_def)

lemma escape_no_close_from: "\<not> lit_in CLOSE_TAG (put ESCAPED (scan ESCAPE_RE p s))"
proof (induction ESCAPE_RE p s rule: scan.induct)
  case (1 p)
  then show ?case by (simp add: close_tag)
next
  case (2 p c s)
  show ?case
  proof (cases rule: scan_cases [of ESCAPE_RE p c s])
    case no
    have "\<not> lit_in CLOSE_TAG (put ESCAPED (scan ESCAPE_RE (Some c) s))"
      using no(2) 2(1,3) by auto
    moreover have "\<not> lit_prefix CLOSE_TAG (c # put ESCAPED (scan ESCAPE_RE (Some c) s))"
    proof
      assume a: "lit_prefix CLOSE_TAG (c # put ESCAPED (scan ESCAPE_RE (Some c) s))"
      then have c: "ceq (CHR ''<'') c" and t: "lit_prefix (CHR ''/'' # ''untrusted>'')
          (put ESCAPED (scan ESCAPE_RE (Some c) s))" by (simp_all add: close_tag)
      from put_prefix_back [OF _ t tail_no_open] have "lit_prefix (CHR ''/'' # ''untrusted>'') s"
        by (simp add: ESCAPED_def)
      with c have l: "lit_prefix CLOSE_TAG (c # s)" by (simp add: close_tag)
      then have "mt ESCAPE_RE (p, c # s) \<noteq> []" unfolding ESCAPE_RE_def mt_ci_rlit .
      moreover have "length (snd q) < length (c # s)" if "q \<in> set (mt ESCAPE_RE (p, c # s))" for q
        using mt_ci_rlit_length [of q CLOSE_TAG p "c # s"] that by (simp add: ESCAPE_RE_def close_tag)
      ultimately show False using no(2) by (metis list.set_intros(1) less_irrefl)
    qed
    ultimately show ?thesis using no(1) by simp
  next
    case (yes q qs)
    have "\<not> lit_in CLOSE_TAG (put ESCAPED (scan ESCAPE_RE (fst q) (snd q)))"
      using 2(2) yes by auto
    then show ?thesis using yes(3) by (simp add: lit_in_ESCAPED)
  qed
qed

lemma escape_no_close: "\<not> lit_in CLOSE_TAG (escape s)"
  using escape_no_close_from [of None s] by (simp add: escape_def sub_def put_def)

lemma wrap_Inr:
  assumes "wrap content source idem = Inr e"
  shows "ev_text e = fstr [OPEN_TAG, '' source='', dq, source, dq, '' sha256='', dq, sha256 (escape content), dq,
      '' idem='', dq, idem, dq, ''>'', nl, escape content, nl, CLOSE_TAG]"
    "ev_source e = source" "ev_sha e = sha256 (escape content)"
  using assms by (auto simp: wrap_def Let_def split: if_splits)

lemma wrap_web [simp]: "\<exists>e. wrap content ''web'' idem = Inr e" "\<exists>e. wrap content ''reply'' idem = Inr e"
  by (simp_all add: wrap_def allowed_sources_def Let_def)

end
