(* ===== verification/Runtime.thy ===== *)
theory Runtime
  imports Sendpath Composer
begin

text \<open>
  What the job handlers share: the wiring of a tenant (\<open>TenantRuntime\<close>), the environment they
  close over (compliance registry, model backend, attribution key, random generator) and the
  load helpers of \<open>core/prospecting.py\<close>.
\<close>

section \<open>Wiring\<close>

record tenant_runtime =
  rt_config :: tenant_config
  rt_tenant_id :: uuid
  rt_ctx :: vctx
  rt_sender_facts :: "(pystr \<times> pystr) list"

type_synonym runtimes = "(pystr \<times> tenant_runtime) list"

record env =
  en_registry :: registry
  en_llm :: llm_backend
  en_key :: "pystr option"
  en_beta :: "nat \<Rightarrow> rat \<Rightarrow> rat \<Rightarrow> rat"
  en_runtimes :: runtimes

section \<open>json.dumps\<close>

text \<open>
  The text of a JSON value; characters outside ASCII stay bytes where Python writes \<open>\u\<close>
  escapes. The values dumped here hold no float.
\<close>

definition json_char :: "char \<Rightarrow> pystr" where
  "json_char c =
     (if c = CHR 0x22 \<or> c = CHR 0x5C then [CHR 0x5C, c]
      else if code c = 10 then [CHR 0x5C, CHR ''n''] else if code c = 13 then [CHR 0x5C, CHR ''r'']
      else if code c = 9 then [CHR 0x5C, CHR ''t''] else if code c = 8 then [CHR 0x5C, CHR ''b'']
      else if code c = 12 then [CHR 0x5C, CHR ''f'']
      else if code c < 32
        then [CHR 0x5C, CHR ''u'', CHR ''0'', CHR ''0'', hex_digit (code c div 16), hex_digit (code c mod 16)]
      else [c])"

definition json_string :: "pystr \<Rightarrow> pystr" where
  "json_string s = dq @ concat (map json_char s) @ dq"

fun json_dumps :: "json \<Rightarrow> pystr" where
  "json_dumps JNull = ''null''"
| "json_dumps (JBool b) = (if b then ''true'' else ''false'')"
| "json_dumps (JInt i) = int_str i"
| "json_dumps (JNum r) = (case quotient_of r of (n, m) \<Rightarrow> fstr [int_str n, ''/'', int_str m])"
| "json_dumps (JStr s) = json_string s"
| "json_dumps (JList xs) = fstr [''['', join '', '' (map json_dumps xs), '']'']"
| "json_dumps (JObj kvs) = fstr [''{'', join '', '' (map (\<lambda>(k, v). fstr [json_string k, '': '', json_dumps v]) kvs), ''}'']"

section \<open>Load helpers of prospecting.py\<close>

definition canon :: "db \<Rightarrow> pystr \<Rightarrow> pystr option" where
  "canon d address = (case canonicalize (idna d) address of Inl _ \<Rightarrow> None | Inr c \<Rightarrow> Some c)"

definition load_card :: "db \<Rightarrow> uuid \<Rightarrow> evidence_fact list" where
  "load_card d pid =
     map (\<lambda>f. \<lparr>ef_id = f_id f, ef_type = f_type f,
               ef_content = (case f_content f of JStr s \<Rightarrow> s | j \<Rightarrow> json_dumps j),
               ef_url = f_url f, ef_observed = f_observed f\<rparr>)
       (sort_key f_observed (sel (\<lambda>f. f_prospect f = pid) (evidence d)))"

text \<open>\<open>_persona_and_candidate\<close>. A runtime missing for the tenant raises; no row is
  \<open>(None, None, None)\<close>, which is \<open>None\<close> here; the persona may still be missing.\<close>

definition persona_and_candidate ::
  "runtimes \<Rightarrow> db \<Rightarrow> uuid \<Rightarrow> prospect_state list \<Rightarrow>
     exc + (tenant_runtime \<times> persona_spec option \<times> candidate) option" where
  "persona_and_candidate rts d pid states =
     (case prospect_of d pid of
        None \<Rightarrow> Inr None
      | Some p \<Rightarrow> (case entity_of d (p_entity p) of
        None \<Rightarrow> Inr None
      | Some e \<Rightarrow> (case slug_of d (p_tenant p) of
        None \<Rightarrow> Inr None
      | Some tenant \<Rightarrow>
          if p_state p \<notin> set states then Inr None
          else (case map_of rts tenant of
              None \<Rightarrow> Inl (KeyError tenant)
            | Some rt \<Rightarrow> Inr (Some (rt,
                List.find (\<lambda>q. ps_id q = p_persona p) (tc_personas (rt_config rt)),
                \<lparr>cd_name = (case e_name e of None \<Rightarrow> ''Unknown'' | Some n \<Rightarrow> if n = [] then ''Unknown'' else n),
                 cd_org = e_name e, cd_website = None, cd_email = p_email_raw p, cd_phone = None, cd_address = None, cd_source = ''db'',
                 cd_ref = p_ref p, cd_basis = ''government_public''\<rparr>))))))"

text \<open>\<open>compose\<close> as the handlers call it: \<open>build_values\<close>, then the composer; the exceptions they
  turn into an escalation are told from the others.\<close>

definition compose_for ::
  "env \<Rightarrow> tenant_runtime \<Rightarrow> persona_spec \<Rightarrow> candidate \<Rightarrow> evidence_fact list \<Rightarrow> (pystr \<times> pystr) list \<Rightarrow>
     pystr \<Rightarrow> pystr \<Rightarrow> int \<Rightarrow> db \<Rightarrow> exc + compose_result" where
  "compose_for env rt persona cand crd sender_facts variant_id prompt step d =
     bindE (build_values (epoch (now d)) prompt cand crd (rt_config rt) persona sender_facts) (\<lambda>values.
       compose (en_registry env) (en_llm env)
         \<lparr>ci_variant = variant_id, ci_prompt = prompt, ci_values = values, ci_ctx = rt_ctx rt,
          ci_trusted = trusted_context (rt_config rt) persona, ci_step = step\<rparr>)"

definition composer_gave_up :: "exc \<Rightarrow> bool" where
  "composer_gave_up e = (case e of ComposeEscalation _ \<Rightarrow> True | KeyError _ \<Rightarrow> True | _ \<Rightarrow> False)"

section \<open>queue_draft leaves the safety state alone\<close>

lemma queue_draft_Inr:
  assumes "queue_draft key pid camp var st k dr h n d = Inr (i, d')"
  obtains t where "touches d' = touches d @ [t]" "t_id t = i" "t_prospect t = pid" "t_step t = st" "t_kind t = k"
    "t_status t = (if 0 < n \<and> prior_drafts d camp var < n then Pending_review else Drafted)"
    "t_campaign t = camp" "t_variant t = var" "t_step t \<le> 3" "i \<notin> t_id ` set (touches d)"
    "suppressions d' = suppressions d" "tombstones d' = tombstones d" "counters d' = counters d"
    "prospects d' = prospects d" "entities d' = entities d" "now d' = now d" "flags d' = flags d"
proof -
  from assms obtain dr' :: draft and h' d2 where q:
    "insert_touch \<lparr>t_id = i, t_prospect = pid, t_campaign = camp, t_variant = var,
               t_step = st, t_kind = k,
               t_status = (if 0 < n \<and> prior_drafts (snd (fresh_uuid d)) camp var < n then Pending_review else Drafted),
               t_subject = Some (dr_subject dr'), t_body = Some (dr_body dr'), t_scrubbed = False,
               t_hash = h', t_claimed_at = None, t_sent_at = None, t_ref = None, t_idem = i,
               t_mailbox = None\<rparr> (snd (fresh_uuid d)) = Inr d2"
    "d' = (if 0 < n \<and> prior_drafts (snd (fresh_uuid d)) camp var < n then d2 else enqueue_deliver i d2)"
    by (auto simp: queue_draft_def Let_def bindE_eq_Inr split_beta)
  have pd: "prior_drafts (snd (fresh_uuid d)) camp var = prior_drafts d camp var"
    by (simp add: prior_drafts_def fresh_uuid_def)
  have d2: "d2 = (snd (fresh_uuid d))\<lparr>touches := ins \<lparr>t_id = i, t_prospect = pid, t_campaign = camp, t_variant = var,
               t_step = st, t_kind = k,
               t_status = (if 0 < n \<and> prior_drafts d camp var < n then Pending_review else Drafted),
               t_subject = Some (dr_subject dr'), t_body = Some (dr_body dr'), t_scrubbed = False,
               t_hash = h', t_claimed_at = None, t_sent_at = None, t_ref = None, t_idem = i,
               t_mailbox = None\<rparr> (touches d)\<rparr>"
    using insert_touch_Inr [OF q(1)] unfolding pd by (simp add: fresh_uuid_def)
  have d': "d' = (if 0 < n \<and> prior_drafts d camp var < n then d2 else enqueue_deliver i d2)"
    using q(2) unfolding pd .
  have st: "\<not> 3 < st" "i \<notin> t_id ` set (touches d)"
    using q(1) by (auto simp: insert_touch_def fresh_uuid_def image_iff split: if_splits)
  show ?thesis
    by (rule that [of "\<lparr>t_id = i, t_prospect = pid, t_campaign = camp, t_variant = var,
               t_step = st, t_kind = k,
               t_status = (if 0 < n \<and> prior_drafts d camp var < n then Pending_review else Drafted),
               t_subject = Some (dr_subject dr'), t_body = Some (dr_body dr'), t_scrubbed = False,
               t_hash = h', t_claimed_at = None, t_sent_at = None, t_ref = None, t_idem = i,
               t_mailbox = None\<rparr>"])
      (use st in \<open>simp_all add: d' d2 fresh_uuid_def enqueue_deliver_def ins_def\<close>)
qed

end
