(* ===== verification/Human_tasks.thy ===== *)
theory Human_tasks
  imports Runtime Safety
begin

text \<open>
  \<open>core/human_tasks.py\<close>: sequence steps a person does off-channel. The task's brief is put
  together from stored rows; a finished task counts as contact, a skipped or expired one
  releases its touch.
\<close>

section \<open>The brief\<close>

definition EXPIRE_DAYS :: int where
  "EXPIRE_DAYS = 14"

definition civil_from_days :: "int \<Rightarrow> int \<times> int \<times> int" where
  "civil_from_days z =
     (let z = z + 719468; era = z div 146097; doe = z - era * 146097;
          yoe = (doe - doe div 1460 + doe div 36524 - doe div 146096) div 365;
          doy = doe - (365 * yoe + yoe div 4 - yoe div 100);
          mp = (5 * doy + 2) div 153;
          m = (if mp < 10 then mp + 3 else mp - 9)
      in (yoe + era * 400 + (if m \<le> 2 then 1 else 0), m, doy - (153 * mp + 2) div 5 + 1))"

definition date_str :: "int \<Rightarrow> pystr" where
  "date_str t = (case civil_from_days (t div 86400) of (y, m, dd) \<Rightarrow>
     fstr [pad 4 (int_str y), ''-'', pad 2 (int_str m), ''-'', pad 2 (int_str dd)])"

fun kind_name :: "touch_kind \<Rightarrow> pystr" where
  "kind_name Cold_kind = ''cold''" | "kind_name Followup_kind = ''followup''"
| "kind_name Agentic_reply_kind = ''agentic_reply''" | "kind_name Human_task_kind = ''human_task''"

text \<open>\<open>ORDER BY sent_at NULLS LAST\<close>.\<close>

definition by_sent :: "touch_row list \<Rightarrow> touch_row list" where
  "by_sent ts = sort_key (\<lambda>t. the (t_sent_at t)) (filter (\<lambda>t. t_sent_at t \<noteq> None) ts)
     @ filter (\<lambda>t. t_sent_at t = None) ts"

definition or_else :: "pystr \<Rightarrow> pystr option \<Rightarrow> pystr" where
  "or_else dflt x = (case x of None \<Rightarrow> dflt | Some s \<Rightarrow> if s = [] then dflt else s)"

definition assemble_brief :: "db \<Rightarrow> uuid \<Rightarrow> pystr \<Rightarrow> pystr \<Rightarrow> pystr" where
  "assemble_brief d pid instruction value_prop =
     (let row = Option.bind (prospect_of d pid) (\<lambda>p. map_option (\<lambda>e. (e_name e, p_email p, p_cohort p))
                  (entity_of d (p_entity p)));
          (name, email, cohort) = the_default (Some ''(unknown)'', None, ''?'') row;
          facts = take 8 (rev (sort_key f_observed (sel (\<lambda>f. f_prospect f = pid) (evidence d))));
          history = take 8 (by_sent (sel (\<lambda>t. t_prospect t = pid) (touches d)));
          fact_lines = map (\<lambda>f. fstr [''- ['', f_type f, ''] '', json_dumps (f_content f), '' ('', f_url f,
                '', observed '', date_str (f_observed f), '')'']) facts;
          touch_lines = map (\<lambda>t. fstr [''- '', kind_name (t_kind t), ''/'', status_str (t_status t), '': '',
                or_else ''(no subject)'' (t_subject t),
                case t_sent_at t of None \<Rightarrow> [] | Some s \<Rightarrow> fstr ['' sent '', date_str s]]) history
      in join nl
           ([fstr [''TASK: '', instruction],
             fstr [''Who: '', case name of None \<Rightarrow> ''None'' | Some n \<Rightarrow> n,
                   case email of None \<Rightarrow> [] | Some e \<Rightarrow> if e = [] then [] else fstr ['' <'', e, ''>'']],
             fstr [''Cohort: '', cohort], fstr [''Why we reach out: '', value_prop], [],
             ''Evidence (cite-able, with provenance):''] @
            (if fact_lines = [] then [''- (no evidence card yet)''] else fact_lines) @
            [[], ''Prior contact:''] @
            (if touch_lines = [] then [''- (none)''] else touch_lines)))"

section \<open>Operations\<close>

definition audit_task :: "uuid \<Rightarrow> pystr \<Rightarrow> pystr \<Rightarrow> payload \<Rightarrow> db \<Rightarrow> db" where
  "audit_task i event actor pl d = audit ''human_task'' i event pl actor d"

definition create_for_step ::
  "pystr \<Rightarrow> uuid \<Rightarrow> pystr \<Rightarrow> int \<Rightarrow> pystr \<Rightarrow> pystr \<Rightarrow> db \<Rightarrow> exc + uuid \<times> db" where
  "create_for_step tenant pid campaign step instruction value_prop d =
     (let (touch_id, d1) = fresh_uuid d
      in bindE (insert_touch \<lparr>t_id = touch_id, t_prospect = pid, t_campaign = campaign, t_variant = None,
             t_step = step, t_kind = Human_task_kind, t_status = Pending_human, t_subject = Some instruction,
             t_body = None, t_scrubbed = False, t_hash = ''human_task'', t_claimed_at = None, t_sent_at = None,
             t_ref = None, t_idem = touch_id, t_mailbox = None\<rparr> d1) (\<lambda>d2.
           let brief = assemble_brief d2 pid instruction value_prop;
               (task_id, d3) = fresh_uuid d2
           in Inr (task_id, audit_task task_id ''created'' ''system:compose'' [(''touch_id'', JStr touch_id)]
                (d3\<lparr>tasks := ins \<lparr>h_id = task_id, h_tenant = tenant, h_prospect = pid, h_touch = touch_id,
                    h_instruction = instruction, h_brief = brief, h_status = Task_pending, h_note = None,
                    h_created = epoch (now d), h_resolved_at = None, h_by = None\<rparr> (tasks d3)\<rparr>))))"

definition list_pending :: "db \<Rightarrow> pystr option \<Rightarrow> task_row list" where
  "list_pending d tenant =
     sort_key h_created (sel (\<lambda>h. h_status h = Task_pending \<and> (tenant = None \<or> tenant = Some (h_tenant h))) (tasks d))"

definition mark_sent :: "uuid \<Rightarrow> db \<Rightarrow> exc + db" where
  "mark_sent i d =
     bindE (update_touch_status (\<lambda>t. t_id t = i)
              (\<lambda>t. t\<lparr>t_status := Sent, t_sent_at := Some (epoch (now d))\<rparr>) d) (\<lambda>(_, d1). Inr d1)"

definition mark_released :: "uuid \<Rightarrow> db \<Rightarrow> exc + db" where
  "mark_released i d =
     bindE (update_touch_status (\<lambda>t. t_id t = i) (\<lambda>t. t\<lparr>t_status := Released\<rparr>) d) (\<lambda>(_, d1). Inr d1)"

definition count_contact :: "uuid \<Rightarrow> db \<Rightarrow> db" where
  "count_contact pid d =
     d\<lparr>entities := upd (\<lambda>e. Some (e_id e) = map_option p_entity (prospect_of d pid))
         (\<lambda>e. e\<lparr>e_last_contact := Some (epoch (now d)), e_touches := e_touches e + 1\<rparr>) (entities d)\<rparr>"

definition resolve_task :: "uuid \<Rightarrow> pystr \<Rightarrow> bool \<Rightarrow> pystr \<Rightarrow> db \<Rightarrow> exc + bool \<times> db" where
  "resolve_task i actor finished note d =
     (if \<not> human actor
      then Inl (PermissionError (fstr [''resolving a human task requires a human actor, got '', py_repr actor]))
      else
        let P = (\<lambda>h. h_id h = i \<and> h_status h = Task_pending)
        in (case fetch P (tasks d) of
              None \<Rightarrow> Inr (False, d)
            | Some h \<Rightarrow>
                let d1 = d\<lparr>tasks := upd P (\<lambda>h. h\<lparr>h_status := (if finished then Task_done else Task_skipped),
                       h_resolved_at := Some (epoch (now d)), h_by := Some actor, h_note := Some note\<rparr>) (tasks d)\<rparr>
                in bindE (if finished then bindE (mark_sent (h_touch h) d1) (\<lambda>d2. Inr (count_contact (h_prospect h) d2))
                          else mark_released (h_touch h) d1) (\<lambda>d2.
                     Inr (True, audit_task i (if finished then ''done'' else ''skipped'') actor [(''note'', JStr note)] d2))))"

definition stale :: "int \<Rightarrow> db \<Rightarrow> task_row \<Rightarrow> bool" where
  "stale max_age_days d h \<longleftrightarrow> h_status h = Task_pending \<and> h_created h < epoch (now d) - max_age_days * 86400"

definition expire :: "int \<Rightarrow> db \<Rightarrow> exc + nat \<times> db" where
  "expire max_age_days d =
     (let rows = sel (stale max_age_days d) (tasks d);
          d1 = d\<lparr>tasks := upd (stale max_age_days d)
                 (\<lambda>h. h\<lparr>h_status := Task_expired, h_resolved_at := Some (epoch (now d)),
                      h_by := Some ''system:expiry''\<rparr>) (tasks d)\<rparr>
      in bindE (foldE (\<lambda>h d. bindE (mark_released (h_touch h) d) (\<lambda>d'.
                  Inr (audit_task (h_id h) ''expired'' ''system:expiry'' [] d'))) rows d1) (\<lambda>d2.
           Inr (length rows, d2)))"

section \<open>Contact is counted exactly when the task is done\<close>

lemma mark_sent_ok: "\<exists>d'. mark_sent i d = Inr d' \<and> d' = d\<lparr>touches := touches d'\<rparr>"
  by (auto simp: mark_sent_def update_touch_status_def enforce_claim_lineage_def)

lemma mark_released_ok: "\<exists>d'. mark_released i d = Inr d' \<and> d' = d\<lparr>touches := touches d'\<rparr> \<and>
    touches d' = upd (\<lambda>t. t_id t = i) (\<lambda>t. t\<lparr>t_status := Released\<rparr>) (touches d)"
  by (auto simp: mark_released_def update_touch_status_def enforce_claim_lineage_def)

lemma fetch_touch_upd_same:
  assumes "\<And>t. t_id (f t) = t_id t"
  shows "fetch (\<lambda>t. t_id t = i) (upd (\<lambda>t. t_id t = i) f ts) = map_option f (fetch (\<lambda>t. t_id t = i) ts)"
  using assms by (cases "fetch (\<lambda>t. t_id t = i) ts") (auto simp: fetch_touch_upd dest: fetch_SomeD)

lemma resolve_task_cases:
  assumes "human actor" and "fetch (\<lambda>h. h_id h = i \<and> h_status h = Task_pending) (tasks d) = Some h"
  shows "\<exists>d'. resolve_task i actor finished note d = Inr (True, d') \<and>
    entities d' = (if finished then upd (\<lambda>e. Some (e_id e) = map_option p_entity (prospect_of d (h_prospect h)))
        (\<lambda>e. e\<lparr>e_last_contact := Some (epoch (now d)), e_touches := e_touches e + 1\<rparr>) (entities d) else entities d) \<and>
    (\<forall>t. touch_of d (h_touch h) = Some t \<longrightarrow>
       map_option t_status (touch_of d' (h_touch h)) = Some (if finished then Sent else Released))"
  using assms
  by (auto simp: resolve_task_def mark_sent_def mark_released_def update_touch_status_def enforce_claim_lineage_def
      Let_def count_contact_def audit_task_def touch_of_def fetch_touch_upd_same prospect_of_def)

text \<open>A resolved or expired task is not resolved again.\<close>

lemma resolve_task_again:
  assumes "\<forall>h\<in>set (tasks d). h_id h = i \<longrightarrow> h_status h \<noteq> Task_pending" and "human actor"
  shows "resolve_task i actor finished note d = Inr (False, d)"
proof -
  have "fetch (\<lambda>h. h_id h = i \<and> h_status h = Task_pending) (tasks d) = None"
    using assms(1) by (auto simp: fetch_None)
  with assms(2) show ?thesis by (simp add: resolve_task_def)
qed

lemma mark_tasks:
  "mark_sent i d = Inr d' \<Longrightarrow> tasks d' = tasks d" "mark_released i d = Inr d' \<Longrightarrow> tasks d' = tasks d"
  by (auto simp: mark_sent_def mark_released_def bindE_eq_Inr dest!: update_touch_status_Inr)

lemma resolve_task_closes:
  assumes "resolve_task i actor finished note d = Inr (True, d')"
  shows "\<forall>h\<in>set (tasks d'). h_id h = i \<longrightarrow> h_status h \<noteq> Task_pending"
proof -
  let ?P = "\<lambda>h. h_id h = i \<and> h_status h = Task_pending"
  let ?f = "\<lambda>h. h\<lparr>h_status := (if finished then Task_done else Task_skipped), h_resolved_at := Some (epoch (now d)),
      h_by := Some actor, h_note := Some note\<rparr>"
  let ?d1 = "d\<lparr>tasks := upd ?P ?f (tasks d)\<rparr>"
  have a: "human actor" using assms by (cases "human actor") (simp_all add: resolve_task_def)
  obtain h where h: "fetch ?P (tasks d) = Some h"
    using assms a by (cases "fetch ?P (tasks d)") (simp_all add: resolve_task_def)
  define m where "m = (if finished then bindE (mark_sent (h_touch h) ?d1) (\<lambda>d2. Inr (count_contact (h_prospect h) d2))
      else mark_released (h_touch h) ?d1)"
  have r: "resolve_task i actor finished note d = bindE m (\<lambda>d2. Inr (True,
      audit_task i (if finished then ''done'' else ''skipped'') actor [(''note'', JStr note)] d2))"
    unfolding resolve_task_def Let_def h m_def using a by (simp only: not_True_eq_False if_False option.case)
  obtain d2 where d2: "m = Inr d2" "d' = audit_task i (if finished then ''done'' else ''skipped'') actor [(''note'', JStr note)] d2"
    using assms unfolding r by (cases m) simp_all
  have "tasks d2 = tasks ?d1"
  proof (cases finished)
    case True
    with d2(1) obtain s where "mark_sent (h_touch h) ?d1 = Inr s" "d2 = count_contact (h_prospect h) s"
      unfolding m_def by (cases "mark_sent (h_touch h) ?d1") simp_all
    with mark_tasks(1) show ?thesis by (simp add: count_contact_def)
  next
    case False
    with d2(1) mark_tasks(2) show ?thesis unfolding m_def by simp
  qed
  then have t: "tasks d' = upd ?P ?f (tasks d)" by (simp add: d2(2) audit_task_def)
  show ?thesis
  proof (intro ballI impI)
    fix x
    assume x: "x \<in> set (tasks d')" "h_id x = i"
    obtain y where y: "x = (if ?P y then ?f y else y)" using x(1) unfolding t set_upd by (rule imageE)
    show "h_status x \<noteq> Task_pending"
    proof (cases "?P y")
      case True
      then show ?thesis unfolding y by simp
    next
      case False
      with y have "x = y" by (simp only: if_False)
      with False x(2) show ?thesis by simp
    qed
  qed
qed

end
