(* ===== verification/Replies.thy ===== *)
theory Replies
  imports Composer
begin

text \<open>
  \<open>core/replies.py\<close>: what to do with a reply. The unsubscribe pattern is looked for before any
  model call; whatever the model says, its answer lands in a closed set of actions.
\<close>

section \<open>Patterns, actions and decisions\<close>

definition UNSUBSCRIBE_RE :: rx where
  "UNSUBSCRIBE_RE =
     (let mail = ralt [rseq [ropt (rchr CHR ''e''), rlit ''mail''], rlit ''contact'', rlit ''send'']
      in ci (rseq [RWordB, ralt
        [rlit ''unsubscribe'',
         rseq [rlit ''opt'', ropt (RSet (\<lambda>c. c = CHR '' '' \<or> c = CHR ''-'')), rlit ''out''],
         rlit ''remove me'', rlit ''take me off'',
         rseq [rlit ''stop '', mail, rstar (RSet is_word)],
         rseq [rlit ''do not '', ralt [rseq [ropt (rchr CHR ''e''), rlit ''mail''], rlit ''contact'']],
         rseq [RBol True, rlit ''stop'', RWordB]]]))"

definition CONFIDENCE_FLOOR :: rat where
  "CONFIDENCE_FLOOR = 7 / 10"

definition MAX_AGENTIC_EXCHANGES :: int where
  "MAX_AGENTIC_EXCHANGES = 1"

datatype reply_action =
  SUPPRESS_UNSUBSCRIBE | SEND_SIGNUP_LINK | ANSWER_FAQ | CLOSE_POLITE_SUPPRESS | REENRICH | NO_ACTION | ESCALATE

fun action_str :: "reply_action \<Rightarrow> pystr" where
  "action_str SUPPRESS_UNSUBSCRIBE = ''suppress_unsubscribe''"
| "action_str SEND_SIGNUP_LINK = ''send_signup_link''"
| "action_str ANSWER_FAQ = ''answer_faq''"
| "action_str CLOSE_POLITE_SUPPRESS = ''close_polite_suppress''"
| "action_str REENRICH = ''reenrich''"
| "action_str NO_ACTION = ''none''"
| "action_str ESCALATE = ''escalate''"

record route_decision =
  rd_action :: reply_action
  rd_intent :: pystr
  rd_confidence :: rat
  rd_reason :: pystr
  rd_deterministic :: bool
  rd_objection :: "pystr option"

definition CLASSIFY_FRAME :: "pystr \<Rightarrow> pystr" where
  "CLASSIFY_FRAME reply = fstr
     [''You classify one reply to a cold outreach email.'', nl, GUARD_INSTRUCTIONS, nl, nl,
      ''Reply (untrusted):'', nl, reply, nl, nl,
      ''Classify the sender'', sq, ''s intent and your confidence. Sentiment: -1 hostile to +1'', nl,
      ''enthusiastic.'', nl]"

definition INTENT_ACTIONS :: "(pystr \<times> reply_action) list" where
  "INTENT_ACTIONS = [(''interested'', SEND_SIGNUP_LINK), (''question'', ANSWER_FAQ), (''objection'', ANSWER_FAQ),
     (''not_interested'', CLOSE_POLITE_SUPPRESS), (''unsubscribe'', SUPPRESS_UNSUBSCRIBE),
     (''out_of_office'', NO_ACTION), (''wrong_person'', REENRICH), (''hostile'', ESCALATE), (''other'', ESCALATE)]"

definition OUTBOUND_ACTIONS :: "reply_action list" where
  "OUTBOUND_ACTIONS = [SEND_SIGNUP_LINK, ANSWER_FAQ, CLOSE_POLITE_SUPPRESS]"

definition all_but_escalate :: "reply_action list" where
  "all_but_escalate = [SUPPRESS_UNSUBSCRIBE, SEND_SIGNUP_LINK, ANSWER_FAQ, CLOSE_POLITE_SUPPRESS, REENRICH, NO_ACTION]"

definition decide :: "reply_action \<Rightarrow> pystr \<Rightarrow> rat \<Rightarrow> pystr \<Rightarrow> route_decision" where
  "decide a intent conf reason = \<lparr>rd_action = a, rd_intent = intent, rd_confidence = conf, rd_reason = reason,
     rd_deterministic = False, rd_objection = None\<rparr>"

section \<open>route\<close>

definition route ::
  "llm_backend \<Rightarrow> int \<Rightarrow> reply_action list \<Rightarrow> pystr \<Rightarrow> exc + route_decision" where
  "route llm agentic_exchanges allowed_actions reply_body =
     (if search UNSUBSCRIBE_RE reply_body \<noteq> None
      then Inr ((decide SUPPRESS_UNSUBSCRIBE ''unsubscribe'' 1 ''deterministic pre-pass'')\<lparr>rd_deterministic := True\<rparr>)
      else
        let suspicious = (injection_suspects reply_body \<noteq> [])
        in bindE (lm_classify llm (CLASSIFY_FRAME (wrapped reply_body ''reply'' []))) (\<lambda>out.
          let conf = cl_confidence out; intent = cl_intent out
          in if suspicious \<or> cl_injection out then Inr (decide ESCALATE intent conf ''injection suspicion'')
             else if intent = ''hostile'' then Inr (decide ESCALATE ''hostile'' conf ''hostile always escalates'')
             else if conf < CONFIDENCE_FLOOR then Inr (decide ESCALATE intent conf ''below confidence floor'')
             else (case map_of INTENT_ACTIONS intent of
                 None \<Rightarrow> Inl (KeyError intent)
               | Some action \<Rightarrow>
                   if action \<in> set OUTBOUND_ACTIONS \<and> agentic_exchanges \<ge> MAX_AGENTIC_EXCHANGES
                   then Inr (decide ESCALATE intent conf ''agentic exchange cap reached (FR-4.2)'')
                   else if action \<notin> set allowed_actions
                   then Inr (decide ESCALATE intent conf (fstr [''action '', action_str action, '' not in tenant allowlist'']))
                   else Inr ((decide action intent conf ''classified'')\<lparr>rd_objection := cl_objection out\<rparr>))))"

section \<open>What a decision implies\<close>

lemma decide_simps [simp]:
  "rd_action (decide a i c r) = a" "rd_intent (decide a i c r) = i" "rd_confidence (decide a i c r) = c"
  "rd_deterministic (decide a i c r) = False" "rd_reason (decide a i c r) = r"
  by (simp_all add: decide_def)

lemma route_unsubscribe:
  "search UNSUBSCRIBE_RE body \<noteq> None \<Longrightarrow>
    route llm n allowed body = Inr ((decide SUPPRESS_UNSUBSCRIBE ''unsubscribe'' 1 ''deterministic pre-pass'')\<lparr>rd_deterministic := True\<rparr>)"
  by (simp add: route_def)

lemma not_escalated:
  assumes "(if P then Inr (decide ESCALATE i c m) else x) = Inr dec" and "rd_action dec \<noteq> ESCALATE"
  shows "\<not> P" and "x = Inr dec"
  using assms by (cases P; auto)+

text \<open>Every action the model can cause but the hand-off to a human needs its confidence, no sign of an
  injection, and its place in the allowlist.\<close>

lemma route_acts:
  assumes "route llm n allowed body = Inr dec" and "\<not> rd_deterministic dec" and "rd_action dec \<noteq> ESCALATE"
  shows "rd_action dec \<in> set allowed \<and> CONFIDENCE_FLOOR \<le> rd_confidence dec \<and> injection_suspects body = [] \<and>
    map_of INTENT_ACTIONS (rd_intent dec) = Some (rd_action dec) \<and>
    (rd_action dec \<in> set OUTBOUND_ACTIONS \<longrightarrow> n < MAX_AGENTIC_EXCHANGES)"
proof -
  from assms(1,2) have "search UNSUBSCRIBE_RE body = None"
    by (rule_tac ccontr) (simp add: route_def, auto)
  with assms(1) obtain out where o: "lm_classify llm (CLASSIFY_FRAME (wrapped body ''reply'' [])) = Inr out"
    by (auto simp: route_def bindE_eq_Inr)
  let ?inj = "injection_suspects body \<noteq> [] \<or> cl_injection out"
  from \<open>search UNSUBSCRIBE_RE body = None\<close> o assms(1) have r: "(if ?inj then Inr (decide ESCALATE (cl_intent out) (cl_confidence out) ''injection suspicion'')
     else if cl_intent out = ''hostile'' then Inr (decide ESCALATE ''hostile'' (cl_confidence out) ''hostile always escalates'')
     else if cl_confidence out < CONFIDENCE_FLOOR then Inr (decide ESCALATE (cl_intent out) (cl_confidence out) ''below confidence floor'')
     else (case map_of INTENT_ACTIONS (cl_intent out) of
                 None \<Rightarrow> Inl (KeyError (cl_intent out))
               | Some action \<Rightarrow>
                   if action \<in> set OUTBOUND_ACTIONS \<and> n \<ge> MAX_AGENTIC_EXCHANGES
                   then Inr (decide ESCALATE (cl_intent out) (cl_confidence out) ''agentic exchange cap reached (FR-4.2)'')
                   else if action \<notin> set allowed
                   then Inr (decide ESCALATE (cl_intent out) (cl_confidence out) (fstr [''action '', action_str action, '' not in tenant allowlist'']))
                   else Inr ((decide action (cl_intent out) (cl_confidence out) ''classified'')\<lparr>rd_objection := cl_objection out\<rparr>))) = Inr dec"
    by (simp add: route_def Let_def)
  note n1 = not_escalated [OF r assms(3)]
  note n2 = not_escalated [OF n1(2) assms(3)]
  note n3 = not_escalated [OF n2(2) assms(3)]
  show ?thesis
  proof (cases "map_of INTENT_ACTIONS (cl_intent out)")
    case None
    with n3(2) show ?thesis by simp
  next
    case (Some action)
    note n4 = not_escalated [OF n3(2) [unfolded Some option.case] assms(3)]
    note n5 = not_escalated [OF n4(2) assms(3)]
    have "dec = (decide action (cl_intent out) (cl_confidence out) ''classified'')\<lparr>rd_objection := cl_objection out\<rparr>"
      using n5(2) by simp
    then have "rd_action dec = action" "rd_intent dec = cl_intent out" "rd_confidence dec = cl_confidence out"
      by simp_all
    with Some n1(1) n3(1) n4(1) n5(1) show ?thesis by auto
  qed
qed

end
