(* ===== verification/Sentiment.thy ===== *)
theory Sentiment
  imports Safety
begin

text \<open>
  \<open>stats/sentiment.py\<close>: the rolling sentiment of a cohort's classified replies, and the brake on
  the cohort's monthly cap. \<open>ALPHA\<close> is the double the expression \<open>1 - 0.5 ** (1 / 20)\<close>
  evaluates to; the average itself is exact where the code rounds to doubles.
\<close>

section \<open>Scoring\<close>

definition SCORES :: "(pystr \<times> rat) list" where
  "SCORES = [(''interested'', 2), (''objection'', - 1 / 2), (''not_interested'', - 1), (''unsubscribe'', - 2),
     (''hostile'', - 3)]"

definition ALPHA :: rat where
  "ALPHA = 306818272721873 / 9007199254740992"

definition MIN_REPLIES :: nat where "MIN_REPLIES = 10"

definition THROTTLE_BELOW :: rat where "THROTTLE_BELOW = - 5 / 10"

definition PAUSE_BELOW :: rat where "PAUSE_BELOW = - 12 / 10"

definition EVALUATE_EVERY :: nat where "EVALUATE_EVERY = 10"

definition WINDOW :: nat where "WINDOW = 200"

definition score_of :: "pystr \<Rightarrow> rat" where
  "score_of intent = the_default 0 (map_of SCORES intent)"

definition ewma :: "pystr list \<Rightarrow> rat" where
  "ewma intents = foldl (\<lambda>score i. score + ALPHA * (score_of i - score)) 0 intents"

text \<open>The join of a reply with its prospect and tenant.\<close>

definition in_cohort :: "db \<Rightarrow> pystr \<Rightarrow> pystr \<Rightarrow> reply_row \<Rightarrow> bool" where
  "in_cohort d tenant cohort r \<longleftrightarrow> r_intent r \<noteq> None \<and>
     (case prospect_of d (r_prospect r) of
        None \<Rightarrow> False
      | Some p \<Rightarrow> p_cohort p = cohort \<and> slug_of d (p_tenant p) = Some tenant)"

definition cohort_sentiment :: "db \<Rightarrow> pystr \<Rightarrow> pystr \<Rightarrow> rat \<times> nat" where
  "cohort_sentiment d tenant cohort =
     (let rows = take WINDOW (rev (sort_key r_received (sel (in_cohort d tenant cohort) (replies d))));
          intents = map (\<lambda>r. the_default [] (r_intent r)) (rev rows)
      in (ewma intents, length intents))"

section \<open>Acting on it\<close>

definition already_acted :: "db \<Rightarrow> pystr \<Rightarrow> pystr \<Rightarrow> pystr \<Rightarrow> bool" where
  "already_acted d cohort event period \<longleftrightarrow>
     (\<exists>a\<in>set (audits d). a_type a = ''cohort'' \<and> a_subject a = cohort \<and> a_event a = event \<and>
        map_of (a_payload a) ''period'' = Some (JStr period))"

text \<open>\<open>round(x, n)\<close> and \<open>f"{x:.2f}"\<close>: half to even.\<close>

definition round_even :: "rat \<Rightarrow> int" where
  "round_even x =
     (let f = \<lfloor>x\<rfloor>; r = x - of_int f
      in if r < 1 / 2 then f else if r > 1 / 2 then f + 1 else if even f then f else f + 1)"

definition round3 :: "rat \<Rightarrow> rat" where
  "round3 x = of_int (round_even (x * 1000)) / 1000"

definition fixed2 :: "rat \<Rightarrow> pystr" where
  "fixed2 x =
     (let n = round_even (\<bar>x\<bar> * 100)
      in fstr [if x < 0 then ''-'' else [], int_str (n div 100), ''.'', pad 2 (int_str (n mod 100))])"

definition opt_str :: "int option \<Rightarrow> pystr" where
  "opt_str x = (case x of None \<Rightarrow> ''None'' | Some i \<Rightarrow> int_str i)"

definition opt_json :: "int option \<Rightarrow> json" where
  "opt_json x = (case x of None \<Rightarrow> JNull | Some i \<Rightarrow> JInt i)"

definition cohort_counter :: "pystr \<Rightarrow> pystr \<Rightarrow> counter_row \<Rightarrow> bool" where
  "cohort_counter cohort period c \<longleftrightarrow> c_type c = Cohort_month \<and> c_id c = cohort \<and> c_period c = period"

definition set_cap :: "(int \<Rightarrow> int) \<Rightarrow> pystr \<Rightarrow> pystr \<Rightarrow> db \<Rightarrow> db" where
  "set_cap f cohort period d =
     d\<lparr>counters := upd (cohort_counter cohort period) (\<lambda>c. c\<lparr>c_cap := f (c_cap c)\<rparr>) (counters d)\<rparr>"

datatype throttle_action = Throttled | Paused

definition evaluate_cohort :: "pystr \<Rightarrow> pystr \<Rightarrow> db \<Rightarrow> throttle_action option \<times> db" where
  "evaluate_cohort tenant cohort d =
     (case cohort_sentiment d tenant cohort of (score, n) \<Rightarrow>
       let period = month_str (now d)
       in if n < MIN_REPLIES then (None, d)
          else if score < PAUSE_BELOW then
            (if already_acted d cohort ''sentiment_pause'' period then (None, d)
             else
               let prior = map_option c_cap (fetch (cohort_counter cohort period) (counters d));
                   d1 = set_cap (\<lambda>_. 0) cohort period d;
                   d2 = audit ''cohort'' cohort ''sentiment_pause''
                     [(''period'', JStr period), (''score'', JNum (round3 score)), (''replies'', JInt (int n)),
                      (''prior_cap'', opt_json prior)] ''system:sentiment'' d1
               in (Some Paused, escalate (Some tenant) ''cohort'' cohort
                    (fstr [''sentiment pause: score '', fixed2 score, '' over '', nat_str n,
                       '' replies '', [CHR 0xE2, CHR 0x80, CHR 0x94], '' cap zeroed; restore deliberately (prior cap '',
                       opt_str prior, '')''])
                    [(''score'', JNum (round3 score)), (''prior_cap'', opt_json prior)] d2))
          else if score < THROTTLE_BELOW then
            (if already_acted d cohort ''sentiment_throttle'' period then (None, d)
             else (Some Throttled, audit ''cohort'' cohort ''sentiment_throttle''
                    [(''period'', JStr period), (''score'', JNum (round3 score)), (''replies'', JInt (int n))]
                    ''system:sentiment'' (set_cap (\<lambda>c. max (c div 2) 1) cohort period d)))
          else (None, d))"

definition maybe_evaluate :: "pystr \<Rightarrow> pystr \<Rightarrow> db \<Rightarrow> throttle_action option \<times> db" where
  "maybe_evaluate tenant cohort d =
     (let n = cnt (in_cohort d tenant cohort) (replies d)
      in if n \<noteq> 0 \<and> n mod EVALUATE_EVERY = 0 then evaluate_cohort tenant cohort d else (None, d))"

section \<open>Bounds of the score\<close>

lemma ALPHA_range: "0 \<le> ALPHA" "ALPHA \<le> 1"
  by (simp_all add: ALPHA_def)

lemma score_of_range: "- 3 \<le> score_of i \<and> score_of i \<le> 2"
  by (simp add: score_of_def SCORES_def)

lemma ewma_step_range:
  fixes s x :: rat
  assumes "- 3 \<le> s" "s \<le> 2" "- 3 \<le> x" "x \<le> 2"
  shows "- 3 \<le> s + ALPHA * (x - s) \<and> s + ALPHA * (x - s) \<le> 2"
proof -
  have e: "s + ALPHA * (x - s) = (1 - ALPHA) * s + ALPHA * x" by (simp add: algebra_simps)
  have "(1 - ALPHA) * (- 3) + ALPHA * (- 3) \<le> (1 - ALPHA) * s + ALPHA * x"
    using assms ALPHA_range by (intro add_mono mult_left_mono) auto
  moreover have "(1 - ALPHA) * s + ALPHA * x \<le> (1 - ALPHA) * 2 + ALPHA * 2"
    using assms ALPHA_range by (intro add_mono mult_left_mono) auto
  ultimately show ?thesis unfolding e by (simp add: algebra_simps)
qed

lemma ewma_range: "- 3 \<le> ewma is \<and> ewma is \<le> 2"
proof -
  have "- 3 \<le> foldl (\<lambda>score i. score + ALPHA * (score_of i - score)) s is \<and>
      foldl (\<lambda>score i. score + ALPHA * (score_of i - score)) s is \<le> 2" if "- 3 \<le> s" "s \<le> 2" for s
    using that
  proof (induction "is" arbitrary: s)
    case (Cons i js)
    have "- 3 \<le> s + ALPHA * (score_of i - s) \<and> s + ALPHA * (score_of i - s) \<le> 2"
      using Cons.prems score_of_range by (intro ewma_step_range) auto
    with Cons.IH show ?case by simp
  qed simp
  from this [of 0] show ?thesis by (simp add: ewma_def)
qed

section \<open>Caps\<close>

lemma counters_set_cap [simp]:
  "counters (set_cap f cohort period d) =
     upd (cohort_counter cohort period) (\<lambda>c. c\<lparr>c_cap := f (c_cap c)\<rparr>) (counters d)"
  by (simp add: set_cap_def)

lemma already_acted_audit [simp]:
  "already_acted (audit ''cohort'' cohort ev ((''period'', JStr p) # rest) actor d) cohort ev p"
  by (auto simp: already_acted_def)

lemma already_acted_escalate [simp]: "already_acted (escalate t ty s r pl d) cohort ev p = already_acted d cohort ev p"
  by (simp add: already_acted_def)

lemma now_set_cap [simp]: "now (set_cap f cohort period d) = now d"
  by (simp add: set_cap_def)

lemma evaluate_cases:
  obtains (none) "evaluate_cohort tenant cohort d = (None, d)"
  | (paused) d' where "evaluate_cohort tenant cohort d = (Some Paused, d')"
      "counters d' = counters (set_cap (\<lambda>_. 0) cohort (month_str (now d)) d)"
      "already_acted d' cohort ''sentiment_pause'' (month_str (now d))" "now d' = now d"
      "fst (cohort_sentiment d tenant cohort) < PAUSE_BELOW"
  | (throttled) d' where "evaluate_cohort tenant cohort d = (Some Throttled, d')"
      "counters d' = counters (set_cap (\<lambda>c. max (c div 2) 1) cohort (month_str (now d)) d)"
      "already_acted d' cohort ''sentiment_throttle'' (month_str (now d))" "now d' = now d"
      "PAUSE_BELOW \<le> fst (cohort_sentiment d tenant cohort)"
      "fst (cohort_sentiment d tenant cohort) < THROTTLE_BELOW"
proof -
  obtain score n where s: "cohort_sentiment d tenant cohort = (score, n)" by (cases "cohort_sentiment d tenant cohort")
  consider (a) "n < MIN_REPLIES \<or> THROTTLE_BELOW \<le> score"
    | (b) "\<not> n < MIN_REPLIES" "score < PAUSE_BELOW"
    | (c) "\<not> n < MIN_REPLIES" "\<not> score < PAUSE_BELOW" "score < THROTTLE_BELOW" by fastforce
  then show ?thesis
  proof cases
    case a
    have "PAUSE_BELOW \<le> THROTTLE_BELOW" by (simp add: PAUSE_BELOW_def THROTTLE_BELOW_def)
    with a s show ?thesis by (intro none) (auto simp: evaluate_cohort_def Let_def)
  next
    case b
    show ?thesis
    proof (cases "already_acted d cohort ''sentiment_pause'' (month_str (now d))")
      case True
      with b s show ?thesis by (intro none) (simp add: evaluate_cohort_def Let_def)
    next
      case False
      with b s show ?thesis
        by (intro paused [of "snd (evaluate_cohort tenant cohort d)"])
          (simp_all add: evaluate_cohort_def Let_def del: counters_set_cap)
    qed
  next
    case c
    show ?thesis
    proof (cases "already_acted d cohort ''sentiment_throttle'' (month_str (now d))")
      case True
      with c s show ?thesis by (intro none) (simp add: evaluate_cohort_def Let_def)
    next
      case False
      with c s show ?thesis
        by (intro throttled [of "snd (evaluate_cohort tenant cohort d)"])
          (simp_all add: evaluate_cohort_def Let_def del: counters_set_cap)
    qed
  qed
qed

text \<open>No cap above nought is raised.\<close>

definition caps_not_raised :: "counter_row list \<Rightarrow> counter_row list \<Rightarrow> bool" where
  "caps_not_raised old new \<longleftrightarrow> list_all2 (\<lambda>a b. 1 \<le> c_cap a \<longrightarrow> c_cap b \<le> c_cap a) old new"

lemma caps_upd:
  assumes "\<And>c::int. 1 \<le> c \<Longrightarrow> f c \<le> c"
  shows "caps_not_raised t (upd P (\<lambda>c. c\<lparr>c_cap := f (c_cap c)\<rparr>) t)"
  unfolding caps_not_raised_def using assms by (induction t) auto

lemma caps_refl: "caps_not_raised t t"
  by (simp add: caps_not_raised_def list_all2_refl)

lemma evaluate_frame [frame]:
  "touches (snd (evaluate_cohort tenant cohort d)) = touches d"
  "prospects (snd (evaluate_cohort tenant cohort d)) = prospects d"
  "suppressions (snd (evaluate_cohort tenant cohort d)) = suppressions d"
  "jobs (snd (evaluate_cohort tenant cohort d)) = jobs d"
  "replies (snd (evaluate_cohort tenant cohort d)) = replies d"
  "now (snd (evaluate_cohort tenant cohort d)) = now d"
  "tombstones (snd (evaluate_cohort tenant cohort d)) = tombstones d"
  by (auto simp: evaluate_cohort_def Let_def set_cap_def split: prod.splits)

end
