(* ===== verification/Events.thy ===== *)
theory Events
  imports Runtime Replies Sentiment
begin

text \<open>
  \<open>core/events.py\<close>: provider events (deduplicated, acted on without a model), the classify
  handler with the one agentic reply, and the control handler. Ids in an event's references are
  texts of UUIDs. The provider's two calls are the arguments of the control handler.
\<close>

section \<open>Ingestion\<close>

datatype event_kind = REPLY_event | BOUNCE | COMPLAINT | UNSUBSCRIBE | SENT | DELIVERED

fun kind_str :: "event_kind \<Rightarrow> pystr" where
  "kind_str REPLY_event = ''reply''" | "kind_str BOUNCE = ''bounce''" | "kind_str COMPLAINT = ''complaint''"
| "kind_str UNSUBSCRIBE = ''unsubscribe''" | "kind_str SENT = ''sent''" | "kind_str DELIVERED = ''delivered''"

record provider_event =
  pv_id :: pystr
  pv_kind :: event_kind
  pv_ref :: "(pystr \<times> pystr) list"
  pv_payload :: payload

definition PROVIDER_NAME :: pystr where
  "PROVIDER_NAME = ''provider''"

definition touch_ref :: "provider_event \<Rightarrow> uuid option" where
  "touch_ref ev = (case map_of (pv_ref ev) ''touch_id'' of None \<Rightarrow> None | Some i \<Rightarrow> if i = [] then None else Some i)"

text \<open>(prospect id, tenant, address, variant) from the touch reference.\<close>

definition prospect_for :: "db \<Rightarrow> provider_event \<Rightarrow> (uuid \<times> pystr \<times> pystr option \<times> pystr option) option" where
  "prospect_for d ev =
     Option.bind (touch_ref ev) (\<lambda>i.
     Option.bind (touch_of d i) (\<lambda>tc.
     Option.bind (prospect_of d (t_prospect tc)) (\<lambda>p.
     map_option (\<lambda>tenant. (p_id p, tenant, p_email p, t_variant tc)) (slug_of d (p_tenant p)))))"

definition safe_transition :: "uuid \<Rightarrow> prospect_state \<Rightarrow> db \<Rightarrow> exc + db" where
  "safe_transition pid target d =
     (case transition pid target ''system:events'' [] d of
        Inl (TransitionError m) \<Rightarrow> Inr (audit ''prospect'' pid ''transition_skipped''
          [(''target'', JStr (state_str target)), (''why'', JStr m)] ''system:events'' d)
      | Inl e \<Rightarrow> Inl e
      | Inr d' \<Rightarrow> Inr d')"

definition nonempty :: "pystr option \<Rightarrow> pystr option" where
  "nonempty x = (case x of None \<Rightarrow> None | Some s \<Rightarrow> if s = [] then None else Some s)"

text \<open>The common shape of bounce, complaint and unsubscribe.\<close>

definition negative_event ::
  "pystr \<Rightarrow> stat_column \<Rightarrow> prospect_state \<Rightarrow> uuid \<times> pystr \<times> pystr option \<times> pystr option \<Rightarrow> db \<Rightarrow> exc + db" where
  "negative_event reason col target ref d =
     (case ref of (pid, tenant, email, variant) \<Rightarrow>
       bindE (case nonempty email of None \<Rightarrow> Inr d
              | Some e \<Rightarrow> bindE (suppress e GLOBAL_SCOPE reason None True d) (\<lambda>(_, d1). Inr d1)) (\<lambda>d1.
         safe_transition pid target
           (case nonempty variant of None \<Rightarrow> d1 | Some v \<Rightarrow> snd (record_guardrail tenant v col d1))))"

definition insert_reply :: "uuid \<Rightarrow> uuid option \<Rightarrow> pystr \<Rightarrow> db \<Rightarrow> uuid \<times> db" where
  "insert_reply pid touch body d =
     (let (i, d1) = fresh_uuid d
      in (i, d1\<lparr>replies := ins \<lparr>r_id = i, r_prospect = pid, r_touch = touch, r_body = Some body,
             r_scrubbed = False, r_intent = None, r_conf = None, r_exchanges = 0,
             r_received = epoch (now d)\<rparr> (replies d)\<rparr>))"

definition act :: "provider_event \<Rightarrow> db \<Rightarrow> exc + db" where
  "act ev d =
     (case (pv_kind ev, prospect_for d ev) of
        (BOUNCE, Some ref) \<Rightarrow> negative_event ''bounce'' Bounces Bounced ref d
      | (COMPLAINT, Some ref) \<Rightarrow> negative_event ''complaint'' Complaints Declined ref d
      | (UNSUBSCRIBE, Some ref) \<Rightarrow> negative_event ''unsubscribe'' Unsubs Unsubscribed ref d
      | (REPLY_event, Some (pid, _)) \<Rightarrow>
          (let (rid, d1) = insert_reply pid (map_of (pv_ref ev) ''touch_id'')
                 (jstr (the_default (JStr []) (map_of (pv_payload ev) ''body''))) d;
               d2 = enqueue_key ''classify'' [(''reply_id'', JStr rid)] (fstr [''classify:'', rid]) d1
           in safe_transition pid Engaged d2)
      | (SENT, _) \<Rightarrow>
          (case touch_ref ev of
             None \<Rightarrow> Inr d
           | Some i \<Rightarrow> bindE (update_touch_status (\<lambda>t. t_id t = i \<and> t_status t = Dispatched)
                        (\<lambda>t. t\<lparr>t_status := Sent\<rparr>) d) (\<lambda>(_, d1). Inr d1))
      | _ \<Rightarrow> Inr d)"

definition seen_event :: "db \<Rightarrow> pystr \<Rightarrow> bool" where
  "seen_event d i \<longleftrightarrow> (\<exists>p\<in>set (pevents d). pe_provider p = PROVIDER_NAME \<and> pe_event p = i)"

definition record_event :: "provider_event \<Rightarrow> db \<Rightarrow> db" where
  "record_event ev d = d\<lparr>pevents := ins \<lparr>pe_provider = PROVIDER_NAME, pe_event = pv_id ev,
     pe_kind = kind_str (pv_kind ev), pe_payload = pv_payload ev\<rparr> (pevents d)\<rparr>"

fun ingest_events :: "provider_event list \<Rightarrow> db \<Rightarrow> exc + nat \<times> db" where
  "ingest_events [] d = Inr (0, d)"
| "ingest_events (ev # evs) d =
     (if seen_event d (pv_id ev) then ingest_events evs d
      else bindE (act ev (record_event ev d)) (\<lambda>d1.
             bindE (ingest_events evs d1) (\<lambda>(n, d2). Inr (Suc n, d2))))"

text \<open>\<open>ingest_webhook\<close>: the provider verifies and parses.\<close>

definition ingest_webhook ::
  "(pystr \<Rightarrow> pystr \<Rightarrow> exc + provider_event list) \<Rightarrow> pystr \<Rightarrow> pystr \<Rightarrow> db \<Rightarrow> exc + nat \<times> db" where
  "ingest_webhook parse payload signature d = bindE (parse payload signature) (\<lambda>evs. ingest_events evs d)"

section \<open>The agentic reply\<close>

definition queue_agentic_reply ::
  "env \<Rightarrow> route_decision \<Rightarrow> uuid \<Rightarrow> uuid \<Rightarrow> pystr \<Rightarrow> db \<Rightarrow> exc + db" where
  "queue_agentic_reply env dec rid pid tenant d =
     (case map_of (en_runtimes env) tenant of
        None \<Rightarrow> Inr d
      | Some rt \<Rightarrow>
          let fresh = (\<lambda>r. r_id r = rid \<and> r_exchanges r = 0)
          in (case fetch fresh (replies d) of
                None \<Rightarrow> Inr d
              | Some row \<Rightarrow>
                  let d1 = d\<lparr>replies := upd fresh (\<lambda>r. r\<lparr>r_exchanges := r_exchanges r + 1\<rparr>) (replies d)\<rparr>;
                      ab = bf_about (tc_brief (rt_config rt));
                      persona_id = map_option p_persona (prospect_of d1 pid);
                      persona = List.find (\<lambda>p. Some (ps_id p) = persona_id) (tc_personas (rt_config rt));
                      counter = (case (persona, nonempty (rd_objection dec)) of
                          (Some p, Some k) \<Rightarrow> map_of (ps_counters p) k | _ \<Rightarrow> None);
                      signup = (if rd_action dec = SEND_SIGNUP_LINK then map_of (ab_links ab) ''signup'' else None)
                  in (case (persona, tc_personas (rt_config rt)) of
                        (None, []) \<Rightarrow> Inl (OtherError ''list index out of range'')
                      | (p, ps) \<Rightarrow>
                          let trusted = trusted_context (rt_config rt) (case p of Some q \<Rightarrow> q | None \<Rightarrow> hd ps)
                          in (case compose_reply (en_registry env) (en_llm env)
                                     (case r_body row of None \<Rightarrow> ''None'' | Some b \<Rightarrow> b)
                                     (ab_faq ab) trusted (rt_ctx rt) counter signup of
                                Inl (ReplyComposeError m) \<Rightarrow> Inr (escalate (Some tenant) ''reply'' rid
                                   (fstr [''agentic reply failed: '', m]) [] d1)
                              | Inl e \<Rightarrow> Inl e
                              | Inr (dr, h) \<Rightarrow>
                                  bindE (queue_draft (en_key env) pid
                                    (fstr [case nonempty persona_id of None \<Rightarrow> ''unknown'' | Some i \<Rightarrow> i, '':agentic_reply''])
                                    None 0 Agentic_reply_kind dr h 0 d1) (\<lambda>(_, d2). Inr d2)))))"

section \<open>The classify handler\<close>

definition after_interest :: "uuid \<Rightarrow> uuid \<Rightarrow> pystr \<Rightarrow> db \<Rightarrow> db" where
  "after_interest rid pid tenant d =
     (let variant = Option.bind (fetch (\<lambda>r. r_id r = rid) (replies d)) (\<lambda>r.
            Option.bind (r_touch r) (\<lambda>i. Option.bind (touch_of d i) t_variant));
          d1 = (case nonempty variant of None \<Rightarrow> d | Some v \<Rightarrow> record_success tenant v d)
      in enqueue_key ''referral'' [(''prospect_id'', JStr pid)] (fstr [''referral:'', pid]) d1)"

text \<open>The 12-month suppression, written with the address as stored.\<close>

definition cooldown :: "pystr \<Rightarrow> pystr \<Rightarrow> int \<Rightarrow> db \<Rightarrow> db" where
  "cooldown email reason months d =
     (let x = Some (epoch (add_months months (now d)))
      in d\<lparr>suppressions := upsert (\<lambda>s. s_email s = email \<and> s_scope s = GLOBAL_SCOPE)
             (\<lambda>s. s\<lparr>s_expires := x, s_reason := reason\<rparr>)
             \<lparr>s_email = email, s_scope = GLOBAL_SCOPE, s_reason = reason, s_expires = x,
              s_created = epoch (now d)\<rparr> (suppressions d)\<rparr>)"

definition apply_decision ::
  "route_decision \<Rightarrow> uuid \<Rightarrow> uuid \<Rightarrow> pystr option \<Rightarrow> pystr \<Rightarrow> db \<Rightarrow> exc + db" where
  "apply_decision dec rid pid email tenant d =
     (case (rd_action dec, nonempty email) of
        (SUPPRESS_UNSUBSCRIBE, Some e) \<Rightarrow>
          bindE (suppress e GLOBAL_SCOPE ''unsubscribe'' None True d) (\<lambda>(_, d1).
            safe_transition pid Unsubscribed d1)
      | (CLOSE_POLITE_SUPPRESS, Some e) \<Rightarrow> safe_transition pid Declined (cooldown e ''declined'' 12 d)
      | (ESCALATE, _) \<Rightarrow> Inr (escalate (Some tenant) ''reply'' rid (rd_reason dec)
          [(''intent'', JStr (rd_intent dec)), (''confidence'', JNum (rd_confidence dec))] d)
      | _ \<Rightarrow> Inr d)"

definition file_objection :: "route_decision \<Rightarrow> uuid \<Rightarrow> pystr \<Rightarrow> pystr \<Rightarrow> db \<Rightarrow> db" where
  "file_objection dec rid tenant cohort d =
     (if rd_intent dec = ''objection''
      then d\<lparr>objections := ins \<lparr>o_tenant = tenant,
              o_class = (case nonempty (rd_objection dec) of None \<Rightarrow> ''other'' | Some c \<Rightarrow> c),
              o_reply = rid, o_cohort = cohort\<rparr> (objections d)\<rparr>
      else d)"

definition classify :: "env \<Rightarrow> payload \<Rightarrow> db \<Rightarrow> exc + db" where
  "classify env pl d =
     bindE (jget_str pl ''reply_id'') (\<lambda>rid.
       let row = Option.bind (fetch (\<lambda>r. r_id r = rid) (replies d)) (\<lambda>r.
             Option.bind (prospect_of d (r_prospect r)) (\<lambda>p.
             map_option (\<lambda>tenant. (r, p, tenant)) (slug_of d (p_tenant p))))
       in case row of
            None \<Rightarrow> Inl (PermanentJobError (fstr [''reply '', rid, '' not found'']))
          | Some (r, p, tenant) \<Rightarrow>
              (case r_body r of
                 None \<Rightarrow> Inr d
               | Some body \<Rightarrow>
                   let pid = p_id p; d1 = snd (release_sequence pid d)
                   in bindE (route (en_llm env) (r_exchanges r) all_but_escalate body) (\<lambda>dec.
                        let d2 = (if rd_intent dec = ''interested'' then after_interest rid pid tenant d1 else d1);
                            d3 = d2\<lparr>replies := upd (\<lambda>r. r_id r = rid)
                                    (\<lambda>r. r\<lparr>r_intent := Some (rd_intent dec), r_conf := Some (rd_confidence dec)\<rparr>)
                                    (replies d2)\<rparr>
                        in bindE (apply_decision dec rid pid (p_email p) tenant d3) (\<lambda>d4.
                           bindE (if rd_action dec = ANSWER_FAQ \<or> rd_action dec = SEND_SIGNUP_LINK
                                  then queue_agentic_reply env dec rid pid tenant d4 else Inr d4) (\<lambda>d5.
                             Inr (snd (maybe_evaluate tenant (p_cohort p)
                                    (file_objection dec rid tenant (p_cohort p) d5))))))))"

section \<open>The control handler\<close>

definition control_op ::
  "(pystr \<Rightarrow> exc + unit) \<Rightarrow> (pystr \<Rightarrow> exc + unit) \<Rightarrow> payload \<Rightarrow> db \<Rightarrow> exc + db" where
  "control_op pause_lead pause_all pl d =
     (let op = map_of pl ''op''
      in if op = Some (JStr ''pause_lead'') then
           bindE (jget_str pl ''email_canonical'') (\<lambda>e. bindE (pause_lead e) (\<lambda>_. Inr d))
         else if op = Some (JStr ''delete_lead'') then
           bindE (jget_str pl ''email_canonical'') (\<lambda>e. bindE (pause_lead e) (\<lambda>_.
             bindE (jget_str pl ''receipt_id'') (\<lambda>r.
               Inr (d\<lparr>tombstones := upd (\<lambda>t. tb_receipt t = r)
                       (\<lambda>t. t\<lparr>tb_propagated := Some (epoch (now d))\<rparr>) (tombstones d)\<rparr>))))
         else if op = Some (JStr ''pause_all_campaigns'') then
           bindE (jget_str pl ''scope'') (\<lambda>s. bindE (pause_all s) (\<lambda>_. Inr d))
         else Inl (PermanentJobError (fstr [''unknown control op '',
                case op of None \<Rightarrow> ''None'' | Some (JStr s) \<Rightarrow> py_repr s | Some j \<Rightarrow> jstr j])))"

section \<open>Frames\<close>

lemma safe_transition_cases:
  assumes "safe_transition pid target d = Inr d'"
  shows "(\<exists>pl. d' = audit ''prospect'' pid ''transition_skipped'' pl ''system:events'' d) \<or>
    transition pid target ''system:events'' [] d = Inr d'"
  using assms by (auto simp: safe_transition_def split: sum.splits exc.splits)

lemma safe_transition_frame [frame]:
  assumes "safe_transition pid target d = Inr d'"
  shows "touches d' = touches d" "suppressions d' = suppressions d" "now d' = now d" "pevents d' = pevents d"
    "tombstones d' = tombstones d" "idna d' = idna d" "counters d' = counters d" "replies d' = replies d"
    "entities d' = entities d" "vstats d' = vstats d"
  using safe_transition_cases [OF assms] by (auto dest: transition_frame)

text \<open>Only a prospect that is not there makes it raise.\<close>

lemma safe_transition_total: "prospect_of d pid \<noteq> None \<Longrightarrow> \<exists>d'. safe_transition pid target d = Inr d'"
  by (auto simp: safe_transition_def transition_def assert_transition_def)

lemma record_guardrail_pevents [simp]: "pevents (snd (record_guardrail t v c d)) = pevents d"
  by (auto simp: record_guardrail_def upsert_stat_def Let_def split: option.splits)

lemma negative_event_frame:
  assumes "negative_event reason col target ref d = Inr d'"
  shows "pevents d' = pevents d" "now d' = now d" "touches d' = touches d" "tombstones d' = tombstones d"
proof -
  obtain pid tenant email variant where ref: "ref = (pid, tenant, email, variant)" by (cases ref)
  from assms obtain d1 where d1: "(case nonempty email of None \<Rightarrow> Inr d
              | Some e \<Rightarrow> bindE (suppress e GLOBAL_SCOPE reason None True d) (\<lambda>(_, d1). Inr d1)) = Inr d1"
    and d': "safe_transition pid target
           (case nonempty variant of None \<Rightarrow> d1 | Some v \<Rightarrow> snd (record_guardrail tenant v col d1)) = Inr d'"
    by (auto simp: negative_event_def ref bindE_eq_Inr)
  have "pevents d1 = pevents d \<and> now d1 = now d \<and> touches d1 = touches d \<and> tombstones d1 = tombstones d"
    using d1 by (auto simp: bindE_eq_Inr split: option.splits dest: suppress_frame)
  then show "pevents d' = pevents d" "now d' = now d" "touches d' = touches d" "tombstones d' = tombstones d"
    using safe_transition_frame [OF d'] by (auto split: option.splits)
qed

lemma act_pevents: "act ev d = Inr d' \<Longrightarrow> pevents d' = pevents d"
  unfolding act_def
  by (auto simp: insert_reply_def fresh_uuid_def Let_def bindE_eq_Inr split: event_kind.splits option.splits prod.splits
      dest: negative_event_frame(1) safe_transition_frame(4) update_touch_status_Inr)

section \<open>An event is processed once\<close>

lemma seen_event_mono: "set (pevents d) \<subseteq> set (pevents d') \<Longrightarrow> seen_event d i \<Longrightarrow> seen_event d' i"
  by (auto simp: seen_event_def)

lemma pevents_record [simp]: "seen_event (record_event ev d) (pv_id ev)"
  by (auto simp: seen_event_def record_event_def)

lemma ingest_seen:
  "ingest_events evs d = Inr (n, d') \<Longrightarrow> set (pevents d) \<subseteq> set (pevents d') \<and> (\<forall>ev\<in>set evs. seen_event d' (pv_id ev))"
proof (induction evs arbitrary: d n)
  case (Cons ev evs)
  show ?case
  proof (cases "seen_event d (pv_id ev)")
    case True
    with Cons.prems have "ingest_events evs d = Inr (n, d')" by simp
    from Cons.IH [OF this] True seen_event_mono show ?thesis by auto
  next
    case False
    with Cons.prems obtain d1 m where a: "act ev (record_event ev d) = Inr d1" "ingest_events evs d1 = Inr (m, d')"
      by (auto simp: bindE_eq_Inr)
    from act_pevents [OF a(1)] have p: "pevents d1 = pevents (record_event ev d)" .
    then have s: "seen_event d1 (pv_id ev)" using pevents_record [of ev d] by (simp add: seen_event_def)
    from Cons.IH [OF a(2)] p s seen_event_mono [of d1 d' "pv_id ev"] show ?thesis
      by (auto simp: record_event_def)
  qed
qed simp

lemma ingest_all_seen: "\<forall>ev\<in>set evs. seen_event d (pv_id ev) \<Longrightarrow> ingest_events evs d = Inr (0, d)"
  by (induction evs) auto

section \<open>Opt-outs\<close>

lemma live_suppression_cong:
  "suppressions d' = suppressions d \<Longrightarrow> now d' = now d \<Longrightarrow> live_suppression d' = live_suppression d"
  by (simp add: live_suppression_def not_expired_def fun_eq_iff cong: option.case_cong)

text \<open>What a negative event does to the address.\<close>

lemma negative_event_suppresses:
  assumes "negative_event reason col target (pid, tenant, Some e, variant) d = Inr d'" and "e \<noteq> []"
    and "canonicalize (idna d) e = Inr c"
  shows "live_suppression d' c t"
proof -
  from assms(1,2) obtain d0 d1 where s: "suppress e GLOBAL_SCOPE reason None True d = Inr (d0, d1)"
    and d': "safe_transition pid target
           (case nonempty variant of None \<Rightarrow> d1 | Some v \<Rightarrow> snd (record_guardrail tenant v col d1)) = Inr d'"
    by (auto simp: negative_event_def bindE_eq_Inr nonempty_def)
  have "d0 = c" using s assms(3) by (auto simp: suppress_def Let_def)
  with s have "live_suppression d1 c t" by (auto intro: live_suppression_suppress)
  moreover have "suppressions d' = suppressions d1" "now d' = now d1"
    using safe_transition_frame [OF d'] by (auto split: option.splits)
  ultimately show ?thesis using live_suppression_cong by metis
qed

lemma negative_event_total:
  assumes "prospect_of d pid \<noteq> None" and "\<forall>e. email = Some e \<longrightarrow> e \<noteq> [] \<longrightarrow> (\<exists>c. canonicalize (idna d) e = Inr c)"
  shows "\<exists>d'. negative_event reason col target (pid, tenant, email, variant) d = Inr d'"
proof -
  have "\<exists>d1. (case nonempty email of None \<Rightarrow> Inr d
              | Some e \<Rightarrow> bindE (suppress e GLOBAL_SCOPE reason None True d) (\<lambda>(_, d1). Inr d1)) = Inr d1 \<and>
      prospects d1 = prospects d"
  proof (cases "nonempty email")
    case (Some e')
    then have "email = Some e'" "e' \<noteq> []" by (auto simp: nonempty_def split: option.splits if_splits)
    with assms(2) obtain c where "canonicalize (idna d) e' = Inr c"
      by blast
    with Some show ?thesis by (simp add: suppress_def Let_def)
  qed simp
  then obtain d1 where d1: "(case nonempty email of None \<Rightarrow> Inr d
              | Some e \<Rightarrow> bindE (suppress e GLOBAL_SCOPE reason None True d) (\<lambda>(_, d1). Inr d1)) = Inr d1"
    "prospects d1 = prospects d" by blast
  let ?d2 = "case nonempty variant of None \<Rightarrow> d1 | Some v \<Rightarrow> snd (record_guardrail tenant v col d1)"
  have "prospect_of ?d2 pid \<noteq> None"
    using assms(1) d1(2) by (auto simp: prospect_of_def split: option.splits)
  then have "\<exists>d'. safe_transition pid target ?d2 = Inr d'" by (rule safe_transition_total)
  with d1(1) show ?thesis by (simp add: negative_event_def)
qed

text \<open>A reply that asks to be removed is suppressed whatever the model would say.\<close>

lemma classify_opt_out_model_free:
  assumes "fetch (\<lambda>r. r_id r = rid) (replies d) = Some r" and "r_body r = Some body"
    and "search UNSUBSCRIBE_RE body \<noteq> None" and "jget_str pl ''reply_id'' = Inr rid"
  shows "classify env pl d = classify (env\<lparr>en_llm := llm\<rparr>) pl d"
proof (cases "prospect_of d (r_prospect r)")
  case None
  with assms show ?thesis by (simp add: classify_def)
next
  case (Some p)
  with assms show ?thesis
    by (cases "slug_of d (p_tenant p)") (simp_all add: classify_def route_unsubscribe Let_def)
qed

text \<open>The second agentic exchange does not happen.\<close>

lemma agentic_once:
  assumes "\<forall>r\<in>set (replies d). r_id r = rid \<longrightarrow> r_exchanges r \<noteq> 0"
  shows "queue_agentic_reply env dec rid pid tenant d = Inr d"
proof -
  have "fetch (\<lambda>r. r_id r = rid \<and> r_exchanges r = 0) (replies d) = None"
    using assms by (auto simp: fetch_None)
  then show ?thesis by (simp add: queue_agentic_reply_def split: option.split)
qed

end
