(* ===== verification/Noshow.thy ===== *)
theory Noshow
  imports Events
begin

text \<open>
  \<open>core/noshow.py\<close>: a missed booking. The first one schedules a single re-engagement, a second
  one closes the prospect with a cooldown. The audit trail is the memory of earlier no-shows.
\<close>

section \<open>Recording a no-show\<close>

definition REENGAGE_DELAY_DAYS :: int where
  "REENGAGE_DELAY_DAYS = 3"

definition COOLDOWN_MONTHS :: int where
  "COOLDOWN_MONTHS = 6"

definition ELIGIBLE_STATES :: "prospect_state list" where
  "ELIGIBLE_STATES = [Engaged, Contacted, Converted]"

datatype noshow_outcome = Reengage_scheduled | Closed

definition no_show_of :: "uuid \<Rightarrow> audit_row \<Rightarrow> bool" where
  "no_show_of pid a \<longleftrightarrow> a_type a = ''prospect'' \<and> a_subject a = pid \<and> a_event a = ''no_show''"

definition process_no_show :: "int \<Rightarrow> uuid \<Rightarrow> db \<Rightarrow> exc + noshow_outcome \<times> db" where
  "process_no_show delay_days pid d =
     (let prior = cnt (no_show_of pid) (audits d);
          d1 = audit ''prospect'' pid ''no_show'' [] ''system:noshow'' d
      in if prior = 0
         then Inr (Reengage_scheduled, snd (enqueue ''reengage'' [(''prospect_id'', JStr pid)]
                (Some (fstr [''reengage:'', pid])) (delay_days * 86400) MAX_ATTEMPTS_DEFAULT d1))
         else
           let d2 = (case nonempty (Option.bind (prospect_of d1 pid) p_email) of
                       None \<Rightarrow> d1 | Some e \<Rightarrow> cooldown e ''no_show'' COOLDOWN_MONTHS d1)
           in (case transition pid Declined ''system:noshow'' ''second no-show (FR-4.5)'' d2 of
                 Inl (TransitionError _) \<Rightarrow> Inr (Closed, d2)
               | Inl e \<Rightarrow> Inl e
               | Inr d3 \<Rightarrow> Inr (Closed, d3)))"

definition handle_no_show_event :: "uuid \<Rightarrow> payload \<Rightarrow> db \<Rightarrow> exc + nat \<times> db" where
  "handle_no_show_event tid selector d =
     (case map_of selector ''entity_email'' of
        None \<Rightarrow> Inr (0, d)
      | Some j \<Rightarrow> if \<not> truthy j then Inr (0, d) else
          (case canon d (jstr j) of
             None \<Rightarrow> Inr (0, d)
           | Some c \<Rightarrow>
               let rows = sel (\<lambda>p. p_tenant p = tid \<and> p_email p = Some c \<and> p_state p \<in> set ELIGIBLE_STATES)
                            (prospects d)
               in bindE (foldE (\<lambda>p d. bindE (process_no_show REENGAGE_DELAY_DAYS (p_id p) d) (\<lambda>(_, d'). Inr d')) rows d)
                    (\<lambda>d'. Inr (length rows, d'))))"

section \<open>The re-engagement handler\<close>

definition reengage_prompt_missing :: pystr where
  "reengage_prompt_missing =
     ''booking no-show: re-engage manually (no reengagement_prompt configured, FR-4.5)''"

definition reengage :: "env \<Rightarrow> payload \<Rightarrow> db \<Rightarrow> exc + db" where
  "reengage env pl d =
     bindE (jget_str pl ''prospect_id'') (\<lambda>pid.
     bindE (persona_and_candidate (en_runtimes env) d pid ELIGIBLE_STATES) (\<lambda>found.
       case found of
         Some (rt, Some persona, cand) \<Rightarrow>
           let complain = (\<lambda>reason. escalate (Some (tc_tenant (rt_config rt))) ''prospect'' pid reason [] d)
           in (case ps_reengage persona of
                 None \<Rightarrow> Inr (complain reengage_prompt_missing)
               | Some prompt \<Rightarrow>
                   (case compose_for env rt persona cand (load_card d pid) []
                           (fstr [ps_id persona, ''_reengage'']) prompt 0 d of
                      Inl e \<Rightarrow> if composer_gave_up e
                        then Inr (complain (fstr [''reengage compose failed: '', exc_str e])) else Inl e
                    | Inr res \<Rightarrow>
                        bindE (queue_draft (en_key env) pid (fstr [ps_id persona, '':reengage'']) None 0
                                 Agentic_reply_kind (cr_draft res) (cr_sha res) 0 d) (\<lambda>(_, d'). Inr d')))
       | _ \<Rightarrow> Inr d))"

section \<open>One re-engagement, then the end\<close>

lemma cooldown_frame [simp, frame]:
  "prospects (cooldown e r m d) = prospects d" "jobs (cooldown e r m d) = jobs d"
  "audits (cooldown e r m d) = audits d" "now (cooldown e r m d) = now d"
  "touches (cooldown e r m d) = touches d" "prospect_of (cooldown e r m d) i = prospect_of d i"
  "next_job (cooldown e r m d) = next_job d"
  by (simp_all add: cooldown_def Let_def prospect_of_def)

lemma process_no_show_first:
  "cnt (no_show_of pid) (audits d) = 0 \<Longrightarrow>
    process_no_show n pid d = Inr (Reengage_scheduled, snd (enqueue ''reengage'' [(''prospect_id'', JStr pid)]
      (Some (fstr [''reengage:'', pid])) (n * 86400) MAX_ATTEMPTS_DEFAULT
      (audit ''prospect'' pid ''no_show'' [] ''system:noshow'' d)))"
  by (simp add: process_no_show_def)

text \<open>A second no-show closes the prospect or leaves it in a state it had already left the funnel by.\<close>

lemma process_no_show_again:
  assumes "0 < cnt (no_show_of pid) (audits d)" and "prospect_of d pid = Some p"
  shows "\<exists>d'. process_no_show n pid d = Inr (Closed, d') \<and> jobs d' = jobs d \<and>
    prospect_of d' pid = Some (if Declined \<in> set (TRANSITIONS (p_state p)) then p\<lparr>p_state := Declined\<rparr> else p)"
proof -
  define d1 where "d1 = audit ''prospect'' pid ''no_show'' [] ''system:noshow'' d"
  define d2 where "d2 = (case nonempty (Option.bind (prospect_of d1 pid) p_email) of
      None \<Rightarrow> d1 | Some e \<Rightarrow> cooldown e ''no_show'' COOLDOWN_MONTHS d1)"
  have d2: "prospect_of d2 pid = Some p" "jobs d2 = jobs d"
    using assms(2) by (auto simp: d2_def d1_def split: option.splits)
  have e: "process_no_show n pid d = (case transition pid Declined ''system:noshow'' ''second no-show (FR-4.5)'' d2 of
      Inl (TransitionError _) \<Rightarrow> Inr (Closed, d2) | Inl e \<Rightarrow> Inl e | Inr d3 \<Rightarrow> Inr (Closed, d3))"
    using assms(1) unfolding process_no_show_def Let_def d1_def [symmetric] d2_def [symmetric] by simp
  show ?thesis
  proof (cases "Declined \<in> set (TRANSITIONS (p_state p))")
    case True
    from transition_ok [OF d2(1) True, of "''system:noshow''" "''second no-show (FR-4.5)''"]
    obtain d3 where d3: "transition pid Declined ''system:noshow'' ''second no-show (FR-4.5)'' d2 = Inr d3"
      "prospect_of d3 pid = Some (p\<lparr>p_state := Declined\<rparr>)" by blast
    have "jobs d3 = jobs d2" using transition_eq [OF d3(1)] by (elim exE) simp
    with d3 d2(2) True show ?thesis by (simp add: e)
  next
    case False
    from transition_illegal [OF d2(1) False] obtain m where
      "transition pid Declined ''system:noshow'' ''second no-show (FR-4.5)'' d2 = Inl (TransitionError m)" by blast
    with d2 False show ?thesis by (simp add: e)
  qed
qed

lemma transition_audits: "transition pid target actor reason d = Inr d' \<Longrightarrow> set (audits d) \<subseteq> set (audits d')"
  by (drule transition_eq) (auto simp: set_state_def)

text \<open>Every no-show leaves its record, so the next one finds it.\<close>

lemma process_no_show_counts:
  assumes "process_no_show n pid d = Inr (out, d')"
  shows "0 < cnt (no_show_of pid) (audits d')"
proof -
  define d1 where "d1 = audit ''prospect'' pid ''no_show'' [] ''system:noshow'' d"
  define d2 where "d2 = (case nonempty (Option.bind (prospect_of d1 pid) p_email) of
      None \<Rightarrow> d1 | Some e \<Rightarrow> cooldown e ''no_show'' COOLDOWN_MONTHS d1)"
  have one: "\<exists>a\<in>set (audits d1). no_show_of pid a" by (auto simp: d1_def no_show_of_def)
  have a2: "audits d2 = audits d1" by (simp add: d2_def split: option.splits)
  have "set (audits d1) \<subseteq> set (audits d')"
  proof (cases "cnt (no_show_of pid) (audits d) = 0")
    case True
    then show ?thesis using assms by (auto simp: process_no_show_first d1_def)
  next
    case False
    then have e: "process_no_show n pid d = (case transition pid Declined ''system:noshow'' ''second no-show (FR-4.5)'' d2 of
        Inl (TransitionError _) \<Rightarrow> Inr (Closed, d2) | Inl e \<Rightarrow> Inl e | Inr d3 \<Rightarrow> Inr (Closed, d3))"
      unfolding process_no_show_def Let_def d1_def [symmetric] d2_def [symmetric] by simp
    have "d' = d2 \<or> transition pid Declined ''system:noshow'' ''second no-show (FR-4.5)'' d2 = Inr d'"
      using assms unfolding e by (auto split: sum.splits exc.splits)
    with a2 transition_audits show ?thesis by (metis order_refl)
  qed
  with one show ?thesis by (auto simp: cnt_pos)
qed

end
