(* ===== verification/Referrals.thy ===== *)
theory Referrals
  imports Human_tasks Noshow
begin

text \<open>
  \<open>core/referrals.py\<close>: the referral ask after a positive event, once per entity ever. The flag
  on the entity is claimed by one conditional update before anything is composed.
\<close>

section \<open>Composing\<close>

definition compose_referral ::
  "env \<Rightarrow> tenant_runtime \<Rightarrow> persona_spec \<Rightarrow> evidence_fact list \<Rightarrow> candidate \<Rightarrow> uuid \<Rightarrow> pystr \<Rightarrow> db \<Rightarrow>
     exc + compose_result option \<times> db" where
  "compose_referral env rt persona crd cand pid prompt d =
     (case compose_for env rt persona cand crd (rt_sender_facts rt) (fstr [ps_id persona, ''_referral'']) prompt 0 d of
        Inr res \<Rightarrow> Inr (Some res, d)
      | Inl e \<Rightarrow>
          if composer_gave_up e
          then Inr (None, escalate (Some (tc_tenant (rt_config rt))) ''prospect'' pid
                 (fstr [''referral compose failed: '', exc_str e]) [] d)
          else Inl e)"

section \<open>process_positive_event\<close>

definition askable :: "db \<Rightarrow> uuid \<Rightarrow> entity_row \<Rightarrow> bool" where
  "askable d pid e \<longleftrightarrow> Some (e_id e) = map_option p_entity (prospect_of d pid) \<and> \<not> e_referral e \<and> e_status_active e"

definition claim_referral :: "uuid \<Rightarrow> db \<Rightarrow> nat \<times> db" where
  "claim_referral pid d =
     (cnt (askable d pid) (entities d),
      d\<lparr>entities := upd (askable d pid) (\<lambda>e. e\<lparr>e_referral := True\<rparr>) (entities d)\<rparr>)"

definition invite_instruction :: "pystr \<Rightarrow> pystr" where
  "invite_instruction draft_text = fstr
     [''Deliver this colleague-invite draft to the provider; THEY send '',
      ''it (or explicitly consent to visible on-behalf-of sending). '',
      ''Draft:'', nl, draft_text]"

text \<open>The ask itself, once composed: a task for the provider, or a message of ours.\<close>

definition place_ask ::
  "env \<Rightarrow> tenant_runtime \<Rightarrow> persona_spec \<Rightarrow> referral_spec \<Rightarrow> uuid \<Rightarrow> compose_result option \<times> db \<Rightarrow>
     exc + uuid option \<times> db" where
  "place_ask env rt persona spec pid = (\<lambda>(composed, d). case composed of
       None \<Rightarrow> Inr (None, d)
     | Some res \<Rightarrow>
         let campaign = fstr [ps_id persona, '':referral'']
         in if rf_mode spec = ''on_behalf_of''
            then bindE (create_for_step (tc_tenant (rt_config rt)) pid campaign 0
                   (invite_instruction (dr_body (cr_draft res))) (ps_value_prop persona) d)
                   (\<lambda>(i, d'). Inr (Some i, d'))
            else bindE (queue_draft (en_key env) pid campaign None 0 Agentic_reply_kind
                   (cr_draft res) (cr_sha res) 0 d) (\<lambda>(i, d'). Inr (Some i, d')))"

definition process_positive_event :: "env \<Rightarrow> uuid \<Rightarrow> db \<Rightarrow> exc + uuid option \<times> db" where
  "process_positive_event env pid d =
     bindE (persona_and_candidate (en_runtimes env) d pid [Converted, Engaged, Contacted]) (\<lambda>found.
       case found of
         Some (rt, Some persona, cand) \<Rightarrow>
           (case ps_referral persona of
              None \<Rightarrow> Inr (None, d)
            | Some spec \<Rightarrow>
                let (claimed, d1) = claim_referral pid d
                in if claimed = 0 then Inr (None, d1)
                   else bindE (compose_referral env rt persona (load_card d pid) cand pid (rf_prompt spec) d1)
                          (place_ask env rt persona spec pid))
       | _ \<Rightarrow> Inr (None, d))"

definition referral :: "env \<Rightarrow> payload \<Rightarrow> db \<Rightarrow> exc + db" where
  "referral env pl d =
     bindE (jget_str pl ''prospect_id'') (\<lambda>pid. bindE (process_positive_event env pid d) (\<lambda>(_, d'). Inr d'))"

section \<open>The flag\<close>

definition asked :: "db \<Rightarrow> uuid \<Rightarrow> bool" where
  "asked d eid \<longleftrightarrow> (\<forall>e\<in>set (entities d). e_id e = eid \<longrightarrow> e_referral e)"

lemma claim_referral_frame [simp, frame]:
  "prospects (snd (claim_referral pid d)) = prospects d" "touches (snd (claim_referral pid d)) = touches d"
  "tasks (snd (claim_referral pid d)) = tasks d" "jobs (snd (claim_referral pid d)) = jobs d"
  by (simp_all add: claim_referral_def)

lemma claim_referral_asked:
  assumes "prospect_of d pid = Some p" and "asked d (p_entity p)"
  shows "fst (claim_referral pid d) = 0" and "snd (claim_referral pid d) = d"
proof -
  have n: "\<not> askable d pid e" if "e \<in> set (entities d)" for e
    using assms that by (auto simp: askable_def asked_def)
  then show "fst (claim_referral pid d) = 0" by (auto simp: claim_referral_def cnt_0)
  from n have "upd (askable d pid) (\<lambda>e. e\<lparr>e_referral := True\<rparr>) (entities d) = entities d"
    by (intro upd_no_match) blast
  then show "snd (claim_referral pid d) = d" by (simp add: claim_referral_def)
qed

lemma claim_referral_sets:
  assumes "prospect_of d pid = Some p" and "\<forall>e\<in>set (entities d). e_id e = p_entity p \<longrightarrow> e_status_active e"
  shows "asked (snd (claim_referral pid d)) (p_entity p)"
  using assms by (auto simp: claim_referral_def asked_def set_upd askable_def)

text \<open>Composing and queueing leave the flag alone.\<close>

lemma compose_referral_entities:
  "compose_referral env rt persona crd cand pid prompt d = Inr (r, d') \<Longrightarrow>
    entities d' = entities d \<and> prospects d' = prospects d \<and> touches d' = touches d \<and> tasks d' = tasks d"
  by (auto simp: compose_referral_def split: sum.splits if_splits)

lemma create_for_step_entities:
  assumes "create_for_step tenant pid campaign step instruction vp d = Inr (i, d')"
  shows "entities d' = entities d" and "prospects d' = prospects d"
  using assms
  by (auto simp: create_for_step_def Let_def bindE_eq_Inr fresh_uuid_def audit_task_def dest!: insert_touch_Inr)

lemma asked_cong: "entities d' = entities d \<Longrightarrow> asked d' eid = asked d eid"
  by (simp add: asked_def)

lemma queue_draft_frame:
  assumes "queue_draft key pid camp var st k dr h n d = Inr (i, d')"
  shows "entities d' = entities d" and "prospects d' = prospects d"
  using assms by (auto elim!: queue_draft_Inr)

lemma place_ask_frame:
  assumes "place_ask env rt persona spec pid (composed, d) = Inr (r, d')"
  shows "entities d' = entities d \<and> prospects d' = prospects d"
proof (cases composed)
  case (Some res)
  show ?thesis
  proof (cases "rf_mode spec = ''on_behalf_of''")
    case True
    with assms Some show ?thesis
      by (auto simp: place_ask_def bindE_eq_Inr Let_def dest: create_for_step_entities)
  next
    case False
    with assms Some show ?thesis
      by (auto simp: place_ask_def bindE_eq_Inr Let_def dest: queue_draft_frame)
  qed
qed (use assms in \<open>simp add: place_ask_def\<close>)

text \<open>A positive event that got past the claim leaves the entity asked.\<close>

lemma process_positive_event_cases:
  assumes "process_positive_event env pid d = Inr (r, d')"
  shows "d' = d \<and> r = None \<or>
    (entities d' = entities (snd (claim_referral pid d)) \<and> prospects d' = prospects d \<and>
     (fst (claim_referral pid d) = 0 \<longrightarrow> r = None \<and> d' = snd (claim_referral pid d)))"
proof -
  from assms obtain found where f: "persona_and_candidate (en_runtimes env) d pid [Converted, Engaged, Contacted] = Inr found"
    by (auto simp: process_positive_event_def bindE_eq_Inr)
  show ?thesis
  proof (cases "\<exists>rt persona cand spec. found = Some (rt, Some persona, cand) \<and> ps_referral persona = Some spec")
    case False
    with assms f show ?thesis by (auto simp: process_positive_event_def split: option.splits prod.splits)
  next
    case True
    then obtain rt persona cand spec where t: "found = Some (rt, Some persona, cand)" "ps_referral persona = Some spec"
      by blast
    obtain claimed d1 where cl: "claim_referral pid d = (claimed, d1)" by fastforce
    show ?thesis
    proof (cases "claimed = 0")
      case True
      with assms f t cl have "r = None" "d' = d1" by (auto simp: process_positive_event_def)
      with cl True claim_referral_frame(1) [of pid d] show ?thesis by simp
    next
      case False
      with assms f t cl have "bindE (compose_referral env rt persona (load_card d pid) cand pid (rf_prompt spec) d1)
          (place_ask env rt persona spec pid) = Inr (r, d')"
        by (simp add: process_positive_event_def)
      then obtain composed d2 where c: "compose_referral env rt persona (load_card d pid) cand pid (rf_prompt spec) d1 = Inr (composed, d2)"
        and pl: "place_ask env rt persona spec pid (composed, d2) = Inr (r, d')"
        by (auto simp: bindE_eq_Inr)
      from compose_referral_entities [OF c] have e2: "entities d2 = entities d1" "prospects d2 = prospects d1" by auto
      have "entities d' = entities d2 \<and> prospects d' = prospects d2" by (rule place_ask_frame [OF pl])
      with e2 cl False claim_referral_frame(1) [of pid d] show ?thesis by simp
    qed
  qed
qed

lemma process_positive_event_once:
  assumes "process_positive_event env pid d = Inr (r, d')" and "prospect_of d pid = Some p"
    and "asked d (p_entity p)"
  shows "r = None \<and> d' = d"
  using process_positive_event_cases [OF assms(1)] claim_referral_asked [OF assms(2,3)] by auto

end
