(* ===== verification/Prospecting.thy ===== *)
theory Prospecting
  imports Entities Proposals Referrals
begin

text \<open>
  \<open>core/prospecting.py\<close>: the handlers that take a prospect from discovery to a drafted touch.
  Source adapters, the enricher, the email finder and the verifier are arguments; all but the
  calls to them are the code's. Rows without \<open>ORDER BY\<close> come in table order.
\<close>

section \<open>Tenants and screening\<close>

definition SOURCE_DENYLIST :: "pystr list" where
  "SOURCE_DENYLIST = [''psychologytoday.com'', ''yelp.com'']"

definition tenant_id :: "pystr \<Rightarrow> db \<Rightarrow> uuid \<times> db" where
  "tenant_id slg d =
     (case fetch (\<lambda>t. tn_slug t = slg) (tenants d) of
        Some t \<Rightarrow> (tn_id t, d)
      | None \<Rightarrow> (let (i, d1) = fresh_uuid d in (i, d1\<lparr>tenants := ins \<lparr>tn_id = i, tn_slug = slg\<rparr> (tenants d1)\<rparr>)))"

definition denylisted :: "candidate \<Rightarrow> bool" where
  "denylisted cand =
     (let target = lower (fstr [the_default [] (cd_website cand), '' '', json_dumps (JObj (cd_ref cand))])
      in list_ex (contains target) SOURCE_DENYLIST)"

definition new_prospect :: "uuid \<Rightarrow> uuid \<Rightarrow> uuid \<Rightarrow> pystr \<Rightarrow> pystr \<Rightarrow> candidate \<Rightarrow> prospect_row" where
  "new_prospect i tid eid cohort persona cand =
     \<lparr>p_id = i, p_tenant = tid, p_entity = eid, p_cohort = cohort, p_persona = persona, p_state = Discovered,
      p_email_raw = cd_email cand, p_email = None, p_conf = None, p_source = cd_source cand,
      p_ref = cd_ref cand, p_basis = cd_basis cand\<rparr>"

definition persist_candidate :: "tenant_runtime \<Rightarrow> pystr \<Rightarrow> pystr \<Rightarrow> candidate \<Rightarrow> db \<Rightarrow> uuid option \<times> db" where
  "persist_candidate rt persona cohort cand d =
     (let (re, d1) = resolve_entity (rt_tenant_id rt) cand d;
          d2 = (if re_conflict re
                then escalate (Some (tc_tenant (rt_config rt))) ''entity'' (re_entity re) ''merge conflict at ingest''
                       [(''candidate'', JStr (cd_name cand))] d1
                else d1)
      in if \<exists>p\<in>set (prospects d2). p_cohort p = cohort \<and> p_entity p = re_entity re then (None, d2)
         else
           let (pid, d3) = fresh_uuid d2
           in (Some pid, enqueue_key ''enrich'' [(''prospect_id'', JStr pid)] (fstr [''enrich:'', pid])
                 (d3\<lparr>prospects := ins (new_prospect pid (rt_tenant_id rt) (re_entity re) cohort persona cand)
                                  (prospects d3)\<rparr>)))"

definition ingest_candidate ::
  "tenant_runtime \<Rightarrow> pystr \<Rightarrow> pystr \<Rightarrow> candidate \<Rightarrow> db \<Rightarrow> exc + uuid option \<times> db" where
  "ingest_candidate rt persona cohort cand d =
     (if denylisted cand then Inr (None, d)
      else bindE (case nonempty (cd_email cand) of None \<Rightarrow> Inr True
                  | Some e \<Rightarrow> screen_at_ingest d e (tc_tenant (rt_config rt)))
             (\<lambda>ok. Inr (if ok then persist_candidate rt persona cohort cand d else (None, d))))"

section \<open>discover\<close>

type_synonym source_adapter = "payload \<Rightarrow> json option \<Rightarrow> exc + candidate list \<times> pystr option"

text \<open>\<open>{**a, **b}\<close>.\<close>

definition dict_merge :: "payload \<Rightarrow> payload \<Rightarrow> payload" where
  "dict_merge a b =
     map (\<lambda>(k, v). (k, the_default v (map_of b k))) a @ filter (\<lambda>(k, _). map_of a k = None) b"

text \<open>\<open>next(x for x in xs if x.id == job.payload[k])\<close>.\<close>

definition next_by :: "('a \<Rightarrow> pystr) \<Rightarrow> pystr \<Rightarrow> payload \<Rightarrow> 'a list \<Rightarrow> exc + 'a" where
  "next_by f k pl xs =
     (if xs = [] then Inl (OtherError ''StopIteration'')
      else bindE (jget pl k) (\<lambda>v. case List.find (\<lambda>x. JStr (f x) = v) xs of
             None \<Rightarrow> Inl (OtherError ''StopIteration'') | Some x \<Rightarrow> Inr x))"

definition as_dict :: "json option \<Rightarrow> exc + payload" where
  "as_dict j = (case j of None \<Rightarrow> Inr [] | Some (JObj kvs) \<Rightarrow> Inr kvs | _ \<Rightarrow> Inl (OtherError ''TypeError''))"

definition runtime_of :: "runtimes \<Rightarrow> payload \<Rightarrow> exc + tenant_runtime" where
  "runtime_of rts pl = bindE (jget_str pl ''tenant'') (\<lambda>t.
     case map_of rts t of None \<Rightarrow> Inl (KeyError t) | Some rt \<Rightarrow> Inr rt)"

definition discover :: "env \<Rightarrow> (pystr \<times> source_adapter) list \<Rightarrow> payload \<Rightarrow> db \<Rightarrow> exc + db" where
  "discover env sources pl d =
     bindE (runtime_of (en_runtimes env) pl) (\<lambda>rt.
     bindE (next_by ps_id ''persona'' pl (tc_personas (rt_config rt))) (\<lambda>persona.
     bindE (next_by ch_id ''cohort'' pl (ps_cohorts persona)) (\<lambda>cohort.
       case List.map_filter (map_of sources) (ch_sources cohort) of
         [] \<Rightarrow> Inl (PermanentJobError (fstr [''no source adapter for cohort '', ch_id cohort]))
       | source # _ \<Rightarrow>
           bindE (as_dict (map_of pl ''extra_filters'')) (\<lambda>extra.
           bindE (source (dict_merge (ch_filters cohort) extra) (map_of pl ''cursor'')) (\<lambda>(cands, cursor).
           bindE (foldE (\<lambda>c d. bindE (ingest_candidate rt (ps_id persona) (ch_id cohort) c d) (\<lambda>(_, d'). Inr d'))
                    cands d) (\<lambda>d1.
             Inr (case nonempty cursor of
                    None \<Rightarrow> d1
                  | Some c \<Rightarrow> enqueue_key ''discover'' (dict_merge pl [(''cursor'', JStr c)])
                      (fstr [''discover:'', ch_id cohort, '':'', c]) d1)))))))"

section \<open>trigger\<close>

definition trigger_rows :: "uuid \<Rightarrow> pystr \<Rightarrow> pystr option \<Rightarrow> db \<Rightarrow> prospect_row list" where
  "trigger_rows tid cohort email d =
     sel (\<lambda>p. p_tenant p = tid \<and> p_cohort p = cohort \<and> p_state p = Qualified \<and>
            (case email of None \<Rightarrow> True | Some e \<Rightarrow> p_email p = Some e)) (prospects d)"

definition fire_jobs :: "tenant_runtime \<Rightarrow> pystr \<Rightarrow> pystr \<Rightarrow> uuid \<Rightarrow> payload \<Rightarrow> pystr option \<Rightarrow> db \<Rightarrow> db" where
  "fire_jobs rt persona cohort event_id selector email d =
     (let d1 = fold (\<lambda>p. enqueue_key ''compose'' [(''prospect_id'', JStr (p_id p))]
                       (fstr [''trigger:'', event_id, '':'', p_id p]))
                 (trigger_rows (rt_tenant_id rt) cohort email d) d
      in enqueue_key ''discover''
           [(''tenant'', JStr (tc_tenant (rt_config rt))), (''persona'', JStr persona), (''cohort'', JStr cohort),
            (''extra_filters'', JObj (filter (\<lambda>(k, _). k \<noteq> ''entity_email'') selector))]
           (fstr [''trigger:'', event_id, '':discover:'', cohort]) d1)"

definition fire_trigger :: "tenant_runtime \<Rightarrow> pystr \<Rightarrow> pystr \<Rightarrow> uuid \<Rightarrow> payload \<Rightarrow> db \<Rightarrow> db" where
  "fire_trigger rt persona cohort event_id selector d =
     (let hits = (if ab_sector (bf_about (tc_brief (rt_config rt))) \<noteq> ''none''
                  then phi_hits (json_dumps (JObj selector)) else [])
      in if hits \<noteq> []
         then escalate (Some (tc_tenant (rt_config rt))) ''operator_event'' event_id
                (fstr [''event selector rejected: PHI-shaped content ('', join '', '' hits, '')'']) [] d
         else (case map_of selector ''entity_email'' of
              Some j \<Rightarrow>
                if truthy j
                then (case canon d (jstr j) of
                        None \<Rightarrow> d | Some e \<Rightarrow> fire_jobs rt persona cohort event_id selector (Some e) d)
                else fire_jobs rt persona cohort event_id selector None d
            | None \<Rightarrow> fire_jobs rt persona cohort event_id selector None d))"

definition matching_cohorts :: "tenant_runtime \<Rightarrow> pystr \<Rightarrow> (pystr \<times> pystr) list" where
  "matching_cohorts rt event_type =
     concat (map (\<lambda>p. map (\<lambda>c. (ps_id p, ch_id c)) (filter (\<lambda>c. ch_trigger c = Some event_type) (ps_cohorts p)))
       (tc_personas (rt_config rt)))"

definition trigger :: "env \<Rightarrow> payload \<Rightarrow> db \<Rightarrow> exc + db" where
  "trigger env pl d =
     bindE (jget_str pl ''event_id'') (\<lambda>i.
       case fetch (\<lambda>r. oe_id r = i) (opevents d) of
         None \<Rightarrow> Inl (PermanentJobError (fstr [''operator event '', i, '' not found'']))
       | Some ev \<Rightarrow>
           if oe_type ev = ''booking.no_show''
           then foldE (\<lambda>(_, rt) d. bindE (handle_no_show_event (rt_tenant_id rt) (oe_selector ev) d) (\<lambda>(_, d'). Inr d'))
                  (en_runtimes env) d
           else Inr (fold (\<lambda>(_, rt). fold (\<lambda>(p, c). fire_trigger rt p c i (oe_selector ev))
                             (matching_cohorts rt (oe_type ev))) (en_runtimes env) d))"

section \<open>enrich\<close>

fun conf_str :: "confidence \<Rightarrow> pystr" where
  "conf_str Verified = ''verified''" | "conf_str Risky = ''risky''"
| "conf_str Undeliverable = ''undeliverable''" | "conf_str Unknown_conf = ''unknown''"

definition load_candidate :: "db \<Rightarrow> uuid \<Rightarrow> candidate option" where
  "load_candidate d pid =
     Option.bind (prospect_of d pid) (\<lambda>p.
     Option.bind (entity_of d (p_entity p)) (\<lambda>e.
     Option.bind (slug_of d (p_tenant p)) (\<lambda>_.
       if p_state p = Discovered
       then Some \<lparr>cd_name = or_else ''Unknown'' (e_name e), cd_org = None, cd_website = None,
              cd_email = p_email_raw p, cd_phone = None, cd_address = None, cd_source = p_source p, cd_ref = p_ref p,
              cd_basis = p_basis p\<rparr>
       else None)))"

text \<open>The stored content is the JSON text of a string, read back as that string.\<close>

definition add_fact :: "uuid \<Rightarrow> evidence_fact \<Rightarrow> db \<Rightarrow> db" where
  "add_fact pid f d =
     (let (i, d1) = fresh_uuid d
      in d1\<lparr>evidence := ins \<lparr>f_id = i, f_prospect = pid, f_type = ef_type f, f_content = JStr (ef_content f),
             f_url = ef_url f, f_observed = ef_observed f\<rparr> (evidence d1)\<rparr>)"

definition store_evidence :: "uuid \<Rightarrow> evidence_fact list \<Rightarrow> db \<Rightarrow> db" where
  "store_evidence pid facts d =
     fold (add_fact pid) facts (d\<lparr>evidence := del (\<lambda>f. f_prospect f = pid) (evidence d)\<rparr>)"

record enrich_adapters =
  ad_enrich :: "candidate \<Rightarrow> exc + evidence_fact list"
  ad_find :: "candidate \<Rightarrow> exc + pystr option"
  ad_verify :: "pystr \<Rightarrow> exc + confidence"

definition set_address :: "uuid \<Rightarrow> pystr \<Rightarrow> confidence \<Rightarrow> db \<Rightarrow> db" where
  "set_address pid address bucket d =
     d\<lparr>prospects := upd (\<lambda>p. p_id p = pid)
         (\<lambda>p. p\<lparr>p_email_raw := Some address, p_email := canon d address, p_conf := Some bucket\<rparr>) (prospects d)\<rparr>"

definition enrich :: "enrich_adapters \<Rightarrow> payload \<Rightarrow> db \<Rightarrow> exc + db" where
  "enrich ad pl d =
     bindE (jget_str pl ''prospect_id'') (\<lambda>pid.
       case load_candidate d pid of
         None \<Rightarrow> Inr d
       | Some cand \<Rightarrow>
           bindE (ad_enrich ad cand) (\<lambda>facts.
           let d1 = store_evidence pid facts d
           in bindE (case nonempty (cd_email cand) of Some e \<Rightarrow> Inr (Some e) | None \<Rightarrow> ad_find ad cand) (\<lambda>found.
                case found of
                  None \<Rightarrow> transition pid Unenrichable ''system:enrich'' [] d1
                | Some address \<Rightarrow>
                    bindE (ad_verify ad address) (\<lambda>bucket.
                    let d2 = set_address pid address bucket d1
                    in if bucket \<noteq> Verified then transition pid Unenrichable ''system:enrich'' [] d2
                       else bindE (transition pid Enriched ''system:enrich'' [] d2) (\<lambda>d3.
                         Inr (enqueue_key ''qualify'' [(''prospect_id'', JStr pid)] (fstr [''qualify:'', pid]) d3))))))"

section \<open>qualify\<close>

definition qualify_handler :: "env \<Rightarrow> payload \<Rightarrow> db \<Rightarrow> exc + db" where
  "qualify_handler env pl d =
     bindE (jget_str pl ''prospect_id'') (\<lambda>pid.
     bindE (persona_and_candidate (en_runtimes env) d pid [Enriched]) (\<lambda>found.
       case found of
         Some (rt, Some persona, _) \<Rightarrow>
           bindE (qualify (en_llm env) (load_card d pid) (ps_description persona)) (\<lambda>v.
             if qr_escalate v
             then transition pid Disqualified ''system:qualify'' []
                    (escalate (Some (tc_tenant (rt_config rt))) ''prospect'' pid
                       ''injection suspicion during qualification'' [] d)
             else if \<not> qr_qualified v
             then transition pid Disqualified ''system:qualify'' (take 200 (qr_rationale v)) d
             else bindE (transition pid Qualified ''system:qualify'' (take 200 (qr_rationale v)) d) (\<lambda>d1.
                  bindE (transition pid Queued ''system:qualify'' ''qualified: entering the compose queue'' d1) (\<lambda>d2.
                    Inr (enqueue_key ''compose'' [(''prospect_id'', JStr pid)] (fstr [''compose:'', pid]) d2))))
       | _ \<Rightarrow> Inr d))"

section \<open>compose\<close>

text \<open>The variants a step may use; none for a follow-up ends the drip.\<close>

definition variant_pool :: "persona_spec \<Rightarrow> int \<Rightarrow> variant_spec list" where
  "variant_pool persona step =
     (if step > 0
      then let followups = filter (\<lambda>v. startswith (vs_surface v) ''followup'') (ps_variants persona);
               specific = filter (\<lambda>v. vs_surface v = fstr [''followup_'', int_str step]) followups
           in if specific = [] then followups else specific
      else ps_variants persona)"

definition compose_draft ::
  "env \<Rightarrow> tenant_runtime \<Rightarrow> persona_spec \<Rightarrow> candidate \<Rightarrow> uuid \<Rightarrow> int \<Rightarrow> db \<Rightarrow> exc + db" where
  "compose_draft env rt persona cand pid step d =
     bindE (select_variant (en_beta env) d (tc_tenant (rt_config rt)) (variant_pool persona step)) (\<lambda>(variant, _).
     bindE (build_values (epoch (now d)) (vs_prompt variant) cand (load_card d pid) (rt_config rt) persona
              (rt_sender_facts rt)) (\<lambda>values.
       case compose (en_registry env) (en_llm env)
              \<lparr>ci_variant = vs_id variant, ci_prompt = vs_prompt variant, ci_values = values, ci_ctx = rt_ctx rt,
               ci_trusted = trusted_context (rt_config rt) persona, ci_step = step\<rparr> of
         Inl e \<Rightarrow>
           if composer_gave_up e
           then Inr (escalate (Some (tc_tenant (rt_config rt))) ''prospect'' pid
                  (fstr [''compose failed: '', exc_str e]) [] d)
           else Inl e
       | Inr res \<Rightarrow>
           bindE (queue_draft (en_key env) pid (fstr [ps_id persona, '':'', vs_surface variant])
                    (Some (vs_id variant)) step (if step = 0 then Cold_kind else Followup_kind)
                    (cr_draft res) (cr_sha res) (ps_approve_first persona) d) (\<lambda>(_, d'). Inr d')))"

definition compose_step ::
  "env \<Rightarrow> tenant_runtime \<Rightarrow> persona_spec \<Rightarrow> candidate \<Rightarrow> uuid \<Rightarrow> int \<Rightarrow> db \<Rightarrow> exc + db" where
  "compose_step env rt persona cand pid step d =
     (case map_of (sq_tasks (ps_sequence persona)) step of
        Some instruction \<Rightarrow>
          bindE (create_for_step (tc_tenant (rt_config rt)) pid (fstr [ps_id persona, '':human_task'']) step
                   instruction (ps_value_prop persona) d) (\<lambda>(_, d'). Inr d')
      | None \<Rightarrow>
          if step > 0 \<and> variant_pool persona step = [] then Inr (snd (release_sequence pid d))
          else compose_draft env rt persona cand pid step d)"

definition compose_handler :: "env \<Rightarrow> payload \<Rightarrow> db \<Rightarrow> exc + db" where
  "compose_handler env pl d =
     bindE (jget_str pl ''prospect_id'') (\<lambda>pid.
     bindE (to_int (the_default (JInt 0) (map_of pl ''step_index''))) (\<lambda>step.
     bindE (persona_and_candidate (en_runtimes env) d pid (if step = 0 then [Queued] else [Contacted])) (\<lambda>found.
       case found of
         Some (rt, Some persona, cand) \<Rightarrow> compose_step env rt persona cand pid step d
       | _ \<Rightarrow> Inr (if step = 0 then d else snd (release_sequence pid d)))))"

section \<open>Runtimes and seeding\<close>

definition runtime_for :: "tenant_config \<Rightarrow> db \<Rightarrow> tenant_runtime \<times> db" where
  "runtime_for cfg d =
     (let (tid, d1) = tenant_id (tc_tenant cfg) d;
          ab = bf_about (tc_brief cfg);
          d2 = snd (ensure_registry (tc_tenant cfg) (ab_mode ab) (ab_approved ab) d1)
      in (\<lparr>rt_config = cfg, rt_tenant_id = tid, rt_ctx = validator_context cfg,
           rt_sender_facts = approved_facts d2 (tc_tenant cfg)\<rparr>, d2))"

definition seed_discovery :: "tenant_runtime \<Rightarrow> db \<Rightarrow> nat \<times> db" where
  "seed_discovery rt d =
     (let slg = tc_tenant (rt_config rt);
          due = concat (map (\<lambda>p. map (\<lambda>c. (ps_id p, ch_id c)) (filter (\<lambda>c. ch_trigger c = None) (ps_cohorts p)))
                  (tc_personas (rt_config rt)))
      in (length due,
          fold (\<lambda>(p, c). enqueue_key ''discover''
                  [(''tenant'', JStr slg), (''persona'', JStr p), (''cohort'', JStr c)]
                  (fstr [''discover:'', slg, '':'', c])) due d))"

section \<open>Ingest screens before it stores\<close>

lemma ingest_suppressed:
  assumes "cd_email cand = Some e" and "e \<noteq> []" and "screen_at_ingest d e (tc_tenant (rt_config rt)) = Inr False"
  shows "ingest_candidate rt persona cohort cand d = Inr (None, d)"
  using assms by (simp add: ingest_candidate_def nonempty_def)

lemma ingest_denylisted: "denylisted cand \<Longrightarrow> ingest_candidate rt persona cohort cand d = Inr (None, d)"
  by (simp add: ingest_candidate_def)

end
