(* ===== verification/Forget.thy ===== *)
theory Forget
  imports Safety Lifecycle "HOL-Library.Char_ord" "HOL-Library.List_Lexorder"
begin

text \<open>
  \<open>core/forget.py\<close>: the one-call deletion of a person. Addresses are processed in sorted order,
  as the code does; an entity reference is the text of a UUID. What survives of an address is
  the hash in \<open>forget_tombstones\<close>, which \<open>is_suppressed\<close> looks up.
\<close>

section \<open>forget\<close>

record forget_receipt =
  fr_receipt :: uuid
  fr_entities :: "uuid list"
  fr_addresses :: nat

definition entities_of_address :: "db \<Rightarrow> pystr \<Rightarrow> uuid list" where
  "entities_of_address d c =
     remdups (map p_entity (sel (\<lambda>p. p_email p = Some c) (prospects d)) @
       map k_entity (sel (\<lambda>k. k_type k = ''email_canonical'' \<and> k_value k = c) (entity_keys d)))"

definition addresses_of_entities :: "db \<Rightarrow> uuid list \<Rightarrow> pystr list" where
  "addresses_of_entities d ids =
     List.map_filter p_email (sel (\<lambda>p. p_entity p \<in> set ids) (prospects d))"

definition in_entities :: "db \<Rightarrow> uuid list \<Rightarrow> uuid \<Rightarrow> bool" where
  "in_entities d ids pid \<longleftrightarrow> (\<exists>p\<in>set (prospects d). p_id p = pid \<and> p_entity p \<in> set ids)"

definition add_tombstone :: "uuid \<Rightarrow> pystr \<Rightarrow> db \<Rightarrow> exc + db" where
  "add_tombstone rid addr d =
     bindE (tombstone_hash (idna d) addr) (\<lambda>h.
       Inr (d\<lparr>tombstones := insert_new (\<lambda>t. tb_hash t = h)
              \<lparr>tb_hash = h, tb_receipt = rid, tb_propagated = None\<rparr> (tombstones d)\<rparr>))"

text \<open>Message contents are scrubbed, evidence and identity are deleted.\<close>

definition scrub :: "uuid list \<Rightarrow> db \<Rightarrow> db" where
  "scrub ids d =
     (let mine = in_entities d ids
      in d\<lparr>touches := upd (\<lambda>t. mine (t_prospect t)) (\<lambda>t. t\<lparr>t_subject := None, t_body := None, t_scrubbed := True\<rparr>)
               (touches d),
           replies := upd (\<lambda>r. mine (r_prospect r)) (\<lambda>r. r\<lparr>r_body := None, r_scrubbed := True\<rparr>) (replies d),
           evidence := del (\<lambda>f. mine (f_prospect f)) (evidence d),
           prospects := upd (\<lambda>p. p_entity p \<in> set ids)
               (\<lambda>p. p\<lparr>p_email_raw := None, p_email := None, p_ref := [], p_state := Forgotten\<rparr>) (prospects d),
           entity_keys := del (\<lambda>k. k_entity k \<in> set ids) (entity_keys d),
           entities := upd (\<lambda>e. e_id e \<in> set ids) (\<lambda>e. e\<lparr>e_name := None, e_status_active := False\<rparr>) (entities d)\<rparr>)"

definition enqueue_delete :: "uuid \<Rightarrow> pystr \<Rightarrow> db \<Rightarrow> exc + db" where
  "enqueue_delete rid addr d =
     bindE (tombstone_hash (idna d) addr) (\<lambda>h.
       Inr (enqueue_key ''control''
         [(''op'', JStr ''delete_lead''), (''email_canonical'', JStr addr), (''receipt_id'', JStr rid)]
         (fstr [''forget:'', h]) d))"

definition forget_targets :: "pystr \<Rightarrow> db \<Rightarrow> exc + uuid list \<times> pystr list" where
  "forget_targets ref d =
     (if at_char \<in> set ref
      then bindE (canonicalize (idna d) ref) (\<lambda>c. Inr (entities_of_address d c, [c]))
      else Inr ([ref], []))"

text \<open>Steps 2 to 4 and the receipt's audit row.\<close>

definition erase :: "uuid \<Rightarrow> uuid list \<Rightarrow> pystr list \<Rightarrow> db \<Rightarrow> db" where
  "erase rid ids addrs d =
     (let d1 = (if ids = [] then d else scrub ids d);
          d2 = d1\<lparr>suppressions := del (\<lambda>s. s_email s \<in> set addrs) (suppressions d1)\<rparr>
      in audit ''forget'' rid ''executed''
           [(''entities'', JList (map JStr ids)), (''addresses'', JInt (int (length addrs)))]
           ''operator:forget'' d2)"

definition forget :: "pystr \<Rightarrow> db \<Rightarrow> exc + forget_receipt \<times> db" where
  "forget ref d =
     bindE (forget_targets ref d) (\<lambda>(ids, known).
       if ids = [] \<and> known = []
       then Inl (UnknownSubjectError (fstr [''no entity found for '', py_repr ref]))
       else
         let (rid, d1) = fresh_uuid d;
             addrs = sort (remdups (known @ addresses_of_entities d ids))
         in bindE (foldE (add_tombstone rid) addrs d1) (\<lambda>d2.
              bindE (foldE (enqueue_delete rid) addrs (erase rid ids addrs d2)) (\<lambda>d6.
                   Inr (\<lparr>fr_receipt = rid, fr_entities = ids, fr_addresses = length addrs\<rparr>, d6))))"

section \<open>Frames\<close>

lemma add_tombstone_eq:
  "add_tombstone rid a d = Inr d' \<Longrightarrow> d' = d\<lparr>tombstones := tombstones d'\<rparr>"
  by (auto simp: add_tombstone_def bindE_eq_Inr)

lemma enqueue_delete_Inr:
  "enqueue_delete rid a d = Inr d' \<Longrightarrow> \<exists>pl k. d' = enqueue_key ''control'' pl k d \<and>
     map_of pl ''email_canonical'' = Some (JStr a)"
  by (auto simp: enqueue_delete_def bindE_eq_Inr)

lemma foldE_tombstones:
  assumes "foldE (add_tombstone rid) as d = Inr d'"
  shows "d' = d\<lparr>tombstones := tombstones d'\<rparr>"
  using assms
proof (induction "as" arbitrary: d)
  case (Cons a bs)
  then obtain d1 where d1: "add_tombstone rid a d = Inr d1" "foldE (add_tombstone rid) bs d1 = Inr d'"
    by (auto simp: bindE_eq_Inr)
  from Cons.IH [OF d1(2)] have e: "d' = d1\<lparr>tombstones := tombstones d'\<rparr>" .
  have "d1 = d\<lparr>tombstones := tombstones d1\<rparr>" by (rule add_tombstone_eq [OF d1(1)])
  then have "d1\<lparr>tombstones := tombstones d'\<rparr> = d\<lparr>tombstones := tombstones d'\<rparr>"
    by (metis db.surjective db.update_convs(17))
  with e show ?case by simp
qed simp

text \<open>Every address gets its tombstone, and none is lost.\<close>

definition tombstoned :: "db \<Rightarrow> pystr \<Rightarrow> bool" where
  "tombstoned d h \<longleftrightarrow> (\<exists>t\<in>set (tombstones d). tb_hash t = h)"

lemma add_tombstone_hits:
  assumes "add_tombstone rid a d = Inr d'"
  shows "\<exists>h. tombstone_hash (idna d) a = Inr h \<and> tombstoned d' h" and "tombstoned d h' \<Longrightarrow> tombstoned d' h'"
    and "idna d' = idna d"
  using assms by (auto simp: add_tombstone_def bindE_eq_Inr tombstoned_def insert_new_def)

lemma foldE_tombstoned:
  assumes "foldE (add_tombstone rid) as d = Inr d'"
  shows "(\<forall>a\<in>set as. \<exists>h. tombstone_hash (idna d) a = Inr h \<and> tombstoned d' h) \<and>
    (\<forall>h. tombstoned d h \<longrightarrow> tombstoned d' h)"
  using assms
proof (induction "as" arbitrary: d)
  case (Cons a bs)
  then obtain d1 where d1: "add_tombstone rid a d = Inr d1" "foldE (add_tombstone rid) bs d1 = Inr d'"
    by (auto simp: bindE_eq_Inr)
  from Cons.IH [OF d1(2)] add_tombstone_hits [OF d1(1)] show ?case by auto
qed simp

lemma foldE_delete_frame:
  assumes "foldE (enqueue_delete rid) as d = Inr d'"
  shows "tombstones d' = tombstones d \<and> touches d' = touches d \<and> prospects d' = prospects d \<and>
    replies d' = replies d \<and> evidence d' = evidence d \<and> entity_keys d' = entity_keys d \<and>
    entities d' = entities d \<and> suppressions d' = suppressions d \<and> idna d' = idna d \<and> now d' = now d"
  using assms
proof (rule foldE_invariant)
  fix a s s' assume "enqueue_delete rid a s = Inr s'"
    and i: "tombstones s = tombstones d \<and> touches s = touches d \<and> prospects s = prospects d \<and>
    replies s = replies d \<and> evidence s = evidence d \<and> entity_keys s = entity_keys d \<and>
    entities s = entities d \<and> suppressions s = suppressions d \<and> idna s = idna d \<and> now s = now d"
  then obtain pl k where "s' = enqueue_key ''control'' pl k s" using enqueue_delete_Inr by blast
  with i show "tombstones s' = tombstones d \<and> touches s' = touches d \<and> prospects s' = prospects d \<and>
    replies s' = replies d \<and> evidence s' = evidence d \<and> entity_keys s' = entity_keys d \<and>
    entities s' = entities d \<and> suppressions s' = suppressions d \<and> idna s' = idna d \<and> now s' = now d" by simp
qed simp

text \<open>What \<open>forget\<close> went through.\<close>

lemma forget_steps:
  assumes "forget ref d = Inr (rc, d')"
  obtains ids known addrs d2 where "forget_targets ref d = Inr (ids, known)"
    "addrs = sort (remdups (known @ addresses_of_entities d ids))"
    "foldE (add_tombstone (fr_receipt rc)) addrs (snd (fresh_uuid d)) = Inr d2"
    "tombstones d' = tombstones d2" "idna d' = idna d"
    "touches d' = touches (if ids = [] then d2 else scrub ids d2)"
    "replies d' = replies (if ids = [] then d2 else scrub ids d2)"
    "evidence d' = evidence (if ids = [] then d2 else scrub ids d2)"
    "prospects d' = prospects (if ids = [] then d2 else scrub ids d2)"
    "entities d' = entities (if ids = [] then d2 else scrub ids d2)"
    "entity_keys d' = entity_keys (if ids = [] then d2 else scrub ids d2)"
    "suppressions d' = del (\<lambda>s. s_email s \<in> set addrs) (suppressions d)"
    "fr_entities rc = ids" "fr_addresses rc = length addrs"
    "d2 = d\<lparr>draws := Suc (draws d), tombstones := tombstones d2\<rparr>"
proof -
  from assms obtain ids known where t: "forget_targets ref d = Inr (ids, known)"
    by (auto simp: forget_def bindE_eq_Inr)
  define addrs where "addrs = sort (remdups (known @ addresses_of_entities d ids))"
  define rid where "rid = fst (fresh_uuid d)"
  from assms t have ne: "\<not> (ids = [] \<and> known = [])" by (auto simp: forget_def)
  from assms t ne have "\<exists>d2. foldE (add_tombstone rid) addrs (snd (fresh_uuid d)) = Inr d2 \<and>
      foldE (enqueue_delete rid) addrs (erase rid ids addrs d2) = Inr d' \<and>
      rc = \<lparr>fr_receipt = rid, fr_entities = ids, fr_addresses = length addrs\<rparr>"
    unfolding forget_def Let_def addrs_def rid_def by (auto simp: split_beta bindE_eq_Inr)
  then obtain d2 where d2: "foldE (add_tombstone rid) addrs (snd (fresh_uuid d)) = Inr d2"
    and d6: "foldE (enqueue_delete rid) addrs (erase rid ids addrs d2) = Inr d'"
    and rc: "rc = \<lparr>fr_receipt = rid, fr_entities = ids, fr_addresses = length addrs\<rparr>" by blast
  have e2: "d2 = d\<lparr>draws := Suc (draws d), tombstones := tombstones d2\<rparr>"
    using foldE_tombstones [OF d2] by (simp add: fresh_uuid_def)
  have f2: "idna d2 = idna d" "suppressions d2 = suppressions d"
    by (subst e2, simp)+
  have er: "tombstones (erase rid ids addrs d2) = tombstones d2" "idna (erase rid ids addrs d2) = idna d2"
    "suppressions (erase rid ids addrs d2) = del (\<lambda>s. s_email s \<in> set addrs) (suppressions d2)"
    "touches (erase rid ids addrs d2) = touches (if ids = [] then d2 else scrub ids d2)"
    "replies (erase rid ids addrs d2) = replies (if ids = [] then d2 else scrub ids d2)"
    "evidence (erase rid ids addrs d2) = evidence (if ids = [] then d2 else scrub ids d2)"
    "prospects (erase rid ids addrs d2) = prospects (if ids = [] then d2 else scrub ids d2)"
    "entities (erase rid ids addrs d2) = entities (if ids = [] then d2 else scrub ids d2)"
    "entity_keys (erase rid ids addrs d2) = entity_keys (if ids = [] then d2 else scrub ids d2)"
    by (simp_all add: erase_def scrub_def Let_def)
  show ?thesis
    by (rule that [OF t addrs_def _ _ _ _ _ _ _ _ _ _ _ _ e2])
      (use d2 foldE_delete_frame [OF d6] in \<open>simp_all only: er f2 rc forget_receipt.select_convs\<close>)
qed

section \<open>Forgotten for good\<close>

lemma tombstoned_suppressed:
  assumes "tombstone_hash (idna d) a = Inr h" and "tombstoned d h"
  shows "is_suppressed d a t = Inr True"
  using assms by (auto simp: is_suppressed_def tombstoned_def)

text \<open>The addresses a call of \<open>forget\<close> covers, and what it leaves of each.\<close>

lemma forget_hits:
  assumes "forget ref d = Inr (rc, d')"
    and "(at_char \<in> set ref \<and> canonicalize (idna d) ref = Inr a) \<or>
      (\<exists>p\<in>set (prospects d). p_entity p \<in> set (fr_entities rc) \<and> p_email p = Some a)"
  shows "\<exists>h. tombstone_hash (idna d') a = Inr h \<and> tombstoned d' h" and "idna d' = idna d"
proof -
  obtain ids known addrs d2 where f: "forget_targets ref d = Inr (ids, known)"
    "addrs = sort (remdups (known @ addresses_of_entities d ids))"
    "foldE (add_tombstone (fr_receipt rc)) addrs (snd (fresh_uuid d)) = Inr d2"
    "tombstones d' = tombstones d2" "idna d' = idna d" "fr_entities rc = ids"
    using forget_steps [OF assms(1)] by metis
  have "a \<in> set addrs"
  proof (cases "at_char \<in> set ref \<and> canonicalize (idna d) ref = Inr a")
    case True
    with f(1) have "known = [a]" by (auto simp: forget_targets_def)
    then show ?thesis by (simp add: f(2))
  next
    case False
    with assms(2) obtain p where "p \<in> set (prospects d)" "p_entity p \<in> set ids" "p_email p = Some a"
      unfolding f(6) by blast
    then have "a \<in> set (addresses_of_entities d ids)"
      by (auto simp: addresses_of_entities_def List.map_filter_def intro: rev_image_eqI)
    then show ?thesis by (simp add: f(2))
  qed
  with foldE_tombstoned [OF f(3)] obtain h where h: "tombstone_hash (idna (snd (fresh_uuid d))) a = Inr h"
    "tombstoned d2 h" by blast
  then have "tombstone_hash (idna d') a = Inr h" "tombstoned d' h"
    using f(4,5) by (simp_all add: fresh_uuid_def tombstoned_def)
  then show "\<exists>h. tombstone_hash (idna d') a = Inr h \<and> tombstoned d' h" by blast
  show "idna d' = idna d" by (rule f(5))
qed

end
