(* ===== verification/Sample.thy ===== *)
theory Sample
  imports Prospecting Forget
begin

text \<open>
  A small concrete tenant, on which the witnesses of the properties are evaluated: one entity,
  one queued prospect with a verified address, one drafted cold touch, budgets with room and one
  warm mailbox. Hashes stay symbolic.
\<close>

section \<open>The tenant\<close>

definition s_clock :: clock where
  "s_clock = \<lparr>yr = 2025, mon = 6, day = 15, sod = 0\<rparr>"

definition s_mail :: pystr where
  "s_mail = ''b@c.d''"

definition s_ctx :: vctx where
  "s_ctx = \<lparr>physical_address = ''A'', unsubscribe_text = ''B'', sender_identity = [], allowed_url_prefixes = [],
     max_words = 200, forbidden_patterns = [], claim_mode = ''denylist'', approved_claims = [],
     claim_registry_version = DENYLIST_VERSION, sector_sensitivity = ''none'', compliance_regime = ''us_can_spam''\<rparr>"

definition s_draft :: draft where
  "s_draft = \<lparr>dr_subject = ''S'', dr_body = ''AB'', dr_step = 0\<rparr>"

definition s_entity :: entity_row where
  "s_entity = \<lparr>e_id = ''e'', e_tenant = ''t'', e_name = Some ''Bo'', e_last_contact = None, e_active = None,
     e_touches = 0, e_status_active = True, e_referral = False\<rparr>"

definition s_prospect :: prospect_row where
  "s_prospect = \<lparr>p_id = ''p'', p_tenant = ''t'', p_entity = ''e'', p_cohort = ''k'', p_persona = ''v'', p_state = Queued,
     p_email_raw = Some s_mail, p_email = Some s_mail, p_conf = Some Verified, p_source = ''src'', p_ref = [],
     p_basis = ''imported''\<rparr>"

definition s_touch :: touch_row where
  "s_touch = \<lparr>t_id = ''x'', t_prospect = ''p'', t_campaign = ''v:cold'', t_variant = None, t_step = 0,
     t_kind = Cold_kind, t_status = Drafted, t_subject = Some ''S'', t_body = Some ''AB'', t_scrubbed = False,
     t_hash = content_hash s_draft, t_claimed_at = None, t_sent_at = None, t_ref = None, t_idem = ''x'',
     t_mailbox = None\<rparr>"

definition s_counter :: "scope_type \<Rightarrow> pystr \<Rightarrow> counter_row" where
  "s_counter st i = \<lparr>c_type = st, c_id = i, c_period = month_str s_clock, c_used = 0, c_cap = 5\<rparr>"

definition s_db :: db where
  "s_db = (empty_db s_clock (\<lambda>n. ''u'' @ nat_str n))\<lparr>
     tenants := [\<lparr>tn_id = ''t'', tn_slug = ''n''\<rparr>], entities := [s_entity], prospects := [s_prospect],
     touches := [s_touch], counters := [s_counter Tenant_month ''n'', s_counter Cohort_month ''k''],
     mailboxes := [\<lparr>m_box = ''m'', m_tenant = ''n'', m_domain = ''d'', m_warm = True, m_cap = 5\<rparr>]\<rparr>"

definition s_gate :: draft_touch where
  "s_gate = \<lparr>dt_touch = ''x'', dt_tenant = ''n'', dt_entity = ''e'', dt_email = s_mail, dt_draft = s_draft,
     dt_hash = content_hash s_draft, dt_grounded = Some (content_hash s_draft), dt_profile = COLD, dt_ctx = s_ctx,
     dt_cohort = ''k'', dt_prospect = ''p''\<rparr>"

definition s_send :: send_env where
  "s_send = \<lparr>se_registry = initial_registry, se_ctx = [(''n'', s_ctx)], se_sequences = None, se_send = (\<lambda>_ _ _. Inr [])\<rparr>"

definition s_job :: payload where
  "s_job = [(''touch_id'', JStr ''x'')]"

lemmas s_defs = s_clock_def s_mail_def s_entity_def s_prospect_def s_touch_def s_counter_def s_db_def
  s_gate_def s_send_def s_job_def empty_db_def

section \<open>Its evaluation\<close>

lemma s_mail_canonical [simp]: "canonicalize (idna s_db) s_mail = Inr s_mail" "canonicalize (\<lambda>_. None) s_mail = Inr s_mail"
proof -
  show "canonicalize (\<lambda>_. None) s_mail = Inr s_mail" unfolding s_mail_def by code_simp
  then show "canonicalize (idna s_db) s_mail = Inr s_mail" by (simp add: s_db_def empty_db_def)
qed

lemma s_draft_clean: "validate initial_registry s_draft s_ctx = Inr []"
  unfolding s_draft_def s_ctx_def by code_simp

lemma s_loaded: "load_gate_draft s_db ''x'' s_ctx = Inr (Some s_gate)"
  by (simp add: load_gate_draft_def touch_of_def prospect_of_def slug_of_def s_defs s_draft_def profile_of_kind_def)

lemma s_checks: "checks_pass initial_registry (pg_store pg_default) s_gate s_db"
proof -
  have "is_suppressed s_db s_mail ''n'' = Inr False"
    by (simp add: is_suppressed_def tombstone_hash_def live_suppression_def) (simp add: s_db_def empty_db_def)
  moreover have "halted_scopes s_db ''n'' = []" by (simp add: halted_scopes_empty) (simp add: s_db_def empty_db_def)
  moreover have "frequency_ok pg_default s_db ''e''"
    by (simp add: frequency_ok_def entity_of_def s_db_def s_entity_def pg_default_def DEFAULT_ANNUAL_TOUCH_CAP_def)
  ultimately show ?thesis by (simp add: checks_pass_def pg_store_def s_draft_clean s_gate_def)
qed

text \<open>The claim of the touch is granted, and the job sends it.\<close>

definition s_claimed :: claimed_touch where
  "s_claimed = \<lparr>ct_touch = ''x'', ct_tenant = ''n'', ct_mailbox = ''m'', ct_sha = content_hash s_draft, ct_recipient = s_mail\<rparr>"

lemma s_consume: "try_consume_budget ''n'' s_gate s_db = (True, s_db\<lparr>counters :=
    [s_counter Tenant_month ''n''\<lparr>c_used := 1\<rparr>, s_counter Cohort_month ''k''\<lparr>c_used := 1\<rparr>]\<rparr>)"
  by (simp add: try_consume_budget_def consume_one_def is_counter_def month_def upd_def cnt_def s_defs)

lemma s_pick: "\<exists>cs. pick_mailbox ''n'' (s_db\<lparr>counters :=
    [s_counter Tenant_month ''n''\<lparr>c_used := 1\<rparr>, s_counter Cohort_month ''k''\<lparr>c_used := 1\<rparr>]\<rparr>) = (Some ''m'', s_db\<lparr>counters := cs\<rparr>)"
  by (simp add: pick_mailbox_def ensure_day_counters_def sel_def insert_new_def is_counter_def day_counter_def
      mailbox_open_def today_def ins_def Let_def s_defs)

lemma s_persist: "\<exists>d1. persist_claim s_gate ''m'' rs (s_db\<lparr>counters := cs\<rparr>) = Inr d1"
  by (simp add: persist_claim_def update_touch_status_def reject_suppressed_touch_def enforce_claim_lineage_def
      upd_def cnt_def prospect_of_def bindE_def Let_def s_defs)

lemma pg_store_sel [simp]:
  "gs_try_consume (pg_store cfg) = (\<lambda>tn t d. Inr (try_consume_budget tn t d))"
  "gs_pick_mailbox (pg_store cfg) = (\<lambda>tn d. Inr (pick_mailbox tn d))"
  "gs_confidence (pg_store cfg) = (\<lambda>d e t. Inr (confidence_sendable d e t))"
  "gs_persist (pg_store cfg) = persist_claim"
  by (simp_all add: pg_store_def)

lemma s_claim: "\<exists>d1. claim initial_registry (pg_store pg_default) s_gate s_db = (Granted s_claimed, d1)"
proof -
  obtain rs where rs: "claim_checks initial_registry (pg_store pg_default) s_gate s_db = Inr rs"
    using s_checks [unfolded claim_checks_Inr [symmetric]] by blast
  obtain cs where cs: "pick_mailbox ''n'' (s_db\<lparr>counters :=
    [s_counter Tenant_month ''n''\<lparr>c_used := 1\<rparr>, s_counter Cohort_month ''k''\<lparr>c_used := 1\<rparr>]\<rparr>) = (Some ''m'', s_db\<lparr>counters := cs\<rparr>)"
    using s_pick by blast
  have conf: "confidence_sendable (s_db\<lparr>counters := cs\<rparr>) s_mail ''n''"
    by (simp add: confidence_sendable_def slug_of_def s_db_def s_prospect_def)
  have g: "dt_profile s_gate = COLD" "dt_tenant s_gate = ''n''" "dt_email s_gate = s_mail" "dt_touch s_gate = ''x''"
    "dt_hash s_gate = content_hash s_draft" by (simp_all add: s_gate_def)
  obtain d1 where "persist_claim s_gate ''m'' ((rs @ [(''budget'', ''pass'')]) @ [(''mailbox'', ''m''), (''confidence'', ''pass'')])
      (s_db\<lparr>counters := cs\<rparr>) = Inr d1" using s_persist by blast
  then show ?thesis
    by (simp add: claim_def rs g s_consume claim_mailbox_def cs conf s_claimed_def volume_def)
qed

lemma s_job_touch [simp]: "jget_str s_job ''touch_id'' = Inr ''x''"
  by (simp add: s_job_def)

lemma s_deliver_call: "fst (deliver s_send s_job s_db) = [(s_claimed, ''S'', ''AB'')]"
proof -
  obtain d1 where d1: "claim initial_registry (pg_store pg_default) s_gate s_db = (Granted s_claimed, d1)" using s_claim by blast
  have st: "map_option t_status (touch_of s_db ''x'') = Some Drafted"
    "Option.bind (touch_of s_db ''x'') (\<lambda>tc. Option.bind (prospect_of s_db (t_prospect tc)) (\<lambda>p. slug_of s_db (p_tenant p))) = Some ''n''"
    by (simp_all add: touch_of_def prospect_of_def slug_of_def s_db_def s_touch_def s_prospect_def)
  have dr: "dt_draft s_gate = s_draft" "dr_subject s_draft = ''S''" "dr_body s_draft = ''AB''"
    by (simp_all add: s_gate_def s_draft_def)
  show ?thesis
    by (simp add: deliver_def st s_loaded d1 dr s_send_def)
qed

text \<open>Its prospect can be forgotten.\<close>

lemma s_forget: "\<exists>rc d'. forget s_mail s_db = Inr (rc, d') \<and> fr_entities rc = [''e'']"
proof -
  have at: "at_char \<in> set s_mail" by (simp add: s_mail_def at_char_def)
  have t: "forget_targets s_mail s_db = Inr ([''e''], [s_mail])"
    by (simp add: forget_targets_def at entities_of_address_def sel_def s_db_def s_prospect_def empty_db_def)
  have a: "sort (remdups ([s_mail] @ addresses_of_entities s_db [''e''])) = [s_mail]"
    by (simp add: addresses_of_entities_def sel_def s_db_def s_prospect_def List.map_filter_def)
  have c: "canonicalize (idna (s_db\<lparr>draws := k\<rparr>)) s_mail = Inr s_mail" for k by simp
  show ?thesis
    unfolding forget_def t
    by (simp add: Let_def fresh_uuid_def a [simplified] add_tombstone_def enqueue_delete_def tombstone_hash_def erase_def scrub_def)
qed

end
