(* ===== verification/Spec_safety.thy ===== *)
theory Spec_safety
  imports Sample
begin

text \<open>
  What the safety components promise: one canonical form per address, suppression of every
  spelling, the halt switch, and deletion that lasts.
\<close>

section \<open>Addresses\<close>

text \<open>One person, one address: canonicalization is idempotent on ASCII addresses, so hashes and
  look-ups made from a stored canonical address again agree, and what is put between \<open>+\<close> and \<open>@\<close>
  is ignored, so a plus tag does not make a new address.\<close>

theorem canonical_form:
  assumes "canonicalize codec (u @ at_char # h) = Inr c" and "plain u" and "plain t" and "plain h"
    and "list_all is_ascii (u @ at_char # h)"
  shows "canonicalize codec c = Inr c \<and> canonicalize codec (u @ CHR ''+'' # t @ at_char # h) = Inr c"
  using canonicalize_idem_ascii [OF assms(1,5)] canonicalize_plus_alias [OF assms(2-4,1)] by blast

theorem canonical_form_witness: "canonicalize (\<lambda>_. None) (''b'' @ CHR ''+'' # ''x'' @ at_char # ''c.d'') = Inr s_mail"
proof -
  have c: "canonicalize (\<lambda>_. None) (''b'' @ at_char # ''c.d'') = Inr s_mail"
    using s_mail_canonical(2) by (simp add: s_mail_def at_char_def)
  from canonical_form [OF c, of "''x''"] show ?thesis
    by (simp add: addr_char_def is_space_def at_char_def code_def is_ascii_def)
qed

section \<open>Suppression\<close>

text \<open>Once an address is suppressed globally, every spelling of it is blocked for every tenant:
  its canonical form counts as suppressed and ingest drops a candidate that carries it, leaving
  the database as it was.\<close>

theorem suppressed_alias_dropped:
  assumes "suppress e GLOBAL_SCOPE reason None propagate d = Inr (c, d')"
    and "canonicalize (idna d) e' = Inr c" and "list_all is_ascii e'"
  shows "is_suppressed d' c tenant = Inr True \<and> screen_at_ingest d' e' tenant = Inr False \<and>
    ingest_candidate rt persona cohort (cand\<lparr>cd_email := Some e'\<rparr>) d' = Inr (None, d')"
proof -
  have idn: "idna d' = idna d"
    using assms(1) by (auto simp: suppress_def bindE_eq_Inr Let_def split: if_splits)
  have live: "live_suppression d' c t" for t by (rule live_suppression_suppress [OF assms(1)]) simp
  have cc: "canonicalize (idna d') c = Inr c" unfolding idn by (rule canonicalize_idem_ascii [OF assms(2,3)])
  have sup: "is_suppressed d' c t = Inr True" for t
    using live [of t] by (simp add: is_suppressed_def tombstone_hash_def cc)
  have scr: "screen_at_ingest d' e' t = Inr False" for t
    using assms(2) sup [of t] by (simp add: screen_at_ingest_def idn)
  have "e' \<noteq> []"
  proof
    assume "e' = []"
    with assms(2) have e: "canonicalize (idna d) [] = Inr c" by simp
    show False by (rule canonicalize_Inr [OF e]) (simp add: strip_def lstrip_def rstrip_def lower_def)
  qed
  with scr have "ingest_candidate rt persona cohort (cand\<lparr>cd_email := Some e'\<rparr>) d' = Inr (None, d')"
    by (simp add: ingest_suppressed)
  with sup scr show ?thesis by blast
qed

theorem suppressed_alias_dropped_witness:
  "\<exists>d'. suppress s_mail GLOBAL_SCOPE ''unsubscribe'' None True s_db = Inr (s_mail, d') \<and>
    is_suppressed d' s_mail ''n'' = Inr True"
proof -
  obtain d' where d': "suppress s_mail GLOBAL_SCOPE ''unsubscribe'' None True s_db = Inr (s_mail, d')"
    unfolding suppress_def s_mail_canonical(1) bindE_Inr Let_def by blast
  have "list_all is_ascii s_mail" by (simp add: s_mail_def is_ascii_def code_def)
  from suppressed_alias_dropped [OF d' s_mail_canonical(1) this] d' show ?thesis by blast
qed

section \<open>The halt switch\<close>

lemma del_upsert: "(\<And>r. K r \<Longrightarrow> K (f r)) \<Longrightarrow> K r0 \<Longrightarrow> del K (upsert K f r0 t) = del K t"
proof -
  assume a: "\<And>r. K r \<Longrightarrow> K (f r)" "K r0"
  have "del K (upd K f t) = del K t" using a(1) by (induction t) (auto simp: del_def)
  with a(2) show ?thesis by (simp add: upsert_def) (simp add: del_def ins_def)
qed

text \<open>A halt stays until a person lifts it. Whatever a non-human actor asks, \<open>resume\<close> raises and
  the tenant's scope is still halted; a human actor's resume lifts exactly that scope and is
  audited.\<close>

theorem resume_only_by_human:
  "(\<not> human actor \<longrightarrow> (\<exists>m. resume scope actor (halt scope by flag d) = Inl (ResumeRequiresHumanError m)) \<and>
      scope \<in> set (halted_scopes (halt scope by flag d) scope)) \<and>
   (human actor \<longrightarrow> (\<exists>d'. resume scope actor (halt scope by flag d) = Inr (True, d') \<and>
      flags d' = del (\<lambda>f. cf_scope f = scope) (flags d) \<and>
      \<lparr>a_type = ''control_flag'', a_subject = scope, a_event = ''resume'', a_payload = [], a_actor = actor\<rparr>
        \<in> set (audits d')))"
proof -
  let ?h = "halt scope by flag d"
  have fl: "flags ?h = upsert (\<lambda>f. cf_scope f = scope) (\<lambda>f. f\<lparr>cf_flag := flag, cf_by := by\<rparr>)
      \<lparr>cf_scope = scope, cf_flag = flag, cf_by = by\<rparr> (flags d)" by (simp add: halt_def)
  have "0 < cnt (\<lambda>f. cf_scope f = scope) (flags ?h)"
    unfolding cnt_pos fl by (rule upsert_ex) simp_all
  moreover have "del (\<lambda>f. cf_scope f = scope) (flags ?h) = del (\<lambda>f. cf_scope f = scope) (flags d)"
    unfolding fl by (rule del_upsert) simp_all
  ultimately show ?thesis using halt_halts [of scope scope "by" flag d] by (simp add: resume_def)
qed

theorem resume_only_by_human_witness:
  "\<exists>m. resume ''n'' ''agent:x'' (halt ''n'' ''operator:o'' ''f'' s_db) = Inl (ResumeRequiresHumanError m)"
  using resume_only_by_human [of "''agent:x''" "''n''" "''operator:o''" "''f''" s_db]
  by (simp add: human_def HUMAN_ACTOR_PREFIX_def startswith_def)

section \<open>Deletion\<close>

text \<open>C34: Deletion is complete in the tables it owns: of the entities found, no prospect keeps an
  address or source reference, no touch or reply of theirs keeps its text, no evidence and no
  identity key is left, their names are gone, and their prospects are \<open>forgotten\<close>.\<close>

theorem forget_scrubs:
  assumes "forget ref d = Inr (rc, d')"
  shows "(\<forall>p\<in>set (prospects d'). p_entity p \<in> set (fr_entities rc) \<longrightarrow>
      p_email_raw p = None \<and> p_email p = None \<and> p_ref p = [] \<and> p_state p = Forgotten) \<and>
    (\<forall>t\<in>set (touches d'). in_entities d' (fr_entities rc) (t_prospect t) \<longrightarrow> t_subject t = None \<and> t_body t = None) \<and>
    (\<forall>r\<in>set (replies d'). in_entities d' (fr_entities rc) (r_prospect r) \<longrightarrow> r_body r = None) \<and>
    (\<forall>f\<in>set (evidence d'). \<not> in_entities d' (fr_entities rc) (f_prospect f)) \<and>
    (\<forall>k\<in>set (entity_keys d'). k_entity k \<notin> set (fr_entities rc)) \<and>
    (\<forall>e\<in>set (entities d'). e_id e \<in> set (fr_entities rc) \<longrightarrow> e_name e = None)"
proof -
  obtain ids known d2 where f:
    "touches d' = touches (if ids = [] then d2 else scrub ids d2)"
    "replies d' = replies (if ids = [] then d2 else scrub ids d2)"
    "evidence d' = evidence (if ids = [] then d2 else scrub ids d2)"
    "prospects d' = prospects (if ids = [] then d2 else scrub ids d2)"
    "entities d' = entities (if ids = [] then d2 else scrub ids d2)"
    "entity_keys d' = entity_keys (if ids = [] then d2 else scrub ids d2)" "fr_entities rc = ids"
    using forget_steps [OF assms] by metis
  show ?thesis
  proof (cases "ids = []")
    case False
    have ie: "in_entities d' ids pid = in_entities d2 ids pid" for pid
    proof -
      have ex: "(\<exists>p\<in>set (upd P f t). A p) = (\<exists>p\<in>set t. A (if P p then f p else p))" for A P f and t :: "prospect_row list"
        by (auto simp: set_upd)
      have pr: "prospects d' = upd (\<lambda>p. p_entity p \<in> set ids)
          (\<lambda>p. p\<lparr>p_email_raw := None, p_email := None, p_ref := [], p_state := Forgotten\<rparr>) (prospects d2)"
        using False by (simp add: f(4) scrub_def Let_def)
      show ?thesis unfolding in_entities_def pr ex by (rule bex_cong) simp_all
    qed
    show ?thesis using False unfolding f(7) ie unfolding f
      by (auto simp: scrub_def Let_def set_upd)
  qed (simp add: f in_entities_def)
qed

theorem forget_scrubs_witness: "\<exists>rc d'. forget s_mail s_db = Inr (rc, d') \<and>
    (\<forall>e\<in>set (entities d'). e_id e = ''e'' \<longrightarrow> e_name e = None)"
proof -
  from s_forget obtain rc d' where f: "forget s_mail s_db = Inr (rc, d')" "fr_entities rc = [''e'']" by blast
  from forget_scrubs [OF f(1)] f show ?thesis by (intro exI [of _ rc] exI [of _ d']) simp
qed

end
