(* ===== verification/Worker.thy ===== *)
theory Worker
  imports Jobs
begin

text \<open>
  \<open>core/worker.py\<close>: the worker leases a job in one transaction, runs its handler in another and
  records the outcome in a third. A handler that raises leaves the database as the lease left it.
  The result of the worker's own step is an exception or a value, beside the committed database.
  \<open>jsonb\<close> is the server's cast of a text to \<open>jsonb\<close>, which the alert row needs.
\<close>

section \<open>Operations\<close>

type_synonym handler = "job \<Rightarrow> db \<Rightarrow> exc + db"

definition QUEUE_PRIORITY :: "pystr list" where
  "QUEUE_PRIORITY = [''control'', ''trigger'', ''classify'', ''deliver'', ''compose'', ''referral'', ''reengage'',
     ''qualify'', ''enrich'', ''discover'', ''synthesize'']"

definition compliance_alert :: "pystr \<Rightarrow> pystr" where
  "compliance_alert msg = fstr [''{'', dq, ''error'', dq, '': '', dq, msg, dq, ''}'']"

definition handle ::
  "(pystr \<Rightarrow> exc + payload) \<Rightarrow> (pystr \<times> handler) list \<Rightarrow> job \<Rightarrow> db \<Rightarrow> (exc + unit) \<times> db" where
  "handle jsonb hs jb d =
     (case (case map_of hs (jb_queue jb) of None \<Rightarrow> Inl (KeyError (jb_queue jb)) | Some h \<Rightarrow> h jb d) of
        Inr d' \<Rightarrow> (Inr (), complete (jb_id jb) d')
      | Inl (ComplianceJobError m) \<Rightarrow>
          (case jsonb (compliance_alert m) of
             Inl e \<Rightarrow> (Inl e, d)
           | Inr pl \<Rightarrow> (Inr (), audit ''job'' (nat_str (jb_id jb)) ''compliance_alert'' pl ''system:worker''
                          (fail jb (fstr [''compliance: '', m]) True d)))
      | Inl (PermanentJobError m) \<Rightarrow> (Inr (), fail jb m True d)
      | Inl e \<Rightarrow> (Inr (), fail jb (exc_repr e) False d))"

text \<open>The walk through the queues in priority order, up to the first job leased.\<close>

fun poll :: "(pystr \<Rightarrow> 's \<Rightarrow> job option \<times> 's) \<Rightarrow> (pystr \<Rightarrow> bool) \<Rightarrow> pystr list \<Rightarrow> 's \<Rightarrow> job option \<times> 's" where
  "poll lease_op handled [] s = (None, s)"
| "poll lease_op handled (q # qs) s =
     (if \<not> handled q then poll lease_op handled qs s
      else case lease_op q s of
             (None, s') \<Rightarrow> poll lease_op handled qs s'
           | (Some jb, s') \<Rightarrow> (Some jb, s'))"

definition run_once ::
  "(pystr \<Rightarrow> exc + payload) \<Rightarrow> (pystr \<times> handler) list \<Rightarrow> db \<Rightarrow> (exc + bool) \<times> db" where
  "run_once jsonb hs d =
     (case poll lease (\<lambda>q. map_of hs q \<noteq> None) QUEUE_PRIORITY d of
        (None, d1) \<Rightarrow> (Inr False, d1)
      | (Some jb, d1) \<Rightarrow>
          (case handle jsonb hs jb d1 of
             (Inl e, d2) \<Rightarrow> (Inl e, d2)
           | (Inr _, d2) \<Rightarrow> (Inr True, d2)))"

fun drain_loop ::
  "(pystr \<Rightarrow> exc + payload) \<Rightarrow> (pystr \<times> handler) list \<Rightarrow> nat \<Rightarrow> nat \<Rightarrow> db \<Rightarrow> (exc + nat) \<times> db" where
  "drain_loop jsonb hs 0 processed d = (Inr processed, d)"
| "drain_loop jsonb hs (Suc room) processed d =
     (case run_once jsonb hs d of
        (Inl e, d1) \<Rightarrow> (Inl e, d1)
      | (Inr False, d1) \<Rightarrow> (Inr processed, d1)
      | (Inr True, d1) \<Rightarrow> drain_loop jsonb hs room (Suc processed) d1)"

definition drain ::
  "(pystr \<Rightarrow> exc + payload) \<Rightarrow> (pystr \<times> handler) list \<Rightarrow> nat \<Rightarrow> db \<Rightarrow> (exc + nat) \<times> db" where
  "drain jsonb hs max_jobs d = drain_loop jsonb hs max_jobs 0 (snd (reap_expired d))"

section \<open>What the worker needs of a queue\<close>

locale job_queue =
  fixes lease_op :: "pystr \<Rightarrow> 's \<Rightarrow> job option \<times> 's"
    and ready :: "'s \<Rightarrow> pystr \<Rightarrow> bool"
  assumes lease_empty: "fst (lease_op q s) = None \<longleftrightarrow> \<not> ready s q"
    and lease_empty_same: "fst (lease_op q s) = None \<Longrightarrow> snd (lease_op q s) = s"
    and lease_own: "fst (lease_op q s) = Some jb \<Longrightarrow> jb_queue jb = q"
begin

lemma poll_None:
  "poll lease_op handled qs s = (None, s') \<Longrightarrow>
    s' = s \<and> (\<forall>q\<in>set qs. handled q \<longrightarrow> \<not> ready s q)"
proof (induction qs)
  case (Cons q qs)
  obtain x s1 where l: "lease_op q s = (x, s1)" by (cases "lease_op q s")
  show ?case
  proof (cases "handled q")
    case True
    with Cons.prems l have x: "x = None" by (cases x) auto
    have s1: "s1 = s" using l x lease_empty_same [of q s] by simp
    have "\<not> ready s q" using l x lease_empty [of q s] by simp
    moreover have "poll lease_op handled qs s = (None, s')" using Cons.prems True l x s1 by simp
    ultimately show ?thesis using Cons.IH by simp
  qed (use Cons in simp)
qed simp

text \<open>The job leased is of the first handled queue that has one.\<close>

lemma poll_Some:
  assumes "poll lease_op handled qs s = (Some jb, s')"
  shows "\<exists>ps rs. qs = ps @ jb_queue jb # rs \<and> handled (jb_queue jb) \<and> ready s (jb_queue jb) \<and>
    (\<forall>q\<in>set ps. handled q \<longrightarrow> \<not> ready s q) \<and> lease_op (jb_queue jb) s = (Some jb, s')"
  using assms
proof (induction qs)
  case (Cons q qs)
  obtain x s1 where l: "lease_op q s = (x, s1)" by (cases "lease_op q s")
  show ?case
  proof (cases "handled q \<and> x \<noteq> None")
    case True
    with Cons.prems l have x: "x = Some jb" "s1 = s'" by auto
    with l lease_own [of q s jb] lease_empty [of q s] have "jb_queue jb = q" "ready s q" by auto
    with True l x show ?thesis by (intro exI [of _ "[]"] exI [of _ qs]) simp
  next
    case False
    have no: "handled q \<longrightarrow> \<not> ready s q \<and> s1 = s"
      using False l lease_empty [of q s] lease_empty_same [of q s] by auto
    with Cons.prems l False have "poll lease_op handled qs s = (Some jb, s')" by (auto split: if_splits)
    from Cons.IH [OF this] obtain ps rs where "qs = ps @ jb_queue jb # rs" "handled (jb_queue jb)"
      "ready s (jb_queue jb)" "\<forall>q\<in>set ps. handled q \<longrightarrow> \<not> ready s q"
      "lease_op (jb_queue jb) s = (Some jb, s')" by blast
    with no show ?thesis by (intro exI [of _ "q # ps"] exI [of _ rs]) simp
  qed
qed simp

end

definition job_ready :: "db \<Rightarrow> pystr \<Rightarrow> bool" where
  "job_ready d q \<longleftrightarrow> (\<exists>j\<in>set (jobs d). leasable d q j)"

lemma lease_None_same: "fst (lease q d) = None \<Longrightarrow> snd (lease q d) = d"
  by (cases "least_by (int \<circ> j_id) (sel (leasable d q) (jobs d))") (simp_all add: lease_def del: least_by_None)

lemma lease_own_queue: "fst (lease q d) = Some jb \<Longrightarrow> jb_queue jb = q"
proof -
  assume a: "fst (lease q d) = Some jb"
  then have "lease q d = (Some jb, snd (lease q d))" by (metis prod.collapse)
  then obtain j where "leasable d q j" "jb = job_of_row (lease_row d j)" by (rule lease_Some)
  then show ?thesis by (simp add: job_of_row_def lease_row_def leasable_def)
qed

interpretation pq: job_queue lease job_ready
  by unfold_locales (auto simp: job_ready_def lease_None lease_None_same lease_own_queue)

section \<open>Outcomes\<close>

lemma run_once_idle:
  assumes "run_once jsonb hs d = (Inr False, d')"
  shows "d' = d \<and> (\<forall>q\<in>set QUEUE_PRIORITY. map_of hs q \<noteq> None \<longrightarrow> \<not> job_ready d q)"
proof -
  from assms have "poll lease (\<lambda>q. map_of hs q \<noteq> None) QUEUE_PRIORITY d = (None, d')"
    by (auto simp: run_once_def split: prod.splits option.splits sum.splits)
  from pq.poll_None [OF this] show ?thesis by blast
qed

lemma drain_loop_bound:
  assumes "drain_loop jsonb hs room k d = (Inr n, d')"
  shows "k \<le> n \<and> n \<le> k + room \<and> (n < k + room \<longrightarrow>
    (\<forall>q\<in>set QUEUE_PRIORITY. map_of hs q \<noteq> None \<longrightarrow> \<not> job_ready d' q))"
  using assms
proof (induction room arbitrary: k d)
  case (Suc room)
  obtain x d1 where r: "run_once jsonb hs d = (x, d1)" by (cases "run_once jsonb hs d")
  show ?case
  proof (cases x)
    case (Inl e)
    with Suc.prems r show ?thesis by simp
  next
    case (Inr b)
    show ?thesis
    proof (cases b)
      case True
      with Suc.prems r Inr have "drain_loop jsonb hs room (Suc k) d1 = (Inr n, d')" by simp
      from Suc.IH [OF this] show ?thesis by auto
    next
      case False
      with Suc.prems r Inr have nk: "n = k" "d' = d1" by auto
      from r Inr False have "run_once jsonb hs d = (Inr False, d1)" by simp
      from run_once_idle [OF this] nk show ?thesis by simp
    qed
  qed
qed simp

text \<open>The job rows an outcome leaves.\<close>

lemma fetch_job_upd:
  assumes "\<And>r. j_id (f r) = j_id r"
  shows "fetch (\<lambda>r. j_id r = i) (upd (\<lambda>r. j_id r = i) f js) = map_option f (fetch (\<lambda>r. j_id r = i) js)"
proof (cases "fetch (\<lambda>r. j_id r = i) js")
  case (Some r)
  then have "j_id r = i" by (auto dest: fetch_SomeD)
  with Some show ?thesis by (simp add: fetch_upd assms)
qed (simp add: fetch_upd assms)

definition job_row_of :: "db \<Rightarrow> nat \<Rightarrow> job_row option" where
  "job_row_of d i = fetch (\<lambda>r. j_id r = i) (jobs d)"

lemma fail_row:
  "job_row_of (fail jb err permanent d) (jb_id jb) =
    map_option (\<lambda>r. if permanent \<or> jb_max jb \<le> jb_attempts jb
        then r\<lparr>j_status := Dead, j_error := Some err, j_lease := None\<rparr>
        else r\<lparr>j_status := Ready, j_error := Some err, j_lease := None,
               j_run_after := epoch (now d) + BACKOFF_BASE_SECONDS * 2 ^ nat (jb_attempts jb)\<rparr>)
      (job_row_of d (jb_id jb))"
  by (simp add: job_row_of_def fail_def Let_def fetch_job_upd)

lemma complete_row:
  "job_row_of (complete i d) i = map_option (\<lambda>r. r\<lparr>j_status := Done, j_lease := None\<rparr>) (job_row_of d i)"
  by (simp add: job_row_of_def complete_def fetch_job_upd)

text \<open>A failure changes nothing but the job table.\<close>

lemma fail_only_jobs: "fail jb err p d = d\<lparr>jobs := jobs (fail jb err p d)\<rparr>"
  by (simp add: fail_def Let_def)

lemma handle_retryable:
  assumes "map_of hs (jb_queue jb) = Some h" and "h jb d = Inl e"
    and "\<And>m. e \<noteq> ComplianceJobError m" and "\<And>m. e \<noteq> PermanentJobError m"
  shows "handle jsonb hs jb d = (Inr (), fail jb (exc_repr e) False d)"
  using assms by (cases e) (auto simp: handle_def)

lemma handle_permanent:
  assumes "map_of hs (jb_queue jb) = Some h" and "h jb d = Inl (PermanentJobError m)"
  shows "handle jsonb hs jb d = (Inr (), fail jb m True d)"
  using assms by (simp add: handle_def)

lemma handle_done:
  assumes "map_of hs (jb_queue jb) = Some h" and "h jb d = Inr d'"
  shows "handle jsonb hs jb d = (Inr (), complete (jb_id jb) d')"
  using assms by (simp add: handle_def)

lemma lease_row_of:
  assumes "wf_jobs d" and "lease q d = (Some jb, d1)"
  shows "\<exists>r. job_row_of d (jb_id jb) = Some r \<and> leasable d q r \<and>
    job_row_of d1 (jb_id jb) = Some (lease_row d r) \<and> jb = job_of_row (lease_row d r) \<and>
    d1 = d\<lparr>jobs := jobs d1\<rparr>"
proof -
  from assms(2) obtain j where j: "j \<in> set (jobs d)" "leasable d q j" "jb = job_of_row (lease_row d j)"
    "d1 = d\<lparr>jobs := upd (\<lambda>r. j_id r = j_id j) (lease_row d) (jobs d)\<rparr>" by (rule lease_Some)
  have id: "jb_id jb = j_id j" using j(3) by (simp add: job_of_row_def lease_row_def)
  have "fetch (\<lambda>r. j_id r = j_id j) (jobs d) = Some j"
    using assms(1) j(1) by (intro fetch_key) (simp_all add: wf_jobs_def)
  with j(2-4) id show ?thesis
    by (simp add: job_row_of_def fetch_job_upd lease_row_def)
qed

end
