(* ===== verification/System.thy ===== *)
theory System
  imports Sample Worker
begin

text \<open>
  The program as a transition system: one step is one committed transaction, of a job handler, of
  the webhook, of an operator command, or the passing of time. What every step keeps of the
  database is stated once (\<open>kept\<close>), proved operation by operation in the style of a weakest
  precondition, and lifted to runs by induction.
\<close>

section \<open>Postconditions of fallible steps\<close>

definition postE :: "'e + 'a \<Rightarrow> ('a \<Rightarrow> bool) \<Rightarrow> bool" where
  "postE m Q = (case m of Inl _ \<Rightarrow> True | Inr x \<Rightarrow> Q x)"

lemma postE_simps [simp]: "postE (Inl e) Q" "postE (Inr x) Q = Q x"
  by (simp_all add: postE_def)

lemma postE_bind: "postE m R \<Longrightarrow> (\<And>x. R x \<Longrightarrow> postE (f x) Q) \<Longrightarrow> postE (bindE m f) Q"
  by (cases m) simp_all

lemma postE_bind_any: "(\<And>x. m = Inr x \<Longrightarrow> postE (f x) Q) \<Longrightarrow> postE (bindE m f) Q"
  by (cases m) simp_all

lemma postE_Inr: "postE m Q \<Longrightarrow> m = Inr x \<Longrightarrow> Q x"
  by simp

lemma postE_foldE:
  assumes "I s" and "\<And>x s. x \<in> set xs \<Longrightarrow> I s \<Longrightarrow> postE (f x s) I"
  shows "postE (foldE f xs s) I"
  using assms
proof (induction xs arbitrary: s)
  case (Cons x xs)
  have "postE (f x s) I" using Cons.prems by simp
  then show ?case unfolding foldE.simps by (rule postE_bind) (use Cons in auto)
qed simp

text \<open>Rules that follow the shape of a handler's body.\<close>

named_theorems post \<open>postconditions by the shape of the step\<close>

lemma postE_if [post]: "(b \<Longrightarrow> postE x Q) \<Longrightarrow> (\<not> b \<Longrightarrow> postE y Q) \<Longrightarrow> postE (if b then x else y) Q"
  by simp

lemma postE_option [post]:
  "(m = None \<Longrightarrow> postE a Q) \<Longrightarrow> (\<And>x. m = Some x \<Longrightarrow> postE (b x) Q) \<Longrightarrow> postE (case m of None \<Rightarrow> a | Some x \<Rightarrow> b x) Q"
  by (cases m) simp_all

lemma postE_sum [post]:
  "(\<And>e. m = Inl e \<Longrightarrow> postE (a e) Q) \<Longrightarrow> (\<And>x. m = Inr x \<Longrightarrow> postE (b x) Q) \<Longrightarrow>
    postE (case m of Inl e \<Rightarrow> a e | Inr x \<Rightarrow> b x) Q"
  by (cases m) simp_all

lemma postE_list [post]:
  "(m = [] \<Longrightarrow> postE a Q) \<Longrightarrow> (\<And>x xs. m = x # xs \<Longrightarrow> postE (b x xs) Q) \<Longrightarrow> postE (case m of [] \<Rightarrow> a | x # xs \<Rightarrow> b x xs) Q"
  by (cases m) simp_all

lemma postE_prod [post]: "(\<And>a b. m = (a, b) \<Longrightarrow> postE (f a b) Q) \<Longrightarrow> postE (case m of (a, b) \<Rightarrow> f a b) Q"
  by (cases m) simp

lemma postE_let [post]: "(\<And>x. x = m \<Longrightarrow> postE (f x) Q) \<Longrightarrow> postE (Let m f) Q"
  by (simp add: Let_def)

section \<open>What every step keeps\<close>

text \<open>Prospects move along the state machine and keep tenant, entity, cohort and persona; hashes of
  forgotten addresses, idempotency keys, the audit trail and the record of provider events only
  grow.\<close>

definition moved :: "db \<Rightarrow> db \<Rightarrow> bool" where
  "moved d d' \<longleftrightarrow> (\<forall>i p. prospect_of d i = Some p \<longrightarrow> (\<exists>p'. prospect_of d' i = Some p' \<and>
     reaches (p_state p) (p_state p') \<and> p_tenant p' = p_tenant p \<and> p_entity p' = p_entity p \<and>
     p_cohort p' = p_cohort p \<and> p_persona p' = p_persona p))"

definition job_keys :: "db \<Rightarrow> pystr set" where
  "job_keys d = {k. \<exists>j\<in>set (jobs d). j_key j = Some k}"

text \<open>The audit trail is appended to, and a halt flag goes only with an audited resume by a human.\<close>

definition halted :: "db \<Rightarrow> pystr \<Rightarrow> bool" where
  "halted d s \<longleftrightarrow> (\<exists>f\<in>set (flags d). cf_scope f = s)"

definition resumed :: "pystr \<Rightarrow> audit_row list \<Rightarrow> bool" where
  "resumed s rows \<longleftrightarrow> (\<exists>a\<in>set rows. a_type a = ''control_flag'' \<and> a_subject a = s \<and> a_event a = ''resume'' \<and> human (a_actor a))"

text \<open>A draft that waits for a reviewer (and is no human task's touch) waits until one decided.\<close>

definition waiting :: "db \<Rightarrow> uuid \<Rightarrow> bool" where
  "waiting d i \<longleftrightarrow> (\<exists>t. touch_of d i = Some t \<and> t_status t = Pending_review) \<and> (\<forall>h\<in>set (tasks d). h_touch h \<noteq> i)"

definition reviewed :: "uuid \<Rightarrow> audit_row list \<Rightarrow> bool" where
  "reviewed i rows \<longleftrightarrow> (\<exists>a\<in>set rows. a_type a = ''touch'' \<and> a_subject a = i \<and>
     (a_event a = ''ramp_approved'' \<or> a_event a = ''ramp_rejected'') \<and> human (a_actor a))"

definition logged :: "db \<Rightarrow> db \<Rightarrow> bool" where
  "logged d d' \<longleftrightarrow> (\<exists>rows. audits d' = audits d @ rows \<and> (\<forall>s. halted d s \<longrightarrow> halted d' s \<or> resumed s rows) \<and>
     (\<forall>i. waiting d i \<longrightarrow> waiting d' i \<or> reviewed i rows))"

text \<open>A touch that went out, and that no pending human task could still release, stays that way.\<close>

definition settled :: "db \<Rightarrow> uuid \<Rightarrow> bool" where
  "settled d i \<longleftrightarrow> (\<exists>t. touch_of d i = Some t \<and> (t_status t = Dispatched \<or> t_status t = Sent)) \<and>
     (\<forall>h\<in>set (tasks d). h_touch h = i \<longrightarrow> h_status h \<noteq> Task_pending)"

definition kept :: "db \<Rightarrow> db \<Rightarrow> bool" where
  "kept d d' \<longleftrightarrow> moved d d' \<and> (\<forall>h. tombstoned d h \<longrightarrow> tombstoned d' h) \<and> job_keys d \<subseteq> job_keys d' \<and>
     logged d d' \<and> set (pevents d) \<subseteq> set (pevents d') \<and> idna d' = idna d \<and> (\<forall>i. settled d i \<longrightarrow> settled d' i) \<and>
     (\<forall>t v. paused_in d t v \<longrightarrow> paused_in d' t v)"

named_theorems kept \<open>operations keep what \<open>kept\<close> says\<close>

lemma reaches_trans: "reaches t u \<Longrightarrow> reaches s t \<Longrightarrow> reaches s u"
  by (induction rule: reaches.induct) (auto intro: reaches.step)

lemma moved_same: "prospects d' = prospects d \<Longrightarrow> moved d d'"
  by (auto simp: moved_def prospect_of_def intro: reaches.refl)

lemma moved_trans: "moved d d1 \<Longrightarrow> moved d1 d2 \<Longrightarrow> moved d d2"
  unfolding moved_def
proof (intro allI impI)
  fix i p
  assume m: "\<forall>i p. prospect_of d i = Some p \<longrightarrow> (\<exists>p'. prospect_of d1 i = Some p' \<and>
      reaches (p_state p) (p_state p') \<and> p_tenant p' = p_tenant p \<and> p_entity p' = p_entity p \<and>
      p_cohort p' = p_cohort p \<and> p_persona p' = p_persona p)"
    and n: "\<forall>i p. prospect_of d1 i = Some p \<longrightarrow> (\<exists>p'. prospect_of d2 i = Some p' \<and>
      reaches (p_state p) (p_state p') \<and> p_tenant p' = p_tenant p \<and> p_entity p' = p_entity p \<and>
      p_cohort p' = p_cohort p \<and> p_persona p' = p_persona p)"
    and p: "prospect_of d i = Some p"
  from m p obtain p1 where p1: "prospect_of d1 i = Some p1" "reaches (p_state p) (p_state p1)"
    "p_tenant p1 = p_tenant p" "p_entity p1 = p_entity p" "p_cohort p1 = p_cohort p" "p_persona p1 = p_persona p" by blast
  from n p1(1) obtain p2 where p2: "prospect_of d2 i = Some p2" "reaches (p_state p1) (p_state p2)"
    "p_tenant p2 = p_tenant p1" "p_entity p2 = p_entity p1" "p_cohort p2 = p_cohort p1" "p_persona p2 = p_persona p1" by blast
  with p1 reaches_trans [OF p2(2) p1(2)] show "\<exists>p'. prospect_of d2 i = Some p' \<and>
      reaches (p_state p) (p_state p') \<and> p_tenant p' = p_tenant p \<and> p_entity p' = p_entity p \<and>
      p_cohort p' = p_cohort p \<and> p_persona p' = p_persona p" by auto
qed

lemma loggedI:
  assumes "audits d' = audits d" and "flags d' = flags d" and "\<And>i. waiting d i \<Longrightarrow> waiting d' i"
  shows "logged d d'"
  unfolding logged_def by (intro exI [of _ "[]"]) (simp add: assms halted_def)

lemma waiting_same: "touches d' = touches d \<Longrightarrow> tasks d' = tasks d \<Longrightarrow> waiting d' i = waiting d i"
  by (simp add: waiting_def touch_of_def)

lemma logged_same:
  assumes "audits d' = audits d" "flags d' = flags d" "touches d' = touches d" "tasks d' = tasks d"
  shows "logged d d'"
  by (rule loggedI [OF assms(1,2)]) (simp only: waiting_same [OF assms(3,4)])

lemma logged_trans:
  assumes "logged d d1" and "logged d1 d2"
  shows "logged d d2"
proof -
  obtain xs where x: "audits d1 = audits d @ xs" "\<And>s. halted d s \<Longrightarrow> halted d1 s \<or> resumed s xs"
    "\<And>i. waiting d i \<Longrightarrow> waiting d1 i \<or> reviewed i xs" using assms(1) unfolding logged_def by blast
  obtain ys where y: "audits d2 = audits d1 @ ys" "\<And>s. halted d1 s \<Longrightarrow> halted d2 s \<or> resumed s ys"
    "\<And>i. waiting d1 i \<Longrightarrow> waiting d2 i \<or> reviewed i ys" using assms(2) unfolding logged_def by blast
  have "audits d2 = audits d @ (xs @ ys)" by (simp add: x(1) y(1))
  moreover have "halted d2 s \<or> resumed s (xs @ ys)" if "halted d s" for s
    using x(2) [OF that] y(2) [of s] by (auto simp: resumed_def)
  moreover have "waiting d2 i \<or> reviewed i (xs @ ys)" if "waiting d i" for i
    using x(3) [OF that] y(3) [of i] by (auto simp: reviewed_def)
  ultimately show ?thesis unfolding logged_def by blast
qed

lemma settled_same: "touches d' = touches d \<Longrightarrow> tasks d' = tasks d \<Longrightarrow> settled d' i = settled d i"
  by (simp add: settled_def touch_of_def)

lemma kept_refl [simp, kept]: "kept d d"
  by (simp add: kept_def moved_same logged_same)

lemma kept_trans: "kept d d1 \<Longrightarrow> kept d1 d2 \<Longrightarrow> kept d d2"
  unfolding kept_def by (auto dest: moved_trans logged_trans)

lemma keptI:
  assumes k: "kept d0 d" and "moved d d'" and "\<And>h. tombstoned d h \<Longrightarrow> tombstoned d' h" and "job_keys d \<subseteq> job_keys d'"
    and "logged d d'" and "set (pevents d) \<subseteq> set (pevents d')" and "idna d' = idna d"
    and "\<And>i. settled d0 i \<Longrightarrow> settled d i \<Longrightarrow> settled d' i" and "vstats d' = vstats d"
  shows "kept d0 d'"
proof -
  from k have k0: "moved d0 d" "\<And>h. tombstoned d0 h \<Longrightarrow> tombstoned d h" "job_keys d0 \<subseteq> job_keys d"
    "logged d0 d" "set (pevents d0) \<subseteq> set (pevents d)" "idna d = idna d0" "\<And>i. settled d0 i \<Longrightarrow> settled d i"
    "\<And>t v. paused_in d0 t v \<Longrightarrow> paused_in d t v"
    unfolding kept_def by blast+
  have ps: "paused_in d' t v" if "paused_in d0 t v" for t v
    using k0(8) [OF that] by (simp add: paused_in_def assms(9))
  show ?thesis unfolding kept_def
    using moved_trans [OF k0(1) assms(2)] assms(3) k0(2) subset_trans [OF k0(3) assms(4)] logged_trans [OF k0(4) assms(5)]
      subset_trans [OF k0(5) assms(6)] assms(7) k0(6,7) assms(8) ps by simp
qed

text \<open>A step outside the touches, tasks, flags and audits, and one outside the prospects too.\<close>

lemma kept_frame:
  assumes "kept d0 d" and "moved d d'" and "\<And>h. tombstoned d h \<Longrightarrow> tombstoned d' h" and "job_keys d \<subseteq> job_keys d'"
    and "audits d' = audits d" "flags d' = flags d" "set (pevents d) \<subseteq> set (pevents d')" "idna d' = idna d"
    and "touches d' = touches d" "tasks d' = tasks d" "vstats d' = vstats d"
  shows "kept d0 d'"
proof (rule keptI [OF assms(1)])
  show "logged d d'" by (rule logged_same) (simp_all add: assms(5,6,9,10))
  fix i
  assume "settled d i"
  then show "settled d' i" by (simp add: settled_def touch_of_def assms(9,10))
qed (use assms in auto)

lemma kept_same:
  assumes "kept d0 d" and "prospects d' = prospects d" "tombstones d' = tombstones d" "jobs d' = jobs d"
    "audits d' = audits d" "flags d' = flags d" "pevents d' = pevents d" "idna d' = idna d"
    "touches d' = touches d" "tasks d' = tasks d" "vstats d' = vstats d"
  shows "kept d0 d'"
  using assms(1) by (rule kept_frame) (simp_all add: assms(2-) moved_same tombstoned_def job_keys_def)

text \<open>Touches and tasks: rows change, but what is settled stays.\<close>

lemma kept_touches:
  assumes k: "kept d0 d" and i: "\<And>t. t_id (f t) = t_id t"
    and s: "\<And>t. P t \<Longrightarrow> settled d0 (t_id t) \<Longrightarrow> t_status t = Dispatched \<or> t_status t = Sent \<Longrightarrow>
      t_status (f t) = Dispatched \<or> t_status (f t) = Sent"
    and w: "\<And>t. P t \<Longrightarrow> waiting d (t_id t) \<Longrightarrow> t_status t = Pending_review \<Longrightarrow> t_status (f t) = Pending_review"
  shows "kept d0 (d\<lparr>touches := upd P f (touches d)\<rparr>)"
proof (rule keptI [OF k])
  have u: "touch_of (d\<lparr>touches := upd P f (touches d)\<rparr>) j = map_option (\<lambda>t. if P t then f t else t) (touch_of d j)" for j
    by (simp add: touch_of_def fetch_touch_upd i)
  have id: "touch_of d j = Some t \<Longrightarrow> t_id t = j" for j t by (auto simp: touch_of_def dest: fetch_SomeD)
  show "settled (d\<lparr>touches := upd P f (touches d)\<rparr>) j" if j: "settled d0 j" "settled d j" for j
  proof -
    from j(2) obtain t where t: "touch_of d j = Some t" "t_status t = Dispatched \<or> t_status t = Sent"
      and h: "\<forall>h\<in>set (tasks d). h_touch h = j \<longrightarrow> h_status h \<noteq> Task_pending" by (auto simp: settled_def)
    have "t_status (if P t then f t else t) = Dispatched \<or> t_status (if P t then f t else t) = Sent"
      using s [of t] j(1) t(2) by (simp add: id [OF t(1)])
    with h show ?thesis unfolding settled_def u by (simp add: t(1))
  qed
  show "logged d (d\<lparr>touches := upd P f (touches d)\<rparr>)"
  proof (rule loggedI)
    fix j
    assume j: "waiting d j"
    then obtain t where t: "touch_of d j = Some t" "t_status t = Pending_review"
      and h: "\<forall>h\<in>set (tasks d). h_touch h \<noteq> j" by (auto simp: waiting_def)
    have "t_status (if P t then f t else t) = Pending_review"
      using w [of t] j t(2) by (simp add: id [OF t(1)])
    with h show "waiting (d\<lparr>touches := upd P f (touches d)\<rparr>) j" unfolding waiting_def u by (simp add: t(1))
  qed simp_all
qed (simp_all add: moved_same tombstoned_def job_keys_def)

lemma kept_tasks:
  assumes k: "kept d0 d" and t: "\<And>h. h_touch (f h) = h_touch h" and f: "\<And>h. h_status (f h) \<noteq> Task_pending"
  shows "kept d0 (d\<lparr>tasks := upd P f (tasks d)\<rparr>)"
proof (rule keptI [OF k])
  fix i
  assume "settled d i"
  moreover have "h_status h \<noteq> Task_pending" if "h \<in> set (upd P f (tasks d))" "h_touch h = i"
    "\<forall>h\<in>set (tasks d). h_touch h = i \<longrightarrow> h_status h \<noteq> Task_pending" for h
    using that t f unfolding set_upd by (elim imageE) (simp split: if_splits)
  ultimately show "settled (d\<lparr>tasks := upd P f (tasks d)\<rparr>) i" by (simp add: settled_def touch_of_def)
next
  show "logged d (d\<lparr>tasks := upd P f (tasks d)\<rparr>)"
    by (rule loggedI) (auto simp: waiting_def touch_of_def set_upd t)
qed (simp_all add: moved_same tombstoned_def job_keys_def)

lemma kept_not_settled: "kept d0 d \<Longrightarrow> \<not> settled d i \<Longrightarrow> \<not> settled d0 i"
  by (auto simp: kept_def)

section \<open>Operations that cannot fail\<close>

lemma kept_audit [kept]: "kept d0 d \<Longrightarrow> kept d0 (audit a b c p e d)"
  by (erule keptI) (auto simp: moved_same tombstoned_def job_keys_def logged_def halted_def settled_def waiting_def
      touch_of_def ins_def)

lemma kept_enqueue [kept]: "kept d0 d \<Longrightarrow> kept d0 (snd (enqueue q pl k dl n d))"
  by (erule kept_frame) (auto simp: moved_same tombstoned_def job_keys_def enqueue_def)

lemma kept_enqueue_key [kept]: "kept d0 d \<Longrightarrow> kept d0 (enqueue_key q pl k d)"
  unfolding enqueue_key_def by (rule kept_enqueue)

lemma kept_enqueue_deliver [kept]: "kept d0 d \<Longrightarrow> kept d0 (enqueue_deliver i d)"
  unfolding enqueue_deliver_def by (rule kept_enqueue_key)

lemma kept_escalate [kept]: "kept d0 d \<Longrightarrow> kept d0 (escalate t ty s r pl d)"
  by (erule kept_same) (simp_all add: escalate_def fresh_uuid_def)

lemma kept_fresh [kept]: "kept d0 d \<Longrightarrow> kept d0 (snd (fresh_uuid d))"
  by (erule kept_same) (simp_all add: fresh_uuid_def)

lemma kept_tables [kept]:
  "kept d0 d \<Longrightarrow> kept d0 (d\<lparr>entities := es\<rparr>)"
  "kept d0 d \<Longrightarrow> kept d0 (d\<lparr>counters := cs\<rparr>)" "kept d0 d \<Longrightarrow> kept d0 (d\<lparr>suppressions := ss\<rparr>)"
  "kept d0 d \<Longrightarrow> kept d0 (d\<lparr>replies := rs\<rparr>)" "kept d0 d \<Longrightarrow> kept d0 (d\<lparr>objections := os\<rparr>)"
  "kept d0 d \<Longrightarrow> kept d0 (d\<lparr>proposals := prs\<rparr>)" "kept d0 d \<Longrightarrow> kept d0 (d\<lparr>traces := trs\<rparr>)"
  "kept d0 d \<Longrightarrow> kept d0 (d\<lparr>evidence := ev\<rparr>)"
  "kept d0 d \<Longrightarrow> kept d0 (d\<lparr>entity_keys := ks\<rparr>)" "kept d0 d \<Longrightarrow> kept d0 (d\<lparr>tenants := tns\<rparr>)"
  "kept d0 d \<Longrightarrow> kept d0 (d\<lparr>profiles := ps\<rparr>)" "kept d0 d \<Longrightarrow> kept d0 (d\<lparr>now := c\<rparr>)"
  "kept d0 d \<Longrightarrow> kept d0 (d\<lparr>escalations := esc\<rparr>)" "kept d0 d \<Longrightarrow> kept d0 (d\<lparr>claims := cls\<rparr>)"
  "kept d0 d \<Longrightarrow> kept d0 (d\<lparr>draws := k\<rparr>)"
  by (erule kept_same; simp)+

lemma kept_release_sequence [kept]: "kept d0 d \<Longrightarrow> kept d0 (snd (release_sequence p d))"
  unfolding release_sequence_def by (simp add: kept)

text \<open>Statistics: a paused variant stays paused.\<close>

lemma kept_vstats:
  assumes "kept d0 d" and "d' = d\<lparr>vstats := vs\<rparr>" and "\<And>t v. paused_in d t v \<Longrightarrow> paused_in d' t v"
  shows "kept d0 d'"
proof (rule kept_trans [OF assms(1)])
  have "logged d d'" by (rule logged_same) (simp_all add: assms(2))
  moreover have "settled d' i = settled d i" for i by (simp add: settled_def touch_of_def assms(2))
  moreover have "moved d d'" by (rule moved_same) (simp add: assms(2))
  moreover have "tombstoned d' h = tombstoned d h" "job_keys d' = job_keys d" "pevents d' = pevents d" "idna d' = idna d" for h
    by (simp_all add: assms(2) tombstoned_def job_keys_def)
  ultimately show "kept d d'" using assms(3) by (simp add: kept_def)
qed

lemma kept_upsert_stat [kept]: "kept d0 d \<Longrightarrow> kept d0 (upsert_stat t v c d)"
  by (erule kept_vstats, simp add: upsert_stat_def) (rule paused_upsert)

lemma kept_stats [kept]:
  "kept d0 d \<Longrightarrow> kept d0 (record_trial t v a d)" "kept d0 d \<Longrightarrow> kept d0 (record_success t v d)"
   apply (erule kept_vstats, simp add: record_trial_def, rule paused_trial, assumption)
  apply (unfold record_success_def, rule kept_upsert_stat, assumption)
  done

lemma kept_guardrail [kept]: "kept d0 d \<Longrightarrow> kept d0 (snd (record_guardrail t v c d))"
proof -
  assume k: "kept d0 d"
  have "kept d0 (d1\<lparr>vstats := upd (is_stat t v) (\<lambda>r. r\<lparr>v_paused := True\<rparr>) (vstats d1)\<rparr>)" if "kept d0 d1" for d1
    by (rule kept_vstats [OF that HOL.refl], unfold paused_in_def)
      (auto intro!: paused_rows_upd simp: is_stat_def)
  with k show ?thesis unfolding record_guardrail_def by (auto simp: Let_def kept split: option.splits)
qed

lemma kept_cooldown [kept]: "kept d0 d \<Longrightarrow> kept d0 (cooldown e r m d)"
  unfolding cooldown_def Let_def by (rule kept_tables)

lemma halted_upsert:
  assumes "halted d s" and "\<And>f. cf_scope (g f) = cf_scope f"
  shows "halted (d\<lparr>flags := upsert P g r (flags d)\<rparr>) s"
proof -
  from assms(1) obtain f where f: "f \<in> set (flags d)" "cf_scope f = s" by (auto simp: halted_def)
  have "\<exists>f'\<in>set (upsert P g r (flags d)). cf_scope f' = s"
    using f assms(2) by (intro bexI [of _ "if P f then g f else f"]) (auto simp: upsert_def set_upd)
  then show ?thesis by (simp add: halted_def)
qed

lemma kept_halt [kept]: "kept d0 d \<Longrightarrow> kept d0 (halt s a f d)"
proof -
  assume k: "kept d0 d"
  have "kept d0 (d\<lparr>flags := upsert (\<lambda>x. cf_scope x = s) (\<lambda>x. x\<lparr>cf_flag := f, cf_by := a\<rparr>)
      \<lparr>cf_scope = s, cf_flag = f, cf_by = a\<rparr> (flags d)\<rparr>)" (is "kept d0 ?d")
  proof (rule keptI [OF k])
    have "halted ?d t" if "halted d t" for t using that by (rule halted_upsert) simp
    moreover have "waiting ?d i = waiting d i" for i by (rule waiting_same) simp_all
    ultimately show "logged d ?d" unfolding logged_def by (intro exI [of _ "[]"]) simp
  qed (simp_all add: moved_same tombstoned_def job_keys_def settled_def touch_of_def)
  then show ?thesis unfolding halt_def by (intro kept)
qed

lemma kept_insert_reply [kept]: "kept d0 d \<Longrightarrow> kept d0 (snd (insert_reply p t b d))"
  unfolding insert_reply_def by (simp add: Let_def split_beta kept)

lemma kept_file_objection [kept]: "kept d0 d \<Longrightarrow> kept d0 (file_objection dec rid t c d)"
  unfolding file_objection_def by (simp add: kept)

lemma kept_after_interest [kept]: "kept d0 d \<Longrightarrow> kept d0 (after_interest r p t d)"
  unfolding after_interest_def Let_def by (auto intro!: kept split: option.splits)

lemma kept_set_cap [kept]: "kept d0 d \<Longrightarrow> kept d0 (set_cap f c p d)"
  unfolding set_cap_def by (simp add: kept)

lemma kept_if [kept]: "(b \<Longrightarrow> kept d0 x) \<Longrightarrow> (\<not> b \<Longrightarrow> kept d0 y) \<Longrightarrow> kept d0 (if b then x else y)"
  by simp

lemma kept_case_option [kept]:
  "(m = None \<Longrightarrow> kept d0 x) \<Longrightarrow> (\<And>v. m = Some v \<Longrightarrow> kept d0 (y v)) \<Longrightarrow> kept d0 (case m of None \<Rightarrow> x | Some v \<Rightarrow> y v)"
  by (cases m) simp_all

lemma kept_evaluate [kept]: "kept d0 d \<Longrightarrow> kept d0 (snd (evaluate_cohort t c d))"
  unfolding evaluate_cohort_def by (simp add: Let_def split_beta kept)

lemma kept_maybe_evaluate [kept]: "kept d0 d \<Longrightarrow> kept d0 (snd (maybe_evaluate t c d))"
  unfolding maybe_evaluate_def by (simp add: Let_def kept)

section \<open>Operations that may raise\<close>

lemma moved_set_state:
  assumes "prospect_of d pid = Some p" and "s \<in> set (TRANSITIONS (p_state p))"
  shows "moved d (set_state pid s d)"
  unfolding moved_def prospect_of_set_state
proof (intro allI impI)
  fix i q
  assume q: "prospect_of d i = Some q"
  show "\<exists>p'. map_option (\<lambda>p. if p_id p = pid then p\<lparr>p_state := s\<rparr> else p) (prospect_of d i) = Some p' \<and>
      reaches (p_state q) (p_state p') \<and> p_tenant p' = p_tenant q \<and> p_entity p' = p_entity q \<and>
      p_cohort p' = p_cohort q \<and> p_persona p' = p_persona q"
  proof (cases "p_id q = pid")
    case True
    with prospect_of_SomeD [OF q] have "i = pid" by simp
    with assms q have "reaches (p_state q) s" by (auto intro: reaches.step [OF reaches.refl] tstep)
    with True q show ?thesis by simp
  qed (simp add: q reaches.refl)
qed

lemma kept_transition [kept]: "kept d0 d \<Longrightarrow> postE (transition pid target actor reason d) (kept d0)"
proof (cases "transition pid target actor reason d")
  case (Inr d')
  assume k: "kept d0 d"
  obtain p where p: "prospect_of d pid = Some p" "target \<in> set (TRANSITIONS (p_state p))"
    using Inr by (rule transition_Inr)
  from transition_eq [OF Inr] obtain pl where d': "d' = audit ''prospect'' pid ''transition'' pl actor (set_state pid target d)"
    by blast
  have "kept d0 (set_state pid target d)"
    by (rule kept_frame [OF k moved_set_state [OF p]]) (auto simp: tombstoned_def job_keys_def set_state_def)
  then show ?thesis by (simp add: Inr d' kept_audit)
qed simp

lemma kept_safe_transition [kept]: "kept d0 d \<Longrightarrow> postE (safe_transition pid target d) (kept d0)"
  using kept_transition [of d0 d pid target "''system:events''" "[]"]
  by (auto simp: safe_transition_def kept_audit split: sum.splits exc.splits)

lemma kept_update_touch:
  assumes "kept d0 d" and "\<And>t. t_id (f t) = t_id t"
    and "\<And>t. P t \<Longrightarrow> settled d0 (t_id t) \<Longrightarrow> t_status t = Dispatched \<or> t_status t = Sent \<Longrightarrow>
      t_status (f t) = Dispatched \<or> t_status (f t) = Sent"
    and "\<And>t. P t \<Longrightarrow> waiting d (t_id t) \<Longrightarrow> t_status t = Pending_review \<Longrightarrow> t_status (f t) = Pending_review"
  shows "postE (update_touch_status P f d) (\<lambda>(_, d'). kept d0 d')"
  unfolding update_touch_status_def
  by (rule postE_if, simp, rule postE_if, simp) (simp add: kept_touches [OF assms])

lemma touch_of_ins:
  assumes "touch_of d i = Some u"
  shows "touch_of (d\<lparr>touches := ins t (touches d)\<rparr>) i = Some u"
  using assms by (simp add: touch_of_def fetch_ins)

lemma insert_touch_new: "insert_touch t d = Inr d' \<Longrightarrow> touch_of d (t_id t) = None"
  by (auto simp: insert_touch_def touch_of_def fetch_None split: if_splits)

lemma insert_touch_touch:
  assumes "insert_touch t d = Inr d'"
  shows "touch_of d' (t_id t) = Some t"
proof -
  have "touches d' = ins t (touches d)" using insert_touch_Inr [OF assms] by simp
  with insert_touch_new [OF assms] show ?thesis by (simp add: touch_of_def fetch_ins)
qed

lemma kept_insert_touch [kept]: "kept d0 d \<Longrightarrow> postE (insert_touch t d) (kept d0)"
proof -
  assume k: "kept d0 d"
  have "kept d0 (d\<lparr>touches := ins t (touches d)\<rparr>)"
    by (rule keptI [OF k])
      (auto simp: moved_same tombstoned_def job_keys_def settled_def waiting_def touch_of_ins intro!: loggedI)
  then show ?thesis by (simp add: insert_touch_def)
qed

lemma kept_suppress [kept]: "kept d0 d \<Longrightarrow> postE (suppress e sc r x p d) (\<lambda>(_, d'). kept d0 d')"
  unfolding suppress_def Let_def by (intro postE_bind_any) (simp add: kept)

lemma kept_queue_draft [kept]: "kept d0 d \<Longrightarrow> postE (queue_draft key pid c v st k dr h n d) (\<lambda>(_, d'). kept d0 d')"
  unfolding queue_draft_def fresh_uuid_def Let_def prod.case
  by (rule postE_bind_any, clarify, rule postE_bind, rule kept_insert_touch [of d0]) (simp_all add: kept)

lemma kept_create_for_step [kept]:
  "kept d0 d \<Longrightarrow> postE (create_for_step t p c st i v d) (\<lambda>(_, d'). kept d0 d')"
proof -
  assume k: "kept d0 d"
  obtain tid d1 where f: "fresh_uuid d = (tid, d1)" by fastforce
  have k1: "kept d0 d1" using kept_fresh [OF k] by (simp add: f)
  have tk: "kept d0 (e\<lparr>tasks := ins h (tasks e)\<rparr>)" if "kept d0 e" "\<not> settled d0 (h_touch h)" "\<not> waiting e (h_touch h)" for e h
  proof (rule keptI [OF that(1)])
    show "logged e (e\<lparr>tasks := ins h (tasks e)\<rparr>)"
      by (rule loggedI) (use that(3) in \<open>auto simp: waiting_def touch_of_def\<close>)
  qed (use that(2) in \<open>auto simp: moved_same tombstoned_def job_keys_def settled_def touch_of_def\<close>)
  have x: "kept d0 (audit a b c' pl e ((snd (fresh_uuid d2))\<lparr>tasks := ins h (tasks (snd (fresh_uuid d2)))\<rparr>))"
    if i: "insert_touch tc d1 = Inr d2" and h: "h_touch h = t_id tc" "t_status tc = Pending_human" for a b c' pl e h tc d2
  proof (rule kept_audit, rule tk)
    have "touch_of d2 (t_id tc) = Some tc" by (rule insert_touch_touch [OF i])
    then show "\<not> waiting (snd (fresh_uuid d2)) (h_touch h)"
      by (simp add: waiting_def h touch_of_def fresh_uuid_def)
    show "kept d0 (snd (fresh_uuid d2))" by (rule kept_fresh, rule postE_Inr [OF kept_insert_touch [OF k1] i])
    have "\<not> settled d1 (t_id tc)" using insert_touch_new [OF i] by (simp add: settled_def)
    then show "\<not> settled d0 (h_touch h)" unfolding h(1) by (rule kept_not_settled [OF k1])
  qed
  show ?thesis unfolding create_for_step_def f Let_def prod.case audit_task_def split_beta
    by (rule postE_bind_any, unfold postE_simps snd_conv, rule x, assumption) simp_all
qed

section \<open>The gatekeeper and the deliver job\<close>

lemma kept_adjust [kept]: "kept d0 d \<Longrightarrow> kept d0 (adjust st si k w d)"
  unfolding adjust_def by (intro kept)

lemma kept_try_consume [kept]: "kept d0 d \<Longrightarrow> kept d0 (snd (try_consume_budget tn t d))"
  unfolding try_consume_budget_def consume_one_def by (simp add: Let_def kept)

lemma kept_release_budget [kept]: "kept d0 d \<Longrightarrow> kept d0 (release_budget tn t d)"
  unfolding release_budget_def by (intro kept)

lemma kept_pick_mailbox [kept]: "kept d0 d \<Longrightarrow> kept d0 (snd (pick_mailbox tn d))"
  unfolding pick_mailbox_def ensure_day_counters_def Let_def by (simp add: kept split: option.splits)

lemma kept_persist [kept]: "kept d0 d \<Longrightarrow> postE (persist_claim t m rs d) (kept d0)"
  unfolding persist_claim_def
  by (rule postE_bind, rule kept_update_touch, assumption) (auto simp: Let_def intro!: kept)

lemma kept_give_back: "kept d0 d \<Longrightarrow> kept d0 (snd (give_back (pg_store cfg) t r d))"
  by (simp add: give_back_def pg_store_def kept)

lemma kept_claim_mailbox: "kept d0 d \<Longrightarrow> kept d0 (snd (claim_mailbox (pg_store cfg) t rs d))"
proof -
  assume k: "kept d0 d"
  obtain m d1 where p: "pick_mailbox (dt_tenant t) d = (m, d1)" by fastforce
  have k1: "kept d0 d1" using kept_pick_mailbox [OF k, of "dt_tenant t"] by (simp add: p)
  show ?thesis
  proof (cases m)
    case None
    then show ?thesis using kept_give_back [OF k1] by (simp add: claim_mailbox_def p)
  next
    case (Some box)
    show ?thesis
    proof (cases "confidence_sendable d1 (dt_email t) (dt_tenant t)")
      case False
      then show ?thesis using Some kept_give_back [OF k1] by (simp add: claim_mailbox_def p)
    next
      case True
      then show ?thesis
        using Some k1 kept_persist [OF k1, of t box "rs @ [(''mailbox'', box), (''confidence'', ''pass'')]"]
        by (auto simp: claim_mailbox_def p split: sum.splits)
    qed
  qed
qed

lemma kept_claim [kept]: "kept d0 d \<Longrightarrow> kept d0 (snd (claim reg (pg_store cfg) t d))"
proof (cases "claim_checks reg (pg_store cfg) t d")
  case (Inr rs)
  assume k: "kept d0 d"
  obtain ok d1 where c: "try_consume_budget (dt_tenant t) t d = (ok, d1)" by fastforce
  have k1: "kept d0 d1" using kept_try_consume [OF k, of "dt_tenant t" t] by (simp add: c)
  show ?thesis using kept_claim_mailbox [OF k] kept_claim_mailbox [OF k1] k1 by (simp add: claim_def Inr c)
qed (simp add: claim_def)

lemma kept_release_touch: "kept d0 d \<Longrightarrow> \<not> settled d0 i \<Longrightarrow> \<not> waiting d i \<Longrightarrow> postE (release_touch i r d) (kept d0)"
  unfolding release_touch_def by (rule postE_bind, rule kept_update_touch, assumption) (auto intro!: kept)

lemma kept_plan [kept]: "kept d0 d \<Longrightarrow> postE (plan_next_step seqs pid g d) (kept d0)"
  unfolding plan_next_step_def by (rule post | simp add: kept | assumption)+

lemma kept_dispatch: "kept d0 d \<Longrightarrow> \<not> waiting d i \<Longrightarrow> postE (dispatch env i g ref d) (kept d0)"
proof -
  assume k: "kept d0 d" and w: "\<not> waiting d i"
  let ?d1 = "case Option.bind (touch_of d i) t_variant of None \<Rightarrow> d
      | Some v \<Rightarrow> if v = [] then d else record_trial (dt_tenant g) v [] d"
  have k1: "kept d0 ?d1" by (intro kept k)
  have "waiting ?d1 i = waiting d i"
    by (rule waiting_same) (simp_all add: record_trial_def upsert_stat_def split: option.split)
  with w have w1: "\<not> waiting ?d1 i" by simp
  have t: "postE (transition pid s a r ?d1) (\<lambda>e. kept d0 e \<and> \<not> waiting e i)" for pid s a r
  proof (cases "transition pid s a r ?d1")
    case (Inr e)
    have "waiting e i = waiting ?d1 i"
      by (rule waiting_same) (use transition_eq [OF Inr] in \<open>auto simp: set_state_def\<close>)
    with w1 postE_Inr [OF kept_transition [OF k1] Inr] Inr show ?thesis by simp
  qed simp
  have u: "postE (bindE (update_touch_status (\<lambda>t. t_id t = i)
      (\<lambda>t. t\<lparr>t_status := Dispatched, t_sent_at := Some (epoch (now e)), t_ref := Some ref\<rparr>) e)
      (\<lambda>(_, e'). plan_next_step sq pid g e')) (kept d0)" if "kept d0 e \<and> \<not> waiting e i" for e sq pid
    by (rule postE_bind, rule kept_update_touch [OF conjunct1 [OF that]]) (use that in \<open>auto intro: kept_plan\<close>)
  show ?thesis unfolding dispatch_def Let_def
    by (rule postE_bind [where R = "\<lambda>e. kept d0 e \<and> \<not> waiting e i"], rule postE_if, rule t)
      (simp_all only: postE_simps k1 w1 u simp_thms)
qed

lemma deliver_Inr:
  assumes "snd (deliver env pl d) = Inr d'"
  shows "d' = d \<or> (\<exists>i g ctx r d1. jget_str pl ''touch_id'' = Inr i \<and> map_option t_status (touch_of d i) = Some Drafted \<and>
      claim (se_registry env) (pg_store pg_default) g d = (Refused r, d1) \<and> release_touch i r d1 = Inr d') \<or>
    (\<exists>i g ctx c d1 ref. load_gate_draft d i ctx = Inr (Some g) \<and>
      claim (se_registry env) (pg_store pg_default) g d = (Granted c, d1) \<and> dispatch env i g ref d1 = Inr d')"
  using assms
  by (auto simp: deliver_def Let_def bindE_eq_Inr split: sum.splits option.splits prod.splits claim_result.splits if_splits) blast+

lemma kept_deliver: "kept d0 d \<Longrightarrow> postE (snd (deliver env pl d)) (kept d0)"
proof (cases "snd (deliver env pl d)")
  case (Inr d')
  assume k: "kept d0 d"
  have c: "kept d0 d1" if "claim (se_registry env) (pg_store pg_default) g d = (x, d1)" for g x d1
    using kept_claim [OF k, of "se_registry env" pg_default g] that by simp
  have "kept d0 d'" using deliver_Inr [OF Inr]
  proof (elim disjE)
    assume "\<exists>i g ctx r d1. jget_str pl ''touch_id'' = Inr i \<and> map_option t_status (touch_of d i) = Some Drafted \<and>
      claim (se_registry env) (pg_store pg_default) g d = (Refused r, d1) \<and> release_touch i r d1 = Inr d'"
    then obtain i g r d1 where a: "map_option t_status (touch_of d i) = Some Drafted"
      "claim (se_registry env) (pg_store pg_default) g d = (Refused r, d1)" "release_touch i r d1 = Inr d'" by blast
    from a(1) have "\<not> settled d i" by (auto simp: settled_def)
    then have n: "\<not> settled d0 i" by (rule kept_not_settled [OF k])
    have "\<not> waiting d1 i"
      using pg_claim_Refused [OF a(2)] a(1) by (auto simp: waiting_def touch_of_def)
    then show ?thesis by (rule postE_Inr [OF kept_release_touch [OF c [OF a(2)] n] a(3)])
  next
    assume "\<exists>i g ctx c d1 ref. load_gate_draft d i ctx = Inr (Some g) \<and>
      claim (se_registry env) (pg_store pg_default) g d = (Granted c, d1) \<and> dispatch env i g ref d1 = Inr d'"
    then obtain i g ctx c' d1 ref where l: "load_gate_draft d i ctx = Inr (Some g)"
      and a: "claim (se_registry env) (pg_store pg_default) g d = (Granted c', d1)" "dispatch env i g ref d1 = Inr d'" by blast
    have "\<exists>t. touch_of d1 i = Some t \<and> t_status t \<noteq> Pending_review"
    proof (rule load_gate_draft_Some [OF l])
      fix tc p tenant email
      assume t: "touch_of d i = Some tc" "t_status tc = Drafted" and g: "g = \<lparr>dt_touch = i, dt_tenant = tenant, dt_entity = p_entity p, dt_email = email,
          dt_draft = \<lparr>dr_subject = the_default [] (t_subject tc), dr_body = the_default [] (t_body tc), dr_step = t_step tc\<rparr>,
          dt_hash = t_hash tc, dt_grounded = Some (t_hash tc), dt_profile = profile_of_kind (t_kind tc),
          dt_ctx = ctx, dt_cohort = p_cohort p, dt_prospect = p_id p\<rparr>"
      show ?thesis
        using pg_claim_Granted(7) [OF a(1)] t by (simp add: touch_of_def fetch_touch_upd)
    qed
    then have "\<not> waiting d1 i" by (auto simp: waiting_def)
    then show ?thesis by (rule postE_Inr [OF kept_dispatch [OF c [OF a(1)]] a(2)])
  qed (simp add: k)
  then show ?thesis by (simp add: Inr)
qed simp

section \<open>Inbound handlers\<close>

lemma kept_negative [kept]: "kept d0 d \<Longrightarrow> postE (negative_event reason col target ref d) (kept d0)"
proof -
  assume k: "kept d0 d"
  obtain pid tenant email variant where r: "ref = (pid, tenant, email, variant)" by (cases ref)
  show ?thesis unfolding negative_event_def r prod.case
    by (rule postE_bind [where R = "kept d0"], rule postE_option, simp add: k, rule postE_bind, rule kept_suppress, rule k)
      (auto intro!: kept_safe_transition kept)
qed

lemma kept_act [kept]: "kept d0 d \<Longrightarrow> postE (act ev d) (kept d0)"
proof -
  assume k: "kept d0 d"
  have s: "postE (update_touch_status (\<lambda>t. t_id t = i \<and> t_status t = Dispatched) (\<lambda>t. t\<lparr>t_status := Sent\<rparr>) d)
      (\<lambda>(_, d'). kept d0 d')" for i by (rule kept_update_touch [OF k]) simp_all
  show ?thesis
    unfolding act_def
    by (auto simp: k Let_def split_beta split: event_kind.splits option.splits
        intro!: kept_negative kept_safe_transition kept postE_bind [OF s])
qed

lemma kept_record_event [kept]: "kept d0 d \<Longrightarrow> kept d0 (record_event ev d)"
  unfolding record_event_def by (erule kept_frame) (auto simp: moved_same tombstoned_def job_keys_def)

lemma kept_ingest: "kept d0 d \<Longrightarrow> postE (ingest_events evs d) (\<lambda>(_, d'). kept d0 d')"
proof (induction evs arbitrary: d)
  case (Cons ev evs)
  have "postE (act ev (record_event ev d)) (kept d0)" using Cons.prems by (intro kept)
  then show ?case unfolding ingest_events.simps
    by (intro postE_if Cons.IH Cons.prems, elim postE_bind)
      (rule postE_bind [OF Cons.IH], simp_all add: split_beta)
qed simp

lemma kept_agentic [kept]: "kept d0 d \<Longrightarrow> postE (queue_agentic_reply env dec rid pid tenant d) (kept d0)"
proof -
  assume k: "kept d0 d"
  have k1: "kept d0 (d\<lparr>replies := rs\<rparr>)" for rs using k by (rule kept)
  have q: "postE (bindE (queue_draft key p c v st kd dr h n (d\<lparr>replies := rs\<rparr>)) (\<lambda>(_, d2). Inr d2)) (kept d0)"
    for key p c v st kd dr h n rs
    by (rule postE_bind, rule kept_queue_draft [OF k1]) auto
  have inner: "postE (case m of Inl (ReplyComposeError x) \<Rightarrow> Inr (escalate (Some tenant) ''reply'' rid (g x) [] (d\<lparr>replies := rs\<rparr>))
      | Inl e \<Rightarrow> Inl e
      | Inr (dr, h) \<Rightarrow> bindE (queue_draft (en_key env) pid c None 0 Agentic_reply_kind dr h 0 (d\<lparr>replies := rs\<rparr>))
          (\<lambda>(_, d2). Inr d2)) (kept d0)" for m :: "exc + draft \<times> pystr" and g rs c
    by (cases m) (auto simp: q k1 kept_escalate split: exc.split)
  show ?thesis
    unfolding queue_agentic_reply_def Let_def prod.case
    by (rule postE_option postE_list inner | simp add: k)+
qed

lemma kept_apply_decision [kept]: "kept d0 d \<Longrightarrow> postE (apply_decision dec rid pid email tenant d) (kept d0)"
proof -
  assume k: "kept d0 d"
  have s: "postE (bindE (suppress e GLOBAL_SCOPE r None True d) (\<lambda>(_, d1). safe_transition pid st d1)) (kept d0)" for e r st
    by (rule postE_bind, rule kept_suppress [OF k]) (auto intro!: kept_safe_transition)
  show ?thesis unfolding apply_decision_def
    by (auto simp: k s split: reply_action.splits option.splits intro!: kept_safe_transition kept_cooldown kept_escalate)
qed

lemma kept_classify: "kept d0 d \<Longrightarrow> postE (classify env pl d) (kept d0)"
proof -
  assume k: "kept d0 d"
  have tail: "postE (bindE (apply_decision dec rid pid email tenant
        ((if b then after_interest rid pid tenant (snd (release_sequence pid d)) else snd (release_sequence pid d))\<lparr>replies := rs\<rparr>))
      (\<lambda>d4. bindE (if c then queue_agentic_reply env dec rid pid tenant d4 else Inr d4)
        (\<lambda>d5. Inr (snd (maybe_evaluate tenant cohort (file_objection dec rid tenant cohort d5)))))) (kept d0)"
    for dec rid pid email tenant b c cohort rs
  proof (rule postE_bind, rule kept_apply_decision)
    show "kept d0 ((if b then after_interest rid pid tenant (snd (release_sequence pid d))
        else snd (release_sequence pid d))\<lparr>replies := rs\<rparr>)" by (intro kept k)
    fix d4
    assume k4: "kept d0 d4"
    show "postE (bindE (if c then queue_agentic_reply env dec rid pid tenant d4 else Inr d4)
        (\<lambda>d5. Inr (snd (maybe_evaluate tenant cohort (file_objection dec rid tenant cohort d5))))) (kept d0)"
      by (rule postE_bind [where R = "kept d0"]) (auto intro!: kept k4)
  qed
  show ?thesis unfolding classify_def Let_def
    by (rule postE_bind_any postE_option postE_prod tail | simp add: k)+
qed

lemma kept_control: "kept d0 d \<Longrightarrow> postE (control_op pause_lead pause_all pl d) (kept d0)"
proof -
  assume k: "kept d0 d"
  have "kept d0 (d\<lparr>tombstones := upd P (\<lambda>t. t\<lparr>tb_propagated := x\<rparr>) (tombstones d)\<rparr>)" for P x
  proof (rule kept_frame [OF k])
    fix h
    assume "tombstoned d h"
    then obtain t where t: "t \<in> set (tombstones d)" "tb_hash t = h" by (auto simp: tombstoned_def)
    from t(1) have "(if P t then t\<lparr>tb_propagated := x\<rparr> else t) \<in> set (upd P (\<lambda>t. t\<lparr>tb_propagated := x\<rparr>) (tombstones d))"
      unfolding set_upd by (rule imageI)
    moreover have "tb_hash (if P t then t\<lparr>tb_propagated := x\<rparr> else t) = h" by (simp add: t(2))
    ultimately have "\<exists>r\<in>set (upd P (\<lambda>t. t\<lparr>tb_propagated := x\<rparr>) (tombstones d)). tb_hash r = h" by (rule rev_bexI)
    then show "tombstoned (d\<lparr>tombstones := upd P (\<lambda>t. t\<lparr>tb_propagated := x\<rparr>) (tombstones d)\<rparr>) h"
      by (simp add: tombstoned_def)
  qed (simp_all add: moved_same job_keys_def)
  with k show ?thesis unfolding control_op_def Let_def by (auto intro!: postE_bind_any)
qed

section \<open>Prospecting\<close>

lemma moved_prospects:
  assumes "prospects d' = upd P f (prospects d)"
    and "\<And>p. p_id (f p) = p_id p \<and> reaches (p_state p) (p_state (f p)) \<and> p_tenant (f p) = p_tenant p \<and>
      p_entity (f p) = p_entity p \<and> p_cohort (f p) = p_cohort p \<and> p_persona (f p) = p_persona p"
  shows "moved d d'"
  unfolding moved_def
proof (intro allI impI)
  fix i p
  assume p: "prospect_of d i = Some p"
  have "fetch (\<lambda>p. p_id p = i) (upd P f (prospects d)) =
      map_option (\<lambda>r. if P r then f r else r) (fetch (\<lambda>p. p_id p = i) (prospects d))"
    by (rule fetch_upd) (simp add: assms(2))
  then have "prospect_of d' i = Some (if P p then f p else p)"
    using p by (simp add: prospect_of_def assms(1))
  then show "\<exists>p'. prospect_of d' i = Some p' \<and> reaches (p_state p) (p_state p') \<and> p_tenant p' = p_tenant p \<and>
      p_entity p' = p_entity p \<and> p_cohort p' = p_cohort p \<and> p_persona p' = p_persona p"
    using assms(2) [of p] by (simp add: reaches.refl)
qed

lemma kept_prospects:
  assumes "kept d0 d" and "\<And>p. p_id (f p) = p_id p \<and> reaches (p_state p) (p_state (f p)) \<and> p_tenant (f p) = p_tenant p \<and>
      p_entity (f p) = p_entity p \<and> p_cohort (f p) = p_cohort p \<and> p_persona (f p) = p_persona p"
  shows "kept d0 (d\<lparr>prospects := upd P f (prospects d)\<rparr>)"
  by (rule kept_frame [OF assms(1)], rule moved_prospects [where P = P and f = f])
    (simp_all add: assms(2) tombstoned_def job_keys_def)

lemma kept_set_address [kept]: "kept d0 d \<Longrightarrow> kept d0 (set_address pid a b d)"
  unfolding set_address_def by (erule kept_prospects) (simp add: reaches.refl)

lemma kept_new_prospect [kept]: "kept d0 d \<Longrightarrow> kept d0 (d\<lparr>prospects := ins p (prospects d)\<rparr>)"
  by (erule kept_frame) (auto simp: moved_def prospect_of_def fetch_ins tombstoned_def job_keys_def intro: reaches.refl
      split: option.splits)

lemma kept_store_evidence [kept]: "kept d0 d \<Longrightarrow> kept d0 (store_evidence pid facts d)"
  unfolding store_evidence_def
  by (rule fold_invariant_set) (auto simp: add_fact_def Let_def split_beta fresh_uuid_def intro!: kept_tables)

lemma kept_resolve_entity [kept]: "kept d0 d \<Longrightarrow> kept d0 (snd (resolve_entity tid cand d))"
  unfolding resolve_entity_def fresh_uuid_def Let_def by (auto intro!: kept split: list.splits)

lemma kept_persist_candidate [kept]: "kept d0 d \<Longrightarrow> kept d0 (snd (persist_candidate rt persona cohort cand d))"
proof -
  assume k: "kept d0 d"
  obtain re d1 where r: "resolve_entity (rt_tenant_id rt) cand d = (re, d1)" by fastforce
  have k1: "kept d0 d1" using kept_resolve_entity [OF k, of "rt_tenant_id rt" cand] by (simp add: r)
  have f: "kept d0 e \<Longrightarrow> kept d0 (snd (fresh_uuid e))" for e by (rule kept_fresh)
  have n: "kept d0 e \<Longrightarrow> kept d0 ((snd (fresh_uuid e))\<lparr>prospects := ins p (prospects (snd (fresh_uuid e)))\<rparr>)" for e p
    by (intro kept)
  show ?thesis
    unfolding persist_candidate_def r by (simp add: Let_def split_beta kept k1 n)
qed

lemma kept_ingest_candidate [kept]:
  "kept d0 d \<Longrightarrow> postE (ingest_candidate rt persona cohort cand d) (\<lambda>(_, d'). kept d0 d')"
  unfolding ingest_candidate_def
  by (auto simp: split_beta intro!: postE_bind_any kept_persist_candidate)

lemma kept_discover: "kept d0 d \<Longrightarrow> postE (discover env sources pl d) (kept d0)"
proof -
  assume k: "kept d0 d"
  have f: "postE (foldE (\<lambda>c d. bindE (ingest_candidate rt p ch c d) (\<lambda>(_, d'). Inr d')) cs d) (kept d0)" for rt p ch cs
    by (rule postE_foldE [where I = "kept d0", OF k], rule postE_bind, rule kept_ingest_candidate) auto
  show ?thesis unfolding discover_def
    by (rule postE_bind_any, rule postE_bind_any, rule postE_bind_any, rule postE_list, simp, rule postE_bind_any,
        rule postE_bind_any, rule postE_prod, rule postE_bind [OF f]) (simp add: kept)
qed

lemma kept_enrich: "kept d0 d \<Longrightarrow> postE (enrich ad pl d) (kept d0)"
proof -
  assume k: "kept d0 d"
  have t: "postE (bindE (transition pid Enriched ''system:enrich'' [] d2) (\<lambda>d3. Inr (enqueue_key q pl' key d3))) (kept d0)"
    if "kept d0 d2" for pid d2 q pl' key
    by (rule postE_bind, rule kept_transition [OF that]) (simp add: kept)
  show ?thesis unfolding enrich_def Let_def
    by (intro postE_bind_any postE_option postE_if t kept k) (simp_all add: k)
qed

lemma kept_qualify: "kept d0 d \<Longrightarrow> postE (qualify_handler env pl d) (kept d0)"
proof -
  assume k: "kept d0 d"
  have t: "postE (bindE (transition pid Qualified a r d) (\<lambda>d1. bindE (transition pid Queued a r' d1)
      (\<lambda>d2. Inr (enqueue_key q pl' key d2)))) (kept d0)" for pid a r r' q pl' key
    by (rule postE_bind, rule kept_transition [OF k], rule postE_bind, rule kept_transition, assumption) (simp add: kept)
  show ?thesis unfolding qualify_handler_def
    by (intro postE_bind_any postE_option postE_prod postE_if t kept k) (simp_all add: k)
qed

lemma kept_fold:
  assumes "kept d0 d" and "\<And>x e. kept d0 e \<Longrightarrow> kept d0 (f x e)"
  shows "kept d0 (fold f xs d)"
  using assms(1) by (induction xs arbitrary: d) (simp_all add: assms(2))

lemma kept_fire_jobs [kept]: "kept d0 d \<Longrightarrow> kept d0 (fire_jobs rt p c i sr em d)"
  unfolding fire_jobs_def Let_def by (intro kept_enqueue_key kept_fold)

lemma kept_fire_trigger [kept]: "kept d0 d \<Longrightarrow> kept d0 (fire_trigger rt p c i sr d)"
  unfolding fire_trigger_def Let_def by (intro kept)

lemma kept_no_show [kept]: "kept d0 d \<Longrightarrow> postE (process_no_show n pid d) (\<lambda>(_, d'). kept d0 d')"
proof -
  assume k: "kept d0 d"
  have t: "postE (case transition pid Declined a r d2 of Inl (TransitionError _) \<Rightarrow> Inr (Closed, d2)
      | Inl e \<Rightarrow> Inl e | Inr d3 \<Rightarrow> Inr (Closed, d3)) (\<lambda>(_, d'). kept d0 d')" if "kept d0 d2" for a r d2
    using kept_transition [OF that, of pid Declined a r] that by (auto split: sum.splits exc.splits)
  show ?thesis unfolding process_no_show_def Let_def
    by (rule postE_if, simp add: kept k, rule t) (intro kept k)
qed

lemma kept_no_show_event [kept]: "kept d0 d \<Longrightarrow> postE (handle_no_show_event tid sr d) (\<lambda>(_, d'). kept d0 d')"
proof -
  assume k: "kept d0 d"
  have f: "postE (foldE (\<lambda>p d. bindE (process_no_show n (p_id p) d) (\<lambda>(_, d'). Inr d')) rows d) (kept d0)" for n rows
    by (rule postE_foldE [where I = "kept d0", OF k], rule postE_bind, rule kept_no_show) auto
  show ?thesis unfolding handle_no_show_event_def Let_def
    by (intro postE_option postE_if postE_bind [OF f]) (simp_all add: k)
qed

lemma kept_trigger: "kept d0 d \<Longrightarrow> postE (trigger env pl d) (kept d0)"
proof -
  assume k: "kept d0 d"
  have f: "postE (foldE (\<lambda>(_, rt) d. bindE (handle_no_show_event (rt_tenant_id rt) sr d) (\<lambda>(_, d'). Inr d')) xs d) (kept d0)"
    for sr and xs :: runtimes
    by (rule postE_foldE [where I = "kept d0", OF k], simp only: split_beta, rule postE_bind, rule kept_no_show_event) auto
  have g: "kept d0 (fold (\<lambda>(_, rt). fold (\<lambda>(p, c). fire_trigger rt p c i sr) (m rt)) xs d)" for i sr m and xs :: runtimes
    by (rule kept_fold [OF k]) (auto intro!: kept_fold kept_fire_trigger)
  show ?thesis unfolding trigger_def
    by (intro postE_bind_any postE_option postE_if f) (simp_all add: g)
qed

lemma kept_compose: "kept d0 d \<Longrightarrow> postE (compose_handler env pl d) (kept d0)"
proof -
  assume k: "kept d0 d"
  have q: "postE (bindE (queue_draft key p c v st kd dr h n d) (\<lambda>(_, d'). Inr d')) (kept d0)" for key p c v st kd dr h n
    by (rule postE_bind, rule kept_queue_draft [OF k]) auto
  have t: "postE (bindE (create_for_step t p c st i v d) (\<lambda>(_, d'). Inr d')) (kept d0)" for t p c st i v
    by (rule postE_bind, rule kept_create_for_step [OF k]) auto
  have dr: "postE (compose_draft env rt persona cand pid step d) (kept d0)" for rt persona cand pid step
    unfolding compose_draft_def
    by (rule postE_bind_any, rule postE_prod, rule postE_bind_any, rule postE_sum, rule postE_if)
      (simp_all add: kept k q)
  have st: "postE (compose_step env rt persona cand pid step d) (kept d0)" for rt persona cand pid step
    unfolding compose_step_def
    by (rule postE_option, rule postE_if) (simp_all add: kept k t dr)
  show ?thesis unfolding compose_handler_def
    by (rule postE_bind_any, rule postE_bind_any, rule postE_bind_any, rule postE_option)
      (auto simp: kept k st split: option.splits prod.splits)
qed

lemma kept_reengage: "kept d0 d \<Longrightarrow> postE (reengage env pl d) (kept d0)"
proof -
  assume k: "kept d0 d"
  have q: "postE (bindE (queue_draft key p c v st kd dr h n d) (\<lambda>(_, d'). Inr d')) (kept d0)" for key p c v st kd dr h n
    by (rule postE_bind, rule kept_queue_draft [OF k]) auto
  have c: "postE (case x of Inl e \<Rightarrow> if composer_gave_up e then Inr (escalate t a b (g e) [] d) else Inl e
      | Inr res \<Rightarrow> bindE (queue_draft key p c None 0 kd (cr_draft res) (cr_sha res) 0 d) (\<lambda>(_, d'). Inr d')) (kept d0)"
    for x :: "exc + compose_result" and t a b g key p c kd
    by (cases x) (simp_all add: q k kept)
  show ?thesis unfolding reengage_def Let_def
    by (rule postE_bind_any, rule postE_bind_any, rule postE_option)
      (auto simp: kept k c split: option.splits prod.splits)
qed

lemma kept_claim_referral [kept]: "kept d0 d \<Longrightarrow> kept d0 (snd (claim_referral pid d))"
  by (simp add: claim_referral_def kept)

lemma kept_compose_referral:
  "kept d0 d \<Longrightarrow> postE (compose_referral env rt persona crd cand pid prompt d) (\<lambda>(_, d'). kept d0 d')"
  by (auto simp: compose_referral_def kept split: sum.splits)

lemma kept_place_ask: "kept d0 (snd x) \<Longrightarrow> postE (place_ask env rt persona spec pid x) (\<lambda>r. kept d0 (snd r))"
proof -
  assume "kept d0 (snd x)"
  then obtain c d where x: "x = (c, d)" and k: "kept d0 d" by (cases x) auto
  have q: "postE (bindE (queue_draft key p c v st kd dr h n d) (\<lambda>(i, d'). Inr (Some i, d'))) (\<lambda>r. kept d0 (snd r))"
    for key p c v st kd dr h n
    by (rule postE_bind, rule kept_queue_draft [OF k]) auto
  have t: "postE (bindE (create_for_step t p c st i v d) (\<lambda>(i, d'). Inr (Some i, d'))) (\<lambda>r. kept d0 (snd r))" for t p c st i v
    by (rule postE_bind, rule kept_create_for_step [OF k]) auto
  show ?thesis by (cases c) (simp_all add: x place_ask_def Let_def k q t)
qed

lemma kept_referral: "kept d0 d \<Longrightarrow> postE (referral env pl d) (kept d0)"
proof -
  assume k: "kept d0 d"
  have a: "postE (bindE (compose_referral env rt persona crd cand pid prompt (snd (claim_referral pid d)))
      (place_ask env rt persona spec pid)) (\<lambda>r. kept d0 (snd r))" for rt persona crd cand pid prompt spec
    by (rule postE_bind, rule kept_compose_referral, rule kept_claim_referral [OF k])
      (rule kept_place_ask, simp add: split_beta)
  have p: "postE (process_positive_event env pid d) (\<lambda>r. kept d0 (snd r))" for pid
    unfolding process_positive_event_def Let_def split_beta
    by (rule postE_bind_any, rule postE_option) (auto simp: k a kept split: option.splits prod.splits)
  show ?thesis unfolding referral_def by (rule postE_bind_any, rule postE_bind [OF p]) auto
qed

end
