(* ===== verification/Grouping.thy ===== *)
theory Grouping
  imports Safety "HOL-Library.List_Lexorder" "HOL-Library.Char_ord"
begin

text \<open>
  The aggregate queries the reports issue: \<open>GROUP BY\<close> with \<open>count(*)\<close>, its filtered counts, and the
  joins of prospects and replies with their tenant. A query without \<open>ORDER BY\<close> lists the groups in
  the order their first rows stand in the table, one of the orders the server may choose; texts
  are ordered by their bytes.
\<close>

section \<open>GROUP BY\<close>

definition group_keys :: "('r \<Rightarrow> 'k) \<Rightarrow> 'r list \<Rightarrow> 'k list" where
  "group_keys key t = rev (remdups (rev (map key t)))"

definition group_count :: "('r \<Rightarrow> 'k) \<Rightarrow> 'r list \<Rightarrow> ('k \<times> nat) list" where
  "group_count key t = map (\<lambda>k. (k, cnt (\<lambda>r. key r = k) t)) (group_keys key t)"

definition most_first :: "('k \<times> nat) list \<Rightarrow> ('k \<times> nat) list" where
  "most_first gs = sort_key (\<lambda>(k, n). - int n) gs"

text \<open>A Python dictionary as the list of its items in insertion order.\<close>

fun dict_add :: "'k \<Rightarrow> nat \<Rightarrow> ('k \<times> nat) list \<Rightarrow> ('k \<times> nat) list" where
  "dict_add k n [] = [(k, n)]"
| "dict_add k n (x # m) = (if fst x = k then (k, snd x + n) # m else x # dict_add k n m)"

section \<open>Joins\<close>

definition of_tenant :: "db \<Rightarrow> pystr \<Rightarrow> prospect_row \<Rightarrow> bool" where
  "of_tenant d tenant p \<longleftrightarrow> slug_of d (p_tenant p) = Some tenant"

definition tenant_prospects :: "db \<Rightarrow> pystr \<Rightarrow> prospect_row list" where
  "tenant_prospects d tenant = sel (of_tenant d tenant) (prospects d)"

definition reply_where :: "db \<Rightarrow> pystr \<Rightarrow> (prospect_row \<Rightarrow> bool) \<Rightarrow> reply_row \<Rightarrow> bool" where
  "reply_where d tenant P r \<longleftrightarrow>
     (case prospect_of d (r_prospect r) of None \<Rightarrow> False | Some p \<Rightarrow> of_tenant d tenant p \<and> P p)"

section \<open>Their equations\<close>

lemma set_group_keys [simp]: "set (group_keys key t) = key ` set t"
  by (simp add: group_keys_def)

lemma distinct_group_keys [simp]: "distinct (group_keys key t)"
  by (simp add: group_keys_def)

lemma map_of_group_count:
  "map_of (group_count key t) k = (if k \<in> key ` set t then Some (cnt (\<lambda>r. key r = k) t) else None)"
  by (auto simp: group_count_def map_of_map_restrict restrict_map_def)

lemma the_default_group_count [simp]: "the_default 0 (map_of (group_count key t) k) = cnt (\<lambda>r. key r = k) t"
proof (cases "k \<in> key ` set t")
  case False
  then have "cnt (\<lambda>r. key r = k) t = 0" unfolding cnt_0 by auto
  with False show ?thesis by (simp add: map_of_group_count)
qed (simp add: map_of_group_count)

lemma cnt_sum_keys:
  assumes "distinct ks" and "\<forall>r\<in>set t. P (key r) \<longrightarrow> key r \<in> set ks"
  shows "(\<Sum>k\<leftarrow>filter P ks. cnt (\<lambda>r. key r = k) t) = cnt (\<lambda>r. P (key r)) t"
  using assms(2)
proof (induction t)
  case Nil
  then show ?case by (induction ks) simp_all
next
  case (Cons r t)
  have "(\<Sum>k\<leftarrow>filter P ks. cnt (\<lambda>r. key r = k) (r # t)) =
      (\<Sum>k\<leftarrow>filter P ks. cnt (\<lambda>r. key r = k) t) + (\<Sum>k\<leftarrow>filter P ks. if key r = k then 1 else 0)"
    by (induction ks) auto
  also have "(\<Sum>k\<leftarrow>filter P ks. if key r = k then 1 else (0::nat)) = (if P (key r) then 1 else 0)"
  proof -
    have "(\<Sum>k\<leftarrow>filter P ks. if key r = k then 1 else (0::nat)) = (\<Sum>k\<in>set (filter P ks). if key r = k then 1 else 0)"
      by (rule sum_list_distinct_conv_sum_set) (simp add: assms(1))
    also have "\<dots> = (if key r \<in> set (filter P ks) then 1 else 0)" by simp
    finally show ?thesis using Cons.prems by auto
  qed
  finally show ?case using Cons by auto
qed

text \<open>Summing the groups that satisfy a test counts the rows that do.\<close>

lemma sum_group_count:
  "(\<Sum>(k, n)\<leftarrow>filter (\<lambda>(k, n). P k) (group_count key t). n) = cnt (\<lambda>r. P (key r)) t"
proof -
  have "filter (\<lambda>(k, n). P k) (group_count key t) =
      map (\<lambda>k. (k, cnt (\<lambda>r. key r = k) t)) (filter P (group_keys key t))"
    by (simp add: group_count_def filter_map comp_def)
  then show ?thesis
    using cnt_sum_keys [of "group_keys key t" t P key] by (simp add: comp_def)
qed

lemma cnt_mono: "(\<And>r. r \<in> set t \<Longrightarrow> P r \<Longrightarrow> Q r) \<Longrightarrow> cnt P t \<le> cnt Q t"
  by (induction t) auto

lemma cnt_cong: "(\<And>r. r \<in> set t \<Longrightarrow> P r = Q r) \<Longrightarrow> cnt P t = cnt Q t"
  by (induction t) auto

lemma cnt_sel [simp]: "cnt P (sel Q t) = cnt (\<lambda>r. Q r \<and> P r) t"
  by (induction t) (auto simp: sel_def)

lemma cnt_le_length: "cnt P t \<le> length t"
  by (simp add: cnt_def)

lemma cnt_split: "cnt P t = cnt (\<lambda>r. P r \<and> Q r) t + cnt (\<lambda>r. P r \<and> \<not> Q r) t"
  by (induction t) auto

end
