(* ===== verification/Metrics.thy ===== *)
theory Metrics
  imports Grouping Sendpath
begin

text \<open>
  \<open>core/metrics.py\<close>: the numbers the operator sees. Every state of a prospect has the furthest
  stage it passed, the exits say where the flow lost somebody, and the same queries feed the
  cohort tables and the page of one member.
\<close>

section \<open>Stages\<close>

definition STAGE_OF :: "prospect_state \<Rightarrow> nat" where
  "STAGE_OF s = (case s of Discovered \<Rightarrow> 1 | Unenrichable \<Rightarrow> 1 | Enriched \<Rightarrow> 2 | Disqualified \<Rightarrow> 2
     | Qualified \<Rightarrow> 3 | Queued \<Rightarrow> 3 | Contacted \<Rightarrow> 4 | Bounced \<Rightarrow> 4 | No_response \<Rightarrow> 4 | Declined \<Rightarrow> 4
     | Unsubscribed \<Rightarrow> 4 | Engaged \<Rightarrow> 5 | Converted \<Rightarrow> 6 | Forgotten \<Rightarrow> 0)"

definition STAGES :: "pystr list" where
  "STAGES = [''discovered'', ''enriched'', ''qualified'', ''contacted'', ''engaged'', ''converted'']"

definition EXIT_LABEL :: "(prospect_state \<times> pystr) list" where
  "EXIT_LABEL = [(Unenrichable, ''enrichment (no verified email)''),
     (Disqualified, fstr [''qualification (didn'', sq, ''t match persona)'']),
     (Bounced, ''delivery (bounced)''), (Unsubscribed, ''after contact (opted out)''),
     (Declined, ''after contact (not interested)''), (No_response, ''after contact (no response)'')]"

section \<open>The funnel\<close>

record funnel_report =
  fn_reached :: "(pystr \<times> nat) list"
  fn_exits :: "(pystr \<times> nat) list"
  fn_replies :: nat
  fn_positive :: nat
  fn_converted :: nat
  fn_conversation :: nat

definition fn_contacted :: "funnel_report \<Rightarrow> nat" where
  "fn_contacted f = the_default 0 (map_of (fn_reached f) ''contacted'')"

definition fn_reply_rate :: "funnel_report \<Rightarrow> rat" where
  "fn_reply_rate f = (if fn_contacted f \<noteq> 0 then of_nat (fn_replies f) / of_nat (fn_contacted f) else 0)"

definition fn_conversion_rate :: "funnel_report \<Rightarrow> rat" where
  "fn_conversion_rate f = (if fn_contacted f \<noteq> 0 then of_nat (fn_converted f) / of_nat (fn_contacted f) else 0)"

definition in_scope :: "pystr option \<Rightarrow> prospect_row \<Rightarrow> bool" where
  "in_scope cohort p \<longleftrightarrow> (case cohort of None \<Rightarrow> True | Some c \<Rightarrow> p_cohort p = c)"

definition exit_counts :: "(prospect_state \<times> nat) list \<Rightarrow> (pystr \<times> nat) list" where
  "exit_counts by_state =
     fold (\<lambda>(s, label) m. case map_of by_state s of
         None \<Rightarrow> m
       | Some n \<Rightarrow> if n = 0 then m else dict_add label n m) EXIT_LABEL []"

definition funnel :: "db \<Rightarrow> pystr \<Rightarrow> pystr option \<Rightarrow> funnel_report" where
  "funnel d tenant cohort =
     (let rows = sel (\<lambda>p. p_state p \<noteq> Forgotten \<and> in_scope cohort p) (tenant_prospects d tenant);
          by_state = group_count p_state rows;
          rs = sel (reply_where d tenant (in_scope cohort)) (replies d)
      in \<lparr>fn_reached = map (\<lambda>(i, stage). (stage, \<Sum>(s, n)\<leftarrow>filter (\<lambda>(s, n). i \<le> STAGE_OF s) by_state. n))
            (zip [1..<7] STAGES),
          fn_exits = exit_counts by_state, fn_replies = length rs,
          fn_positive = cnt (\<lambda>r. r_intent r = Some ''interested'') rs,
          fn_converted = the_default 0 (map_of by_state Converted),
          fn_conversation = the_default 0 (map_of by_state Engaged)\<rparr>)"

section \<open>Variants, members, cohorts\<close>

text \<open>\<open>ORDER BY successes DESC, trials DESC\<close>.\<close>

definition strategies :: "db \<Rightarrow> pystr \<Rightarrow> vstat_row list" where
  "strategies d tenant =
     sort_key (\<lambda>v. - v_successes v) (sort_key (\<lambda>v. - v_trials v) (sel (\<lambda>v. v_tenant v = tenant) (vstats d)))"

definition success_rate :: "vstat_row \<Rightarrow> rat" where
  "success_rate v = (if v_trials v \<noteq> 0 then of_int (v_successes v) / of_int (v_trials v) else 0)"

record member_row =
  mb_prospect :: uuid
  mb_name :: pystr
  mb_state :: prospect_state
  mb_conf :: "confidence option"
  mb_touches :: nat
  mb_replies :: nat

text \<open>Prospects stand in the table in the order they were created in.\<close>

definition members :: "db \<Rightarrow> pystr \<Rightarrow> pystr \<Rightarrow> member_row list" where
  "members d tenant cohort =
     concat (map (\<lambda>p. case entity_of d (p_entity p) of
         None \<Rightarrow> []
       | Some e \<Rightarrow> [\<lparr>mb_prospect = p_id p, mb_name = the_default ''(forgotten)'' (e_name e), mb_state = p_state p,
           mb_conf = p_conf p,
           mb_touches = cnt (\<lambda>t. t_prospect t = p_id p \<and> t_status t \<in> {Dispatched, Sent}) (touches d),
           mb_replies = cnt (\<lambda>r. r_prospect r = p_id p) (replies d)\<rparr>])
       (sel (\<lambda>p. p_cohort p = cohort) (tenant_prospects d tenant)))"

record cohort_summary =
  cs_cohort :: pystr
  cs_persona :: pystr
  cs_members :: nat
  cs_contacted :: nat
  cs_replies :: nat
  cs_converted :: nat

text \<open>The subquery for the replies joins prospects by cohort alone, of whatever tenant.\<close>

definition cohorts :: "db \<Rightarrow> pystr \<Rightarrow> cohort_summary list" where
  "cohorts d tenant =
     (let rows = sel (\<lambda>p. p_state p \<noteq> Forgotten) (tenant_prospects d tenant)
      in map (\<lambda>c. let ms = sel (\<lambda>p. p_cohort p = c) rows in
           \<lparr>cs_cohort = c, cs_persona = foldr max (map p_persona ms) [], cs_members = length ms,
            cs_contacted = cnt (\<lambda>p. p_state p \<notin>
              {Discovered, Enriched, Qualified, Queued, Disqualified, Unenrichable}) ms,
            cs_replies = cnt (\<lambda>r. \<exists>p. prospect_of d (r_prospect r) = Some p \<and> p_cohort p = c) (replies d),
            cs_converted = cnt (\<lambda>p. p_state p = Converted) ms\<rparr>)
         (sort (group_keys p_cohort rows)))"

section \<open>One member\<close>

datatype direction = Out_item | In_item

record conversation_item =
  ci_dir :: direction
  ci_when :: "int option"
  ci_subject :: "pystr option"
  ci_body :: "pystr option"
  ci_status :: "pystr option"
  ci_vid :: "pystr option"

record member_page =
  mp_prospect :: uuid
  mp_name :: pystr
  mp_state :: prospect_state
  mp_cohort :: pystr
  mp_persona :: pystr
  mp_source :: pystr
  mp_basis :: pystr
  mp_evidence :: "fact_row list"
  mp_conversation :: "conversation_item list"

text \<open>Sorted by \<open>(when is None, when)\<close>: what has no time comes last.\<close>

definition by_time :: "('a \<Rightarrow> int option) \<Rightarrow> 'a list \<Rightarrow> 'a list" where
  "by_time f xs = sort_key (\<lambda>x. the_default 0 (f x)) (filter (\<lambda>x. f x \<noteq> None) xs) @ filter (\<lambda>x. f x = None) xs"

definition touch_when :: "touch_row \<Rightarrow> int option" where
  "touch_when t = (case t_sent_at t of None \<Rightarrow> t_claimed_at t | Some s \<Rightarrow> Some s)"

definition out_item :: "touch_row \<Rightarrow> conversation_item" where
  "out_item t = \<lparr>ci_dir = Out_item, ci_when = touch_when t, ci_subject = t_subject t, ci_body = t_body t,
     ci_status = Some (status_str (t_status t)), ci_vid = t_variant t\<rparr>"

definition in_item :: "reply_row \<Rightarrow> conversation_item" where
  "in_item r = \<lparr>ci_dir = In_item, ci_when = Some (r_received r), ci_subject = None, ci_body = r_body r,
     ci_status = r_intent r, ci_vid = None\<rparr>"

definition member_detail :: "db \<Rightarrow> uuid \<Rightarrow> member_page option" where
  "member_detail d i =
     (case prospect_of d i of
        None \<Rightarrow> None
      | Some p \<Rightarrow> (case entity_of d (p_entity p) of
        None \<Rightarrow> None
      | Some e \<Rightarrow> Some
          \<lparr>mp_prospect = i, mp_name = the_default ''(forgotten)'' (e_name e), mp_state = p_state p,
           mp_cohort = p_cohort p, mp_persona = p_persona p, mp_source = p_source p, mp_basis = p_basis p,
           mp_evidence = sort_key f_observed (sel (\<lambda>f. f_prospect f = i) (evidence d)),
           mp_conversation = by_time ci_when
             (map out_item (by_time touch_when (sel (\<lambda>t. t_prospect t = i) (touches d))) @
              map in_item (sort_key r_received (sel (\<lambda>r. r_prospect r = i) (replies d))))\<rparr>))"

section \<open>The funnel adds up\<close>

definition shown :: "db \<Rightarrow> pystr \<Rightarrow> pystr option \<Rightarrow> prospect_row \<Rightarrow> bool" where
  "shown d tenant cohort p \<longleftrightarrow> of_tenant d tenant p \<and> p_state p \<noteq> Forgotten \<and> in_scope cohort p"

lemma funnel_reached:
  "fn_reached (funnel d tenant cohort) = map (\<lambda>(i, stage). (stage,
     cnt (\<lambda>p. shown d tenant cohort p \<and> i \<le> STAGE_OF (p_state p)) (prospects d))) (zip [1..<7] STAGES)"
proof -
  have "cnt (\<lambda>p. (of_tenant d tenant p \<and> p_state p \<noteq> Forgotten \<and> in_scope cohort p) \<and> i \<le> STAGE_OF (p_state p)) (prospects d)
    = cnt (\<lambda>p. shown d tenant cohort p \<and> i \<le> STAGE_OF (p_state p)) (prospects d)" for i
    by (rule cnt_cong) (simp add: shown_def)
  then show ?thesis
    by (simp add: funnel_def Let_def sum_group_count tenant_prospects_def conj_assoc)
qed

lemma stages_upto: "zip [1..<7] STAGES =
  [(1, ''discovered''), (2, ''enriched''), (3, ''qualified''), (4, ''contacted''), (5, ''engaged''), (6, ''converted'')]"
  by (simp add: STAGES_def upt_rec)

lemma funnel_contacted:
  "fn_contacted (funnel d tenant cohort) = cnt (\<lambda>p. shown d tenant cohort p \<and> 4 \<le> STAGE_OF (p_state p)) (prospects d)"
  unfolding fn_contacted_def funnel_reached stages_upto by simp

lemma funnel_counts:
  "fn_converted (funnel d tenant cohort) = cnt (\<lambda>p. shown d tenant cohort p \<and> p_state p = Converted) (prospects d)"
  "fn_conversation (funnel d tenant cohort) = cnt (\<lambda>p. shown d tenant cohort p \<and> p_state p = Engaged) (prospects d)"
  by (auto simp: funnel_def Let_def tenant_prospects_def shown_def intro!: cnt_cong)

text \<open>Nobody reaches a stage without the ones before it.\<close>

lemma funnel_decreasing: "sorted (rev (map snd (fn_reached (funnel d tenant cohort))))"
proof -
  have m: "cnt (\<lambda>p. shown d tenant cohort p \<and> Suc i \<le> STAGE_OF (p_state p)) (prospects d) \<le>
      cnt (\<lambda>p. shown d tenant cohort p \<and> i \<le> STAGE_OF (p_state p)) (prospects d)" for i
    by (rule cnt_mono) simp
  show ?thesis
    unfolding funnel_reached stages_upto
    using m [of 1] m [of 2] m [of 3] m [of 4] m [of 5] by (simp add: numeral_eq_Suc)
qed

text \<open>The exits, one label each.\<close>

definition exited :: "prospect_state list" where
  "exited = [Unenrichable, Disqualified, Bounced, Unsubscribed, Declined, No_response]"

lemma exit_labels_distinct: "distinct (map snd EXIT_LABEL)"
  by (simp add: EXIT_LABEL_def fstr_def sq_def)

lemma dict_add_sum: "(\<Sum>(k, n)\<leftarrow>dict_add k n m. n) = (\<Sum>(k, n)\<leftarrow>m. n) + n"
  by (induction m) auto

lemma exit_total:
  "(\<Sum>(k, n)\<leftarrow>fold (\<lambda>(s, label) m. case map_of by_state s of
         None \<Rightarrow> m | Some n \<Rightarrow> if n = 0 then m else dict_add label n m) ls m. n) =
   (\<Sum>(k, n)\<leftarrow>m. n) + (\<Sum>(s, label)\<leftarrow>ls. the_default 0 (map_of by_state s))"
proof (induction ls arbitrary: m)
  case (Cons x ls)
  show ?case
  proof (cases "map_of by_state (fst x)")
    case None
    with Cons show ?thesis by (cases x) simp
  next
    case (Some n)
    with Cons show ?thesis by (cases x) (simp add: dict_add_sum)
  qed
qed simp

lemma funnel_exits:
  "(\<Sum>(label, n)\<leftarrow>fn_exits (funnel d tenant cohort). n) =
     cnt (\<lambda>p. shown d tenant cohort p \<and> p_state p \<in> set exited) (prospects d)"
proof -
  let ?rows = "sel (\<lambda>p. p_state p \<noteq> Forgotten \<and> in_scope cohort p) (tenant_prospects d tenant)"
  have "(\<Sum>(label, n)\<leftarrow>fn_exits (funnel d tenant cohort). n) =
      (\<Sum>(s, label)\<leftarrow>EXIT_LABEL. the_default 0 (map_of (group_count p_state ?rows) s))"
    by (simp add: funnel_def Let_def exit_counts_def exit_total)
  also have "\<dots> = (\<Sum>s\<leftarrow>exited. cnt (\<lambda>p. p_state p = s) ?rows)"
    by (simp add: EXIT_LABEL_def exited_def)
  also have "\<dots> = cnt (\<lambda>p. p_state p \<in> set exited) ?rows"
    using cnt_sum_keys [of "group_keys p_state ?rows @ filter (\<lambda>s. s \<notin> p_state ` set ?rows) exited" ?rows
        "\<lambda>s. s \<in> set exited" p_state] cnt_sum_keys [of exited ?rows "\<lambda>s. s \<in> set exited" p_state]
    by (simp add: exited_def)
  also have "\<dots> = cnt (\<lambda>p. shown d tenant cohort p \<and> p_state p \<in> set exited) (prospects d)"
    by (auto simp: tenant_prospects_def shown_def intro!: cnt_cong)
  finally show ?thesis .
qed

text \<open>Everybody shown is in the pipeline, in conversation, converted or at an exit.\<close>

definition in_pipeline :: "prospect_state list" where
  "in_pipeline = [Discovered, Enriched, Qualified, Queued, Contacted]"

lemma funnel_conserves:
  "the_default 0 (map_of (fn_reached (funnel d tenant cohort)) ''discovered'') =
     cnt (\<lambda>p. shown d tenant cohort p \<and> p_state p \<in> set in_pipeline) (prospects d) +
     fn_conversation (funnel d tenant cohort) + fn_converted (funnel d tenant cohort) +
     (\<Sum>(label, n)\<leftarrow>fn_exits (funnel d tenant cohort). n)"
proof -
  have "the_default 0 (map_of (fn_reached (funnel d tenant cohort)) ''discovered'') =
      cnt (\<lambda>p. shown d tenant cohort p \<and> 1 \<le> STAGE_OF (p_state p)) (prospects d)"
    unfolding funnel_reached stages_upto by simp
  moreover have "cnt (\<lambda>p. shown d tenant cohort p \<and> 1 \<le> STAGE_OF (p_state p)) t =
     cnt (\<lambda>p. shown d tenant cohort p \<and> p_state p \<in> set in_pipeline) t +
     cnt (\<lambda>p. shown d tenant cohort p \<and> p_state p = Engaged) t +
     cnt (\<lambda>p. shown d tenant cohort p \<and> p_state p = Converted) t +
     cnt (\<lambda>p. shown d tenant cohort p \<and> p_state p \<in> set exited) t" for t
  proof (induction t)
    case (Cons p t)
    then show ?case
      by (cases "p_state p") (simp_all add: STAGE_OF_def in_pipeline_def exited_def shown_def)
  qed simp
  ultimately show ?thesis by (simp add: funnel_counts funnel_exits)
qed

text \<open>The cohort table and the funnel of the cohort count the same people as contacted.\<close>

lemma cohorts_contacted:
  assumes "c \<in> set (cohorts d tenant)"
  shows "cs_contacted c = fn_contacted (funnel d tenant (Some (cs_cohort c))) \<and>
    cs_converted c = fn_converted (funnel d tenant (Some (cs_cohort c)))"
proof -
  let ?rows = "sel (\<lambda>p. p_state p \<noteq> Forgotten) (tenant_prospects d tenant)"
  from assms obtain k where k: "cs_cohort c = k"
    "cs_contacted c = cnt (\<lambda>p. p_state p \<notin>
       {Discovered, Enriched, Qualified, Queued, Disqualified, Unenrichable}) (sel (\<lambda>p. p_cohort p = k) ?rows)"
    "cs_converted c = cnt (\<lambda>p. p_state p = Converted) (sel (\<lambda>p. p_cohort p = k) ?rows)"
    by (auto simp: cohorts_def Let_def simp del: cnt_sel)
  have s: "(s \<notin> {Discovered, Enriched, Qualified, Queued, Disqualified, Unenrichable} \<and> s \<noteq> Forgotten) = (4 \<le> STAGE_OF s)"
    for s by (cases s) (simp_all add: STAGE_OF_def)
  show ?thesis
    unfolding k funnel_contacted funnel_counts tenant_prospects_def cnt_sel
    by (intro conjI; rule cnt_cong) (use s in \<open>auto simp: shown_def in_scope_def\<close>)
qed

section \<open>The page of a member\<close>

lemma by_time_set [simp]: "set (by_time f xs) = set xs"
  by (auto simp: by_time_def)

lemma by_time_sorted:
  "sorted_wrt (\<lambda>x y. f y = None \<or> f x \<noteq> None \<and> the_default 0 (f x) \<le> the_default 0 (f y)) (by_time f xs)"
proof -
  have "sorted_wrt (\<lambda>x y. f y = None \<or> f x \<noteq> None \<and> the_default 0 (f x) \<le> the_default 0 (f y))
      (sort_key (\<lambda>x. the_default 0 (f x)) (filter (\<lambda>x. f x \<noteq> None) xs))"
    using sorted_sort_key [of "\<lambda>x. the_default 0 (f x)" "filter (\<lambda>x. f x \<noteq> None) xs"]
    by (auto simp: sorted_map intro: sorted_wrt_mono_rel [rotated])
  moreover have "sorted_wrt (\<lambda>x y. f y = None \<or> f x \<noteq> None \<and> the_default 0 (f x) \<le> the_default 0 (f y))
      (filter (\<lambda>x. f x = None) xs)"
    by (induction xs) auto
  ultimately show ?thesis by (auto simp: by_time_def sorted_wrt_append)
qed

end
