(* ===== verification/Research.thy ===== *)
theory Research
  imports Metrics Runtime Sentiment
begin

text \<open>
  \<open>core/research.py\<close>: notes on the campaign, its cohorts and its variants, worked out from the
  deployment's own data, with an optional narrative of a model on top, and the memo on won and lost
  threads. A note is appended to \<open>research_notes\<close>; nothing else is written.
\<close>

section \<open>Texts of numbers\<close>

text \<open>\<open>f"{x:.0%}"\<close> and \<open>f"{x:.1%}"\<close> of a rate that is not negative.\<close>

definition percent0 :: "rat \<Rightarrow> pystr" where
  "percent0 x = fstr [int_str (round_even (x * 100)), ''%'']"

definition percent1 :: "rat \<Rightarrow> pystr" where
  "percent1 x = (let n = round_even (x * 1000) in fstr [int_str (n div 10), ''.'', int_str (n mod 10), ''%''])"

text \<open>\<open>json.dumps(.., indent=2)\<close>, at a given depth.\<close>

fun json_indent :: "nat \<Rightarrow> json \<Rightarrow> pystr" where
  "json_indent k (JList xs) =
     (if xs = [] then ''[]''
      else fstr [''['', nl, join ('','' @ nl) (map (\<lambda>x. replicate (2 * Suc k) (CHR '' '') @ json_indent (Suc k) x) xs),
             nl, replicate (2 * k) (CHR '' ''), '']''])"
| "json_indent k (JObj kvs) =
     (if kvs = [] then ''{}''
      else fstr [''{'', nl, join ('','' @ nl) (map (\<lambda>(key, v). fstr [replicate (2 * Suc k) (CHR '' ''), json_string key, '': '',
               json_indent (Suc k) v]) kvs), nl, replicate (2 * k) (CHR '' ''), ''}''])"
| "json_indent k j = json_dumps j"

text \<open>Python's \<open>max(xs, key=f)\<close>: the first of the greatest.\<close>

fun first_max :: "('a \<Rightarrow> 'b::linorder) \<Rightarrow> 'a list \<Rightarrow> 'a option" where
  "first_max f [] = None"
| "first_max f (x # xs) =
     (case first_max f xs of None \<Rightarrow> Some x | Some y \<Rightarrow> if f x < f y then Some y else Some x)"

definition counts_json :: "(pystr \<times> nat) list \<Rightarrow> json" where
  "counts_json cs = JObj (map (\<lambda>(k, n). (k, JInt (int n))) cs)"

definition counts_str :: "(pystr \<times> nat) list \<Rightarrow> pystr" where
  "counts_str cs = join '', '' (map (\<lambda>(k, n). fstr [k, '' '', nat_str n]) cs)"

section \<open>Notes\<close>

definition store_note :: "pystr \<Rightarrow> pystr \<Rightarrow> pystr \<Rightarrow> pystr \<Rightarrow> payload \<Rightarrow> db \<Rightarrow> db" where
  "store_note tenant level subject summary findings d =
     d\<lparr>rnotes := ins \<lparr>nt_tenant = tenant, nt_level = level, nt_subject = subject, nt_summary = summary,
        nt_findings = findings, nt_created = epoch (now d)\<rparr> (rnotes d)\<rparr>"

definition latest_note :: "db \<Rightarrow> pystr \<Rightarrow> pystr \<Rightarrow> pystr \<Rightarrow> note_row option" where
  "latest_note d tenant level subject =
     least_by (\<lambda>n. - nt_created n)
       (sel (\<lambda>n. nt_tenant n = tenant \<and> nt_level n = level \<and> nt_subject n = subject) (rnotes d))"

section \<open>What the tables say\<close>

definition evidence_themes :: "db \<Rightarrow> pystr \<Rightarrow> pystr \<Rightarrow> (pystr \<times> nat) list" where
  "evidence_themes d tenant cohort =
     most_first (group_count f_type (sel (\<lambda>f. case prospect_of d (f_prospect f) of
         None \<Rightarrow> False | Some p \<Rightarrow> of_tenant d tenant p \<and> p_cohort p = cohort) (evidence d)))"

definition intent_name :: "reply_row \<Rightarrow> pystr" where
  "intent_name r = the_default ''unclassified'' (r_intent r)"

definition reply_intents :: "db \<Rightarrow> pystr \<Rightarrow> (prospect_row \<Rightarrow> bool) \<Rightarrow> (pystr \<times> nat) list" where
  "reply_intents d tenant P = most_first (group_count intent_name (sel (reply_where d tenant P) (replies d)))"

text \<open>\<open>if llm is not None\<close>: the narrative goes in front of the summary, unless it suspects an
  injection.\<close>

definition narrated ::
  "llm_backend option \<Rightarrow> pystr \<Rightarrow> pystr \<Rightarrow> payload \<Rightarrow> exc + pystr \<times> payload" where
  "narrated llm prompt summary findings =
     (case llm of
        None \<Rightarrow> Inr (summary, findings)
      | Some m \<Rightarrow> bindE (lm_narrate m prompt) (\<lambda>n.
          if na_injection n then Inr (summary, findings)
          else Inr (fstr [na_summary n, '' | '', summary],
                 findings @ [(''recommendations'', JList (map JStr (na_recommendations n)))])))"

section \<open>The notes\<close>

definition cohort_findings :: "db \<Rightarrow> pystr \<Rightarrow> pystr \<Rightarrow> payload" where
  "cohort_findings d tenant cohort =
     (let f = funnel d tenant (Some cohort) in
      [(''reached'', counts_json (fn_reached f)), (''exits'', counts_json (fn_exits f)),
       (''replies'', JInt (int (fn_replies f))), (''positive_replies'', JInt (int (fn_positive f))),
       (''converted'', JInt (int (fn_converted f))),
       (''evidence_themes'', counts_json (evidence_themes d tenant cohort)),
       (''reply_intents'', counts_json (reply_intents d tenant (\<lambda>p. p_cohort p = cohort)))])"

definition cohort_text :: "db \<Rightarrow> pystr \<Rightarrow> pystr \<Rightarrow> pystr" where
  "cohort_text d tenant cohort =
     (let f = funnel d tenant (Some cohort); intents = reply_intents d tenant (\<lambda>p. p_cohort p = cohort);
          themes = evidence_themes d tenant cohort; seen = fn_contacted f \<noteq> 0
      in join '' '' ([fstr [nat_str (fn_contacted f), '' contacted; '', nat_str (fn_replies f), '' replied'',
             if seen then fstr ['' ('', percent0 (fn_reply_rate f), '')''] else [],
             ''; '', nat_str (fn_converted f), '' converted'',
             if seen then fstr ['' ('', percent0 (fn_conversion_rate f), '').''] else ''.'']] @
           (case first_max snd (fn_exits f) of None \<Rightarrow> []
            | Some (label, n) \<Rightarrow> [fstr [''Biggest drop-off: '', label, '' ('', nat_str n, '').'']]) @
           (if intents = [] then [] else [fstr [''Reply intents: '', counts_str intents, ''.'']]) @
           (if themes = [] then [] else [fstr [''Evidence coverage: '', counts_str themes, ''.'']])))"

definition refresh_cohort_note ::
  "pystr \<Rightarrow> pystr \<Rightarrow> llm_backend option \<Rightarrow> db \<Rightarrow> exc + db" where
  "refresh_cohort_note tenant cohort llm d =
     (let findings = cohort_findings d tenant cohort
      in bindE (narrated llm (fstr [
             ''Interpret this cohort'', sq, ''s outreach data for the operator. Be concrete '',
             ''about what is working, what is failing, and what to try next. Do not '',
             ''invent numbers.'', nl, nl, ''Data:'', nl, json_indent 0 (JObj findings)])
             (cohort_text d tenant cohort) findings) (\<lambda>(summary, fs).
           Inr (store_note tenant ''cohort'' cohort summary fs d)))"

definition strategy_text :: "vstat_row \<Rightarrow> pystr" where
  "strategy_text s = fstr [int_str (v_trials s), '' sends, '', int_str (v_successes s), '' positive'',
     if v_trials s \<noteq> 0 then fstr ['' ('', percent0 (success_rate s), '')''] else [],
     if v_attrs s \<noteq> [] then ''; attributes: '' @ join '', '' (map (\<lambda>(k, v). fstr [k, ''='', v]) (v_attrs s)) else [],
     if v_paused s then ''; PAUSED by guardrail'' else [], ''.'']"

definition strategy_findings :: "vstat_row \<Rightarrow> payload" where
  "strategy_findings s = [(''trials'', JInt (v_trials s)), (''successes'', JInt (v_successes s)),
     (''success_rate'', JNum (success_rate s)), (''bounces'', JInt (v_bounces s)),
     (''complaints'', JInt (v_complaints s)),
     (''attributes'', JObj (map (\<lambda>(k, v). (k, JStr v)) (v_attrs s))), (''paused'', JBool (v_paused s))]"

definition refresh_strategy_notes :: "pystr \<Rightarrow> db \<Rightarrow> nat \<times> db" where
  "refresh_strategy_notes tenant d =
     (length (strategies d tenant),
      fold (\<lambda>s. store_note tenant ''strategy'' (v_id s) (strategy_text s) (strategy_findings s)) (strategies d tenant) d)"

text \<open>The row of a cohort in the market view. Whoever has left \<open>discovered\<close>, \<open>enriched\<close>, \<open>qualified\<close>
  and \<open>queued\<close> counts as reached.\<close>

definition reached_state :: "prospect_state \<Rightarrow> bool" where
  "reached_state s \<longleftrightarrow> s \<notin> {Discovered, Enriched, Qualified, Queued}"

definition market_rows :: "db \<Rightarrow> pystr \<Rightarrow> (pystr \<times> nat \<times> nat) list" where
  "market_rows d tenant =
     sort_key (\<lambda>(c, r, k). - int r)
       (map (\<lambda>c. (c, cnt (\<lambda>p. p_cohort p = c \<and> reached_state (p_state p)) (tenant_prospects d tenant),
                    cnt (\<lambda>p. p_cohort p = c \<and> p_state p = Converted) (tenant_prospects d tenant)))
         (group_keys p_cohort (tenant_prospects d tenant)))"

definition rate_of :: "nat \<Rightarrow> nat \<Rightarrow> rat" where
  "rate_of k n = (if n \<noteq> 0 then of_nat k / of_nat n else 0)"

definition campaign_findings :: "db \<Rightarrow> pystr \<Rightarrow> pystr \<Rightarrow> payload" where
  "campaign_findings d tenant directive =
     [(''cohorts'', JObj (map (\<lambda>(c, r, k). (c, JObj [(''reached'', JInt (int r)), (''converted'', JInt (int k))]))
         (market_rows d tenant))),
      (''reply_intents'', counts_json (reply_intents d tenant (\<lambda>_. True))),
      (''research_directive'', JStr directive)]"

definition campaign_text :: "db \<Rightarrow> pystr \<Rightarrow> pystr" where
  "campaign_text d tenant =
     (let rows = market_rows d tenant
      in fstr [''Market view across '', nat_str (length rows), '' cohort(s): '',
           nat_str (sum_list (map (\<lambda>(c, r, k). r) rows)), '' reached, '',
           nat_str (sum_list (map (\<lambda>(c, r, k). k) rows)), '' converted.'',
           case first_max (\<lambda>(c, r, k). rate_of k r) rows of None \<Rightarrow> []
           | Some (c, r, k) \<Rightarrow> fstr ['' Strongest cohort so far: '', c, ''.'']])"

definition refresh_campaign_note ::
  "pystr \<Rightarrow> llm_backend option \<Rightarrow> pystr \<Rightarrow> db \<Rightarrow> exc + db" where
  "refresh_campaign_note tenant llm directive d =
     (let findings = campaign_findings d tenant directive
      in bindE (narrated llm (fstr [
             ''Interpret this tenant'', sq, ''s cross-cohort outreach data as MARKET '',
             ''research, guided by the operator'', sq, ''s research directive below. What '',
             ''market dynamics do the numbers suggest? Which kinds of prospects '',
             ''respond? Do not invent numbers.'', nl, nl,
             ''Research directive: '', if directive = [] then ''(none)'' else directive, nl, nl,
             ''Data:'', nl, json_indent 0 (JObj findings)])
             (campaign_text d tenant) findings) (\<lambda>(summary, fs).
           Inr (store_note tenant ''campaign'' tenant summary fs d)))"

section \<open>Won and lost\<close>

definition threads_for :: "db \<Rightarrow> pystr \<Rightarrow> prospect_state list \<Rightarrow> pystr list" where
  "threads_for d tenant states =
     map (\<lambda>r. the_default [] (r_body r))
       (take 10 (sort_key (\<lambda>r. - r_received r)
         (sel (\<lambda>r. reply_where d tenant (\<lambda>p. p_state p \<in> set states) r \<and> r_body r \<noteq> None \<and> \<not> r_scrubbed r) (replies d))))"

definition thread_block :: "pystr list \<Rightarrow> pystr" where
  "thread_block threads =
     join (nl @ nl) (map (\<lambda>(i, t). wrapped t ''reply'' (''thread-'' @ nat_str i)) (enumerate 0 threads))"

definition winloss_memo :: "llm_backend \<Rightarrow> pystr \<Rightarrow> db \<Rightarrow> exc + bool \<times> db" where
  "winloss_memo llm tenant d =
     (let wins = threads_for d tenant [Converted]; losses = threads_for d tenant [Declined, Unsubscribed]
      in if wins = [] \<or> losses = [] then Inr (False, d)
         else bindE (lm_winloss llm (fstr [
             ''Compare the reply threads of prospects who CONVERTED against those '',
             ''who DECLINED. Write the honest '', sq, ''why we win / why we lose'', sq, '' memo an '',
             ''operator would act on. Quote sparingly; never invent themes that '',
             ''the threads don'', sq, ''t support.'', nl, nl,
             ''CONVERTED threads (untrusted):'', nl, thread_block wins, nl, nl,
             ''DECLINED threads (untrusted):'', nl, thread_block losses])) (\<lambda>out.
           if wl_injection out then Inr (False, d)
           else Inr (True, store_note tenant ''winloss'' tenant (wl_summary out)
             [(''why_we_win'', JList (map JStr (wl_win out))), (''why_we_lose'', JList (map JStr (wl_lose out))),
              (''n_win_threads'', JInt (int (length wins))), (''n_loss_threads'', JInt (int (length losses)))] d)))"

definition refresh_all :: "pystr \<Rightarrow> llm_backend option \<Rightarrow> pystr \<Rightarrow> db \<Rightarrow> exc + nat \<times> db" where
  "refresh_all tenant llm directive d =
     (let cohort_ids = group_keys p_cohort (tenant_prospects d tenant)
      in bindE (refresh_campaign_note tenant llm directive d) (\<lambda>d1.
         bindE (foldE (\<lambda>c. refresh_cohort_note tenant c llm) cohort_ids d1) (\<lambda>d2.
           case refresh_strategy_notes tenant d2 of (k, d3) \<Rightarrow>
             let n = 1 + length cohort_ids + k in
             case llm of
               None \<Rightarrow> Inr (n, d3)
             | Some m \<Rightarrow> bindE (winloss_memo m tenant d3) (\<lambda>(stored, d4).
                 Inr (if stored then n + 1 else n, d4)))))"

section \<open>Only notes are written\<close>

text \<open>\<open>noted d d' n\<close>: \<open>d'\<close> is \<open>d\<close> with \<open>n\<close> notes appended.\<close>

definition noted :: "db \<Rightarrow> db \<Rightarrow> nat \<Rightarrow> bool" where
  "noted d d' n \<longleftrightarrow> (\<exists>ns. length ns = n \<and> d' = d\<lparr>rnotes := rnotes d @ ns\<rparr>)"

lemma noted_0 [intro]: "noted d d 0"
  by (simp add: noted_def)

lemma noted_trans: "noted d d1 m \<Longrightarrow> noted d1 d2 n \<Longrightarrow> noted d d2 (m + n)"
  unfolding noted_def by (elim exE conjE, rule_tac x = "ns @ nsa" in exI) simp

lemma noted_store [intro, simp]: "noted d (store_note t l s su fs d) (Suc 0)"
  unfolding noted_def store_note_def ins_def
  by (rule exI [of _ "[\<lparr>nt_tenant = t, nt_level = l, nt_subject = s, nt_summary = su, nt_findings = fs,
    nt_created = epoch (now d)\<rparr>]"]) simp

lemma noted_campaign: "refresh_campaign_note tenant llm directive d = Inr d' \<Longrightarrow> noted d d' 1"
  by (auto simp: refresh_campaign_note_def Let_def bindE_eq_Inr)

lemma noted_cohort: "refresh_cohort_note tenant c llm d = Inr d' \<Longrightarrow> noted d d' 1"
  by (auto simp: refresh_cohort_note_def Let_def bindE_eq_Inr)

lemma noted_fold: "noted d (fold (\<lambda>s. store_note t l (i s) (su s) (fs s)) xs d) (length xs)"
proof (induction xs arbitrary: d)
  case (Cons x xs)
  from noted_trans [OF noted_store Cons.IH] show ?case by simp
qed auto

lemma noted_foldE:
  assumes "\<And>x d d'. f x d = Inr d' \<Longrightarrow> noted d d' 1" and "foldE f xs d = Inr d'"
  shows "noted d d' (length xs)"
  using assms(2)
proof (induction xs arbitrary: d)
  case (Cons x xs)
  then obtain d1 where d1: "f x d = Inr d1" "foldE f xs d1 = Inr d'" by (auto simp: bindE_eq_Inr)
  from noted_trans [OF assms(1) [OF d1(1)] Cons.IH [OF d1(2)]] show ?case by simp
qed auto

lemma noted_winloss: "winloss_memo m tenant d = Inr (stored, d') \<Longrightarrow> noted d d' (if stored then 1 else 0)"
  by (auto simp: winloss_memo_def Let_def bindE_eq_Inr split: if_splits)

lemma noted_refresh:
  assumes "refresh_all tenant llm directive d = Inr (n, d')"
  shows "noted d d' n"
proof -
  let ?cs = "group_keys p_cohort (tenant_prospects d tenant)"
  obtain d1 d2 where d1: "refresh_campaign_note tenant llm directive d = Inr d1"
    and d2: "foldE (\<lambda>c. refresh_cohort_note tenant c llm) ?cs d1 = Inr d2"
    and r: "(case refresh_strategy_notes tenant d2 of (k, d3) \<Rightarrow>
             let n = 1 + length ?cs + k in
             case llm of
               None \<Rightarrow> Inr (n, d3)
             | Some m \<Rightarrow> bindE (winloss_memo m tenant d3) (\<lambda>(stored, d4).
                 Inr (if stored then n + 1 else n, d4))) = Inr (n, d')"
    using assms by (auto simp: refresh_all_def Let_def bindE_eq_Inr)
  obtain k d3 where k: "refresh_strategy_notes tenant d2 = (k, d3)" by fastforce
  have "noted d2 d3 k" using k noted_fold by (auto simp: refresh_strategy_notes_def)
  with noted_trans [OF noted_trans [OF noted_campaign [OF d1] noted_foldE [OF noted_cohort d2]]]
  have n3: "noted d d3 (1 + length ?cs + k)" by simp
  show ?thesis
  proof (cases llm)
    case None
    with r k n3 show ?thesis by (simp add: Let_def)
  next
    case (Some m)
    with r k obtain stored where w: "winloss_memo m tenant d3 = Inr (stored, d')"
      and n: "n = (if stored then 1 + length ?cs + k + 1 else 1 + length ?cs + k)"
      by (auto simp: Let_def bindE_eq_Inr)
    from noted_trans [OF n3 noted_winloss [OF w]] n show ?thesis by (simp split: if_splits)
  qed
qed

section \<open>The market view counts more than the funnel\<close>

lemma market_row:
  assumes "(c, r, k) \<in> set (market_rows d tenant)"
  shows "r = fn_contacted (funnel d tenant (Some c)) +
    cnt (\<lambda>p. of_tenant d tenant p \<and> p_cohort p = c \<and> p_state p \<in> {Disqualified, Unenrichable, Forgotten}) (prospects d)"
    and "k = fn_converted (funnel d tenant (Some c))"
proof -
  from assms have r: "r = cnt (\<lambda>p. of_tenant d tenant p \<and> p_cohort p = c \<and> reached_state (p_state p)) (prospects d)"
    and k: "k = cnt (\<lambda>p. of_tenant d tenant p \<and> p_cohort p = c \<and> p_state p = Converted) (prospects d)"
    by (auto simp: market_rows_def tenant_prospects_def)
  have "cnt (\<lambda>p. of_tenant d tenant p \<and> p_cohort p = c \<and> reached_state (p_state p)) t =
    cnt (\<lambda>p. shown d tenant (Some c) p \<and> 4 \<le> STAGE_OF (p_state p)) t +
    cnt (\<lambda>p. of_tenant d tenant p \<and> p_cohort p = c \<and> p_state p \<in> {Disqualified, Unenrichable, Forgotten}) t" for t
  proof (induction t)
    case (Cons p t)
    then show ?case by (cases "p_state p") (simp_all add: shown_def in_scope_def reached_state_def STAGE_OF_def)
  qed simp
  with r show "r = fn_contacted (funnel d tenant (Some c)) +
    cnt (\<lambda>p. of_tenant d tenant p \<and> p_cohort p = c \<and> p_state p \<in> {Disqualified, Unenrichable, Forgotten}) (prospects d)"
    by (simp add: funnel_contacted)
  from k show "k = fn_converted (funnel d tenant (Some c))"
    by (auto simp: funnel_counts shown_def in_scope_def intro!: cnt_cong)
qed

end
