(* ===== verification/Discovery.thy ===== *)
theory Discovery
  imports Research Programs
begin

text \<open>
  \<open>agents/discovery.py\<close>: outcome mining. The agent compares the cohorts of a tenant, files
  proposals to shift or pause budget, asks a model for new directions, and has the program revised
  when outcomes drift from its assumptions. It writes proposals and nothing else. Rates are exact
  where the code rounds to doubles; the square root of the Wilson bound is rounded down at sixty
  binary places.
\<close>

section \<open>Outcomes\<close>

definition MIN_SIGNAL :: nat where "MIN_SIGNAL = 20"

definition SHIFT_RATIO :: rat where "SHIFT_RATIO = 2"

definition SHIFT_FRACTION :: rat where "SHIFT_FRACTION = 1 / 4"

record cohort_outcome =
  oc_cohort :: pystr
  oc_contacted :: nat
  oc_engaged :: nat
  oc_converted :: nat

definition conversion_rate :: "cohort_outcome \<Rightarrow> rat" where
  "conversion_rate out = rate_of (oc_converted out) (oc_contacted out)"

definition contacted_states :: "prospect_state list" where
  "contacted_states = [Contacted, Engaged, Converted, Declined, Unsubscribed, Bounced, No_response]"

definition cohort_outcomes :: "db \<Rightarrow> pystr \<Rightarrow> cohort_outcome list" where
  "cohort_outcomes d tenant =
     (let rows = tenant_prospects d tenant
      in map (\<lambda>c. \<lparr>oc_cohort = c,
             oc_contacted = cnt (\<lambda>p. p_cohort p = c \<and> p_state p \<in> set contacted_states) rows,
             oc_engaged = cnt (\<lambda>p. p_cohort p = c \<and> p_state p \<in> {Engaged, Converted}) rows,
             oc_converted = cnt (\<lambda>p. p_cohort p = c \<and> p_state p = Converted) rows\<rparr>)
           (group_keys p_cohort rows))"

text \<open>\<open>_cohort_cap\<close>: this month's cap, nought when there is no counter.\<close>

definition month_cap :: "db \<Rightarrow> pystr \<Rightarrow> int" where
  "month_cap d cohort = (case fetch (cohort_cap cohort d) (counters d) of None \<Rightarrow> 0 | Some c \<Rightarrow> c_cap c)"

text \<open>Python's \<open>min(xs, key=f)\<close> is the first of the least; \<open>int(x)\<close> truncates.\<close>

definition first_min :: "('a \<Rightarrow> rat) \<Rightarrow> 'a list \<Rightarrow> 'a option" where
  "first_min f xs = first_max (\<lambda>x. - f x) xs"

definition trunc :: "rat \<Rightarrow> int" where
  "trunc x = (if x < 0 then - \<lfloor>- x\<rfloor> else \<lfloor>x\<rfloor>)"

section \<open>analyze\<close>

definition shift_wanted :: "cohort_outcome \<Rightarrow> cohort_outcome \<Rightarrow> bool" where
  "shift_wanted best worst \<longleftrightarrow>
     conversion_rate worst = 0 \<or> conversion_rate best \<ge> SHIFT_RATIO * conversion_rate worst"

definition propose_shift :: "pystr \<Rightarrow> cohort_outcome \<Rightarrow> cohort_outcome \<Rightarrow> db \<Rightarrow> uuid option \<times> db" where
  "propose_shift tenant best worst d =
     (let amount = max (trunc (of_int (month_cap d (oc_cohort worst)) * SHIFT_FRACTION)) 1
      in propose tenant ''budget_shift''
           (fstr [''Shift '', int_str amount, ''/mo from '', oc_cohort worst, '' ('', percent1 (conversion_rate worst),
              '' conv) to '', oc_cohort best, '' ('', percent1 (conversion_rate best), '' conv)''])
           [(''from_cohort'', JStr (oc_cohort worst)), (''to_cohort'', JStr (oc_cohort best)), (''amount'', JInt amount)]
           [(''best'', JObj [(''cohort'', JStr (oc_cohort best)), (''contacted'', JInt (int (oc_contacted best))),
               (''converted'', JInt (int (oc_converted best)))]),
            (''worst'', JObj [(''cohort'', JStr (oc_cohort worst)), (''contacted'', JInt (int (oc_contacted worst))),
               (''converted'', JInt (int (oc_converted worst)))])]
           (Some (fstr [''budget_shift:'', oc_cohort worst, '':'', oc_cohort best])) d)"

definition propose_opportunity :: "pystr \<Rightarrow> cohort_outcome \<Rightarrow> db \<Rightarrow> uuid option \<times> db" where
  "propose_opportunity tenant out d =
     propose tenant ''opportunity''
       (fstr [oc_cohort out, '': '', nat_str (oc_contacted out), '' contacted, 0 conversions '',
          [CHR 0xE2, CHR 0x80, CHR 0x94], '' revisit targeting, value prop, or pause''])
       [(''cohort'', JStr (oc_cohort out))]
       [(''contacted'', JInt (int (oc_contacted out))), (''engaged'', JInt (int (oc_engaged out)))]
       (Some (fstr [''zero_conv:'', oc_cohort out])) d"

text \<open>A list of proposals filed one after the other; \<open>recorded\<close> holds the ids that were new.\<close>

fun file_all :: "(db \<Rightarrow> uuid option \<times> db) list \<Rightarrow> db \<Rightarrow> uuid list \<times> db" where
  "file_all [] d = ([], d)"
| "file_all (f # fs) d =
     (case f d of (i, d1) \<Rightarrow> case file_all fs d1 of (is, d2) \<Rightarrow>
        ((case i of Some x \<Rightarrow> if x = [] then is else x # is | None \<Rightarrow> is), d2))"

definition analyze :: "pystr \<Rightarrow> db \<Rightarrow> uuid list \<times> db" where
  "analyze tenant d =
     (let outcomes = filter (\<lambda>out. MIN_SIGNAL \<le> oc_contacted out) (cohort_outcomes d tenant)
      in if length outcomes < 2 then ([], d)
         else case (first_max conversion_rate outcomes, first_min conversion_rate outcomes) of
           (Some best, Some worst) \<Rightarrow>
             if oc_cohort best = oc_cohort worst then ([], d)
             else file_all
               ((if shift_wanted best worst then [propose_shift tenant best worst] else []) @
                map (propose_opportunity tenant)
                  (filter (\<lambda>out. oc_converted out = 0 \<and> 2 * MIN_SIGNAL \<le> oc_contacted out) outcomes)) d
         | _ \<Rightarrow> ([], d))"

section \<open>Brainstorming\<close>

definition BRAINSTORM_FRAME :: "nat \<Rightarrow> pystr \<Rightarrow> pystr \<Rightarrow> pystr \<Rightarrow> pystr \<Rightarrow> pystr \<Rightarrow> pystr" where
  "BRAINSTORM_FRAME max_ideas directive convert about outcomes intents = fstr [
    ''You work the `brainstorm` directive of an outreach Brief:'', nl,
    ''propose NEW OBJECTIVES worth pursuing '', [CHR 0xE2, CHR 0x80, CHR 0x94],
    '' value-prop angles to test, adjacent'', nl,
    ''audiences, seasonal pushes, partnership/channel ideas. A human reviews every'', nl,
    ''idea; nothing you output launches anything.'', nl, nl, ''Rules:'', nl,
    ''- Ground every idea in the outcome data below; cite it in `rationale`.'', nl,
    ''- Never invent product facts: the only product truths are in about_us below.'', nl,
    ''- `program_delta` must be a concrete, config-shaped next step (a cohort to'', nl,
    ''  add, a variant attribute to test, a budget to shift toward a season).'', nl,
    ''- At most '', nat_str max_ideas, '' ideas; fewer, better-grounded ideas beat filler.'', nl, nl,
    ''Brainstorm directive: '', directive, nl, ''Conversion goal: '', convert, nl, ''about_us: '', about, nl, nl,
    ''Cohort outcomes (contacted/engaged/converted):'', nl, outcomes, nl, nl,
    ''Reply-intent mix (what the market is saying back):'', nl, intents, nl]"

definition intent_mix :: "db \<Rightarrow> pystr \<Rightarrow> pystr" where
  "intent_mix d tenant =
     (let rows = most_first (group_count (\<lambda>r. the_default [] (r_intent r))
            (sel (\<lambda>r. reply_where d tenant (\<lambda>_. True) r \<and> r_intent r \<noteq> None) (replies d)))
      in if rows = [] then ''- (no replies yet)''
         else join nl (map (\<lambda>(intent, n). fstr [''- '', intent, '': '', nat_str n]) rows))"

definition outcome_lines :: "cohort_outcome list \<Rightarrow> pystr" where
  "outcome_lines outs =
     (if outs = [] then ''- (no outcome data yet)''
      else join nl (map (\<lambda>out. fstr [''- '', oc_cohort out, '': '', nat_str (oc_contacted out), '' contacted, '',
        nat_str (oc_engaged out), '' engaged, '', nat_str (oc_converted out), '' converted ('',
        percent1 (conversion_rate out), '')'']) outs))"

definition IDEA_KINDS :: "pystr list" where
  "IDEA_KINDS = [''value_prop_angle'', ''adjacent_audience'', ''seasonal_push'', ''partnership'']"

definition check_idea :: "brainstorm_idea \<Rightarrow> exc + unit" where
  "check_idea i = all_of
     [need (bi_kind i \<in> set IDEA_KINDS) ''kind'', need (slug (bi_slug i)) ''slug'',
      need (10 \<le> length (bi_summary i) \<and> length (bi_summary i) \<le> 300) ''summary'',
      need (10 \<le> length (bi_rationale i)) ''rationale'', need (10 \<le> length (bi_delta i)) ''program_delta'']"

definition propose_idea :: "pystr \<Rightarrow> brainstorm_idea \<Rightarrow> db \<Rightarrow> uuid option \<times> db" where
  "propose_idea tenant i d =
     propose tenant ''goal_brainstorm'' (fstr [''['', bi_kind i, ''] '', bi_summary i])
       [(''kind'', JStr (bi_kind i)), (''program_delta'', JStr (bi_delta i))]
       [(''rationale'', JStr (bi_rationale i))] (Some (fstr [''brainstorm:'', bi_slug i])) d"

definition brainstorm :: "llm_backend \<Rightarrow> tenant_config \<Rightarrow> nat \<Rightarrow> db \<Rightarrow> exc + uuid list \<times> db" where
  "brainstorm llm cfg max_ideas d =
     (case gl_brainstorm (bf_goals (tc_brief cfg)) of
        None \<Rightarrow> Inr ([], d)
      | Some directive \<Rightarrow>
          if directive = [] then Inr ([], d)
          else bindE (lm_brainstorm llm (BRAINSTORM_FRAME max_ideas directive (gl_convert (bf_goals (tc_brief cfg)))
                 (strip (ab_what (bf_about (tc_brief cfg)))) (outcome_lines (cohort_outcomes d (tc_tenant cfg)))
                 (intent_mix d (tc_tenant cfg)))) (\<lambda>ideas.
               bindE (all_of (map check_idea ideas)) (\<lambda>_.
                 Inr (file_all (map (propose_idea (tc_tenant cfg)) (take max_ideas ideas)) d))))"

section \<open>The Wilson bound\<close>

text \<open>\<open>math.sqrt\<close>, rounded down at sixty binary places: the integer square root by digits in base
  four.\<close>

fun isqrt :: "nat \<Rightarrow> nat" where
  "isqrt n = (if n = 0 then 0 else let r = 2 * isqrt (n div 4) in if (r + 1) * (r + 1) \<le> n then r + 1 else r)"

declare isqrt.simps [simp del]

definition sqrt_down :: "rat \<Rightarrow> rat" where
  "sqrt_down x = of_nat (isqrt (nat \<lfloor>x * 4 ^ 60\<rfloor>)) / 2 ^ 60"

definition WILSON_Z :: rat where "WILSON_Z = 12816 / 10000"

text \<open>\<open>math.sqrt\<close> raises on a negative number, which is what a rate above one gives.\<close>

definition wilson_upper :: "nat \<Rightarrow> nat \<Rightarrow> exc + rat" where
  "wilson_upper successes trials =
     (if trials = 0 then Inr 1
      else
        let n = of_nat trials; p = of_nat successes / n; z = WILSON_Z;
            denom = 1 + z * z / n; centre = p + z * z / (2 * n);
            radicand = p * (1 - p) / n + z * z / (4 * n * n)
        in if radicand < 0 then Inl (ValueError ''math domain error'')
           else Inr (min 1 ((centre + z * sqrt_down radicand) / denom)))"

section \<open>rebalance_scan\<close>

definition reply_counts :: "db \<Rightarrow> pystr \<Rightarrow> (pystr \<times> nat) list" where
  "reply_counts d tenant =
     group_count (\<lambda>r. case prospect_of d (r_prospect r) of None \<Rightarrow> [] | Some p \<Rightarrow> p_cohort p)
       (sel (reply_where d tenant (\<lambda>_. True)) (replies d))"

definition floor_breach :: "pystr \<Rightarrow> rat option \<Rightarrow> nat \<Rightarrow> nat \<Rightarrow> exc + pystr list" where
  "floor_breach what limit k n =
     (case limit of
        None \<Rightarrow> Inr []
      | Some fl \<Rightarrow> bindE (wilson_upper k n) (\<lambda>upper. Inr
          (if upper < fl
           then [fstr [what, '' upper bound '', percent1 upper, '' < floor '', percent1 fl, '' ('', nat_str k, ''/'', nat_str n, '')'']]
           else [])))"

definition breaches_of :: "floor_spec \<Rightarrow> cohort_outcome \<Rightarrow> nat \<Rightarrow> exc + pystr list" where
  "breaches_of fl out n_replies =
     bindE (floor_breach ''conversion'' (fl_conversion fl) (oc_converted out) (oc_contacted out)) (\<lambda>cs.
     bindE (floor_breach ''reply'' (fl_reply fl) n_replies (oc_contacted out)) (\<lambda>rs. Inr (cs @ rs)))"

definition shift_target :: "cohort_outcome option \<Rightarrow> cohort_outcome \<Rightarrow> pystr \<Rightarrow> pystr option" where
  "shift_target best out cohort =
     (case best of
        None \<Rightarrow> None
      | Some b \<Rightarrow> if oc_cohort b \<noteq> cohort \<and> conversion_rate b > conversion_rate out then Some (oc_cohort b) else None)"

definition propose_rebalance ::
  "pystr \<Rightarrow> cohort_outcome option \<Rightarrow> pystr \<Rightarrow> cohort_outcome \<Rightarrow> pystr list \<Rightarrow> db \<Rightarrow> uuid option \<times> db" where
  "propose_rebalance tenant best cohort out breaches d =
     propose tenant ''rebalance'' (fstr [''Rebalance '', cohort, '': '', join ''; '' breaches])
       (case shift_target best out cohort of
          Some t \<Rightarrow> if t = [] then [(''action'', JStr ''pause''), (''cohort'', JStr cohort)]
            else [(''action'', JStr ''shift''), (''from_cohort'', JStr cohort), (''to_cohort'', JStr t),
                  (''amount'', JInt (max (month_cap d cohort div 2) 1))]
        | None \<Rightarrow> [(''action'', JStr ''pause''), (''cohort'', JStr cohort)])
       [(''breaches'', JList (map JStr breaches)), (''contacted'', JInt (int (oc_contacted out))),
        (''converted'', JInt (int (oc_converted out)))]
       (Some (fstr [''rebalance:'', cohort])) d"

text \<open>What one cohort gives to file.\<close>

definition scan_cohort ::
  "pystr \<Rightarrow> cohort_outcome list \<Rightarrow> (pystr \<times> nat) list \<Rightarrow> cohort_spec \<Rightarrow> exc + (db \<Rightarrow> uuid option \<times> db) list" where
  "scan_cohort tenant outs rs c =
     (case (ch_floors c, List.find (\<lambda>out. oc_cohort out = ch_id c) outs) of
        (Some fl, Some out) \<Rightarrow>
          if int (oc_contacted out) < fl_min_trials fl then Inr []
          else bindE (breaches_of fl out (the_default 0 (map_of rs (ch_id c)))) (\<lambda>bs. Inr
            (if bs = [] then [] else [propose_rebalance tenant (first_max conversion_rate outs) (ch_id c) out bs]))
      | _ \<Rightarrow> Inr [])"

fun collectE :: "('a \<Rightarrow> 'e + 'b list) \<Rightarrow> 'a list \<Rightarrow> 'e + 'b list" where
  "collectE f [] = Inr []"
| "collectE f (x # xs) = bindE (f x) (\<lambda>ys. bindE (collectE f xs) (\<lambda>zs. Inr (ys @ zs)))"

text \<open>The proposals of the cohorts one after the other; an exception takes back all of them.\<close>

definition rebalance_scan :: "tenant_config \<Rightarrow> db \<Rightarrow> exc + uuid list \<times> db" where
  "rebalance_scan cfg d =
     bindE (collectE (scan_cohort (tc_tenant cfg) (cohort_outcomes d (tc_tenant cfg)) (reply_counts d (tc_tenant cfg)))
              (concat (map ps_cohorts (tc_personas cfg)))) (\<lambda>fs. Inr (file_all fs d))"

section \<open>Drift\<close>

definition MIN_REPLIES_FOR_DRIFT :: nat where "MIN_REPLIES_FOR_DRIFT = 20"

definition NEGATIVE_SHARE_THRESHOLD :: rat where "NEGATIVE_SHARE_THRESHOLD = 1 / 2"

definition NEGATIVE_INTENTS :: "pystr list" where
  "NEGATIVE_INTENTS = [''not_interested'', ''unsubscribe'', ''hostile'']"

definition detect_drift :: "db \<Rightarrow> pystr \<Rightarrow> pystr list" where
  "detect_drift d tenant =
     (let classified = sel (\<lambda>r. reply_where d tenant (\<lambda>_. True) r \<and> r_intent r \<noteq> None) (replies d);
          total = length classified;
          negative = cnt (\<lambda>r. the_default [] (r_intent r) \<in> set NEGATIVE_INTENTS) classified;
          share = rate_of negative total
      in map (\<lambda>out. fstr [''cohort '', oc_cohort out, '': '', nat_str (oc_contacted out), '' contacted, 0 conversions''])
           (filter (\<lambda>out. 2 * MIN_SIGNAL \<le> oc_contacted out \<and> oc_converted out = 0) (cohort_outcomes d tenant)) @
         (if MIN_REPLIES_FOR_DRIFT \<le> total \<and> NEGATIVE_SHARE_THRESHOLD \<le> share
          then [fstr [''negative reply share '', percent0 share, '' ('', nat_str negative, ''/'', nat_str total, '') '',
                 [CHR 0xE2, CHR 0x80, CHR 0x94], '' replies contradict the program'', sq, ''s value props'']]
          else []))"

definition propose_revision ::
  "codec \<Rightarrow> pystr \<Rightarrow> pystr list \<Rightarrow> tenant_config \<Rightarrow> generated_by \<Rightarrow> db \<Rightarrow> uuid option \<times> db" where
  "propose_revision cx tenant signals revised g d =
     propose tenant ''program_revision''
       (fstr [''Program revision addressing drift: '', take 200 (join ''; '' signals)])
       [(''personas'', cx_personas_json cx (tc_personas revised)), (''generated_by'', generated_json g)]
       [(''signals'', JList (map JStr signals))]
       (Some (fstr [''program_revision:'', gb_hash g])) d"

definition resynthesize_on_drift :: "codec \<Rightarrow> llm_backend \<Rightarrow> tenant_config \<Rightarrow> db \<Rightarrow> exc + uuid option \<times> db" where
  "resynthesize_on_drift cx llm cfg d =
     (let signals = detect_drift d (tc_tenant cfg)
      in if signals = [] then Inr (None, d)
         else bindE (revise cx llm cfg (join nl (map (\<lambda>s. ''- '' @ s) signals))
                (map_option nt_summary (latest_note d (tc_tenant cfg) ''campaign'' (tc_tenant cfg)))) (\<lambda>revised.
              case tc_generated revised of
                None \<Rightarrow> Inl (OtherError ''AssertionError'')
              | Some g \<Rightarrow> Inr (propose_revision cx (tc_tenant cfg) signals revised g d)))"

section \<open>Square roots\<close>

lemma isqrt_bounds: "isqrt n * isqrt n \<le> n \<and> n < (isqrt n + 1) * (isqrt n + 1)"
proof (induction n rule: isqrt.induct)
  case (1 n)
  show ?case
  proof (cases "n = 0")
    case True
    then show ?thesis by (simp add: isqrt.simps)
  next
    case False
    define r where "r = isqrt (n div 4)"
    from 1 False have r: "r * r \<le> n div 4" "n div 4 < (r + 1) * (r + 1)" by (simp_all add: r_def)
    have lo: "(2 * r) * (2 * r) \<le> n"
    proof -
      have "(2 * r) * (2 * r) = 4 * (r * r)" by simp
      also have "\<dots> \<le> 4 * (n div 4)" using r(1) by (rule mult_le_mono2)
      finally show ?thesis by simp
    qed
    have hi: "n < (2 * r + 2) * (2 * r + 2)"
    proof -
      have "n < 4 * (n div 4 + 1)" by simp
      also have "\<dots> \<le> 4 * ((r + 1) * (r + 1))" using r(2) by simp
      also have "\<dots> = (2 * r + 2) * (2 * r + 2)" by simp
      finally show ?thesis .
    qed
    from False have "isqrt n = (if (2 * r + 1) * (2 * r + 1) \<le> n then 2 * r + 1 else 2 * r)"
      by (simp add: isqrt.simps [of n] r_def Let_def)
    with lo hi show ?thesis by (auto simp: add.commute)
  qed
qed

lemma sqrt_down_bounds:
  assumes "0 \<le> x"
  shows "of_rat (sqrt_down x) \<le> sqrt (of_rat x)" and "sqrt (of_rat x) < of_rat (sqrt_down x) + 1 / 2 ^ 60"
proof -
  define n where "n = nat \<lfloor>x * 4 ^ 60\<rfloor>"
  define y :: real where "y = of_rat x * 4 ^ 60"
  have x: "(0::real) \<le> of_rat x" using assms by simp
  have fl: "\<lfloor>x * 4 ^ 60\<rfloor> = \<lfloor>y\<rfloor>"
  proof -
    have "y = of_rat (x * 4 ^ 60)" by (simp add: y_def of_rat_mult of_rat_power)
    then show ?thesis by simp
  qed
  have n: "of_nat n \<le> y" "y < of_nat n + 1"
  proof -
    have "0 \<le> y" using x by (simp add: y_def)
    then have "real n = of_int \<lfloor>y\<rfloor>" unfolding n_def fl by simp
    then show "of_nat n \<le> y" "y < of_nat n + 1" by linarith+
  qed
  let ?r = "isqrt n"
  have rr: "real ?r * real ?r \<le> n" "real n + 1 \<le> (real ?r + 1) * (real ?r + 1)"
  proof -
    show "real ?r * real ?r \<le> n" using isqrt_bounds [of n] by (metis of_nat_le_iff of_nat_mult)
    have "n + 1 \<le> (?r + 1) * (?r + 1)" using isqrt_bounds [of n] by simp
    then have "real (n + 1) \<le> real ((?r + 1) * (?r + 1))" by (rule of_nat_mono)
    then show "real n + 1 \<le> (real ?r + 1) * (real ?r + 1)" by (simp add: algebra_simps)
  qed
  have sq: "sqrt y = sqrt (of_rat x) * 2 ^ 60"
  proof -
    have "y = of_rat x * (2 ^ 60) ^ 2" by (simp add: y_def)
    then show ?thesis by (simp add: real_sqrt_mult)
  qed
  have d: "of_rat (sqrt_down x) = real ?r / 2 ^ 60"
    by (simp add: sqrt_down_def n_def of_rat_divide of_rat_power)
  have "real ?r \<le> sqrt y" using rr(1) n(1) by (intro real_le_rsqrt) (simp add: power2_eq_square)
  then show "of_rat (sqrt_down x) \<le> sqrt (of_rat x)" unfolding d sq by (simp add: field_simps)
  have "sqrt y < real ?r + 1" using rr(2) n(2) by (intro real_less_lsqrt) (auto simp: power2_eq_square y_def x)
  then show "sqrt (of_rat x) < of_rat (sqrt_down x) + 1 / 2 ^ 60" unfolding d sq by (simp add: field_simps)
qed

section \<open>The bound is the Wilson bound\<close>

definition wilson_real :: "nat \<Rightarrow> nat \<Rightarrow> real" where
  "wilson_real k n =
     (let z = of_rat WILSON_Z; p = real k / real n
      in (p + z * z / (2 * n) + z * sqrt (p * (1 - p) / n + z * z / (4 * n * n))) / (1 + z * z / n))"

lemma WILSON_Z_range: "0 < WILSON_Z" "WILSON_Z < 2"
  by (simp_all add: WILSON_Z_def)

text \<open>With \<open>z\<close> and \<open>p\<close> fixed: the bound is between the rate and one.\<close>

lemma wilson_between:
  fixes z p n :: real
  assumes z: "0 < z" and p: "0 \<le> p" "p \<le> 1" and n: "0 < n"
  defines "s \<equiv> sqrt (p * (1 - p) / n + z * z / (4 * n * n))"
  shows "p \<le> (p + z * z / (2 * n) + z * s) / (1 + z * z / n)"
    and "(p + z * z / (2 * n) + z * s) / (1 + z * z / n) \<le> 1"
proof -
  have dpos: "0 < 1 + z * z / n" using z n by (simp add: add_pos_pos)
  have rad: "(z / (2 * n))\<^sup>2 \<le> p * (1 - p) / n + z * z / (4 * n * n)"
    using p n mult_left_mono [OF p(2) p(1)] by (simp add: power2_eq_square field_simps)
  have s: "z / (2 * n) \<le> s" unfolding s_def by (rule real_le_rsqrt [OF rad])
  have "z * (z / (2 * n)) \<le> z * s" using s z by (intro mult_left_mono) auto
  then have zs: "z * z / (2 * n) \<le> z * s" by simp
  have "p * (z * z / n) \<le> 1 * (z * z / n)" using p z n by (intro mult_right_mono) auto
  also have "1 * (z * z / n) = z * z / (2 * n) + z * z / (2 * n)" by simp
  finally have "p * (1 + z * z / n) \<le> p + z * z / (2 * n) + z * s" using zs by (simp add: algebra_simps)
  with dpos show "p \<le> (p + z * z / (2 * n) + z * s) / (1 + z * z / n)" by (simp add: pos_le_divide_eq)
  let ?r = "(1 - p) + z * z / (2 * n)"
  have r0: "0 \<le> ?r" using p z n by simp
  have "z * z * (p * (1 - p) / n + z * z / (4 * n * n)) \<le> ?r\<^sup>2"
  proof -
    have "?r\<^sup>2 - z * z * (p * (1 - p) / n + z * z / (4 * n * n)) = (1 - p)\<^sup>2 * (1 + z * z / n)"
      using n by (simp add: power2_eq_square field_simps)
    moreover have "0 \<le> (1 - p)\<^sup>2 * (1 + z * z / n)" using dpos by simp
    ultimately show ?thesis by linarith
  qed
  moreover have "z * s = sqrt (z * z * (p * (1 - p) / n + z * z / (4 * n * n)))"
    unfolding s_def using z by (simp add: real_sqrt_mult)
  ultimately have "z * s \<le> ?r" using r0 by (simp add: real_le_lsqrt)
  then have "p + z * z / (2 * n) + z * s \<le> 1 * (1 + z * z / n)" by simp
  with dpos show "(p + z * z / (2 * n) + z * s) / (1 + z * z / n) \<le> 1" by (simp add: pos_divide_le_eq)
qed

lemma wilson_exact:
  assumes "0 < n" and "k \<le> n"
  shows "real k / real n \<le> wilson_real k n" and "wilson_real k n \<le> 1"
    and "\<exists>u. wilson_upper k n = Inr u \<and> of_rat u \<le> wilson_real k n \<and> wilson_real k n < of_rat u + 2 / 2 ^ 60"
proof -
  let ?z = "of_rat WILSON_Z :: real" and ?p = "real k / real n"
  define x :: rat where "x = of_nat k / of_nat n * (1 - of_nat k / of_nat n) / of_nat n +
    WILSON_Z * WILSON_Z / (4 * of_nat n * of_nat n)"
  have z: "0 < ?z" "?z < 2"
  proof -
    show "0 < ?z" using WILSON_Z_range by simp
    have "?z < of_rat 2" using WILSON_Z_range by (simp only: of_rat_less)
    then show "?z < 2" by simp
  qed
  have p: "0 \<le> ?p" "?p \<le> 1" using assms by simp_all
  from wilson_between [OF z(1) p, of "real n"] assms
  show le: "?p \<le> wilson_real k n" and le1: "wilson_real k n \<le> 1" by (simp_all add: wilson_real_def Let_def)
  have x0: "0 \<le> x"
  proof -
    have "(of_nat k :: rat) / of_nat n \<le> 1" using assms by (simp add: divide_le_eq)
    then show ?thesis using WILSON_Z_range unfolding x_def by (intro add_nonneg_nonneg divide_nonneg_nonneg mult_nonneg_nonneg) auto
  qed
  have xr: "of_rat x = ?p * (1 - ?p) / n + ?z * ?z / (4 * n * n)"
    by (simp add: x_def of_rat_add of_rat_mult of_rat_divide of_rat_diff)
  let ?den = "1 + ?z * ?z / n" and ?a = "?p + ?z * ?z / (2 * n)"
  define u :: rat where "u = (of_nat k / of_nat n + WILSON_Z * WILSON_Z / (2 * of_nat n) + WILSON_Z * sqrt_down x) /
    (1 + WILSON_Z * WILSON_Z / of_nat n)"
  have ur: "of_rat u = (?a + ?z * of_rat (sqrt_down x)) / ?den"
    by (simp add: u_def of_rat_add of_rat_mult of_rat_divide)
  have w: "wilson_real k n = (?a + ?z * sqrt (of_rat x)) / ?den"
    by (simp add: wilson_real_def Let_def xr)
  have den: "1 \<le> ?den" using z by simp
  then have den0: "0 < ?den" by linarith
  have lo: "of_rat u \<le> wilson_real k n"
  proof -
    have "?z * of_rat (sqrt_down x) \<le> ?z * sqrt (of_rat x)"
      using sqrt_down_bounds(1) [OF x0] z by (intro mult_left_mono) auto
    with den show ?thesis unfolding ur w by (intro divide_right_mono) auto
  qed
  have hi: "wilson_real k n < of_rat u + 2 / 2 ^ 60"
  proof -
    have gap: "0 \<le> sqrt (of_rat x) - of_rat (sqrt_down x)" "sqrt (of_rat x) - of_rat (sqrt_down x) < 1 / 2 ^ 60"
      using sqrt_down_bounds [OF x0] by linarith+
    have "wilson_real k n - of_rat u = ?z * (sqrt (of_rat x) - of_rat (sqrt_down x)) / ?den"
      unfolding ur w by (simp add: diff_divide_distrib [symmetric] right_diff_distrib)
    also have "\<dots> \<le> ?z * (sqrt (of_rat x) - of_rat (sqrt_down x)) / 1"
      by (rule divide_left_mono) (use den den0 gap z in auto)
    also have "\<dots> = ?z * (sqrt (of_rat x) - of_rat (sqrt_down x))" by simp
    also have "\<dots> < 2 * (1 / 2 ^ 60)"
    proof (rule le_less_trans)
      show "?z * (sqrt (of_rat x) - of_rat (sqrt_down x)) \<le> 2 * (sqrt (of_rat x) - of_rat (sqrt_down x))"
        using z gap by (intro mult_right_mono) auto
      show "2 * (sqrt (of_rat x) - of_rat (sqrt_down x)) < 2 * (1 / 2 ^ 60)" using gap by simp
    qed
    finally show ?thesis by simp
  qed
  have "of_rat u \<le> (1 :: real)" using lo le1 by (rule order.trans)
  then have "of_rat u \<le> (of_rat 1 :: real)" by (simp only: of_rat_1)
  then have "u \<le> 1" by (simp only: of_rat_less_eq)
  moreover have "\<not> x < 0" using x0 by simp
  ultimately have "wilson_upper k n = Inr u"
    using assms(1) unfolding wilson_upper_def Let_def u_def x_def by simp
  with lo hi show "\<exists>u. wilson_upper k n = Inr u \<and> of_rat u \<le> wilson_real k n \<and> wilson_real k n < of_rat u + 2 / 2 ^ 60"
    by simp
qed

text \<open>More successes than trials make the bound raise, always.\<close>

lemma wilson_domain:
  assumes "0 < n" and "n < k"
  shows "wilson_upper k n = Inl (ValueError ''math domain error'')"
proof -
  let ?n = "of_nat n :: rat" and ?p = "of_nat k / of_nat n :: rat"
  have n: "0 < ?n" using assms(1) by simp
  have k: "?n + 1 \<le> of_nat k" using assms(2) by (metis of_nat_1 of_nat_add of_nat_le_iff Suc_eq_plus1 Suc_leI)
  have z: "WILSON_Z * WILSON_Z < 4" by (simp add: WILSON_Z_def)
  have "4 * ?n * ?n * (?p * (1 - ?p) / ?n + WILSON_Z * WILSON_Z / (4 * ?n * ?n)) =
      4 * of_nat k * (?n - of_nat k) / ?n + WILSON_Z * WILSON_Z"
    using n by (simp add: field_simps)
  also have "4 * of_nat k * (?n - of_nat k) / ?n \<le> - 4"
  proof -
    have "?n \<le> of_nat k * (of_nat k - ?n)"
      using mult_mono [of 1 "of_nat k - ?n" ?n "of_nat k"] k n by (simp add: mult.commute)
    then show ?thesis using n by (simp add: divide_le_eq algebra_simps)
  qed
  finally have "4 * ?n * ?n * (?p * (1 - ?p) / ?n + WILSON_Z * WILSON_Z / (4 * ?n * ?n)) < 0" using z by simp
  then have "?p * (1 - ?p) / ?n + WILSON_Z * WILSON_Z / (4 * ?n * ?n) < 0"
    using n by (simp add: mult_less_0_iff zero_less_mult_iff)
  then show ?thesis using assms by (simp add: wilson_upper_def Let_def)
qed

text \<open>A floor is reported as breached only when the realized rate is below it, up to the rounding.\<close>

lemma floor_breach_sound:
  assumes "floor_breach what limit k n = Inr bs" and "bs \<noteq> []" and "0 < n"
  shows "\<exists>fl. limit = Some fl \<and> k \<le> n \<and> rate_of k n < fl + 2 / 2 ^ 60"
proof -
  from assms(1,2) obtain fl u where fl: "limit = Some fl" "wilson_upper k n = Inr u" "u < fl"
    by (auto simp: floor_breach_def bindE_eq_Inr split: option.splits if_splits)
  have kn: "k \<le> n" using wilson_domain [OF assms(3), of k] fl(2) by (cases "n < k") auto
  have "real k / real n < of_rat u + 2 / 2 ^ 60"
    using wilson_exact [OF assms(3) kn] fl(2) by auto
  moreover have "of_rat (rate_of k n) = real k / real n" using assms(3) by (simp add: rate_of_def of_rat_divide)
  ultimately have "of_rat (rate_of k n) < (of_rat (u + 2 / 2 ^ 60) :: real)"
    by (simp add: of_rat_add of_rat_divide of_rat_power)
  then have "rate_of k n < u + 2 / 2 ^ 60" by (simp only: of_rat_less)
  with fl kn show ?thesis by auto
qed

section \<open>Only open proposals are filed\<close>

text \<open>\<open>filed Q d d'\<close>: \<open>d'\<close> is \<open>d\<close> with proposals appended that are open and satisfy \<open>Q\<close>, and UUIDs drawn.\<close>

definition filed :: "(proposal_row \<Rightarrow> bool) \<Rightarrow> db \<Rightarrow> db \<Rightarrow> bool" where
  "filed Q d d' \<longleftrightarrow> (\<exists>ps n. d' = d\<lparr>draws := n, proposals := proposals d @ ps\<rparr> \<and>
     (\<forall>p\<in>set ps. pr_status p = Prop_open \<and> Q p))"

lemma filed_refl [intro]: "filed Q d d"
  unfolding filed_def by (rule exI [of _ "[]"], rule exI [of _ "draws d"]) simp

lemma filed_trans: "filed Q d d1 \<Longrightarrow> filed Q d1 d2 \<Longrightarrow> filed Q d d2"
  unfolding filed_def by (elim exE conjE, rule_tac x = "ps @ psa" in exI, rule_tac x = na in exI) auto

lemma filed_propose:
  assumes "\<And>i. Q \<lparr>pr_id = i, pr_tenant = t, pr_kind = k, pr_summary = s, pr_payload = pl, pr_evidence = ev,
     pr_status = Prop_open, pr_key = key, pr_created = epoch (now d), pr_resolved_at = None, pr_by = None\<rparr>"
  shows "filed Q d (snd (propose t k s pl ev key d))"
proof (cases "fst (propose t k s pl ev key d)")
  case None
  then have "snd (propose t k s pl ev key d) = d" by (auto simp: propose_def Let_def split: if_splits prod.splits)
  then show ?thesis by (simp add: filed_refl)
next
  case (Some i)
  then have "snd (propose t k s pl ev key d) = d\<lparr>draws := Suc (draws d), proposals := proposals d @
      [\<lparr>pr_id = rng d (draws d), pr_tenant = t, pr_kind = k, pr_summary = s, pr_payload = pl, pr_evidence = ev,
     pr_status = Prop_open, pr_key = key, pr_created = epoch (now d), pr_resolved_at = None, pr_by = None\<rparr>]\<rparr>"
    by (auto simp: propose_def Let_def fresh_uuid_def ins_def split: if_splits)
  then show ?thesis unfolding filed_def using assms by fastforce
qed

lemma filed_all:
  assumes "\<And>f d. f \<in> set fs \<Longrightarrow> filed Q d (snd (f d))"
  shows "filed Q d (snd (file_all fs d))"
  using assms
proof (induction fs arbitrary: d)
  case (Cons f fs)
  from filed_trans [OF Cons.prems [of f d] Cons.IH [of "snd (f d)"]] Cons.prems show ?case
    by (simp add: split_beta)
qed auto

lemma filed_analyze: "filed (\<lambda>p. pr_tenant p = tenant \<and> pr_kind p \<in> {''budget_shift'', ''opportunity''}) d (snd (analyze tenant d))"
proof -
  have "filed (\<lambda>p. pr_tenant p = tenant \<and> pr_kind p \<in> {''budget_shift'', ''opportunity''}) d (snd (file_all
      ((if b then [propose_shift tenant best worst] else []) @ map (propose_opportunity tenant) os) d))" for b best worst os
    by (rule filed_all) (auto simp: propose_shift_def propose_opportunity_def Let_def intro!: filed_propose split: if_splits)
  then show ?thesis by (simp add: analyze_def Let_def filed_refl split: option.splits)
qed

lemma collectE_set: "collectE f xs = Inr ys \<Longrightarrow> y \<in> set ys \<Longrightarrow> \<exists>x\<in>set xs. \<exists>zs. f x = Inr zs \<and> y \<in> set zs"
  by (induction xs arbitrary: ys) (fastforce simp: bindE_eq_Inr)+

lemma scan_cohort_files:
  assumes "scan_cohort tenant outs rs c = Inr zs" and "f \<in> set zs"
  shows "\<exists>b c out bs. f = propose_rebalance tenant b c out bs"
proof -
  from assms obtain fl out where "ch_floors c = Some fl" "List.find (\<lambda>out. oc_cohort out = ch_id c) outs = Some out"
    by (auto simp: scan_cohort_def split: option.splits)
  with assms obtain bs where f: "f = propose_rebalance tenant (first_max conversion_rate outs) (ch_id c) out bs"
    by (auto simp: scan_cohort_def bindE_eq_Inr split: if_splits)
  show ?thesis unfolding f by (intro exI) (rule HOL.refl)
qed

lemma filed_rebalance:
  assumes "rebalance_scan cfg d = Inr (is, d')"
  shows "filed (\<lambda>p. pr_tenant p = tc_tenant cfg \<and> pr_kind p = ''rebalance'') d d'"
proof -
  obtain fs where fs: "collectE (scan_cohort (tc_tenant cfg) (cohort_outcomes d (tc_tenant cfg)) (reply_counts d (tc_tenant cfg)))
      (concat (map ps_cohorts (tc_personas cfg))) = Inr fs" "d' = snd (file_all fs d)"
    using assms by (auto simp: rebalance_scan_def bindE_eq_Inr)
  show ?thesis unfolding fs(2)
  proof (rule filed_all)
    fix f e
    assume "f \<in> set fs"
    from collectE_set [OF fs(1) this] obtain b c out bs where "f = propose_rebalance (tc_tenant cfg) b c out bs"
      using scan_cohort_files by meson
    then show "filed (\<lambda>p. pr_tenant p = tc_tenant cfg \<and> pr_kind p = ''rebalance'') e (snd (f e))"
      by (auto simp: propose_rebalance_def intro!: filed_propose)
  qed
qed

lemma filed_brainstorm:
  assumes "brainstorm llm cfg n d = Inr (is, d')"
  shows "filed (\<lambda>p. pr_tenant p = tc_tenant cfg \<and> pr_kind p = ''goal_brainstorm'') d d'"
proof -
  have h: "filed (\<lambda>p. pr_tenant p = tc_tenant cfg \<and> pr_kind p = ''goal_brainstorm'') d
      (snd (file_all (map (propose_idea (tc_tenant cfg)) xs) d))" for xs
    by (rule filed_all) (auto simp: propose_idea_def intro!: filed_propose)
  have f: "filed (\<lambda>p. pr_tenant p = tc_tenant cfg \<and> pr_kind p = ''goal_brainstorm'') d d1"
    if "file_all (map (propose_idea (tc_tenant cfg)) xs) d = (js, d1)" for xs js d1 using h [of xs] that by simp
  show ?thesis
  proof (cases "gl_brainstorm (bf_goals (tc_brief cfg))")
    case None
    with assms show ?thesis by (simp add: brainstorm_def filed_refl)
  next
    case (Some s)
    with assms f show ?thesis by (cases "s = []") (auto simp: brainstorm_def bindE_eq_Inr filed_refl)
  qed
qed

lemma filed_drift:
  assumes "resynthesize_on_drift cx llm cfg d = Inr (i, d')"
  shows "filed (\<lambda>p. pr_tenant p = tc_tenant cfg \<and> pr_kind p = ''program_revision'') d d'"
proof -
  have f: "filed (\<lambda>p. pr_tenant p = tc_tenant cfg \<and> pr_kind p = ''program_revision'') d
      (snd (propose_revision cx (tc_tenant cfg) signals revised g d))" for signals revised g
    unfolding propose_revision_def by (rule filed_propose) simp
  from assms have "d' = d \<or> (\<exists>signals revised g. propose_revision cx (tc_tenant cfg) signals revised g d = (i, d'))"
    by (auto simp: resynthesize_on_drift_def Let_def bindE_eq_Inr split: if_splits option.splits)
  then show ?thesis
  proof (elim disjE exE)
    fix signals revised g
    assume "propose_revision cx (tc_tenant cfg) signals revised g d = (i, d')"
    with f [of signals revised g] show ?thesis by simp
  qed (simp add: filed_refl)
qed

section \<open>The numbers agree with the funnel\<close>

lemma cohort_outcome_funnel:
  assumes "out \<in> set (cohort_outcomes d tenant)"
  shows "oc_contacted out = fn_contacted (funnel d tenant (Some (oc_cohort out))) \<and>
    oc_converted out = fn_converted (funnel d tenant (Some (oc_cohort out)))"
proof -
  from assms obtain c where c: "oc_cohort out = c"
    "oc_contacted out = cnt (\<lambda>p. p_cohort p = c \<and> p_state p \<in> set contacted_states) (tenant_prospects d tenant)"
    "oc_converted out = cnt (\<lambda>p. p_cohort p = c \<and> p_state p = Converted) (tenant_prospects d tenant)"
    unfolding cohort_outcomes_def Let_def by auto
  have s: "s \<in> set contacted_states \<longleftrightarrow> s \<noteq> Forgotten \<and> 4 \<le> STAGE_OF s" for s
    by (cases s) (simp_all add: STAGE_OF_def contacted_states_def)
  show ?thesis
    unfolding c funnel_contacted funnel_counts tenant_prospects_def cnt_sel
    by (intro conjI; rule cnt_cong) (auto simp: s shown_def in_scope_def)
qed

lemma outcome_le: "out \<in> set (cohort_outcomes d tenant) \<Longrightarrow> oc_converted out \<le> oc_contacted out"
  by (auto simp: cohort_outcomes_def Let_def contacted_states_def intro!: cnt_mono)

text \<open>When every cohort converts at the same rate nothing is flagged, not even cohorts without any
  conversion.\<close>

lemma first_max_const: "\<forall>x\<in>set xs. f x = r \<Longrightarrow> first_max f xs = (case xs of [] \<Rightarrow> None | x # _ \<Rightarrow> Some x)"
  by (induction xs) (auto split: list.splits)

lemma analyze_equal_rates:
  assumes "\<forall>out\<in>set (cohort_outcomes d tenant). conversion_rate out = r"
  shows "analyze tenant d = ([], d)"
proof -
  let ?outs = "filter (\<lambda>out. MIN_SIGNAL \<le> oc_contacted out) (cohort_outcomes d tenant)"
  have "first_max conversion_rate ?outs = (case ?outs of [] \<Rightarrow> None | x # _ \<Rightarrow> Some x)"
    by (rule first_max_const [where r = r]) (use assms in auto)
  moreover have "first_min conversion_rate ?outs = (case ?outs of [] \<Rightarrow> None | x # _ \<Rightarrow> Some x)"
    unfolding first_min_def by (rule first_max_const [where r = "- r"]) (use assms in auto)
  ultimately show ?thesis by (simp add: analyze_def Let_def split: list.splits)
qed

end
