(* ===== verification/Monitor.thy ===== *)
theory Monitor
  imports Research
begin

text \<open>
  \<open>core/monitor.py\<close>: the audit of mail already sent. A sample per tenant and cohort is judged again
  against the stored evidence; the rate is written to the audit trail and a low one escalates. The
  random order of the query is a parameter \<open>shuffle\<close>; the thresholds are the decimal numbers
  written in the code.
\<close>

section \<open>Dates\<close>

text \<open>\<open>strftime("%G-W%V")\<close>: the ISO week is the week of its Thursday.\<close>

definition iso_week :: "clock \<Rightarrow> pystr" where
  "iso_week c =
     (let days = days_from_civil (yr c) (mon c) (day c); thursday = days - (days + 3) mod 7 + 3;
          jan1 = (\<lambda>y. days_from_civil y 1 1);
          y = (if thursday < jan1 (yr c) then yr c - 1 else if thursday < jan1 (yr c + 1) then yr c else yr c + 1)
      in fstr [pad 4 (int_str y), ''-W'', pad 2 (int_str ((thursday - jan1 y) div 7 + 1))])"

section \<open>The audit\<close>

definition PER_COHORT_SAMPLE :: nat where "PER_COHORT_SAMPLE = 5"

definition WINDOW_DAYS :: int where "WINDOW_DAYS = 7"

definition ALERT_BELOW :: rat where "ALERT_BELOW = 95 / 100"

definition evidence_text :: "db \<Rightarrow> uuid \<Rightarrow> pystr" where
  "evidence_text d pid =
     (let rows = take 12 (sort_key (\<lambda>f. - f_observed f) (sel (\<lambda>f. f_prospect f = pid) (evidence d)));
          blocks = map (\<lambda>f. fstr [''fact_id='', f_id f, nl,
            wrapped (case f_content f of JStr s \<Rightarrow> s | j \<Rightarrow> json_dumps j) ''web'' (f_id f)]) rows
      in if blocks = [] then ''(no evidence on file)'' else join (nl @ nl) blocks)"

text \<open>What is audited: a message sent within the window whose text is still there. Its group is the
  tenant and the cohort of its prospect.\<close>

definition sent_group :: "db \<Rightarrow> touch_row \<Rightarrow> (pystr \<times> pystr) option" where
  "sent_group d t =
     (case prospect_of d (t_prospect t) of
        None \<Rightarrow> None
      | Some p \<Rightarrow> map_option (\<lambda>s. (s, p_cohort p)) (slug_of d (p_tenant p)))"

definition auditable :: "db \<Rightarrow> int \<Rightarrow> touch_row \<Rightarrow> bool" where
  "auditable d window t \<longleftrightarrow> sent_group d t \<noteq> None \<and> t_status t \<in> {Dispatched, Sent} \<and> t_body t \<noteq> None \<and>
     \<not> t_scrubbed t \<and> (case t_sent_at t of None \<Rightarrow> False | Some s \<Rightarrow> epoch (now d) - window * 86400 < s)"

definition judge :: "llm_backend \<Rightarrow> db \<Rightarrow> touch_row \<Rightarrow> exc + json option" where
  "judge llm d t =
     bindE (lm_groundedness llm (GROUNDEDNESS_FRAME (the_default [] (t_subject t)) (the_default [] (t_body t))
              ''(unavailable post-send; audit every prospect-specific statement)'' (evidence_text d (t_prospect t))))
       (\<lambda>v. Inr (if \<not> go_grounded v \<or> go_injection v
                 then Some (JObj [(''touch_id'', JStr (t_id t)),
                        (''unsupported'', JList (map JStr (take 5 (go_unsupported v))))])
                 else None))"

fun judge_all :: "llm_backend \<Rightarrow> db \<Rightarrow> touch_row list \<Rightarrow> exc + json list" where
  "judge_all llm d [] = Inr []"
| "judge_all llm d (t # ts) = bindE (judge llm d t) (\<lambda>f. bindE (judge_all llm d ts) (\<lambda>fs.
     Inr (case f of None \<Rightarrow> fs | Some j \<Rightarrow> j # fs)))"

record audit_result =
  ar_group :: "pystr \<times> pystr"
  ar_rate :: rat
  ar_n :: nat
  ar_failures :: nat

definition grounded_rate :: "nat \<Rightarrow> nat \<Rightarrow> rat" where
  "grounded_rate failures n = (if n = 0 then 1 else 1 - of_nat failures / of_nat n)"

definition audit_cohort ::
  "llm_backend \<Rightarrow> rat \<Rightarrow> pystr \<times> pystr \<Rightarrow> touch_row list \<Rightarrow> db \<Rightarrow> exc + audit_result \<times> db" where
  "audit_cohort llm alert_below g sample d =
     (case g of (tenant, cohort) \<Rightarrow>
       bindE (judge_all llm d sample) (\<lambda>failures.
         let rate = grounded_rate (length failures) (length sample); period = iso_week (now d);
             d1 = audit ''cohort'' cohort ''groundedness_audit''
               [(''period'', JStr period), (''tenant'', JStr tenant), (''rate'', JNum (round3 rate)),
                (''n'', JInt (int (length sample))), (''failures'', JList failures)] ''system:monitor'' d
         in Inr (\<lparr>ar_group = g, ar_rate = round3 rate, ar_n = length sample, ar_failures = length failures\<rparr>,
              if rate < alert_below
              then escalate (Some tenant) ''cohort'' cohort
                (fstr [''groundedness rate '', percent0 rate, '' over '', nat_str (length sample),
                   '' sampled sends (< '', percent0 alert_below, '') '', [CHR 0xE2, CHR 0x80, CHR 0x94],
                   '' review the attached touches (FR-8.6)''])
                [(''period'', JStr period), (''failures'', JList failures)] d1
              else d1)))"

fun audit_groups ::
  "llm_backend \<Rightarrow> rat \<Rightarrow> ((pystr \<times> pystr) \<times> touch_row list) list \<Rightarrow> db \<Rightarrow> exc + audit_result list \<times> db" where
  "audit_groups llm alert_below [] d = Inr ([], d)"
| "audit_groups llm alert_below ((g, sample) # gs) d =
     bindE (audit_cohort llm alert_below g sample d) (\<lambda>(r, d1).
       bindE (audit_groups llm alert_below gs d1) (\<lambda>(rs, d2). Inr (r # rs, d2)))"

text \<open>The rows in random order, the first few of each group.\<close>

definition samples ::
  "(touch_row list \<Rightarrow> touch_row list) \<Rightarrow> nat \<Rightarrow> int \<Rightarrow> db \<Rightarrow> ((pystr \<times> pystr) \<times> touch_row list) list" where
  "samples shuffle per_cohort window d =
     (let rows = shuffle (sel (auditable d window) (touches d))
      in concat (map (\<lambda>k. case k of None \<Rightarrow> [] | Some g \<Rightarrow>
             [(g, take per_cohort (filter (\<lambda>t. sent_group d t = Some g) rows))])
           (group_keys (sent_group d) rows)))"

definition audit_sent_sample ::
  "(touch_row list \<Rightarrow> touch_row list) \<Rightarrow> llm_backend \<Rightarrow> nat \<Rightarrow> int \<Rightarrow> rat \<Rightarrow> db \<Rightarrow> exc + audit_result list \<times> db" where
  "audit_sent_sample shuffle llm per_cohort window alert_below d =
     audit_groups llm alert_below (samples shuffle per_cohort window d) d"

section \<open>What an audit does\<close>

lemma judge_all_length: "judge_all llm d ts = Inr fs \<Longrightarrow> length fs \<le> length ts"
  by (induction ts arbitrary: fs) (force simp: bindE_eq_Inr split: option.splits)+

lemma grounded_rate_range: "f \<le> n \<Longrightarrow> 0 \<le> grounded_rate f n \<and> grounded_rate f n \<le> 1"
  by (simp add: grounded_rate_def divide_le_eq)

lemma samples_in:
  assumes "(g, ts) \<in> set (samples shuffle k w d)" and "\<And>xs. set (shuffle xs) = set xs"
  shows "length ts \<le> k \<and> ts \<noteq> [] \<or> k = 0" and "\<forall>t\<in>set ts. t \<in> set (touches d) \<and> auditable d w t \<and> sent_group d t = Some g"
proof -
  let ?rows = "shuffle (sel (auditable d w) (touches d))"
  from assms(1) have g: "Some g \<in> sent_group d ` set ?rows"
    and ts: "ts = take k (filter (\<lambda>t. sent_group d t = Some g) ?rows)"
    by (auto simp: samples_def Let_def split: option.splits)
  from g have "filter (\<lambda>t. sent_group d t = Some g) ?rows \<noteq> []" by (auto simp: filter_empty_conv)
  with ts show "length ts \<le> k \<and> ts \<noteq> [] \<or> k = 0" by auto
  show "\<forall>t\<in>set ts. t \<in> set (touches d) \<and> auditable d w t \<and> sent_group d t = Some g"
    using ts assms(2) by (auto dest!: in_set_takeD)
qed

text \<open>\<open>observed d d' m\<close>: \<open>d'\<close> is \<open>d\<close> but for audit rows and for \<open>m\<close> escalations.\<close>

definition observed :: "db \<Rightarrow> db \<Rightarrow> nat \<Rightarrow> bool" where
  "observed d d' m \<longleftrightarrow> (\<exists>as es n. length es = m \<and>
     d' = d\<lparr>draws := n, audits := audits d @ as, escalations := escalations d @ es\<rparr>)"

lemma observed_refl: "observed d d 0"
  unfolding observed_def by (rule exI [of _ "[]"], rule exI [of _ "[]"], rule exI [of _ "draws d"]) simp

lemma observed_trans: "observed d d1 m \<Longrightarrow> observed d1 d2 n \<Longrightarrow> observed d d2 (m + n)"
  unfolding observed_def
  by (elim exE conjE, rule_tac x = "as @ asa" in exI, rule_tac x = "es @ esa" in exI, rule_tac x = na in exI) simp

lemma observed_cohort:
  assumes "audit_cohort llm ab g ts d = Inr (r, d')"
  shows "observed d d' (if grounded_rate (ar_failures r) (ar_n r) < ab then 1 else 0)"
    and "ar_group r = g" and "ar_n r = length ts" and "ar_failures r \<le> ar_n r"
    and "ar_rate r = round3 (grounded_rate (ar_failures r) (ar_n r))"
proof -
  obtain tenant cohort where g: "g = (tenant, cohort)" by fastforce
  with assms obtain fs where fs: "judge_all llm d ts = Inr fs"
    and r: "r = \<lparr>ar_group = g, ar_rate = round3 (grounded_rate (length fs) (length ts)), ar_n = length ts,
      ar_failures = length fs\<rparr>"
    and d': "\<exists>pl reason epl. d' = (if grounded_rate (length fs) (length ts) < ab
       then escalate (Some tenant) ''cohort'' cohort reason epl (audit ''cohort'' cohort ''groundedness_audit'' pl ''system:monitor'' d)
       else audit ''cohort'' cohort ''groundedness_audit'' pl ''system:monitor'' d)"
    by (auto simp: audit_cohort_def Let_def bindE_eq_Inr)
  from r show "ar_group r = g" "ar_n r = length ts" "ar_rate r = round3 (grounded_rate (ar_failures r) (ar_n r))" by simp_all
  from r judge_all_length [OF fs] show "ar_failures r \<le> ar_n r" by simp
  have a: "observed d (audit ty su ev pl ac d) 0" for ty su ev pl ac
    unfolding observed_def audit_def ins_def
    by (rule exI [of _ "[\<lparr>a_type = ty, a_subject = su, a_event = ev, a_payload = pl, a_actor = ac\<rparr>]"],
        rule exI [of _ "[]"], rule exI [of _ "draws d"]) simp
  have e: "observed d0 (escalate te ty su re pl d0) 1" for d0 te ty su re pl
    unfolding observed_def escalate_def fresh_uuid_def ins_def Let_def
    by (rule exI [of _ "[]"], rule exI [of _ "[\<lparr>es_id = rng d0 (draws d0), es_tenant = te, es_type = ty, es_subject = su,
        es_reason = re, es_payload = pl, es_open = True, es_created = epoch (now d0), es_resolved_at = None, es_by = None\<rparr>]"],
        rule exI [of _ "Suc (draws d0)"]) simp
  from d' show "observed d d' (if grounded_rate (ar_failures r) (ar_n r) < ab then 1 else 0)"
    using a observed_trans [OF a e] r by auto
qed

lemma observed_groups:
  assumes "audit_groups llm ab gs d = Inr (rs, d')"
  shows "observed d d' (length (filter (\<lambda>r. grounded_rate (ar_failures r) (ar_n r) < ab) rs)) \<and>
    map ar_group rs = map fst gs \<and> map ar_n rs = map (\<lambda>g. length (snd g)) gs \<and>
    (\<forall>r\<in>set rs. ar_failures r \<le> ar_n r)"
  using assms
proof (induction gs arbitrary: d rs)
  case Nil
  then show ?case by (simp add: observed_refl)
next
  case (Cons x gs)
  obtain g ts where x: "x = (g, ts)" by fastforce
  with Cons.prems obtain r d1 rs' where r: "audit_cohort llm ab g ts d = Inr (r, d1)"
    and rs: "audit_groups llm ab gs d1 = Inr (rs', d')" "rs = r # rs'" by (auto simp: bindE_eq_Inr)
  note c = observed_cohort [OF r]
  from observed_trans [OF c(1)] Cons.IH [OF rs(1)]
  have "observed d d' ((if grounded_rate (ar_failures r) (ar_n r) < ab then 1 else 0) +
      length (filter (\<lambda>r. grounded_rate (ar_failures r) (ar_n r) < ab) rs'))" by blast
  with c Cons.IH [OF rs(1)] show ?case by (simp add: rs(2) x split: if_splits)
qed

end
