(* ===== verification/Mail.thy ===== *)
theory Mail
  imports Events Sendpath
begin

text \<open>
  Own-domain mail: \<open>core/message.py\<close> (the headers of an outgoing message),
  \<open>adapters/sending/smtp.py\<close> (the provider that sends it), \<open>adapters/sending/inbound.py\<close> (what comes
  back) and \<open>adapters/sending/imap_poll.py\<close> (the poll). The sockets are parameters; so are the
  header encoding of names that are not ASCII, the parser of incoming messages, whose result is the
  record \<open>mail\<close>, and Python's \<open>hash\<close>.
\<close>

section \<open>message.py\<close>

record mime =
  mm_headers :: "(pystr \<times> pystr) list"
  mm_body :: pystr

definition header :: "mime \<Rightarrow> pystr \<Rightarrow> pystr option" where
  "header m k = map_of (mm_headers m) k"

text \<open>The length of the line break a text starts with, as \<open>str.splitlines\<close> takes it.\<close>

definition line_break :: "pystr \<Rightarrow> nat" where
  "line_break s =
     (if startswith s [CHR 0x0D, CHR 0x0A] then 2
      else if s \<noteq> [] \<and> code (hd s) \<in> {10, 11, 12, 13, 28, 29, 30} then 1
      else if startswith s [CHR 0xC2, CHR 0x85] then 2
      else if startswith s [CHR 0xE2, CHR 0x80, CHR 0xA8] \<or> startswith s [CHR 0xE2, CHR 0x80, CHR 0xA9] then 3
      else 0)"

fun one_line :: "pystr \<Rightarrow> bool" where
  "one_line [] = True"
| "one_line (c # s) = (let k = line_break (c # s) in if 0 < k then drop k (c # s) = [] else one_line s)"

text \<open>\<open>msg[k] = v\<close>: a value of more than one line raises.\<close>

definition set_header :: "pystr \<Rightarrow> pystr \<Rightarrow> mime \<Rightarrow> exc + mime" where
  "set_header k v m =
     (if one_line v then Inr (m\<lparr>mm_headers := mm_headers m @ [(k, v)]\<rparr>)
      else Inl (ValueError ''Header values may not contain linefeed or carriage return characters''))"

fun set_headers :: "(pystr \<times> pystr) list \<Rightarrow> mime \<Rightarrow> exc + mime" where
  "set_headers [] m = Inr m"
| "set_headers ((k, v) # hs) m = bindE (set_header k v m) (set_headers hs)"

definition specials :: "char set" where
  "specials = set ''[]()<>@,:;.'' \<union> {CHR 0x5C} \<union> set dq"

text \<open>\<open>email.utils.formataddr\<close>.\<close>

definition formataddr :: "(pystr \<Rightarrow> pystr) \<Rightarrow> pystr \<Rightarrow> pystr \<Rightarrow> exc + pystr" where
  "formataddr encode name address =
     (if \<not> list_all is_ascii address then Inl (ValueError ''ordinal not in range(128)'')
      else if name = [] then Inr address
      else if \<not> list_all is_ascii name then Inr (fstr [encode name, '' <'', address, ''>''])
      else
        let quotes = (if \<exists>c\<in>set name. c \<in> specials then dq else []);
            escaped = concat (map (\<lambda>c. if [c] = dq \<or> c = CHR 0x5C then [CHR 0x5C, c] else [c]) name)
        in Inr (fstr [quotes, escaped, quotes, '' <'', address, ''>'']))"

text \<open>\<open>format_datetime\<close> of a UTC time.\<close>

definition DAY_NAMES :: "pystr list" where
  "DAY_NAMES = [''Mon'', ''Tue'', ''Wed'', ''Thu'', ''Fri'', ''Sat'', ''Sun'']"

definition MONTH_NAMES :: "pystr list" where
  "MONTH_NAMES = [''Jan'', ''Feb'', ''Mar'', ''Apr'', ''May'', ''Jun'', ''Jul'', ''Aug'', ''Sep'', ''Oct'', ''Nov'', ''Dec'']"

definition mail_date :: "clock \<Rightarrow> pystr" where
  "mail_date c =
     (let weekday = nat ((days_from_civil (yr c) (mon c) (day c) + 3) mod 7)
      in fstr [DAY_NAMES ! weekday, '', '', pad 2 (int_str (day c)), '' '', MONTH_NAMES ! nat ((mon c - 1) mod 12), '' '',
           pad 4 (int_str (yr c)), '' '', pad 2 (int_str (sod c div 3600)), '':'', pad 2 (int_str (sod c div 60 mod 60)),
           '':'', pad 2 (int_str (sod c mod 60)), '' +0000''])"

definition message_id_for :: "uuid \<Rightarrow> pystr \<Rightarrow> pystr" where
  "message_id_for touch_id domain = fstr [''<'', touch_id, ''@'', domain, ''>'']"

definition domain_of :: "pystr \<Rightarrow> pystr" where
  "domain_of mailbox = rpart_after at_char mailbox"

definition build_message ::
  "(pystr \<Rightarrow> pystr) \<Rightarrow> clock \<Rightarrow> pystr \<Rightarrow> pystr \<Rightarrow> pystr \<Rightarrow> pystr \<Rightarrow> pystr \<Rightarrow> uuid \<Rightarrow> pystr option \<Rightarrow> exc + mime" where
  "build_message encode t mailbox sender to_address subject body touch_id unsubscribe_url =
     (let domain = domain_of mailbox
      in if domain = [] \<or> at_char \<notin> set mailbox
         then Inl (ValueError (fstr [''not a sendable mailbox: '', py_repr mailbox]))
         else bindE (formataddr encode sender mailbox) (\<lambda>addr.
           let mailto = fstr [''<mailto:'', mailbox, ''?subject=unsubscribe>'']
           in set_headers
             ([(''From'', addr), (''To'', to_address), (''Reply-To'', addr), (''Subject'', subject),
               (''Message-ID'', message_id_for touch_id domain), (''Date'', mail_date t)] @
              (case unsubscribe_url of
                 None \<Rightarrow> [(''List-Unsubscribe'', mailto)]
               | Some url \<Rightarrow> if url = [] then [(''List-Unsubscribe'', mailto)]
                   else [(''List-Unsubscribe-Post'', ''List-Unsubscribe=One-Click''),
                         (''List-Unsubscribe'', fstr [''<'', url, ''>, '', mailto])]))
             \<lparr>mm_headers = [], mm_body = body\<rparr>))"

section \<open>smtp.py\<close>

record mailbox_conn =
  mc_host :: pystr
  mc_port :: int
  mc_user :: pystr
  mc_password :: pystr
  mc_sender :: pystr
  mc_starttls :: bool
  mc_warm :: bool
  mc_cap :: int

record smtp_provider =
  sm_boxes :: "(pystr \<times> mailbox_conn) list"
  sm_transport :: "mailbox_conn \<Rightarrow> mime \<Rightarrow> exc + unit"
  sm_default :: pystr
  sm_unsubscribe :: "pystr option"
  sm_encode :: "pystr \<Rightarrow> pystr"

text \<open>\<open>send\<close>; the list kept for observability is left out.\<close>

definition smtp_send :: "smtp_provider \<Rightarrow> clock \<Rightarrow> claimed_touch \<Rightarrow> pystr \<Rightarrow> pystr \<Rightarrow> exc + payload" where
  "smtp_send sm t c subject body =
     (case map_of (sm_boxes sm) (ct_mailbox c) of
        None \<Rightarrow> Inl (RuntimeError (fstr [''no SMTP credentials for mailbox '', py_repr (ct_mailbox c)]))
      | Some conn \<Rightarrow>
          bindE (build_message (sm_encode sm) t (ct_mailbox c)
                   (if mc_sender conn = [] then sm_default sm else mc_sender conn)
                   (ct_recipient c) subject body (ct_touch c) (sm_unsubscribe sm)) (\<lambda>m.
            bindE (sm_transport sm conn m) (\<lambda>_.
              Inr [(''message_id'', JStr (the_default [] (header m ''Message-ID''))),
                   (''mailbox'', JStr (ct_mailbox c))])))"

section \<open>inbound.py\<close>

text \<open>A parsed message: its headers, and its parts in the order of \<open>walk()\<close>, the message itself
  first. \<open>pt_text\<close> is the text of \<open>get_content()\<close>, which may raise, \<open>pt_payload\<close> that of
  \<open>get_payload()\<close>.\<close>

record mail_part =
  pt_type :: pystr
  pt_text :: "exc + pystr"
  pt_payload :: pystr

record mail =
  ml_id :: "pystr option"
  ml_from :: "pystr option"
  ml_reply_to :: "pystr option"
  ml_references :: "pystr option"
  ml_report :: "pystr option"
  ml_multipart :: bool
  ml_root :: mail_part
  ml_rest :: "mail_part list"

definition hex_or_dash :: "char \<Rightarrow> bool" where
  "hex_or_dash c \<longleftrightarrow> hexval c \<noteq> None \<or> c = CHR ''-''"

definition TOUCH_RE :: rx where
  "TOUCH_RE = RSeq (rchr (CHR ''<'')) (RSeq (RRep 36 (Some 36) (RSet hex_or_dash)) (rchr at_char))"

definition BOUNCE_SENDER :: rx where
  "BOUNCE_SENDER = ci (ralt [rlit ''mailer-daemon'', rlit ''postmaster'',
     rseq [rlit ''no'', ropt (rchr (CHR ''-'')), rlit ''reply'']])"

text \<open>The first match that is a UUID, in the first header that has one.\<close>

fun first_uuid :: "pystr list \<Rightarrow> uuid option" where
  "first_uuid [] = None"
| "first_uuid (m # ms) =
     (case parse_uuid (take 36 (drop 1 m)) of Some n \<Rightarrow> Some (uuid_text n) | None \<Rightarrow> first_uuid ms)"

fun touch_id_from :: "pystr option list \<Rightarrow> uuid option" where
  "touch_id_from [] = None"
| "touch_id_from (v # vs) =
     (case v of
        None \<Rightarrow> touch_id_from vs
      | Some s \<Rightarrow> (case first_uuid (findall TOUCH_RE s) of Some i \<Rightarrow> Some i | None \<Rightarrow> touch_id_from vs))"

definition is_bounce :: "mail \<Rightarrow> bool" where
  "is_bounce m \<longleftrightarrow>
     (pt_type (ml_root m) = ''multipart/report'' \<and> contains (the_default [] (ml_report m)) ''delivery-status'') \<or>
     search BOUNCE_SENDER (the_default [] (ml_from m)) \<noteq> None"

definition unreadable :: "exc \<Rightarrow> bool" where
  "unreadable e = (case e of LookupError _ \<Rightarrow> True | KeyError _ \<Rightarrow> True | UnknownSubjectError _ \<Rightarrow> True
     | ValueError _ \<Rightarrow> True | InvalidEmailError _ \<Rightarrow> True | _ \<Rightarrow> False)"

fun first_plain :: "mail_part list \<Rightarrow> exc + pystr" where
  "first_plain [] = Inr []"
| "first_plain (p # ps) =
     (if pt_type p = ''text/plain''
      then (case pt_text p of Inr s \<Rightarrow> Inr (strip s) | Inl e \<Rightarrow> if unreadable e then first_plain ps else Inl e)
      else first_plain ps)"

definition plain_body :: "mail \<Rightarrow> exc + pystr" where
  "plain_body m =
     (if ml_multipart m then first_plain (ml_root m # ml_rest m)
      else (case pt_text (ml_root m) of Inr s \<Rightarrow> Inr (strip s) | Inl e \<Rightarrow> if unreadable e then Inr [] else Inl e))"

definition NESTED_TYPES :: "pystr list" where
  "NESTED_TYPES = [''message/rfc822'', ''text/rfc822-headers'', ''message/delivery-status'']"

fun nested_id :: "mail_part list \<Rightarrow> exc + uuid option" where
  "nested_id [] = Inr None"
| "nested_id (p # ps) =
     (if pt_type p \<in> set NESTED_TYPES
      then bindE (case pt_text p of Inr s \<Rightarrow> Inr s | Inl e \<Rightarrow> if unreadable e then Inr (pt_payload p) else Inl e) (\<lambda>s.
             case touch_id_from [Some s] of Some i \<Rightarrow> Inr (Some i) | None \<Rightarrow> nested_id ps)
      else nested_id ps)"

definition original_message_id :: "mail \<Rightarrow> exc + uuid option" where
  "original_message_id m =
     (case touch_id_from [ml_reply_to m, ml_references m] of
        Some i \<Rightarrow> Inr (Some i)
      | None \<Rightarrow> nested_id (ml_root m # ml_rest m))"

definition parse_inbound ::
  "(pystr \<Rightarrow> mail) \<Rightarrow> (pystr \<Rightarrow> int) \<Rightarrow> pystr \<Rightarrow> exc + provider_event option" where
  "parse_inbound parse py_hash raw =
     (let m = parse raw;
          eid = (case ml_id m of Some i \<Rightarrow> if i = [] then fstr [''inbound:'', int_str (py_hash raw)] else i
                 | None \<Rightarrow> fstr [''inbound:'', int_str (py_hash raw)])
      in if is_bounce m
         then bindE (original_message_id m) (\<lambda>i. Inr (map_option (\<lambda>t.
                \<lparr>pv_id = eid, pv_kind = BOUNCE, pv_ref = [(''touch_id'', t)],
                 pv_payload = [(''transport'', JStr ''smtp'')]\<rparr>) i))
         else (case touch_id_from [ml_reply_to m, ml_references m] of
             None \<Rightarrow> Inr None
           | Some t \<Rightarrow> bindE (plain_body m) (\<lambda>body. Inr (Some
               \<lparr>pv_id = eid, pv_kind = REPLY_event, pv_ref = [(''touch_id'', t)], pv_payload = [(''body'', JStr body)]\<rparr>))))"

fun parse_batch ::
  "(pystr \<Rightarrow> mail) \<Rightarrow> (pystr \<Rightarrow> int) \<Rightarrow> pystr list \<Rightarrow> exc + provider_event list" where
  "parse_batch parse py_hash [] = Inr []"
| "parse_batch parse py_hash (r # rs) =
     bindE (parse_inbound parse py_hash r) (\<lambda>e. bindE (parse_batch parse py_hash rs) (\<lambda>es.
       Inr (case e of None \<Rightarrow> es | Some ev \<Rightarrow> ev # es)))"

section \<open>imap_poll.py\<close>

text \<open>What each inbox gave when it was fetched. Every inbox with events is one transaction; an
  exception ends the poll and keeps what was committed before it.\<close>

fun poll_inboxes ::
  "(pystr \<Rightarrow> mail) \<Rightarrow> (pystr \<Rightarrow> int) \<Rightarrow> (exc + pystr list) list \<Rightarrow> nat \<Rightarrow> db \<Rightarrow> (exc + nat) \<times> db" where
  "poll_inboxes parse py_hash [] processed d = (Inr processed, d)"
| "poll_inboxes parse py_hash (fetched # rest) processed d =
     (case bindE fetched (parse_batch parse py_hash) of
        Inl e \<Rightarrow> (Inl e, d)
      | Inr [] \<Rightarrow> poll_inboxes parse py_hash rest processed d
      | Inr evs \<Rightarrow> (case ingest_events evs d of
            Inl e \<Rightarrow> (Inl e, d)
          | Inr (n, d1) \<Rightarrow> poll_inboxes parse py_hash rest (processed + n) d1))"

definition poll_once ::
  "(pystr \<Rightarrow> mail) \<Rightarrow> (pystr \<Rightarrow> int) \<Rightarrow> (exc + pystr list) list \<Rightarrow> db \<Rightarrow> (exc + nat) \<times> db" where
  "poll_once parse py_hash fetched d = poll_inboxes parse py_hash fetched 0 d"

section \<open>Headers\<close>

lemma set_headers_Inr:
  "set_headers hs m = Inr m' \<Longrightarrow>
    m' = m\<lparr>mm_headers := mm_headers m @ hs\<rparr> \<and> (\<forall>(k, v)\<in>set hs. one_line v)"
proof (induction hs arbitrary: m)
  case (Cons h hs)
  obtain k v where h: "h = (k, v)" by fastforce
  with Cons.prems have v: "one_line v" "set_headers hs (m\<lparr>mm_headers := mm_headers m @ [(k, v)]\<rparr>) = Inr m'"
    by (auto simp: bindE_eq_Inr set_header_def split: if_splits)
  from Cons.IH [OF v(2)] v(1) show ?case by (simp add: h)
qed simp

lemma build_message_Inr:
  assumes "build_message encode t mailbox sender to_address subject body touch_id url = Inr m"
  shows "(\<forall>(k, v)\<in>set (mm_headers m). one_line v) \<and> mm_body m = body \<and>
    header m ''To'' = Some to_address \<and> header m ''Subject'' = Some subject \<and>
    header m ''Message-ID'' = Some (message_id_for touch_id (domain_of mailbox)) \<and>
    (\<exists>v. header m ''List-Unsubscribe'' = Some v) \<and>
    (header m ''List-Unsubscribe-Post'' \<noteq> None \<longleftrightarrow> url \<noteq> None \<and> url \<noteq> Some [])"
proof -
  let ?mailto = "fstr [''<mailto:'', mailbox, ''?subject=unsubscribe>'']"
  obtain addr where m: "set_headers ([(''From'', addr), (''To'', to_address), (''Reply-To'', addr), (''Subject'', subject),
      (''Message-ID'', message_id_for touch_id (domain_of mailbox)), (''Date'', mail_date t)] @
      (case url of None \<Rightarrow> [(''List-Unsubscribe'', ?mailto)]
       | Some u \<Rightarrow> if u = [] then [(''List-Unsubscribe'', ?mailto)]
           else [(''List-Unsubscribe-Post'', ''List-Unsubscribe=One-Click''),
                 (''List-Unsubscribe'', fstr [''<'', u, ''>, '', ?mailto])])) \<lparr>mm_headers = [], mm_body = body\<rparr> = Inr m"
    using assms unfolding build_message_def Let_def bindE_eq_Inr
    by (split if_splits; simp add: bindE_eq_Inr; blast)
  from set_headers_Inr [OF m] show ?thesis
    by (cases url) (auto simp: header_def)
qed

section \<open>Correlation\<close>

lemma rep_exact:
  assumes "list_all P u" and "length u \<le> fuel"
  shows "\<exists>c. rep (mt (RSet P)) (length u) (Some (length u)) fuel (pv, u @ s) = [(c, s)]"
  using assms
proof (induction u arbitrary: pv fuel)
  case Nil
  then show ?case by (cases fuel) simp_all
next
  case (Cons x u)
  then obtain k where k: "fuel = Suc k" by (cases fuel) auto
  with Cons.prems Cons.IH [of k "Some x"] show ?case by (simp add: dec_bound_def)
qed

lemma uuid_text_chars: "list_all hex_or_dash (uuid_text n)"
proof -
  have "list_all hexy (hexn 32 n)" by (simp add: list_all_iff hexy_hexn)
  then have h: "list_all hex_or_dash (hexn 32 n)"
    by (auto simp: list_all_iff hexy_def hex_or_dash_def)
  then show ?thesis
    by (auto simp: uuid_text_def uuid_hex_def Let_def fstr_def list_all_iff hex_or_dash_def
        dest: in_set_takeD in_set_dropD)
qed

lemma length_uuid_text: "length (uuid_text n) = 36"
  by (simp add: uuid_text_def uuid_hex_def Let_def fstr_def)

lemma touch_match:
  assumes "list_all hex_or_dash u" and "length u = 36"
  shows "mt TOUCH_RE (None, CHR ''<'' # u @ at_char # s) = [(Some at_char, s)]"
proof -
  obtain c where "rep (mt (RSet hex_or_dash)) 36 (Some 36) (36 + length (u @ at_char # s)) (Some (CHR ''<''), u @ at_char # s)
      = [(c, at_char # s)]"
    using rep_exact [of hex_or_dash u "36 + length (u @ at_char # s)" "Some (CHR ''<'')" "at_char # s"] assms by auto
  then show ?thesis by (simp add: TOUCH_RE_def rchr_def)
qed

lemma touch_id_echoed:
  assumes "n < 16 ^ 32"
  shows "touch_id_from (Some (message_id_for (uuid_text n) host @ rest) # vs) = Some (uuid_text n)"
proof -
  let ?s = "host @ CHR ''>'' # rest"
  have m: "message_id_for (uuid_text n) host @ rest = CHR ''<'' # uuid_text n @ at_char # ?s"
    by (simp add: message_id_for_def fstr_def at_char_def)
  have "findall TOUCH_RE (CHR ''<'' # uuid_text n @ at_char # ?s) =
      (CHR ''<'' # uuid_text n @ [at_char]) # concat (map (\<lambda>x. case x of Inl _ \<Rightarrow> [] | Inr m \<Rightarrow> [m]) (scan TOUCH_RE (Some at_char) ?s))"
    by (simp add: findall_def touch_match uuid_text_chars length_uuid_text match_text_def)
  then show ?thesis
    using parse_uuid_text [OF assms] by (simp only: m) (simp add: length_uuid_text)
qed

text \<open>A reply that quotes the Message-ID of a sent touch comes back as the reply event of that touch.\<close>

lemma send_reply_event:
  assumes n: "ct_touch c = uuid_text n" "n < 16 ^ 32"
    and sent: "smtp_send sm t c subject body = Inr p" "jget_str p ''message_id'' = Inr mid"
    and echo: "ml_reply_to (parse raw) = Some mid"
    and human: "\<not> is_bounce (parse raw)" and said: "plain_body (parse raw) = Inr reply"
  shows "\<exists>eid. parse_inbound parse py_hash raw = Inr (Some
    \<lparr>pv_id = eid, pv_kind = REPLY_event, pv_ref = [(''touch_id'', ct_touch c)], pv_payload = [(''body'', JStr reply)]\<rparr>)"
proof -
  obtain sender m where b: "build_message (sm_encode sm) t (ct_mailbox c) sender (ct_recipient c) subject body (ct_touch c) (sm_unsubscribe sm) = Inr m"
    and p: "p = [(''message_id'', JStr (the_default [] (header m ''Message-ID''))), (''mailbox'', JStr (ct_mailbox c))]"
    using sent(1) by (auto simp: smtp_send_def bindE_eq_Inr split: option.splits)
  have "mid = message_id_for (uuid_text n) (domain_of (ct_mailbox c)) @ []"
    using build_message_Inr [OF b] sent(2) by (auto simp: p n(1))
  with echo touch_id_echoed [OF n(2)]
  have "touch_id_from [ml_reply_to (parse raw), ml_references (parse raw)] = Some (ct_touch c)"
    by (simp only: n(1))
  with human said show ?thesis
    by (simp add: parse_inbound_def Let_def)
qed

end
