(* ===== verification/Pyfile.thy ===== *)
theory Pyfile
  imports Pytext
begin

text \<open>
  What the program reads from files with Python's library: decimal numbers (\<open>int\<close>), the lines of a
  file opened with \<open>newline=""\<close>, and the records of the \<open>csv\<close> module in its default dialect.
\<close>

section \<open>int\<close>

text \<open>An optional sign and digits, single underscores between them.\<close>

fun digits10 :: "int \<Rightarrow> pystr \<Rightarrow> int option" where
  "digits10 a [] = Some a"
| "digits10 a (c # s) =
     (if is_digit c then digits10 (10 * a + int (code c) - 48) s
      else if c = CHR ''_'' then (case s of [] \<Rightarrow> None | x # _ \<Rightarrow> if is_digit x then digits10 a s else None)
      else None)"

definition py_int :: "pystr \<Rightarrow> exc + int" where
  "py_int txt =
     (let s = strip txt;
          neg = startswith s ''-'';
          t = (if neg \<or> startswith s ''+'' then drop 1 s else s)
      in case (case t of [] \<Rightarrow> None | c # _ \<Rightarrow> if is_digit c then digits10 0 t else None) of
           None \<Rightarrow> Inl (ValueError (fstr [''invalid literal for int() with base 10: '', py_repr txt]))
         | Some n \<Rightarrow> Inr (if neg then - n else n))"

lemma digits10_append:
  "list_all is_digit s \<Longrightarrow> digits10 a (s @ t) = Option.bind (digits10 a s) (\<lambda>b. digits10 b t)"
  by (induction s arbitrary: a) simp_all

lemma nat_str_digit: "n < 10 \<Longrightarrow> is_digit (char_of (48 + n))" "n < 10 \<Longrightarrow> code (char_of (48 + n :: nat)) = 48 + n"
  by (simp_all add: is_digit_def code_def)

lemma nat_str_digits: "list_all is_digit (nat_str n)"
  by (induction n rule: nat_str.induct) (subst nat_str.simps, simp add: nat_str_digit)

lemma digits10_nat_str: "digits10 0 (nat_str n) = Some (int n)"
proof (induction n rule: nat_str.induct)
  case (1 n)
  show ?case
  proof (cases "n < 10")
    case True
    then show ?thesis by (subst nat_str.simps) (simp add: nat_str_digit)
  next
    case False
    have "digits10 0 (nat_str n) = Option.bind (digits10 0 (nat_str (n div 10))) (\<lambda>b. digits10 b [char_of (48 + n mod 10)])"
      using False by (subst nat_str.simps) (simp add: digits10_append nat_str_digits)
    also have "\<dots> = Some (10 * int (n div 10) + int (n mod 10))"
      using 1 [OF False] by (simp add: nat_str_digit)
    also have "10 * int (n div 10) + int (n mod 10) = int n" by presburger
    finally show ?thesis .
  qed
qed

lemma digit_not_space: "is_digit c \<Longrightarrow> \<not> is_space c"
  by (auto simp: is_digit_def is_space_def)

lemma py_int_nat_str: "py_int (nat_str n) = Inr (int n)"
proof -
  have d: "\<forall>c\<in>set (nat_str n). is_digit c" using nat_str_digits [of n] by (simp add: list_all_iff)
  have ne: "nat_str n \<noteq> []" by (subst nat_str.simps) simp
  then obtain c s where cs: "nat_str n = c # s" by (cases "nat_str n") auto
  have "blank_free (nat_str n)" using d by (auto simp: blank_free_def list_all_iff dest: digit_not_space)
  then have s: "strip (nat_str n) = nat_str n" by (simp add: pyt)
  have "c \<noteq> CHR ''-''" "c \<noteq> CHR ''+''" using d cs by (auto simp: is_digit_def code_def)
  moreover have "strip (c # s) = c # s" "is_digit c" "digits10 0 (c # s) = Some (int n)"
    using s d digits10_nat_str [of n] by (simp_all add: cs del: digits10.simps)
  ultimately show ?thesis by (simp add: py_int_def Let_def cs startswith_def del: digits10.simps)
qed

section \<open>Lines\<close>

text \<open>The lines with their ends: \<open>\n\<close>, \<open>\r\<close> or both.\<close>

fun split_line :: "pystr \<Rightarrow> pystr \<times> pystr" where
  "split_line [] = ([], [])"
| "split_line (c # s) =
     (if code c = 10 then ([c], s)
      else if code c = 13 then (case s of x # t \<Rightarrow> if code x = 10 then ([c, x], t) else ([c], s) | [] \<Rightarrow> ([c], []))
      else (let (l, r) = split_line s in (c # l, r)))"

lemma split_line_append: "fst (split_line s) @ snd (split_line s) = s"
proof (induction s)
  case (Cons c s)
  then show ?case
    by (simp only: split_line.simps(2) Let_def split_beta, cases s) (simp_all del: split_line.simps(2))
qed simp

lemma split_line_nonempty: "s \<noteq> [] \<Longrightarrow> fst (split_line s) \<noteq> []"
  by (cases s) (simp_all add: split_beta split: list.split)

lemma split_line_shorter: "s \<noteq> [] \<Longrightarrow> length (snd (split_line s)) < length s"
proof -
  assume "s \<noteq> []"
  then have "0 < length (fst (split_line s))" by (simp add: split_line_nonempty)
  moreover have "length (fst (split_line s)) + length (snd (split_line s)) = length s"
    by (simp add: split_line_append flip: length_append)
  ultimately show ?thesis by linarith
qed

function file_lines :: "pystr \<Rightarrow> pystr list" where
  "file_lines s = (if s = [] then [] else fst (split_line s) # file_lines (snd (split_line s)))"
  by pat_completeness auto
termination
  by (relation "measure length") (simp_all add: split_line_shorter)

declare file_lines.simps [simp del]

lemma concat_file_lines: "concat (file_lines s) = s"
proof (induction s rule: file_lines.induct)
  case (1 s)
  show ?case
  proof (cases "s = []")
    case False
    then show ?thesis
      using 1 split_line_append [of s] by (subst file_lines.simps) simp
  qed (simp add: file_lines.simps)
qed

text \<open>What is left after some of the lines is the other lines.\<close>

lemma file_lines_drop:
  "file_lines s = xs @ ys \<Longrightarrow> file_lines (drop (length (concat xs)) s) = ys"
proof (induction xs arbitrary: s)
  case (Cons x xs)
  then have ne: "s \<noteq> []" by (auto simp: file_lines.simps)
  with Cons.prems have x: "x = fst (split_line s)" "file_lines (snd (split_line s)) = xs @ ys"
    by (subst (asm) file_lines.simps, simp)+
  have "s = x @ snd (split_line s)" using split_line_append [of s] x by simp
  then have "drop (length (concat (x # xs))) s = drop (length (concat xs)) (snd (split_line s))"
    by (metis append_eq_conv_conj concat.simps(2) drop_drop length_append add.commute)
  with Cons.IH [OF x(2)] show ?case by simp
qed simp

section \<open>CSV records\<close>

text \<open>The states of the reader; \<open>After_cr\<close> is a record ended by \<open>\r\<close>, whose \<open>\n\<close> is still to come.\<close>

datatype csv_state = Start_record | After_cr | Start_field | In_field | In_quoted | Quote_in_quoted

definition csv_end :: "char \<Rightarrow> csv_state" where
  "csv_end c = (if code c = 13 then After_cr else Start_record)"

definition eol :: "char \<Rightarrow> bool" where
  "eol c \<longleftrightarrow> code c = 10 \<or> code c = 13"

fun csv_go :: "csv_state \<Rightarrow> pystr \<Rightarrow> pystr list \<Rightarrow> pystr \<Rightarrow> pystr list list" where
  "csv_go st f fs [] = (if st = Start_record \<or> st = After_cr then [] else [fs @ [f]])"
| "csv_go st f fs (c # s) =
     (if st = In_quoted
      then (if [c] = dq then csv_go Quote_in_quoted f fs s else csv_go In_quoted (f @ [c]) fs s)
      else if st = Quote_in_quoted \<and> [c] = dq then csv_go In_quoted (f @ [c]) fs s
      else if st = After_cr \<and> code c = 10 then csv_go Start_record [] [] s
      else if eol c
        then (if st = Start_record \<or> st = After_cr then [] else fs @ [f]) # csv_go (csv_end c) [] [] s
      else if c = CHR '','' then csv_go Start_field [] (fs @ [f]) s
      else if [c] = dq \<and> st \<noteq> In_field then csv_go In_quoted f fs s
      else csv_go In_field (f @ [c]) fs s)"

definition csv_records :: "pystr \<Rightarrow> pystr list list" where
  "csv_records s = csv_go Start_record [] [] s"

text \<open>\<open>next(csv.reader([line]))\<close>; there is a line.\<close>

definition csv_line :: "pystr \<Rightarrow> pystr list" where
  "csv_line s = (case csv_records s of [] \<Rightarrow> [] | r # _ \<Rightarrow> r)"

text \<open>A \<open>DictReader\<close>: the first record names the columns, empty records are skipped, missing columns
  are \<open>None\<close>; of equal names the last counts.\<close>

type_synonym csv_row = "(pystr \<times> pystr option) list"

definition dict_row :: "pystr list \<Rightarrow> pystr list \<Rightarrow> csv_row" where
  "dict_row names r = zip names (map Some r @ replicate (length names - length r) None)"

definition dict_records :: "pystr \<Rightarrow> pystr list \<times> csv_row list" where
  "dict_records s =
     (case csv_records s of [] \<Rightarrow> ([], []) | names # rs \<Rightarrow> (names, map (dict_row names) (filter (\<lambda>r. r \<noteq> []) rs)))"

text \<open>\<open>row.get(col)\<close> and \<open>row.get(col) or ""\<close>.\<close>

definition cell :: "csv_row \<Rightarrow> pystr \<Rightarrow> pystr option" where
  "cell row col = Option.bind (map_of (rev row) col) id"

definition cell_text :: "csv_row \<Rightarrow> pystr \<Rightarrow> pystr" where
  "cell_text row col = the_default [] (cell row col)"

section \<open>What was quoted is read back\<close>

definition csv_quote :: "pystr \<Rightarrow> pystr" where
  "csv_quote f = dq @ concat (map (\<lambda>c. if [c] = dq then dq @ dq else [c]) f) @ dq"

lemma dq_char: "dq = [c] \<longleftrightarrow> c = CHR 0x22" "[c] = dq \<longleftrightarrow> c = CHR 0x22"
  by (auto simp: dq_def)

lemma csv_quoted_field:
  "csv_go In_quoted f fs (concat (map (\<lambda>c. if [c] = dq then dq @ dq else [c]) g) @ dq @ s) = csv_go Quote_in_quoted (f @ g) fs s"
  by (induction g arbitrary: f) (simp_all add: dq_def)

lemma csv_go_quote:
  assumes "st = Start_record \<or> st = After_cr \<or> st = Start_field"
  shows "csv_go st [] fs (csv_quote f @ s) = csv_go Quote_in_quoted f fs s"
proof -
  have "csv_go st [] fs (dq @ t) = csv_go In_quoted [] fs t" for t
    using assms by (auto simp: dq_def eol_def code_def)
  then show ?thesis using csv_quoted_field [of "[]" fs f s] by (simp add: csv_quote_def)
qed

lemma csv_go_fields:
  assumes "st = Start_record \<or> st = After_cr \<or> st = Start_field" and "xs \<noteq> []"
  shows "csv_go st [] fs (join '','' (map csv_quote xs) @ nl @ s) = (fs @ xs) # csv_go Start_record [] [] s"
  using assms
proof (induction xs arbitrary: st fs)
  case (Cons x xs)
  show ?case
  proof (cases xs)
    case Nil
    then show ?thesis using csv_go_quote [OF Cons.prems(1), of fs x "nl @ s"]
      by (simp add: nl_def dq_def eol_def code_def csv_end_def)
  next
    case (Cons y ys)
    then have "join '','' (map csv_quote (x # xs)) @ nl @ s = csv_quote x @ CHR '','' # (join '','' (map csv_quote xs) @ nl @ s)"
      by simp
    with csv_go_quote [OF \<open>st = Start_record \<or> st = After_cr \<or> st = Start_field\<close>]
      Cons.IH [of Start_field "fs @ [x]"] Cons
    show ?thesis by (simp add: dq_def eol_def code_def)
  qed
qed simp

lemma csv_quoted_records:
  assumes "\<forall>r\<in>set rs. r \<noteq> []"
  shows "csv_records (concat (map (\<lambda>r. join '','' (map csv_quote r) @ nl) rs)) = rs"
  unfolding csv_records_def using assms
  by (induction rs) (simp_all add: csv_go_fields)

end
