(* ===== verification/Api.thy ===== *)
theory Api
  imports Forget Human_tasks Proposals Events Programs Grouping Attribution Pyfile
begin

text \<open>
  The HTTP surface that changes state: the operator API of \<open>api/app.py\<close> and the management routes
  of \<open>api/manage.py\<close>. A route takes the request's parts and the database and gives its answer or
  the HTTP error, with the database it leaves; an exception no handler names is a server error.
  The pages are in \<open>Dashboard\<close> and \<open>Forms\<close>; routing is left out.
\<close>

section \<open>Answers\<close>

datatype http_error = HTTPException nat pystr | Server_error exc

type_synonym 'a response = "(http_error + 'a) \<times> db"

text \<open>\<open>with engine.begin() as conn\<close>: an exception rolls back.\<close>

definition commit :: "db \<Rightarrow> exc + 'a \<times> db \<Rightarrow> 'a response" where
  "commit d m = (case m of Inl e \<Rightarrow> (Inl (Server_error e), d) | Inr (x, d') \<Rightarrow> (Inr x, d'))"

definition answer_map :: "('a \<Rightarrow> http_error + 'b) \<Rightarrow> 'a response \<Rightarrow> 'b response" where
  "answer_map f r = (bindE (fst r) f, snd r)"

section \<open>Tokens\<close>

record api_token =
  at_name :: pystr
  at_secret :: pystr
  at_scopes :: "pystr list"

text \<open>\<open>s.split(c, n)\<close>.\<close>

fun split_max :: "nat \<Rightarrow> char \<Rightarrow> pystr \<Rightarrow> pystr list" where
  "split_max 0 c s = [s]"
| "split_max (Suc n) c s =
     (case dropWhile (\<lambda>x. x \<noteq> c) s of
        [] \<Rightarrow> [s]
      | _ # rest \<Rightarrow> takeWhile (\<lambda>x. x \<noteq> c) s # split_max n c rest)"

definition parse_token :: "pystr \<Rightarrow> exc + api_token" where
  "parse_token entry =
     (case split_max 2 (CHR '':'') entry of
        [name, secret, scopes] \<Rightarrow>
          if length secret < 16
          then Inl (ValueError (fstr [''API token '', py_repr name, '' secret is too short (min 16 chars)'']))
          else Inr \<lparr>at_name = name, at_secret = secret, at_scopes = split_on (CHR ''|'') scopes\<rparr>
      | _ \<Rightarrow> Inl (ValueError ''not enough values to unpack''))"

fun parse_entries :: "pystr list \<Rightarrow> exc + api_token list" where
  "parse_entries [] = Inr []"
| "parse_entries (e # es) =
     (if strip e = [] then parse_entries es
      else bindE (parse_token (strip e)) (\<lambda>t. bindE (parse_entries es) (\<lambda>ts. Inr (t # ts))))"

definition parse_tokens :: "pystr \<Rightarrow> exc + api_token list" where
  "parse_tokens raw = parse_entries (split_on (CHR '','') raw)"

text \<open>\<open>hmac.compare_digest\<close> of two texts.\<close>

definition compare_digest :: "pystr \<Rightarrow> pystr \<Rightarrow> exc + bool" where
  "compare_digest a b =
     (if list_all is_ascii a \<and> list_all is_ascii b then Inr (a = b)
      else Inl (OtherError ''comparing strings with non-ASCII characters is not supported''))"

fun check_token :: "api_token list \<Rightarrow> pystr \<Rightarrow> pystr \<Rightarrow> http_error + api_token" where
  "check_token [] scope secret = Inl (HTTPException 401 ''invalid token'')"
| "check_token (t # ts) scope secret =
     (case compare_digest (at_secret t) secret of
        Inl e \<Rightarrow> Inl (Server_error e)
      | Inr same \<Rightarrow>
          if same
          then (if scope \<in> set (at_scopes t) then Inr t
                else Inl (HTTPException 403 (fstr [''token lacks scope '', py_repr scope])))
          else check_token ts scope secret)"

definition require :: "api_token list \<Rightarrow> pystr \<Rightarrow> pystr \<Rightarrow> http_error + api_token" where
  "require tokens scope authorization = check_token tokens scope (strip (drop_prefix ''Bearer '' authorization))"

text \<open>A route behind a scope.\<close>

definition scoped ::
  "api_token list \<Rightarrow> pystr \<Rightarrow> pystr \<Rightarrow> db \<Rightarrow> (api_token \<Rightarrow> 'a response) \<Rightarrow> 'a response" where
  "scoped tokens scope authorization d body =
     (case require tokens scope authorization of Inl e \<Rightarrow> (Inl e, d) | Inr t \<Rightarrow> body t)"

section \<open>Routes of app.py\<close>

definition conversions_route ::
  "api_token list \<Rightarrow> pystr \<Rightarrow> pystr \<Rightarrow> pystr \<Rightarrow> db \<Rightarrow> (bool \<times> pystr) response" where
  "conversions_route tokens key authorization token d =
     scoped tokens ''conversions:write'' authorization d (\<lambda>_.
       case verify token key of
         Inl e \<Rightarrow> (Inl (Server_error e), d)
       | Inr None \<Rightarrow> (Inl (HTTPException 401 ''invalid attribution token''), d)
       | Inr (Some touch_id) \<Rightarrow>
           answer_map (\<lambda>converted. Inr (converted, touch_id)) (commit d (record_conversion touch_id d)))"

definition forget_route :: "api_token list \<Rightarrow> pystr \<Rightarrow> pystr \<Rightarrow> db \<Rightarrow> (uuid \<times> nat) response" where
  "forget_route tokens authorization ref d =
     scoped tokens ''privacy:write'' authorization d (\<lambda>_.
       case forget ref d of
         Inl (UnknownSubjectError m) \<Rightarrow> (Inl (HTTPException 404 m), d)
       | r \<Rightarrow> answer_map (\<lambda>rc. Inr (fr_receipt rc, fr_addresses rc)) (commit d r))"

definition token_actor :: "api_token \<Rightarrow> pystr" where
  "token_actor t = fstr [''operator:'', at_name t]"

definition halt_route :: "api_token list \<Rightarrow> pystr \<Rightarrow> pystr \<Rightarrow> db \<Rightarrow> pystr response" where
  "halt_route tokens authorization scope d =
     scoped tokens ''control:write'' authorization d (\<lambda>t. (Inr scope, halt scope (token_actor t) ''halted'' d))"

definition resume_route :: "api_token list \<Rightarrow> pystr \<Rightarrow> pystr \<Rightarrow> db \<Rightarrow> bool response" where
  "resume_route tokens authorization scope d =
     scoped tokens ''control:write'' authorization d (\<lambda>t. commit d (resume scope (token_actor t) d))"

text \<open>\<open>INSERT INTO operator_events .. ON CONFLICT (dedupe_key) DO NOTHING\<close> and the job that fires
  the event; an event without a key conflicts with none.\<close>

definition record_opevent :: "pystr \<Rightarrow> payload \<Rightarrow> payload \<Rightarrow> pystr option \<Rightarrow> db \<Rightarrow> uuid option \<times> db" where
  "record_opevent ty selector pl key d =
     (if key \<noteq> None \<and> (\<exists>r\<in>set (opevents d). oe_key r = key) then (None, d)
      else
        let (i, d1) = fresh_uuid d
        in (Some i, enqueue_key ''trigger'' [(''event_id'', JStr i)] (fstr [''trigger:'', i])
              (d1\<lparr>opevents := ins \<lparr>oe_id = i, oe_type = ty, oe_selector = selector, oe_payload = pl, oe_key = key\<rparr>
                                (opevents d1)\<rparr>)))"

definition operator_events_route ::
  "api_token list \<Rightarrow> pystr \<Rightarrow> pystr \<Rightarrow> payload \<Rightarrow> payload \<Rightarrow> pystr option \<Rightarrow> db \<Rightarrow> (bool \<times> uuid option) response" where
  "operator_events_route tokens authorization ty selector pl key d =
     scoped tokens ''events:write'' authorization d (\<lambda>_.
       if ty = [] then (Inl (HTTPException 422 ''event_type''), d)
       else (let (row, d1) = record_opevent ty selector pl key d in (Inr (row \<noteq> None, row), d1)))"

text \<open>\<open>^[a-z0-9_-]+$\<close>\<close>

definition tenant_slug :: "pystr \<Rightarrow> bool" where
  "tenant_slug s \<longleftrightarrow> s \<noteq> [] \<and> list_all (\<lambda>c. is_lower c \<or> is_digit c \<or> c = CHR ''_'' \<or> c = CHR ''-'') s"

definition programs_route :: "codec \<Rightarrow> api_token list \<Rightarrow> pystr \<Rightarrow> pystr \<Rightarrow> json \<Rightarrow> db \<Rightarrow> pystr response" where
  "programs_route cx tokens authorization tenant brief_json d =
     scoped tokens ''manage:write'' authorization d (\<lambda>_.
       if \<not> tenant_slug tenant then (Inl (HTTPException 422 ''tenant''), d)
       else (case cx_read_brief cx brief_json of
           Inl e \<Rightarrow> (Inl (if is_value_error e then HTTPException 422 (exc_str e) else Server_error e), d)
         | Inr brief \<Rightarrow> (let (digest, d1) = enqueue_synthesis cx tenant brief d in (Inr digest, d1))))"

text \<open>The counts of \<open>/v1/funnel\<close>, by tenant and state.\<close>

definition tenant_states :: "db \<Rightarrow> ((pystr \<times> pystr) \<times> nat) list" where
  "tenant_states d =
     group_count (\<lambda>p. (the_default [] (slug_of d (p_tenant p)), state_str (p_state p)))
       (sel (\<lambda>p. slug_of d (p_tenant p) \<noteq> None) (prospects d))"

definition funnel_route ::
  "api_token list \<Rightarrow> pystr \<Rightarrow> db \<Rightarrow> (pystr \<times> (pystr \<times> nat) list) list response" where
  "funnel_route tokens authorization d =
     scoped tokens ''read'' authorization d (\<lambda>_.
       (Inr (map (\<lambda>t. (t, map (\<lambda>((_, s), n). (s, n)) (filter (\<lambda>((t', _), _). t' = t) (tenant_states d))))
               (group_keys (\<lambda>((t, _), _). t) (tenant_states d))), d))"

definition provider_hook ::
  "(pystr \<Rightarrow> pystr \<Rightarrow> exc + provider_event list) \<Rightarrow> pystr \<Rightarrow> pystr \<Rightarrow> db \<Rightarrow> nat response" where
  "provider_hook parse body signature d =
     (case ingest_webhook parse body signature d of
        Inl (WebhookVerificationError _) \<Rightarrow>
          (Inl (HTTPException 401 ''invalid signature''),
           audit ''webhook'' ''provider'' ''signature_rejected'' [] ''system:api'' d)
      | r \<Rightarrow> commit d r)"

section \<open>Routes of manage.py\<close>

definition ACTOR :: pystr where
  "ACTOR = ''operator:dashboard''"

text \<open>The variable \<open>OR_DASHBOARD_MANAGE_TOKEN\<close>, empty where it is unset, and the query parameter.\<close>

definition check_manage :: "pystr \<Rightarrow> pystr \<Rightarrow> http_error + pystr" where
  "check_manage expected token =
     (if expected = [] then Inl (HTTPException 403 ''management surface disabled (no manage token configured)'')
      else if token \<noteq> expected then Inl (HTTPException 401 ''manage token required (?manage_token=...)'')
      else Inr token)"

definition managed :: "pystr \<Rightarrow> pystr \<Rightarrow> db \<Rightarrow> 'a response \<Rightarrow> 'a response" where
  "managed expected token d r = (case check_manage expected token of Inl e \<Rightarrow> (Inl e, d) | Inr _ \<Rightarrow> r)"

text \<open>A decision on a row: 404 where there was none to decide.\<close>

definition decision :: "pystr \<Rightarrow> pystr \<Rightarrow> pystr \<Rightarrow> db \<Rightarrow> exc + bool \<times> db \<Rightarrow> unit response" where
  "decision expected token missing d m =
     managed expected token d
       (answer_map (\<lambda>ok. if ok then Inr () else Inl (HTTPException 404 missing)) (commit d m))"

definition approve_proposal_route :: "pystr \<Rightarrow> pystr \<Rightarrow> uuid \<Rightarrow> db \<Rightarrow> unit response" where
  "approve_proposal_route expected token i d = decision expected token ''not an open proposal'' d (approve i ACTOR False d)"

definition decline_proposal_route :: "pystr \<Rightarrow> pystr \<Rightarrow> uuid \<Rightarrow> db \<Rightarrow> unit response" where
  "decline_proposal_route expected token i d = decision expected token ''not an open proposal'' d (decline i ACTOR [] d)"

definition ramp_send_route :: "pystr \<Rightarrow> pystr \<Rightarrow> uuid \<Rightarrow> db \<Rightarrow> unit response" where
  "ramp_send_route expected token i d = decision expected token ''not a pending-review touch'' d (approve_pending i ACTOR d)"

definition ramp_reject_route :: "pystr \<Rightarrow> pystr \<Rightarrow> uuid \<Rightarrow> db \<Rightarrow> unit response" where
  "ramp_reject_route expected token i d = decision expected token ''not a pending-review touch'' d (reject_pending i ACTOR [] d)"

definition task_done_route :: "pystr \<Rightarrow> pystr \<Rightarrow> uuid \<Rightarrow> db \<Rightarrow> unit response" where
  "task_done_route expected token i d = decision expected token ''not a pending task'' d (resolve_task i ACTOR True [] d)"

definition task_skip_route :: "pystr \<Rightarrow> pystr \<Rightarrow> uuid \<Rightarrow> db \<Rightarrow> unit response" where
  "task_skip_route expected token i d = decision expected token ''not a pending task'' d (resolve_task i ACTOR False [] d)"

definition pause_tenant_route :: "pystr \<Rightarrow> pystr \<Rightarrow> pystr \<Rightarrow> db \<Rightarrow> unit response" where
  "pause_tenant_route expected token tenant d = managed expected token d (Inr (), halt tenant ACTOR ''halted'' d)"

definition resume_tenant_route :: "pystr \<Rightarrow> pystr \<Rightarrow> pystr \<Rightarrow> db \<Rightarrow> unit response" where
  "resume_tenant_route expected token tenant d =
     managed expected token d (answer_map (\<lambda>_. Inr ()) (commit d (resume tenant ACTOR d)))"

text \<open>The form's fields as a brief; the dashboard's own budget and autonomy.\<close>

definition form_brief :: "(pystr \<times> pystr) list \<Rightarrow> int \<Rightarrow> json" where
  "form_brief form monthly =
     (let get = (\<lambda>k. JStr (the_default [] (map_of form k)))
      in JObj
        [(''find'', get ''find''), (''research'', get ''research''),
         (''goals'', JObj [(''convert'', get ''convert'')]),
         (''about_us'', JObj
            [(''name'', get ''name''), (''what_we_do'', get ''what_we_do''),
             (''links'', JObj (if the_default [] (map_of form ''signup_link'') = [] then []
                              else [(''signup'', get ''signup_link'')])),
             (''identity'', JObj [(''sender'', get ''sender''), (''physical_address'', get ''physical_address'')])]),
         (''budgets'', JObj [(''monthly_prospects'', JInt monthly), (''monthly_llm_usd'', JInt 25)]),
         (''autonomy'', JStr ''review_everything'')])"

text \<open>The answer is whether synthesis was queued; a brief that does not validate shows the form again.\<close>

definition new_campaign_submit ::
  "codec \<Rightarrow> pystr \<Rightarrow> pystr \<Rightarrow> (pystr \<times> pystr) list \<Rightarrow> db \<Rightarrow> bool response" where
  "new_campaign_submit cx expected token form d =
     managed expected token d
       (case py_int (the_default ''200'' (map_of form ''monthly_prospects'')) of
          Inl e \<Rightarrow> (Inl (Server_error e), d)
        | Inr monthly \<Rightarrow> (case cx_read_brief cx (form_brief form monthly) of
            Inl _ \<Rightarrow> (Inr False, d)
          | Inr brief \<Rightarrow> (Inr True, snd (enqueue_synthesis cx (the_default [] (map_of form ''tenant'')) brief d))))"

section \<open>Who may change state\<close>

lemma split_max_no_sep: "x \<in> set (butlast (split_max n c s)) \<Longrightarrow> c \<notin> set x"
proof (induction n arbitrary: s)
  case (Suc n)
  then show ?case
    by (cases "dropWhile (\<lambda>x. x \<noteq> c) s") (auto split: if_splits dest: set_takeWhileD)
qed simp

lemma parse_token_Inr:
  "parse_token e = Inr t \<Longrightarrow> 16 \<le> length (at_secret t) \<and> CHR '':'' \<notin> set (at_secret t)"
  using split_max_no_sep [of _ 2 "CHR '':''" e]
  by (fastforce simp: parse_token_def split: list.splits if_splits)

lemma parse_entries_Inr:
  "parse_entries es = Inr ts \<Longrightarrow> t \<in> set ts \<Longrightarrow> 16 \<le> length (at_secret t)"
  by (induction es arbitrary: ts) (auto simp: bindE_eq_Inr dest: parse_token_Inr split: if_splits)

lemma check_token_Inr:
  "check_token ts scope secret = Inr t \<Longrightarrow> t \<in> set ts \<and> scope \<in> set (at_scopes t) \<and> at_secret t = secret"
  by (induction ts) (auto simp: compare_digest_def split: if_splits sum.splits)

definition allows :: "api_token list \<Rightarrow> pystr \<Rightarrow> pystr \<Rightarrow> bool" where
  "allows tokens scope authorization \<longleftrightarrow>
     (\<exists>t\<in>set tokens. scope \<in> set (at_scopes t) \<and> at_secret t = strip (drop_prefix ''Bearer '' authorization))"

lemma scoped_changes:
  "snd (scoped tokens scope authorization d body) \<noteq> d \<Longrightarrow> allows tokens scope authorization"
  unfolding scoped_def require_def allows_def
  by (auto split: sum.splits dest: check_token_Inr)

lemma managed_changes: "snd (managed expected token d r) \<noteq> d \<Longrightarrow> expected \<noteq> [] \<and> token = expected"
  by (auto simp: managed_def check_manage_def split: if_splits)

lemma decision_changes: "snd (decision expected token missing d m) \<noteq> d \<Longrightarrow> expected \<noteq> [] \<and> token = expected"
  unfolding decision_def by (rule managed_changes)

lemma commit_snd: "snd (commit d m) = d' \<longleftrightarrow> (case m of Inl _ \<Rightarrow> d' = d | Inr (_, e) \<Rightarrow> d' = e)"
  by (auto simp: commit_def split: sum.splits)

lemma snd_answer_map [simp]: "snd (answer_map f r) = snd r"
  by (simp add: answer_map_def)

section \<open>Events fire once\<close>

lemma record_opevent_again:
  assumes "record_opevent ty selector pl (Some k) d = (r, d1)"
  shows "record_opevent ty' selector' pl' (Some k) d1 = (None, d1)"
proof -
  have "\<exists>r\<in>set (opevents d1). oe_key r = Some k"
    using assms by (auto simp: record_opevent_def fresh_uuid_def enqueue_key_def enqueue_def ins_def split: if_splits)
  then show ?thesis by (simp add: record_opevent_def)
qed

lemma record_opevent_None: "record_opevent ty selector pl key d = (None, d') \<Longrightarrow> d' = d"
  by (auto simp: record_opevent_def fresh_uuid_def split: if_splits)

text \<open>A new event is stored and has a job of its own to fire it.\<close>

lemma record_opevent_Some:
  assumes "record_opevent ty selector pl key d = (Some i, d')"
  shows "\<exists>r\<in>set (opevents d'). oe_id r = i \<and> oe_type r = ty \<and> oe_selector r = selector"
    and "\<exists>j\<in>set (jobs d'). j_key j = Some (fstr [''trigger:'', i])"
  using assms by (auto simp: record_opevent_def fresh_uuid_def enqueue_key_def enqueue_def ins_def split: if_splits)

section \<open>The funnel counts every prospect once\<close>

lemma tenant_states_total:
  "sum_list (map snd (tenant_states d)) = cnt (\<lambda>p. slug_of d (p_tenant p) \<noteq> None) (prospects d)"
proof -
  have "sum_list (map snd (group_count key t)) = length t" for key :: "prospect_row \<Rightarrow> pystr \<times> pystr" and t
    using sum_group_count [of "\<lambda>_. True" key t] by (simp add: cnt_def split_beta' flip: snd_def)
  then show ?thesis by (simp add: tenant_states_def cnt_def sel_def)
qed

end
