(* ===== verification/Sources.thy ===== *)
theory Sources
  imports Api Prospecting Pyfile
begin

text \<open>
  The adapters that bring prospects and facts in: license filings as operator events
  (\<open>adapters/sources/signals.py\<close>), the NPI registry as a source (\<open>adapters/sources/nppes.py\<close>), and
  the two enrichers (\<open>adapters/enrich/registry.py\<close>, \<open>adapters/enrich/web_research.py\<close>). A file is
  its bytes; the model backend is a parameter.
\<close>

section \<open>signals.py\<close>

definition DEFAULT_EVENT_TYPE :: pystr where
  "DEFAULT_EVENT_TYPE = ''license.issued''"

definition HEADER_ALIASES :: "(pystr \<times> pystr list) list" where
  "HEADER_ALIASES =
     [(''name'', [''name'', ''licensee'', ''business_name'', ''trade_name'', ''dba'']),
      (''city'', [''city'', ''locality'', ''town'']),
      (''state'', [''state'', ''st'', ''province'']),
      (''issued'', [''issued'', ''issue_date'', ''effective_date'', ''license_date'']),
      (''license_type'', [''license_type'', ''type'', ''class''])]"

definition aliases_repr :: "pystr list \<Rightarrow> pystr" where
  "aliases_repr xs = fstr [''('', join '', '' (map py_repr xs), '')'']"

definition map_headers :: "pystr list \<Rightarrow> exc + (pystr \<times> pystr) list" where
  "map_headers fieldnames =
     (let lowered = rev (map (\<lambda>f. (strip (lower f), f)) fieldnames);
          mapping = List.map_filter (\<lambda>(field, aliases).
            map_option (\<lambda>alias. (field, the_default [] (map_of lowered alias)))
              (List.find (\<lambda>alias. map_of lowered alias \<noteq> None) aliases)) HEADER_ALIASES
      in if map_of mapping ''name'' = None
         then Inl (ValueError (fstr [''no licensee-name column found (looked for '',
                aliases_repr (the_default [] (map_of HEADER_ALIASES ''name'')), ''; got '', list_repr fieldnames, '')'']))
         else Inr mapping)"

definition row_field :: "(pystr \<times> pystr) list \<Rightarrow> csv_row \<Rightarrow> pystr \<Rightarrow> pystr" where
  "row_field mapping row field =
     (case nonempty (map_of mapping field) of None \<Rightarrow> [] | Some col \<Rightarrow> strip (cell_text row col))"

definition filing_key :: "pystr \<Rightarrow> (pystr \<times> pystr) list \<Rightarrow> csv_row \<Rightarrow> pystr" where
  "filing_key event_type mapping row =
     lower (fstr [''signal:'', event_type, '':'', row_field mapping row ''state'', '':'',
       row_field mapping row ''name'', '':'', row_field mapping row ''issued''])"

definition filing_selector :: "(pystr \<times> pystr) list \<Rightarrow> csv_row \<Rightarrow> payload" where
  "filing_selector mapping row =
     map (\<lambda>(k, v). (k, JStr v)) (filter (\<lambda>(_, v). v \<noteq> [])
       [(''business_name'', row_field mapping row ''name''), (''city'', row_field mapping row ''city''),
        (''state'', row_field mapping row ''state''), (''license_type'', row_field mapping row ''license_type'')])"

fun ingest_filings ::
  "pystr \<Rightarrow> pystr \<Rightarrow> (pystr \<times> pystr) list \<Rightarrow> csv_row list \<Rightarrow> nat \<Rightarrow> nat \<Rightarrow> db \<Rightarrow> (nat \<times> nat) \<times> db" where
  "ingest_filings event_type file mapping [] rows fired d = ((rows, fired), d)"
| "ingest_filings event_type file mapping (row # rest) rows fired d =
     (if row_field mapping row ''name'' = [] then ingest_filings event_type file mapping rest (Suc rows) fired d
      else
        let (inserted, d1) = record_opevent event_type (filing_selector mapping row)
              [(''issued'', JStr (row_field mapping row ''issued'')), (''source'', JStr file)]
              (Some (filing_key event_type mapping row)) d
        in ingest_filings event_type file mapping rest (Suc rows) (if inserted = None then fired else Suc fired) d1)"

text \<open>The file is read as \<open>utf-8-sig\<close>.\<close>

definition ingest_license_csv :: "pystr \<Rightarrow> pystr \<Rightarrow> pystr \<Rightarrow> db \<Rightarrow> exc + (nat \<times> nat) \<times> db" where
  "ingest_license_csv event_type file content d =
     (let (names, rows) = dict_records (drop_prefix [CHR 0xEF, CHR 0xBB, CHR 0xBF] content)
      in bindE (map_headers names) (\<lambda>mapping. Inr (ingest_filings event_type file mapping rows 0 0 d)))"

section \<open>nppes.py\<close>

definition TAXONOMY_COLS :: "pystr list" where
  "TAXONOMY_COLS = map (\<lambda>i. fstr [''Healthcare Provider Taxonomy Code_'', nat_str i]) [1..<16]"

definition BATCH :: nat where
  "BATCH = 500"

text \<open>\<open>str.upper\<close>, and \<open>str.title\<close>: a letter after a letter is lower case, any other letter upper.\<close>

definition upper :: "pystr \<Rightarrow> pystr" where
  "upper s = map char_upper s"

definition is_letter :: "char \<Rightarrow> bool" where
  "is_letter c \<longleftrightarrow> is_upper c \<or> is_lower c \<or> \<not> is_ascii c"

fun title_from :: "bool \<Rightarrow> pystr \<Rightarrow> pystr" where
  "title_from after [] = []"
| "title_from after (c # s) = (if after then char_lower c else char_upper c) # title_from (is_letter c) s"

definition title :: "pystr \<Rightarrow> pystr" where
  "title s = title_from False s"

text \<open>\<open>{str(t) for t in x or []}\<close>: a text gives its characters, an object its keys.\<close>

definition text_set :: "json option \<Rightarrow> exc + pystr list" where
  "text_set j =
     (case j of None \<Rightarrow> Inr []
      | Some v \<Rightarrow>
          if \<not> truthy v then Inr []
          else (case v of JList xs \<Rightarrow> Inr (map jstr xs) | JStr s \<Rightarrow> Inr (map (\<lambda>c. [c]) s) | JObj kvs \<Rightarrow> Inr (map fst kvs)
                | _ \<Rightarrow> Inl (OtherError ''TypeError'')))"

definition nppes_match :: "csv_row \<Rightarrow> pystr \<Rightarrow> pystr list \<Rightarrow> candidate option" where
  "nppes_match row state taxonomies =
     (let get = cell_text row;
          row_taxonomies = filter (\<lambda>t. t \<noteq> []) (map get TAXONOMY_COLS);
          shared = sort (remdups (filter (\<lambda>t. t \<in> set taxonomies) row_taxonomies));
          first = title (get ''Provider First Name''); last = title (get ''Provider Last Name (Legal Name)'')
      in if cell row ''Entity Type Code'' \<noteq> Some ''1'' then None
         else if upper (get ''Provider Business Practice Location Address State Name'') \<noteq> state then None
         else if shared = [] then None
         else if first = [] \<or> last = [] then None
         else Some
           \<lparr>cd_name = fstr [first, '' '', last], cd_org = None, cd_website = None, cd_email = None,
            cd_phone = nonempty (cell row ''Provider Business Practice Location Address Telephone Number''),
            cd_address = Some (join '', '' (filter (\<lambda>p. p \<noteq> []) (map get
              [''Provider First Line Business Practice Location Address'',
               ''Provider Business Practice Location Address City Name'',
               ''Provider Business Practice Location Address State Name'',
               ''Provider Business Practice Location Address Postal Code'']))),
            cd_source = ''nppes'',
            cd_ref = [(''npi'', JStr (get ''NPI'')), (''taxonomies'', JList (map JStr shared)),
              (''credential'', JStr (get ''Provider Credential Text'')),
              (''practice_city'', JStr (get ''Provider Business Practice Location Address City Name'')),
              (''practice_state'', JStr (get ''Provider Business Practice Location Address State Name''))],
            cd_basis = ''government_public''\<rparr>)"

definition line_match :: "pystr list \<Rightarrow> pystr \<Rightarrow> pystr list \<Rightarrow> pystr \<Rightarrow> candidate option" where
  "line_match header state taxonomies line =
     nppes_match (zip header (map Some (csv_line line))) state taxonomies"

fun nppes_scan ::
  "pystr list \<Rightarrow> pystr \<Rightarrow> pystr list \<Rightarrow> pystr list \<Rightarrow> nat \<Rightarrow> candidate list \<Rightarrow> candidate list \<times> pystr option" where
  "nppes_scan header state taxonomies [] offset cands = (cands, None)"
| "nppes_scan header state taxonomies (line # rest) offset cands =
     (let offset' = offset + length line;
          cands' = (case line_match header state taxonomies line of None \<Rightarrow> cands | Some c \<Rightarrow> cands @ [c])
      in if BATCH \<le> length cands' then (cands', Some (nat_str offset'))
         else nppes_scan header state taxonomies rest offset' cands')"

text \<open>A cursor is a byte offset; one outside the file reads nothing, a negative one is refused.\<close>

definition nppes_discover :: "pystr \<Rightarrow> payload \<Rightarrow> pystr option \<Rightarrow> exc + candidate list \<times> pystr option" where
  "nppes_discover content filters cursor =
     bindE (text_set (map_of filters ''taxonomy'')) (\<lambda>taxonomies.
       let state = upper (case map_of filters ''state'' of None \<Rightarrow> [] | Some j \<Rightarrow> jstr j);
           first = fst (split_line content); header = csv_line first
       in if state = [] \<or> taxonomies = []
          then Inl (ValueError (fstr [''nppes cohort filters require '', sq, ''state'', sq, '' and '', sq, ''taxonomy'', sq]))
          else bindE (case nonempty cursor of None \<Rightarrow> Inr (int (length first)) | Some c \<Rightarrow> py_int c) (\<lambda>offset.
            if offset < 0 then Inl (ValueError ''negative seek position'')
            else Inr (nppes_scan header state taxonomies (file_lines (drop (nat offset) content)) (nat offset) [])))"

section \<open>registry.py\<close>

definition TAXONOMY_NAMES :: "(pystr \<times> pystr) list" where
  "TAXONOMY_NAMES =
     [(''106H00000X'', ''Licensed Marriage & Family Therapist''), (''101YP2500X'', ''Licensed Professional Counselor''),
      (''103T00000X'', ''Psychologist''), (''103TC0700X'', ''Clinical Psychologist''),
      (''103TP2701X'', ''Psychoanalysis Psychologist''), (''103G00000X'', ''Clinical Neuropsychologist''),
      (''1041C0700X'', ''Licensed Clinical Social Worker''), (''101YM0800X'', ''Mental Health Counselor''),
      (''101Y00000X'', ''Counselor'')]"

definition em_dash :: pystr where
  "em_dash = [CHR 0xE2, CHR 0x80, CHR 0x94]"

definition ref_text :: "payload \<Rightarrow> pystr \<Rightarrow> pystr" where
  "ref_text ref k = (case map_of ref k of None \<Rightarrow> [] | Some j \<Rightarrow> jstr j)"

text \<open>\<open>ref.get(k) or d\<close> in a text.\<close>

definition ref_or :: "pystr \<Rightarrow> payload \<Rightarrow> pystr \<Rightarrow> pystr" where
  "ref_or def ref k = (case map_of ref k of None \<Rightarrow> def | Some j \<Rightarrow> if truthy j then jstr j else def)"

definition location_of :: "candidate \<Rightarrow> pystr" where
  "location_of cand =
     (case nonempty (cd_address cand) of
        Some a \<Rightarrow> a
      | None \<Rightarrow> join '', '' (map jstr (filter truthy
          (List.map_filter (map_of (cd_ref cand)) [''practice_city'', ''practice_state'']))))"

definition registry_enrich :: "int \<Rightarrow> candidate \<Rightarrow> evidence_fact list" where
  "registry_enrich t cand =
     (let ref = cd_ref cand; npi = ref_text ref ''npi'';
          source_url = (if npi = [] then ''https://npiregistry.cms.hhs.gov/''
                        else fstr [''https://npiregistry.cms.hhs.gov/provider-view/'', npi]);
          taxonomies = (case map_of ref ''taxonomies'' of Some (JList ts) \<Rightarrow> map jstr ts | _ \<Rightarrow> []);
          location = location_of cand;
          license_names = join '', '' (map (\<lambda>t. the_default t (map_of TAXONOMY_NAMES t)) taxonomies);
          credential = strip (ref_text ref ''credential'')
      in [\<lparr>ef_id = ''registry-provenance'', ef_type = ''provenance'',
           ef_content = fstr [''Found via the public NPPES practitioner registry'',
             (if npi = [] then [] else fstr ['' (NPI '', npi, '')'']), '' '', em_dash,
             '' government public data, not a purchased list.''],
           ef_url = source_url, ef_observed = t\<rparr>,
          \<lparr>ef_id = ''registry-license'', ef_type = ''bio'',
           ef_content = fstr [''Registry lists '', cd_name cand,
             (if credential = [] then [] else fstr ['', '', credential]),
             (if license_names = [] then [] else fstr ['' as '', license_names]),
             (if location = [] then [] else fstr [''; practice location '', location]), ''.''],
           ef_url = source_url, ef_observed = t\<rparr>])"

section \<open>web_research.py\<close>

definition RESEARCH_PROMPT :: "pystr \<Rightarrow> pystr \<Rightarrow> pystr \<Rightarrow> pystr \<Rightarrow> pystr" where
  "RESEARCH_PROMPT name credential location npi = fstr [
    ''Research the professional web presence of ONE specific'', nl,
    ''healthcare provider. Identity discipline is everything: report ONLY facts you'', nl,
    ''can attribute to this exact person '', em_dash, '' the name, credential/license type, and'', nl,
    ''practice location below must corroborate on the source page. Common names'', nl,
    ''have many bearers; if you cannot be certain a page is about THIS person, set'', nl,
    ''identity_confident to false and return no facts. Never blend two people.'', nl, nl,
    ''The provider:'', nl, ''- Name: '', name, nl, ''- Credential / license type: '', credential, nl,
    ''- Practice location: '', location, nl, ''- NPI: '', npi, nl, nl,
    ''Find (with a source URL for each): their own practice website (set the'', nl,
    ''`website` field to its homepage '', em_dash, '' their OWN site, never a directory profile),'', nl,
    ''education and degrees, clinical specialties and populations served, practice'', nl,
    ''details (solo/group, telehealth, accepting clients), and notable professional'', nl,
    ''work. Quote or closely paraphrase the source; do not embellish.'', nl]"

definition web_prompt :: "candidate \<Rightarrow> pystr" where
  "web_prompt cand = RESEARCH_PROMPT (cd_name cand) (ref_or ''(unknown)'' (cd_ref cand) ''credential'')
     (or_else ''(unknown)'' (Some (location_of cand))) (ref_or ''(unknown)'' (cd_ref cand) ''npi'')"

definition web_facts :: "int \<Rightarrow> nat \<Rightarrow> web_output \<Rightarrow> evidence_fact list" where
  "web_facts t max_facts out =
     (case nonempty (wo_website out) of
        None \<Rightarrow> []
      | Some w \<Rightarrow> if startswith w ''http''
          then [\<lparr>ef_id = ''website'', ef_type = ''website'', ef_content = strip w, ef_url = strip w, ef_observed = t\<rparr>] else []) @
     List.map_filter (\<lambda>(i, f).
         if startswith (wf_url f) ''http''
         then Some \<lparr>ef_id = fstr [''web-'', nat_str i], ef_type = wf_type f, ef_content = wf_content f,
                    ef_url = wf_url f, ef_observed = t\<rparr>
         else None)
       (List.enumerate 0 (take max_facts (wo_facts out)))"

text \<open>The enricher's card has the registry's facts first.\<close>

definition grounded_enrich :: "llm_backend \<Rightarrow> nat \<Rightarrow> int \<Rightarrow> candidate \<Rightarrow> exc + evidence_fact list" where
  "grounded_enrich llm max_facts t cand =
     bindE (lm_web llm (web_prompt cand)) (\<lambda>out.
       if wo_injection out \<or> \<not> wo_confident out then Inr (registry_enrich t cand)
       else Inr (registry_enrich t cand @ web_facts t max_facts out))"

section \<open>A file of filings is ingested once\<close>

definition has_event :: "db \<Rightarrow> pystr \<Rightarrow> bool" where
  "has_event d k \<longleftrightarrow> (\<exists>r\<in>set (opevents d). oe_key r = Some k)"

lemma record_opevent_has:
  "has_event (snd (record_opevent ty slc pl (Some k) d)) k"
  "has_event d k' \<Longrightarrow> has_event (snd (record_opevent ty slc pl key d)) k'"
  by (auto simp: has_event_def record_opevent_def fresh_uuid_def Let_def enqueue_key_def enqueue_def ins_def)

lemma ingest_filings_has:
  assumes "ingest_filings ty file m rows n f d = (r, d')"
  shows "(\<forall>k. has_event d k \<longrightarrow> has_event d' k) \<and>
    (\<forall>row\<in>set rows. row_field m row ''name'' \<noteq> [] \<longrightarrow> has_event d' (filing_key ty m row))"
  using assms
proof (induction rows arbitrary: n f d)
  case (Cons row rows)
  show ?case
  proof (cases "row_field m row ''name'' = []")
    case False
    obtain x d1 where x: "record_opevent ty (filing_selector m row) [(''issued'', JStr (row_field m row ''issued'')),
        (''source'', JStr file)] (Some (filing_key ty m row)) d = (x, d1)" by fastforce
    with Cons.prems False have i: "ingest_filings ty file m rows (Suc n) (if x = None then f else Suc f) d1 = (r, d')" by simp
    have "has_event d1 (filing_key ty m row)" "\<And>k. has_event d k \<Longrightarrow> has_event d1 k"
      using record_opevent_has(1) [where d = d and k = "filing_key ty m row"]
        record_opevent_has(2) [where d = d and key = "Some (filing_key ty m row)"] x by (metis snd_conv)+
    with Cons.IH [OF i] show ?thesis by auto
  qed (use Cons in auto)
qed simp

lemma ingest_filings_known:
  assumes "\<forall>row\<in>set rows. row_field m row ''name'' \<noteq> [] \<longrightarrow> has_event d (filing_key ty m row)"
  shows "ingest_filings ty file m rows n f d = ((n + length rows, f), d)"
  using assms
proof (induction rows arbitrary: n)
  case (Cons row rows)
  have "record_opevent ty s pl (Some (filing_key ty m row)) d = (None, d)" if "row_field m row ''name'' \<noteq> []" for s pl
    using Cons.prems that by (auto simp: record_opevent_def has_event_def)
  with Cons show ?case by simp
qed simp

lemma reingest_noop:
  assumes "ingest_license_csv ty file content d = Inr ((n, f), d1)"
  shows "ingest_license_csv ty file' content d1 = Inr ((n, 0), d1)"
proof -
  obtain names rows where nr: "dict_records (drop_prefix [CHR 0xEF, CHR 0xBB, CHR 0xBF] content) = (names, rows)" by fastforce
  with assms obtain m where m: "map_headers names = Inr m" "ingest_filings ty file m rows 0 0 d = ((n, f), d1)"
    by (auto simp: ingest_license_csv_def bindE_eq_Inr)
  have len: "fst (fst (ingest_filings ty file m rows a b e)) = a + length rows" for a b e
    by (induction rows arbitrary: a b e) (simp_all add: Let_def split_beta)
  have "ingest_filings ty file' m rows 0 0 d1 = ((0 + length rows, 0), d1)"
    by (rule ingest_filings_known) (use ingest_filings_has [OF m(2)] in blast)
  with m len [of 0 0 d] show ?thesis by (simp add: ingest_license_csv_def nr)
qed

section \<open>Paging through the registry\<close>

definition matches :: "pystr list \<Rightarrow> pystr \<Rightarrow> pystr list \<Rightarrow> pystr list \<Rightarrow> candidate list" where
  "matches header state taxonomies ls = List.map_filter (line_match header state taxonomies) ls"

lemma matches_simps [simp]:
  "matches h s t [] = []"
  "matches h s t (l # ls) = (case line_match h s t l of None \<Rightarrow> matches h s t ls | Some c \<Rightarrow> c # matches h s t ls)"
  "matches h s t (xs @ ys) = matches h s t xs @ matches h s t ys"
  by (simp_all add: matches_def List.map_filter_def split: option.split)

lemma nppes_scan_split:
  assumes "nppes_scan h s t ls offset cands = (cs, cur)"
  shows "\<exists>xs ys. ls = xs @ ys \<and> cs = cands @ matches h s t xs \<and>
    (if cur = None then ys = [] else xs \<noteq> [] \<and> cur = Some (nat_str (offset + length (concat xs))))"
  using assms
proof (induction ls arbitrary: offset cands)
  case (Cons l ls)
  let ?c = "case line_match h s t l of None \<Rightarrow> cands | Some c \<Rightarrow> cands @ [c]"
  have c: "?c = cands @ matches h s t [l]" by (simp split: option.split)
  show ?case
  proof (cases "BATCH \<le> length ?c")
    case True
    with Cons.prems have "cs = ?c" "cur = Some (nat_str (offset + length l))" by (simp_all add: Let_def)
    then show ?thesis using c by (intro exI [of _ "[l]"] exI [of _ ls]) simp
  next
    case False
    with Cons.prems have "nppes_scan h s t ls (offset + length l) ?c = (cs, cur)" by (simp add: Let_def)
    from Cons.IH [OF this] obtain xs ys where "ls = xs @ ys" "cs = ?c @ matches h s t xs"
      "if cur = None then ys = [] else xs \<noteq> [] \<and> cur = Some (nat_str (offset + length l + length (concat xs)))" by blast
    then show ?thesis using c by (intro exI [of _ "l # xs"] exI [of _ ys]) (auto simp: add.assoc split: option.splits)
  qed
qed simp

text \<open>The pages a caller gets by following the cursors.\<close>

inductive paged :: "pystr \<Rightarrow> payload \<Rightarrow> pystr option \<Rightarrow> candidate list list \<Rightarrow> bool" for content filters where
  last_page: "nppes_discover content filters cur = Inr (cs, None) \<Longrightarrow> paged content filters cur [cs]"
| next_page: "nppes_discover content filters cur = Inr (cs, Some c) \<Longrightarrow> paged content filters (Some c) pages \<Longrightarrow>
    paged content filters cur (cs # pages)"

lemma nat_str_nonempty [simp]: "nat_str n \<noteq> []"
  by (subst nat_str.simps) simp

lemma nppes_discover_at:
  assumes "text_set (map_of filters ''taxonomy'') = Inr taxonomies" and "taxonomies \<noteq> []"
    and "state = upper (case map_of filters ''state'' of None \<Rightarrow> [] | Some j \<Rightarrow> jstr j)" and "state \<noteq> []"
  shows "nppes_discover content filters (Some (nat_str offset)) =
      Inr (nppes_scan (csv_line (fst (split_line content))) state taxonomies (file_lines (drop offset content)) offset [])"
    and "nppes_discover content filters None = nppes_discover content filters (Some (nat_str (length (fst (split_line content)))))"
  using assms by (simp_all add: nppes_discover_def nonempty_def py_int_nat_str)

lemma paged_from:
  assumes f: "text_set (map_of filters ''taxonomy'') = Inr taxonomies" "taxonomies \<noteq> []"
      "state = upper (case map_of filters ''state'' of None \<Rightarrow> [] | Some j \<Rightarrow> jstr j)" "state \<noteq> []"
    and "file_lines (drop offset content) = ls"
  shows "\<exists>pages. paged content filters (Some (nat_str offset)) pages \<and>
    concat pages = matches (csv_line (fst (split_line content))) state taxonomies ls"
  using assms(5)
proof (induction "length ls" arbitrary: ls offset rule: less_induct)
  case less
  let ?h = "csv_line (fst (split_line content))"
  obtain cs cur where scan: "nppes_scan ?h state taxonomies ls offset [] = (cs, cur)" by fastforce
  note d = nppes_discover_at(1) [OF f, of content offset, unfolded less.prems scan]
  from nppes_scan_split [OF scan] obtain xs ys where xy: "ls = xs @ ys" "cs = matches ?h state taxonomies xs"
    "if cur = None then ys = [] else xs \<noteq> [] \<and> cur = Some (nat_str (offset + length (concat xs)))" by auto
  show ?case
  proof (cases cur)
    case None
    with d xy have "paged content filters (Some (nat_str offset)) [cs]" by (intro last_page) simp
    then show ?thesis using xy None by (intro exI [of _ "[cs]"]) simp
  next
    case (Some c)
    with xy have c: "c = nat_str (offset + length (concat xs))" "length ys < length ls" by auto
    have "file_lines (drop (offset + length (concat xs)) content) = ys"
      using file_lines_drop [of "drop offset content" xs ys] less.prems xy(1) by (simp add: add.commute)
    from less.hyps [OF c(2) this] obtain pages where p: "paged content filters (Some c) pages"
      "concat pages = matches ?h state taxonomies ys" unfolding c(1) by blast
    from next_page [OF d [unfolded Some] p(1)] p(2) xy(1,2) show ?thesis by (intro exI [of _ "cs # pages"]) simp
  qed
qed

lemma paged_unique: "paged content filters cur p \<Longrightarrow> paged content filters cur q \<Longrightarrow> p = q"
proof (induction arbitrary: q rule: paged.induct)
  case (last_page cur cs)
  from last_page(2) show ?case by cases (use last_page(1) in simp_all)
next
  case (next_page cur cs c pages)
  from next_page(4) show ?case by cases (use next_page(1,3) in auto)
qed

section \<open>What the enrichers add\<close>

lemma nat_str_inject [simp]: "nat_str m = nat_str n \<longleftrightarrow> m = n"
  by (metis py_int_nat_str sum.inject(2) of_nat_eq_iff)

lemma web_ids:
  "f \<in> set (web_facts t n out) \<Longrightarrow> ef_id f = ''website'' \<or> (\<exists>i. ef_id f = fstr [''web-'', nat_str i])"
  by (auto simp: web_facts_def List.map_filter_def split: option.splits if_splits)

lemma enumerate_ids:
  assumes "\<And>i f. ef_id (g i f) = fstr [''web-'', nat_str i]"
  shows "distinct (map ef_id (List.map_filter (\<lambda>(i, f). if P f then Some (g i f) else None) (List.enumerate k fs)))"
proof (induction fs arbitrary: k)
  case (Cons f fs)
  have "i \<in> set (map ef_id (List.map_filter (\<lambda>(i, f). if P f then Some (g i f) else None) (List.enumerate k fs))) \<Longrightarrow>
      \<exists>j\<ge>k. i = fstr [''web-'', nat_str j]" for i k
    by (auto simp: List.map_filter_def assms in_set_enumerate_eq split: if_splits)
  from this [of _ "Suc k"] Cons assms show ?case by (fastforce simp: fstr_def List.map_filter_def)
qed (simp add: List.map_filter_def)

lemma web_facts_distinct: "distinct (map ef_id (web_facts t n out))"
proof -
  let ?g = "\<lambda>i f. \<lparr>ef_id = fstr [''web-'', nat_str i], ef_type = wf_type f, ef_content = wf_content f,
    ef_url = wf_url f, ef_observed = t\<rparr>"
  let ?ws = "List.map_filter (\<lambda>(i, f). if startswith (wf_url f) ''http'' then Some (?g i f) else None)
    (List.enumerate 0 (take n (wo_facts out)))"
  have "''website'' \<notin> set (map ef_id ?ws)"
    by (auto simp: List.map_filter_def fstr_def split: if_splits)
  moreover have "distinct (map ef_id ?ws)" by (rule enumerate_ids) simp
  ultimately show ?thesis by (auto simp: web_facts_def split: option.split)
qed

text \<open>Web research only adds: the registry's two facts stay, the ids stay distinct, and without
  certainty about the person nothing is added.\<close>

lemma grounded_enrich_Inr:
  assumes "grounded_enrich llm n t cand = Inr facts"
  shows "\<exists>ws. facts = registry_enrich t cand @ ws \<and> distinct (map ef_id facts) \<and>
    (ws \<noteq> [] \<longrightarrow> (\<exists>out. lm_web llm (web_prompt cand) = Inr out \<and> wo_confident out \<and> \<not> wo_injection out))"
proof -
  obtain out where out: "lm_web llm (web_prompt cand) = Inr out"
    "facts = registry_enrich t cand @ (if wo_injection out \<or> \<not> wo_confident out then [] else web_facts t n out)"
    using assms by (auto simp: grounded_enrich_def bindE_eq_Inr split: if_splits)
  have "''registry-provenance'' \<notin> ef_id ` set (web_facts t n out)" "''registry-license'' \<notin> ef_id ` set (web_facts t n out)"
    by (auto dest!: web_ids simp: fstr_def)
  then have "distinct (map ef_id facts)"
    using web_facts_distinct [of t n out] by (simp add: out(2) registry_enrich_def Let_def)
  with out show ?thesis by (intro exI [of _ "if wo_injection out \<or> \<not> wo_confident out then [] else web_facts t n out"]) auto
qed

end
