(* ===== verification/Commands.thy ===== *)
theory Commands
  imports Discovery Research Monitor Mail Sources Worker Noshow
begin

text \<open>
  The commands of \<open>cli/main.py\<close> that read or change the database, with the transaction each one
  opens. A command takes its options as typer hands them over (\<open>None\<close> where not given), the
  configurations \<open>load_tenant\<close> read, and the model backend where the option names one. Printing,
  exit codes and the construction of clients are left out.
\<close>

section \<open>halt, resume, forget\<close>

text \<open>\<open>user\<close> is the variable \<open>USER\<close>, \<open>cli\<close> where it is unset.\<close>

definition cli_actor :: "pystr \<Rightarrow> pystr" where
  "cli_actor user = fstr [''operator:'', user]"

definition cli_scope :: "pystr option \<Rightarrow> pystr" where
  "cli_scope tenant = or_else GLOBAL_SCOPE tenant"

definition halt_command :: "pystr \<Rightarrow> pystr option \<Rightarrow> db \<Rightarrow> db" where
  "halt_command user tenant d = halt (cli_scope tenant) (cli_actor user) ''halted'' d"

definition resume_command :: "pystr \<Rightarrow> pystr option \<Rightarrow> db \<Rightarrow> exc + bool \<times> db" where
  "resume_command user tenant d = resume (cli_scope tenant) (cli_actor user) d"

section \<open>approve\<close>

record approve_options =
  ao_resolve :: "pystr option"
  ao_proposal :: "pystr option"
  ao_decline :: "pystr option"
  ao_task_done :: "pystr option"
  ao_task_skip :: "pystr option"
  ao_send :: "pystr option"
  ao_reject :: "pystr option"
  ao_profile :: "pystr option"
  ao_note :: pystr

definition given :: "pystr option \<Rightarrow> bool" where
  "given x \<longleftrightarrow> nonempty x \<noteq> None"

text \<open>The answer says whether the row was there to decide; with no option the queues are listed, after
  stale tasks have expired.\<close>

definition approve_command :: "pystr \<Rightarrow> approve_options \<Rightarrow> db \<Rightarrow> exc + bool option \<times> db" where
  "approve_command user ao d =
     (let actor = cli_actor user; the_id = the_default [] \<circ> nonempty;
          done = (\<lambda>r. bindE r (\<lambda>(ok, d'). Inr (Some ok, d')))
      in if given (ao_profile ao) then done (approve_profile (the_id (ao_profile ao)) actor d)
         else if given (ao_send ao) then done (approve_pending (the_id (ao_send ao)) actor d)
         else if given (ao_reject ao) then done (reject_pending (the_id (ao_reject ao)) actor (ao_note ao) d)
         else if given (ao_task_done ao) then done (resolve_task (the_id (ao_task_done ao)) actor True (ao_note ao) d)
         else if given (ao_task_skip ao) then done (resolve_task (the_id (ao_task_skip ao)) actor False (ao_note ao) d)
         else if given (ao_resolve ao) then done (resolve_escalation (the_id (ao_resolve ao)) actor (ao_note ao) d)
         else if given (ao_proposal ao) then done (approve (the_id (ao_proposal ao)) actor False d)
         else if given (ao_decline ao) then done (decline (the_id (ao_decline ao)) actor (ao_note ao) d)
         else bindE (expire EXPIRE_DAYS d) (\<lambda>(_, d'). Inr (None, d')))"

section \<open>discover\<close>

text \<open>The number of proposals recorded for a tenant, within-envelope ones applied under
  \<open>hands_off\<close>.\<close>

definition discover_tenant :: "codec \<Rightarrow> llm_backend option \<Rightarrow> tenant_config \<Rightarrow> db \<Rightarrow> exc + nat \<times> db" where
  "discover_tenant cx backend cfg d =
     (let (ids, d1) = analyze (tc_tenant cfg) d
      in bindE (rebalance_scan cfg d1) (\<lambda>(rs, d2).
         bindE (case backend of
            None \<Rightarrow> Inr (0, d2)
          | Some llm \<Rightarrow> bindE (brainstorm llm cfg 5 d2) (\<lambda>(bs, d3).
              bindE (resynthesize_on_drift cx llm cfg d3) (\<lambda>(rev, d4).
                Inr (length bs + (if rev = None then 0 else 1), d4)))) (\<lambda>(n, d5).
         bindE (expand_autonomy (bf_autonomy (tc_brief cfg))) (\<lambda>kn.
         bindE (auto_review (tc_tenant cfg) (kn_cohorts kn) d5) (\<lambda>(_, d6).
           Inr (length ids + length rs + n, d6))))))"

definition discover_command ::
  "codec \<Rightarrow> llm_backend option \<Rightarrow> tenant_config list \<Rightarrow> db \<Rightarrow> exc + nat \<times> db" where
  "discover_command cx backend cfgs d =
     foldE (\<lambda>cfg (total, d). bindE (discover_tenant cx backend cfg d) (\<lambda>(n, d'). Inr (total + n, d'))) cfgs (0, d)"

section \<open>research, signals, audit, poll\<close>

text \<open>\<open>profile_research\<close> is what the backend answers to the sender research of a tenant.\<close>

definition research_tenant ::
  "(tenant_config \<Rightarrow> exc + (pystr \<times> pystr \<times> pystr) list) \<Rightarrow> llm_backend option \<Rightarrow> tenant_config \<Rightarrow> db \<Rightarrow> exc + nat \<times> db" where
  "research_tenant profile_research backend cfg d =
     bindE (refresh_all (tc_tenant cfg) backend (bf_research (tc_brief cfg)) d) (\<lambda>(n, d1).
       if backend = None \<or> approved_facts d1 (tc_tenant cfg) \<noteq> [] then Inr (n, d1)
       else bindE (propose_profile (profile_research cfg) (tc_tenant cfg) d1) (\<lambda>(_, d2). Inr (n + 1, d2)))"

definition research_command ::
  "(tenant_config \<Rightarrow> exc + (pystr \<times> pystr \<times> pystr) list) \<Rightarrow> llm_backend option \<Rightarrow> tenant_config list \<Rightarrow> db \<Rightarrow>
     exc + nat \<times> db" where
  "research_command profile_research backend cfgs d =
     foldE (\<lambda>cfg (total, d). bindE (research_tenant profile_research backend cfg d) (\<lambda>(n, d'). Inr (total + n, d')))
       cfgs (0, d)"

definition signals_command :: "pystr \<Rightarrow> pystr \<Rightarrow> pystr \<Rightarrow> db \<Rightarrow> exc + (nat \<times> nat) \<times> db" where
  "signals_command event_type file content d = ingest_license_csv event_type file content d"

definition audit_command ::
  "(touch_row list \<Rightarrow> touch_row list) \<Rightarrow> llm_backend \<Rightarrow> nat \<Rightarrow> int \<Rightarrow> db \<Rightarrow> exc + audit_result list \<times> db" where
  "audit_command shuffle llm per_cohort window d = audit_sent_sample shuffle llm per_cohort window ALERT_BELOW d"

section \<open>run\<close>

definition start_runtimes :: "tenant_config list \<Rightarrow> db \<Rightarrow> runtimes \<times> db" where
  "start_runtimes cfgs d =
     fold (\<lambda>c (rts, d). let (rt, d') = runtime_for c d in (dict_set (tc_tenant c) rt rts, d')) cfgs ([], d)"

definition contexts_of :: "tenant_config list \<Rightarrow> (pystr \<times> vctx) list" where
  "contexts_of cfgs = fold (\<lambda>c. dict_set (tc_tenant c) (validator_context c)) cfgs []"

lemma start_runtimes_kept:
  assumes "P d" and "\<And>c d. P d \<Longrightarrow> P (snd (runtime_for c d))"
  shows "P (snd (start_runtimes cfgs d))"
proof -
  have "P (snd (fold (\<lambda>c (rts, d). let (rt, d') = runtime_for c d in (dict_set (tc_tenant c) rt rts, d')) cfgs (rts, d)))"
    if "P d" for rts d
    using that
  proof (induction cfgs arbitrary: rts d)
    case (Cons c cfgs)
    obtain rt d' where "runtime_for c d = (rt, d')" by fastforce
    with Cons.IH [of d'] assms(2) [OF Cons.prems, of c] show ?case by simp
  qed simp
  with assms(1) show ?thesis by (simp add: start_runtimes_def)
qed

end
