(* ===== verification/Runs.thy ===== *)
theory Runs
  imports System Commands
begin

text \<open>
  Operator commands and the worker keep what handlers keep, and the step relation of the whole
  program: a run is any interleaving of committed transactions. The table of handlers is the one
  \<open>reachout run\<close> builds (\<open>cli/main.py\<close>); a worker may also have the discover and enrich handlers
  registered, which need live adapters. The last section shows that every command and every route is
  a run.
\<close>

section \<open>Operator commands\<close>

lemma reaches_forgotten: "reaches s Forgotten"
proof (cases "s = Forgotten")
  case False
  then have "Forgotten \<in> set (TRANSITIONS s)" by (cases s) simp_all
  then show ?thesis by (intro reaches.step [OF reaches.refl] tstep)
qed (simp add: reaches.refl)

lemma kept_scrub [kept]: "kept d0 d \<Longrightarrow> kept d0 (scrub ids d)"
proof -
  assume k: "kept d0 d"
  let ?f = "\<lambda>p. p\<lparr>p_email_raw := None, p_email := None, p_ref := [], p_state := Forgotten\<rparr>"
  let ?t = "\<lambda>t. t\<lparr>t_subject := None, t_body := None, t_scrubbed := True\<rparr>"
  have "kept d0 (d\<lparr>prospects := upd (\<lambda>p. p_entity p \<in> set ids) ?f (prospects d)\<rparr>)" (is "kept d0 ?d")
    by (rule kept_prospects [OF k]) (simp add: reaches_forgotten)
  then have "kept d0 (?d\<lparr>touches := upd (\<lambda>t. in_entities d ids (t_prospect t)) ?t (touches ?d)\<rparr>)"
    by (rule kept_touches) simp_all
  then show ?thesis by (rule kept_same) (simp_all add: scrub_def Let_def)
qed

lemma kept_new_tombstone [kept]: "kept d0 d \<Longrightarrow> kept d0 (d\<lparr>tombstones := insert_new P t (tombstones d)\<rparr>)"
  by (erule kept_frame) (simp_all add: moved_same tombstoned_def job_keys_def insert_new_def)

lemma kept_add_tombstone: "kept d0 d \<Longrightarrow> postE (add_tombstone rid a d) (kept d0)"
  unfolding add_tombstone_def by (rule postE_bind_any) (simp add: kept)

lemma kept_enqueue_delete: "kept d0 d \<Longrightarrow> postE (enqueue_delete rid a d) (kept d0)"
  unfolding enqueue_delete_def by (rule postE_bind_any) (simp add: kept)

lemma kept_erase [kept]: "kept d0 d \<Longrightarrow> kept d0 (erase rid ids as d)"
  unfolding erase_def Let_def by (intro kept)

lemma kept_forget: "kept d0 d \<Longrightarrow> postE (forget ref d) (\<lambda>(_, d'). kept d0 d')"
proof -
  assume k: "kept d0 d"
  have k1: "kept d0 (snd (fresh_uuid d))" using k by (rule kept)
  have t: "postE (foldE (add_tombstone rid) as (snd (fresh_uuid d))) (kept d0)" for rid as
    by (rule postE_foldE [where I = "kept d0", OF k1], rule kept_add_tombstone)
  have e: "postE (foldE (enqueue_delete rid) as (erase rid ids bs d2)) (kept d0)" if "kept d0 d2" for rid as ids bs d2
    by (rule postE_foldE [where I = "kept d0", OF kept_erase [OF that]], rule kept_enqueue_delete)
  have b: "postE (bindE (foldE (add_tombstone rid) as (snd (fresh_uuid d))) (\<lambda>d2.
      bindE (foldE (enqueue_delete rid) as (erase rid ids as d2)) (\<lambda>d6. Inr (rc, d6)))) (\<lambda>(_, d'). kept d0 d')"
    for rid as ids and rc :: forget_receipt
    by (rule postE_bind [OF t], rule postE_bind [OF e]) simp_all
  show ?thesis unfolding forget_def Let_def split_beta
    by (rule postE_bind_any, rule postE_if, simp) (rule b [unfolded split_beta])
qed

lemma kept_conversion: "kept d0 d \<Longrightarrow> postE (record_conversion i d) (\<lambda>(_, d'). kept d0 d')"
proof -
  assume k: "kept d0 d"
  have t: "postE (case transition pid Converted a r d of Inl (TransitionError _) \<Rightarrow> Inr (False, d) | Inl e \<Rightarrow> Inl e
      | Inr d1 \<Rightarrow> Inr (True, f d1)) (\<lambda>(_, d'). kept d0 d')" if "\<And>d1. kept d0 d1 \<Longrightarrow> kept d0 (f d1)" for pid a r f
    using kept_transition [OF k, of pid Converted a r] that k by (auto split: sum.splits exc.splits)
  show ?thesis unfolding record_conversion_def Let_def
    by (rule postE_option, simp add: k, rule postE_option, simp add: k, rule postE_option, simp add: k, rule postE_if,
        simp add: k, rule t) (intro kept)
qed

lemma audit_review_enqueue:
  "audit_review i e a n (enqueue_deliver j d) = enqueue_deliver j (audit_review i e a n d)"
  by (simp add: audit_review_def enqueue_deliver_def enqueue_key_def enqueue_def audit_def)

text \<open>A reviewer's decision moves one pending touch and leaves its record.\<close>

lemma kept_decision:
  assumes k: "kept d0 d" and a: "human a" and e: "e = ''ramp_approved'' \<or> e = ''ramp_rejected''"
  shows "kept d0 (audit_review i e a n (d\<lparr>touches := upd (pending i) (\<lambda>t. t\<lparr>t_status := st\<rparr>) (touches d)\<rparr>))" (is "kept d0 ?d")
proof (rule keptI [OF k])
  let ?row = "\<lparr>a_type = ''touch'', a_subject = i, a_event = e, a_payload = [(''note'', JStr n)], a_actor = a\<rparr>"
  have u: "touch_of ?d j = map_option (\<lambda>t. if pending i t then t\<lparr>t_status := st\<rparr> else t) (touch_of d j)" for j
    by (simp add: touch_of_def fetch_touch_upd audit_review_def)
  have id: "touch_of d j = Some t \<Longrightarrow> t_id t = j" for j t by (auto simp: touch_of_def dest: fetch_SomeD)
  show "settled ?d j" if "settled d0 j" "settled d j" for j
  proof -
    from that(2) obtain t where "touch_of d j = Some t" "t_status t = Dispatched \<or> t_status t = Sent"
      "\<forall>h\<in>set (tasks d). h_touch h = j \<longrightarrow> h_status h \<noteq> Task_pending" by (auto simp: settled_def)
    then show ?thesis unfolding settled_def u by (auto simp: pending_def audit_review_def)
  qed
  show "logged d ?d" unfolding logged_def
  proof (intro exI [of _ "[?row]"] conjI allI impI)
    show "audits ?d = audits d @ [?row]" by (simp add: audit_review_def ins_def)
    show "halted ?d s \<or> resumed s [?row]" if "halted d s" for s
      using that by (simp add: halted_def audit_review_def)
    show "waiting ?d j \<or> reviewed j [?row]" if w: "waiting d j" for j
    proof (cases "j = i")
      case True
      then show ?thesis using a e by (auto simp: reviewed_def)
    next
      case False
      from w obtain t where "touch_of d j = Some t" "t_status t = Pending_review" "\<forall>h\<in>set (tasks d). h_touch h \<noteq> j"
        by (auto simp: waiting_def)
      with False id [of j t] show ?thesis unfolding waiting_def u by (auto simp: pending_def audit_review_def)
    qed
  qed
qed (simp_all add: moved_same tombstoned_def job_keys_def audit_review_def)

lemma update_pending_none:
  assumes "update_touch_status (pending i) f d = Inr (0, d')"
  shows "d' = d"
proof -
  have "d' = d\<lparr>touches := upd (pending i) f (touches d)\<rparr>" "cnt (pending i) (touches d) = 0"
    using update_touch_status_Inr [OF assms] by simp_all
  moreover from this(2) have "upd (pending i) f (touches d) = touches d"
    by (intro upd_no_match) (simp add: cnt_0)
  ultimately show ?thesis by simp
qed

lemma kept_review:
  assumes k: "kept d0 d"
  shows "postE (approve_pending i a d) (\<lambda>(_, d'). kept d0 d')" and "postE (reject_pending i a n d) (\<lambda>(_, d'). kept d0 d')"
proof -
  have d: "kept d0 (audit_review i e a n d1)" "kept d0 (audit_review i e a n (enqueue_deliver i d1))"
    if "human a" "e = ''ramp_approved'' \<or> e = ''ramp_rejected''"
      "update_touch_status (pending i) (\<lambda>t. t\<lparr>t_status := st\<rparr>) d = Inr (m, d1)" for e n st m d1
  proof -
    have d1: "d1 = d\<lparr>touches := upd (pending i) (\<lambda>t. t\<lparr>t_status := st\<rparr>) (touches d)\<rparr>"
      using update_touch_status_Inr [OF that(3)] by simp
    show "kept d0 (audit_review i e a n d1)" unfolding d1 by (rule kept_decision [OF k that(1,2)])
    then show "kept d0 (audit_review i e a n (enqueue_deliver i d1))"
      unfolding audit_review_enqueue by (rule kept_enqueue_deliver)
  qed
  have z: "kept d0 d1" if "update_touch_status (pending i) f d = Inr (0, d1)" for f d1
    using update_pending_none [OF that] k by simp
  show "postE (approve_pending i a d) (\<lambda>(_, d'). kept d0 d')"
    unfolding approve_pending_def
  proof (rule postE_if, simp, rule postE_bind_any, rule postE_prod)
    fix x m d1
    assume h: "\<not> \<not> human a" and u: "update_touch_status (pending i) (\<lambda>t. t\<lparr>t_status := Drafted\<rparr>) d = Inr x" "x = (m, d1)"
    show "postE (if m = 0 then Inr (False, d1) else Inr (True, audit_review i ''ramp_approved'' a [] (enqueue_deliver i d1)))
        (\<lambda>(_, d'). kept d0 d')"
      using z d(2) [of "''ramp_approved''" Drafted m d1 "[]"] h u by (cases "m = 0") auto
  qed
  show "postE (reject_pending i a n d) (\<lambda>(_, d'). kept d0 d')"
    unfolding reject_pending_def
  proof (rule postE_if, simp, rule postE_bind_any, rule postE_prod)
    fix x m d1
    assume h: "\<not> \<not> human a" and u: "update_touch_status (pending i) (\<lambda>t. t\<lparr>t_status := Released\<rparr>) d = Inr x" "x = (m, d1)"
    show "postE (Inr (m \<noteq> 0, if m \<noteq> 0 then audit_review i ''ramp_rejected'' a n d1 else d1)) (\<lambda>(_, d'). kept d0 d')"
      using z d(1) [of "''ramp_rejected''" Released m d1 n] h u by (cases "m = 0") auto
  qed
qed

lemma kept_marks:
  "kept d0 d \<Longrightarrow> \<not> waiting d i \<Longrightarrow> postE (mark_sent i d) (kept d0)"
  "kept d0 d \<Longrightarrow> \<not> settled d0 i \<Longrightarrow> \<not> waiting d i \<Longrightarrow> postE (mark_released i d) (kept d0)"
  unfolding mark_sent_def mark_released_def
   apply (rule postE_bind, rule kept_update_touch, assumption, simp, simp, blast, simp add: split_beta)
  apply (rule postE_bind, rule kept_update_touch, assumption, simp, blast, blast, simp add: split_beta)
  done

lemma kept_count_contact [kept]: "kept d0 d \<Longrightarrow> kept d0 (count_contact pid d)"
  by (simp add: count_contact_def kept)

lemma pending_not_settled: "h \<in> set (tasks d) \<Longrightarrow> h_status h = Task_pending \<Longrightarrow> \<not> settled d (h_touch h)"
  by (auto simp: settled_def)

lemma task_not_waiting:
  assumes "tasks e = upd P f (tasks d)" and "\<And>h. h_touch (f h) = h_touch h" and "h \<in> set (tasks d)"
  shows "\<not> waiting e (h_touch h)"
proof -
  have "(if P h then f h else h) \<in> set (tasks e)" unfolding assms(1) set_upd using assms(3) by (rule imageI)
  moreover have "h_touch (if P h then f h else h) = h_touch h" by (simp add: assms(2))
  ultimately show ?thesis unfolding waiting_def by metis
qed

lemma kept_resolve_task: "kept d0 d \<Longrightarrow> postE (resolve_task i a b n d) (\<lambda>(_, d'). kept d0 d')"
proof -
  assume k: "kept d0 d"
  have f: "postE (if b then bindE (mark_sent j d1) (\<lambda>d2. Inr (count_contact p d2)) else mark_released j d1) (kept d0)"
    if "kept d0 d1" "\<not> settled d0 j" "\<not> waiting d1 j" for b j p d1
    by (rule postE_if, rule postE_bind, rule kept_marks(1) [OF that(1,3)]) (simp_all add: kept kept_marks(2) [OF that])
  show ?thesis unfolding resolve_task_def Let_def audit_task_def
  proof (rule postE_if, simp, rule postE_option, simp add: k, rule postE_bind [OF f])
    fix h
    assume "fetch (\<lambda>h. h_id h = i \<and> h_status h = Task_pending) (tasks d) = Some h"
    then have h: "h \<in> set (tasks d)" "h_status h = Task_pending" by (auto dest: fetch_SomeD)
    then show "\<not> settled d0 (h_touch h)" by (intro kept_not_settled [OF k] pending_not_settled)
    show "\<not> waiting (d\<lparr>tasks := upd P (\<lambda>h. h\<lparr>h_status := st, h_resolved_at := r, h_by := q, h_note := m\<rparr>) (tasks d)\<rparr>) (h_touch h)"
      for P st r q m
      by (rule task_not_waiting [OF _ _ h(1), where P = P and
            f = "\<lambda>h. h\<lparr>h_status := st, h_resolved_at := r, h_by := q, h_note := m\<rparr>"]) simp_all
  qed (auto intro!: kept kept_tasks k)
qed

lemma kept_expire: "kept d0 d \<Longrightarrow> postE (expire n d) (\<lambda>(_, d'). kept d0 d')"
proof -
  assume k: "kept d0 d"
  have m: "postE (mark_released i e) (\<lambda>e'. tasks e' = tasks e)" for i e
  proof -
    obtain e' where e': "mark_released i e = Inr e'" "e' = e\<lparr>touches := touches e'\<rparr>" using mark_released_ok [of i e] by blast
    have "tasks e' = tasks (e\<lparr>touches := touches e'\<rparr>)" using e'(2) by (rule arg_cong)
    with e'(1) show ?thesis by simp
  qed
  have f: "postE (foldE (\<lambda>h d. bindE (mark_released (h_touch h) d)
      (\<lambda>d'. Inr (audit_task (h_id h) e a [] d'))) rows d1) (\<lambda>e. kept d0 e \<and> tasks e = tasks d1)"
    if "kept d0 d1" "\<And>h. h \<in> set rows \<Longrightarrow> \<not> settled d0 (h_touch h)"
      "\<And>h e. h \<in> set rows \<Longrightarrow> tasks e = tasks d1 \<Longrightarrow> \<not> waiting e (h_touch h)" for e a rows d1
  proof (rule postE_foldE)
    show "kept d0 d1 \<and> tasks d1 = tasks d1" using that(1) by simp
    fix h s
    assume h: "h \<in> set rows" and s: "kept d0 s \<and> tasks s = tasks d1"
    have "postE (mark_released (h_touch h) s) (kept d0)"
      using kept_marks(2) [OF conjunct1 [OF s] that(2) [OF h] that(3) [OF h conjunct2 [OF s]]] .
    with m [of "h_touch h" s] s
    show "postE (bindE (mark_released (h_touch h) s) (\<lambda>d'. Inr (audit_task (h_id h) e a [] d'))) (\<lambda>e. kept d0 e \<and> tasks e = tasks d1)"
      by (cases "mark_released (h_touch h) s") (simp_all add: audit_task_def kept_audit)
  qed
  have n: "\<not> settled d0 (h_touch h)" if "h \<in> set (sel (stale n d) (tasks d))" for h
    using that by (intro kept_not_settled [OF k] pending_not_settled) (auto simp: sel_def stale_def)
  have w: "\<not> waiting e (h_touch h)" if "h \<in> set (sel (stale n d) (tasks d))"
    "tasks e = upd P (\<lambda>h. h\<lparr>h_status := st, h_resolved_at := r, h_by := q\<rparr>) (tasks d)" for h e P st r q
    by (rule task_not_waiting [OF that(2)]) (use that(1) in \<open>simp_all add: sel_def\<close>)
  show ?thesis unfolding expire_def Let_def
    by (rule postE_bind, rule f) (auto intro!: kept_tasks k simp: n w)
qed

lemma kept_apply_proposal: "kept d0 d \<Longrightarrow> postE (apply_proposal p d) (kept d0)"
  unfolding apply_proposal_def apply_shift_def shift_cap_def
  by (intro postE_if postE_bind_any) (simp_all add: kept)

lemma kept_approve: "kept d0 d \<Longrightarrow> postE (approve i a b d) (\<lambda>(_, d'). kept d0 d')"
  unfolding approve_def audit_proposal_def
  by (rule postE_if, simp, rule postE_option, simp, rule postE_if, simp, rule postE_bind,
      rule kept_apply_proposal, assumption) (simp, intro kept)

lemma kept_decline: "kept d0 d \<Longrightarrow> postE (decline i a n d) (\<lambda>(_, d'). kept d0 d')"
  unfolding decline_def Let_def audit_proposal_def by (simp add: kept)

lemma kept_review_all: "kept d0 d \<Longrightarrow> postE (review_all ps d) (\<lambda>(_, d'). kept d0 d')"
proof (induction ps arbitrary: d)
  case (Cons p ps)
  show ?case unfolding review_all.simps
    by (rule postE_if, rule postE_bind, rule kept_approve [OF Cons.prems], rule postE_prod, rule postE_bind,
        rule Cons.IH) (auto intro: Cons)
qed simp

lemma kept_auto_review: "kept d0 d \<Longrightarrow> postE (auto_review t c d) (\<lambda>(_, d'). kept d0 d')"
  unfolding auto_review_def by (rule postE_if) (simp_all add: kept_review_all)

lemma kept_propose: "kept d0 d \<Longrightarrow> kept d0 (snd (propose t k s pl ev key d))"
  unfolding propose_def by (simp add: Let_def split_beta kept)

lemma kept_resume: "kept d0 d \<Longrightarrow> postE (resume s a d) (\<lambda>(_, d'). kept d0 d')"
proof -
  assume k: "kept d0 d"
  let ?d = "audit ''control_flag'' s ''resume'' [] a (d\<lparr>flags := del (\<lambda>f. cf_scope f = s) (flags d)\<rparr>)"
  have "kept d0 ?d" if "human a"
  proof (rule keptI [OF k])
    let ?r = "\<lparr>a_type = ''control_flag'', a_subject = s, a_event = ''resume'', a_payload = [], a_actor = a\<rparr>"
    have "halted ?d t \<or> resumed t [?r]" if "halted d t" for t
      using that \<open>human a\<close> by (cases "t = s") (auto simp: halted_def resumed_def)
    moreover have "waiting ?d i = waiting d i" for i by (rule waiting_same) simp_all
    ultimately show "logged d ?d" unfolding logged_def by (intro exI [of _ "[?r]"]) (simp add: ins_def)
  qed (simp_all add: moved_same tombstoned_def job_keys_def settled_def touch_of_def)
  then show ?thesis by (simp add: resume_def)
qed

lemma kept_resolve_escalation: "kept d0 d \<Longrightarrow> postE (resolve_escalation i a n d) (\<lambda>(_, d'). kept d0 d')"
  unfolding resolve_escalation_def Let_def by (simp add: kept)

lemma kept_profiles:
  "kept d0 d \<Longrightarrow> postE (propose_profile r t d) (\<lambda>(_, d'). kept d0 d')"
  "kept d0 d \<Longrightarrow> postE (approve_profile i a d) (\<lambda>(_, d'). kept d0 d')"
  unfolding propose_profile_def approve_profile_def Let_def split_beta
  by (rule postE_bind_any, simp add: kept, rule postE_if, simp, rule postE_option, simp_all add: kept)

lemma kept_seed: "kept d0 d \<Longrightarrow> kept d0 (snd (seed_discovery rt d))"
  unfolding seed_discovery_def Let_def snd_conv by (rule kept_fold) (auto simp: kept)

lemma kept_runtime_for: "kept d0 d \<Longrightarrow> kept d0 (snd (runtime_for cfg d))"
  unfolding runtime_for_def tenant_id_def ensure_registry_def Let_def split_beta snd_conv
  by (auto intro!: kept_fold kept split: option.splits)

section \<open>Agents, reports and sources\<close>

lemma kept_filed: "kept d0 d \<Longrightarrow> filed Q d d' \<Longrightarrow> kept d0 d'"
  unfolding filed_def by (elim exE conjE, erule kept_same) simp_all

lemma kept_noted: "kept d0 d \<Longrightarrow> noted d d' n \<Longrightarrow> kept d0 d'"
  unfolding noted_def by (elim exE conjE, erule kept_same) simp_all

lemma kept_observed: "kept d0 d \<Longrightarrow> observed d d' n \<Longrightarrow> kept d0 d'"
  unfolding observed_def
  by (elim exE conjE, erule keptI) (auto simp: moved_same tombstoned_def job_keys_def logged_def halted_def settled_def
      waiting_def touch_of_def)

lemma kept_opevents [kept]: "kept d0 d \<Longrightarrow> kept d0 (d\<lparr>opevents := es\<rparr>)"
  by (erule kept_same) simp_all

lemma kept_record_opevent [kept]: "kept d0 d \<Longrightarrow> kept d0 (snd (record_opevent ty sl pl key d))"
  unfolding record_opevent_def by (simp add: Let_def split_beta kept)

lemma kept_filings: "kept d0 d \<Longrightarrow> kept d0 (snd (ingest_filings ty file m rows n f d))"
  by (induction rows arbitrary: n f d) (simp_all add: Let_def split_beta kept_record_opevent)

lemma kept_signals: "kept d0 d \<Longrightarrow> postE (ingest_license_csv ty file content d) (\<lambda>(_, d'). kept d0 d')"
  unfolding ingest_license_csv_def
  by (simp add: split_beta, rule postE_bind_any) (simp add: kept_filings split_beta)

lemma kept_brief [kept]: "kept d0 d \<Longrightarrow> kept d0 (snd (enqueue_synthesis cx t b d))"
  unfolding enqueue_synthesis_def by (simp add: Let_def kept)

lemma kept_synthesize: "kept d0 d \<Longrightarrow> postE (synthesize_job cx llm pl d) (kept d0)"
  unfolding synthesize_job_def
  by (intro postE_bind_any) (auto simp: kept kept_propose split: sum.split exc.split option.split)

lemma kept_discover_tenant: "kept d0 d \<Longrightarrow> postE (discover_tenant cx m cfg d) (\<lambda>(_, d'). kept d0 d')"
proof -
  assume k: "kept d0 d"
  have a: "kept d0 (snd (analyze (tc_tenant cfg) d))" by (rule kept_filed [OF k filed_analyze])
  have b: "postE (bindE (brainstorm llm cfg 5 e) (\<lambda>(bs, d3). bindE (resynthesize_on_drift cx llm cfg d3) (\<lambda>(rev, d4).
      Inr (length bs + (if rev = None then 0 else 1), d4)))) (\<lambda>(_, d'). kept d0 d')" if "kept d0 e" for llm e
    by (rule postE_bind_any, rule postE_prod, rule postE_bind_any)
      (auto intro: kept_filed [OF kept_filed [OF that filed_brainstorm] filed_drift])
  show ?thesis unfolding discover_tenant_def Let_def prod.case_eq_if [of _ "analyze (tc_tenant cfg) d"]
  proof (rule postE_bind_any, rule postE_prod)
    fix x rs d2
    assume "rebalance_scan cfg (snd (analyze (tc_tenant cfg) d)) = Inr x" "x = (rs, d2)"
    then have k2: "kept d0 d2" using kept_filed [OF a filed_rebalance] by blast
    have m: "postE (case m of None \<Rightarrow> Inr (0, d2) | Some llm \<Rightarrow> bindE (brainstorm llm cfg 5 d2) (\<lambda>(bs, d3).
        bindE (resynthesize_on_drift cx llm cfg d3) (\<lambda>(rev, d4). Inr (length bs + (if rev = None then 0 else 1), d4))))
        (\<lambda>(_, d'). kept d0 d')"
      using b [OF k2] k2 by (cases m) simp_all
    show "postE (bindE (case m of None \<Rightarrow> Inr (0, d2) | Some llm \<Rightarrow> bindE (brainstorm llm cfg 5 d2) (\<lambda>(bs, d3).
        bindE (resynthesize_on_drift cx llm cfg d3) (\<lambda>(rev, d4). Inr (length bs + (if rev = None then 0 else 1), d4))))
        (\<lambda>(n, d5). bindE (expand_autonomy (bf_autonomy (tc_brief cfg))) (\<lambda>kn.
          bindE (auto_review (tc_tenant cfg) (kn_cohorts kn) d5) (\<lambda>(_, d6).
            Inr (length (fst (analyze (tc_tenant cfg) d)) + length rs + n, d6))))) (\<lambda>(_, d'). kept d0 d')"
      by (rule postE_bind [OF m], clarify, rule postE_bind_any, rule postE_bind, erule kept_auto_review) auto
  qed
qed

lemma kept_totals:
  assumes "kept d0 d" and "\<And>x d. kept d0 d \<Longrightarrow> postE (f x d) (\<lambda>(_, d'). kept d0 d')"
  shows "postE (foldE (\<lambda>x (total, d). bindE (f x d) (\<lambda>(n, d'). Inr (total + n, d'))) xs (0 :: nat, d)) (\<lambda>(_, d'). kept d0 d')"
  by (rule postE_foldE [where I = "\<lambda>(_, d'). kept d0 d'"], simp add: assms(1), clarsimp, rule postE_bind, erule assms(2))
    auto

lemma kept_research_tenant: "kept d0 d \<Longrightarrow> postE (research_tenant pr m cfg d) (\<lambda>(_, d'). kept d0 d')"
proof -
  assume k: "kept d0 d"
  show ?thesis unfolding research_tenant_def
  proof (rule postE_bind_any, rule postE_prod)
    fix x n d1
    assume "refresh_all (tc_tenant cfg) m (bf_research (tc_brief cfg)) d = Inr x" "x = (n, d1)"
    then have k1: "kept d0 d1" using kept_noted [OF k noted_refresh] by blast
    show "postE (if m = None \<or> approved_facts d1 (tc_tenant cfg) \<noteq> [] then Inr (n, d1)
        else bindE (propose_profile (pr cfg) (tc_tenant cfg) d1) (\<lambda>(_, d2). Inr (n + 1, d2))) (\<lambda>(_, d'). kept d0 d')"
      by (rule postE_if, simp add: k1, rule postE_bind, rule kept_profiles(1) [OF k1]) auto
  qed
qed

lemma kept_audit_sent: "kept d0 d \<Longrightarrow> postE (audit_command sh llm m w d) (\<lambda>(_, d'). kept d0 d')"
  unfolding audit_command_def audit_sent_sample_def
  by (cases "audit_groups llm ALERT_BELOW (samples sh m w d) d") (auto dest!: observed_groups intro: kept_observed)

lemma kept_commands:
  "kept d0 d \<Longrightarrow> postE (discover_command cx m cfgs d) (\<lambda>(_, d'). kept d0 d')"
  "kept d0 d \<Longrightarrow> postE (research_command pr m cfgs d) (\<lambda>(_, d'). kept d0 d')"
  unfolding discover_command_def research_command_def
  by (erule kept_totals, erule kept_discover_tenant, erule kept_totals, erule kept_research_tenant)

lemma kept_start_runtimes: "kept d0 d \<Longrightarrow> kept d0 (snd (start_runtimes cfgs d))"
  by (rule start_runtimes_kept [where P = "kept d0"]) (simp_all add: kept_runtime_for)

section \<open>The queue and the worker\<close>

lemma kept_jobs:
  assumes "kept d0 d" and "\<And>j. j_key (f j) = j_key j"
  shows "kept d0 (d\<lparr>jobs := upd P f (jobs d)\<rparr>)"
proof (rule kept_frame [OF assms(1)])
  have "\<exists>j'\<in>set (upd P f (jobs d)). j_key j' = Some k" if "j \<in> set (jobs d)" "j_key j = Some k" for j k
    using that assms(2) by (intro bexI [of _ "if P j then f j else j"]) (auto simp: set_upd)
  then show "job_keys d \<subseteq> job_keys (d\<lparr>jobs := upd P f (jobs d)\<rparr>)" by (auto simp: job_keys_def)
qed (simp_all add: moved_same tombstoned_def)

lemma kept_lease [kept]: "kept d0 d \<Longrightarrow> kept d0 (snd (lease q d))"
  unfolding lease_def by (auto intro!: kept_jobs simp: lease_row_def split: option.splits)

lemma kept_complete [kept]: "kept d0 d \<Longrightarrow> kept d0 (complete i d)"
  unfolding complete_def by (erule kept_jobs) simp

lemma kept_fail [kept]: "kept d0 d \<Longrightarrow> kept d0 (fail jb e p d)"
  unfolding fail_def Let_def by (auto intro!: kept_jobs)

lemma kept_reap [kept]: "kept d0 d \<Longrightarrow> kept d0 (snd (reap_expired d))"
  unfolding reap_expired_def snd_conv by (erule kept_jobs) simp

lemma kept_poll: "kept d0 d \<Longrightarrow> kept d0 (snd (poll lease P qs d))"
proof (induction qs arbitrary: d)
  case (Cons q qs)
  have "kept d0 (snd (lease q d))" using Cons.prems by (rule kept)
  with Cons show ?case by (auto split: prod.splits option.splits)
qed simp

text \<open>Handlers that keep what \<open>kept\<close> says.\<close>

definition keeps :: "handler \<Rightarrow> bool" where
  "keeps h \<longleftrightarrow> (\<forall>d0 d jb. kept d0 d \<longrightarrow> postE (h jb d) (kept d0))"

lemma kept_handle:
  assumes h: "\<forall>(q, h)\<in>set hs. keeps h" and k: "kept d0 d"
  shows "kept d0 (snd (handle jsonb hs jb d))"
proof -
  have "postE (case map_of hs (jb_queue jb) of None \<Rightarrow> Inl (KeyError (jb_queue jb)) | Some h \<Rightarrow> h jb d) (kept d0)"
  proof (rule postE_option)
    fix f
    assume "map_of hs (jb_queue jb) = Some f"
    then have "keeps f" using h by (auto dest: map_of_SomeD)
    then show "postE (f jb d) (kept d0)" using k by (simp add: keeps_def)
  qed simp
  then show ?thesis unfolding handle_def
    by (auto simp: k split: sum.splits exc.splits intro!: kept_complete kept_fail kept_audit)
qed

lemma kept_run_once:
  assumes h: "\<forall>(q, h)\<in>set hs. keeps h" and k: "kept d0 d"
  shows "kept d0 (snd (run_once jsonb hs d))"
proof -
  obtain x d1 where p: "poll lease (\<lambda>q. map_of hs q \<noteq> None) QUEUE_PRIORITY d = (x, d1)" by fastforce
  have k1: "kept d0 d1" using kept_poll [OF k] p by (metis snd_conv)
  show ?thesis
  proof (cases x)
    case None
    with p k1 show ?thesis by (simp add: run_once_def)
  next
    case (Some jb)
    with p kept_handle [OF h k1, of jsonb jb] show ?thesis
      by (auto simp: run_once_def split: prod.splits sum.splits)
  qed
qed

section \<open>The program\<close>

text \<open>What a deployment brings: configuration, model backend, provider, adapters and the server's
  \<open>jsonb\<close> cast.\<close>

record deployment =
  dp_env :: env
  dp_send :: send_env
  dp_sources :: "(pystr \<times> source_adapter) list"
  dp_adapters :: enrich_adapters
  dp_pause_lead :: "pystr \<Rightarrow> exc + unit"
  dp_pause_all :: "pystr \<Rightarrow> exc + unit"
  dp_parse :: "pystr \<Rightarrow> pystr \<Rightarrow> exc + provider_event list"
  dp_jsonb :: "pystr \<Rightarrow> exc + payload"
  dp_codec :: codec

definition handlers :: "deployment \<Rightarrow> (pystr \<times> handler) list" where
  "handlers dp =
     [(''control'', \<lambda>jb. control_op (dp_pause_lead dp) (dp_pause_all dp) (jb_payload jb)),
      (''classify'', \<lambda>jb. classify (dp_env dp) (jb_payload jb)),
      (''deliver'', \<lambda>jb d. snd (deliver (dp_send dp) (jb_payload jb) d)),
      (''qualify'', \<lambda>jb. qualify_handler (dp_env dp) (jb_payload jb)),
      (''compose'', \<lambda>jb. compose_handler (dp_env dp) (jb_payload jb)),
      (''trigger'', \<lambda>jb. trigger (dp_env dp) (jb_payload jb)),
      (''referral'', \<lambda>jb. referral (dp_env dp) (jb_payload jb)),
      (''reengage'', \<lambda>jb. reengage (dp_env dp) (jb_payload jb)),
      (''synthesize'', \<lambda>jb. synthesize_job (dp_codec dp) (en_llm (dp_env dp)) (jb_payload jb))]"

text \<open>What a deployment with live source and enrichment adapters registers besides.\<close>

definition adapter_handlers :: "deployment \<Rightarrow> (pystr \<times> handler) list" where
  "adapter_handlers dp =
     [(''discover'', \<lambda>jb. discover (dp_env dp) (dp_sources dp) (jb_payload jb)),
      (''enrich'', \<lambda>jb. enrich (dp_adapters dp) (jb_payload jb))]"

text \<open>The deliver handler's sequences come from the tenants' configurations; of equal keys the last
  counts, as in the comprehension.\<close>

definition sequences_of :: "tenant_config list \<Rightarrow> sequences" where
  "sequences_of cfgs = Some (\<lambda>tenant persona.
     Option.bind (map_of (rev (map (\<lambda>c. (tc_tenant c, map (\<lambda>p. (ps_id p, ps_sequence p)) (tc_personas c))) cfgs)) tenant)
       (\<lambda>ps. map_of (rev ps) persona))"

text \<open>What \<open>reachout run\<close> wires from the tenants' configurations and the runtimes of its start.\<close>

definition wired :: "deployment \<Rightarrow> tenant_config list \<Rightarrow> runtimes \<Rightarrow> deployment" where
  "wired dp cfgs rts =
     dp\<lparr>dp_env := (dp_env dp)\<lparr>en_runtimes := rts\<rparr>,
        dp_send := (dp_send dp)\<lparr>se_ctx := contexts_of cfgs, se_sequences := sequences_of cfgs\<rparr>\<rparr>"

lemma handlers_keep: "\<forall>(q, h)\<in>set (handlers dp @ adapter_handlers dp). keeps h" "\<forall>(q, h)\<in>set (handlers dp). keeps h"
  unfolding handlers_def adapter_handlers_def
  by (simp_all add: keeps_def kept_control kept_classify kept_deliver kept_qualify kept_compose kept_trigger
      kept_referral kept_reengage kept_discover kept_enrich kept_synthesize)

text \<open>One committed transaction, the reaper, a click on a link, or time passing. Locks other
  sessions hold come and go.\<close>

inductive sys_step :: "deployment \<Rightarrow> db \<Rightarrow> db \<Rightarrow> bool" for dp where
  work: "run_once (dp_jsonb dp) (handlers (wired dp cfgs rts)) d = (r, d') \<Longrightarrow> sys_step dp d d'"
| work_live: "w = wired dp cfgs rts \<Longrightarrow> run_once (dp_jsonb dp) (handlers w @ adapter_handlers w) d = (r, d') \<Longrightarrow> sys_step dp d d'"
| reap: "sys_step dp d (snd (reap_expired d))"
| webhook: "ingest_webhook (dp_parse dp) body sig d = Inr (n, d') \<Longrightarrow> sys_step dp d d'"
| hook_rejected: "sys_step dp d (audit ''webhook'' ''provider'' ''signature_rejected'' [] ''system:api'' d)"
| inbound: "ingest_events evs d = Inr (n, d') \<Longrightarrow> sys_step dp d d'"
| event: "sys_step dp d (snd (record_opevent ty sl pl key d))"
| signals: "ingest_license_csv ty file content d = Inr (c, d') \<Longrightarrow> sys_step dp d d'"
| brief: "sys_step dp d (snd (enqueue_synthesis (dp_codec dp) t b d))"
| discovery: "discover_command (dp_codec dp) llm cfgs d = Inr (n, d') \<Longrightarrow> sys_step dp d d'"
| research: "research_command pr llm cfgs d = Inr (n, d') \<Longrightarrow> sys_step dp d d'"
| audit_sent: "audit_command sh m k w d = Inr (rs, d') \<Longrightarrow> sys_step dp d d'"
| start_all: "sys_step dp d (snd (start_runtimes cfgs d))"
| click: "record_conversion i d = Inr (b, d') \<Longrightarrow> sys_step dp d d'"
| forget: "forget ref d = Inr (rc, d') \<Longrightarrow> sys_step dp d d'"
| suppress: "suppress e sc rs x pr d = Inr (c, d') \<Longrightarrow> sys_step dp d d'"
| halt: "sys_step dp d (halt sc a f d)"
| resume: "resume sc a d = Inr (b, d') \<Longrightarrow> sys_step dp d d'"
| approve_touch: "approve_pending i a d = Inr (b, d') \<Longrightarrow> sys_step dp d d'"
| reject_touch: "reject_pending i a n d = Inr (b, d') \<Longrightarrow> sys_step dp d d'"
| resolve: "resolve_task i a f n d = Inr (b, d') \<Longrightarrow> sys_step dp d d'"
| expire: "expire days d = Inr (m, d') \<Longrightarrow> sys_step dp d d'"
| propose: "sys_step dp d (snd (propose t k s pl ev key d))"
| approve: "approve i a auto d = Inr (b, d') \<Longrightarrow> sys_step dp d d'"
| decline: "decline i a n d = Inr (b, d') \<Longrightarrow> sys_step dp d d'"
| auto_review: "auto_review t mode d = Inr (is, d') \<Longrightarrow> sys_step dp d d'"
| resolve_esc: "resolve_escalation i a n d = Inr (b, d') \<Longrightarrow> sys_step dp d d'"
| profile: "propose_profile res t d = Inr (i, d') \<Longrightarrow> sys_step dp d d'"
| profile_ok: "approve_profile i a d = Inr (b, d') \<Longrightarrow> sys_step dp d d'"
| seed: "sys_step dp d (snd (seed_discovery rt d))"
| start: "sys_step dp d (snd (runtime_for cfg d))"
| clock: "epoch (now d) \<le> epoch c \<Longrightarrow> sys_step dp d (d\<lparr>now := c\<rparr>)"
| locks: "sys_step dp d (d\<lparr>locked_jobs := ls\<rparr>)"

definition run :: "deployment \<Rightarrow> db \<Rightarrow> db \<Rightarrow> bool" where
  "run dp = (sys_step dp)\<^sup>*\<^sup>*"

lemma postE_prodD: "postE m (\<lambda>(_, d'). kept d0 d') \<Longrightarrow> m = Inr (x, d') \<Longrightarrow> kept d0 d'"
  by simp

lemma sys_step_kept: "sys_step dp d d' \<Longrightarrow> kept d d'"
proof (induction rule: sys_step.induct)
  case (work cfgs rts d r d')
  with kept_run_once [OF handlers_keep(2) [of "wired dp cfgs rts"] kept_refl [of d], where jsonb = "dp_jsonb dp"] show ?case by simp
next
  case (work_live w cfgs rts d r d')
  with kept_run_once [OF handlers_keep(1) [of w] kept_refl [of d], where jsonb = "dp_jsonb dp"] show ?case by simp
next
  case (inbound evs d n d')
  with kept_ingest [OF kept_refl [of d], of evs] show ?case by simp
next
  case (webhook body sig d n d')
  then obtain evs where "ingest_events evs d = Inr (n, d')" by (auto simp: ingest_webhook_def bindE_eq_Inr)
  with kept_ingest [OF kept_refl [of d], of evs] show ?case by simp
next
  case (locks d ls)
  show ?case by (rule kept_same [OF kept_refl]) simp_all
qed (simp_all add: kept kept_propose kept_seed kept_runtime_for kept_start_runtimes
    postE_prodD [OF kept_signals [OF kept_refl]] postE_prodD [OF kept_commands(1) [OF kept_refl]]
    postE_prodD [OF kept_commands(2) [OF kept_refl]] postE_prodD [OF kept_audit_sent [OF kept_refl]]
    postE_prodD [OF kept_conversion [OF kept_refl]] postE_prodD [OF kept_forget [OF kept_refl]]
    postE_prodD [OF kept_suppress [OF kept_refl]] postE_prodD [OF kept_resume [OF kept_refl]]
    postE_prodD [OF kept_review(1) [OF kept_refl]] postE_prodD [OF kept_review(2) [OF kept_refl]]
    postE_prodD [OF kept_resolve_task [OF kept_refl]] postE_prodD [OF kept_expire [OF kept_refl]]
    postE_prodD [OF kept_approve [OF kept_refl]] postE_prodD [OF kept_decline [OF kept_refl]]
    postE_prodD [OF kept_auto_review [OF kept_refl]] postE_prodD [OF kept_resolve_escalation [OF kept_refl]]
    postE_prodD [OF kept_profiles(1) [OF kept_refl]] postE_prodD [OF kept_profiles(2) [OF kept_refl]])

lemma run_kept: "run dp d d' \<Longrightarrow> kept d d'"
  unfolding run_def
  by (induction rule: rtranclp_induct) (auto intro: kept_trans sys_step_kept)

section \<open>Delivering leaves the tasks alone\<close>

lemma store_tasks [simp]:
  "tasks (snd (try_consume_budget tn t d)) = tasks d" "tasks (snd (pick_mailbox tn d)) = tasks d"
  "tasks (release_budget tn t d) = tasks d" "tasks (adjust st si k w d) = tasks d"
  by (auto simp: try_consume_budget_def consume_one_def adjust_def pick_mailbox_def ensure_day_counters_def
      release_budget_def Let_def split_beta split: option.splits)

lemma claim_tasks [simp]: "tasks (snd (claim reg (pg_store cfg) g d)) = tasks d"
proof -
  have p: "persist_claim g m rs e = Inr e' \<Longrightarrow> tasks e' = tasks e" for m rs e e'
    by (auto simp: persist_claim_def bindE_eq_Inr Let_def split: if_splits dest!: update_touch_status_Inr)
  have g: "tasks (snd (give_back (pg_store cfg) g r e)) = tasks e" for r e
    by (simp add: give_back_def pg_store_def)
  have b: "tasks (snd (claim_mailbox (pg_store cfg) g rs e)) = tasks e" for rs e
  proof -
    obtain m e1 where m: "pick_mailbox (dt_tenant g) e = (m, e1)" by fastforce
    have e1: "tasks e1 = tasks e" using store_tasks(2) [of "dt_tenant g" e] by (simp add: m)
    show ?thesis by (auto simp: claim_mailbox_def m g e1 split: option.splits sum.splits dest!: p)
  qed
  obtain ok d1 where c: "try_consume_budget (dt_tenant g) g d = (ok, d1)" by fastforce
  have "tasks d1 = tasks d" using store_tasks(1) [of "dt_tenant g" g d] by (simp add: c)
  then show ?thesis by (simp add: claim_def c b split: sum.splits)
qed

lemma release_touch_tasks: "release_touch i r d = Inr d' \<Longrightarrow> tasks d' = tasks d"
  by (auto simp: release_touch_def bindE_eq_Inr dest!: update_touch_status_Inr)

lemma dispatch_tasks:
  assumes "dispatch env i g ref d = Inr d'"
  shows "tasks d' = tasks d"
proof -
  have t: "transition pid st a r e = Inr e' \<Longrightarrow> tasks e' = tasks e" for pid st a r e e'
    by (drule transition_eq) (auto simp: set_state_def)
  have p: "plan_next_step sq pid g e = Inr e' \<Longrightarrow> tasks e' = tasks e" for sq pid e e'
    by (auto simp: plan_next_step_def Let_def release_sequence_def split: option.splits if_splits)
  have r: "tasks (record_trial t v a e) = tasks e" for t v a e
    by (simp add: record_trial_def upsert_stat_def)
  from assms show ?thesis
    by (auto simp: dispatch_def Let_def bindE_eq_Inr r split: if_splits option.splits
        dest!: t p update_touch_status_Inr)
qed

lemma deliver_tasks:
  assumes "deliver env pl d = (calls, Inr d')"
  shows "tasks d' = tasks d"
proof -
  have c: "tasks d1 = tasks d" if "claim (se_registry env) (pg_store pg_default) g d = (x, d1)" for g x d1
    using claim_tasks [of "se_registry env" pg_default g d] that by simp
  from assms have "snd (deliver env pl d) = Inr d'" by simp
  from deliver_Inr [OF this] show ?thesis by (auto dest!: c release_touch_tasks dispatch_tasks)
qed

end
