(* ===== verification/Entrypoints.thy ===== *)
theory Entrypoints
  imports Runs
begin

text \<open>
  The two ways in: the routes of the HTTP application (\<open>api/app.py\<close>, \<open>api/manage.py\<close>) as one
  function of the request, and the commands of \<open>cli/main.py\<close> as one function of the command line.
  Both are shown to be runs of the program, so that what holds along runs holds whatever comes in.
\<close>

section \<open>The HTTP application\<close>

text \<open>What \<open>create_app\<close> closes over; \<open>sv_manage\<close> is the manage token of the environment.\<close>

record server =
  sv_tokens :: "api_token list"
  sv_key :: pystr
  sv_manage :: pystr

datatype request =
    Post_conversions pystr pystr
  | Post_forget pystr pystr
  | Post_halt pystr pystr
  | Post_resume pystr pystr
  | Post_events pystr pystr payload payload "pystr option"
  | Post_programs pystr pystr json
  | Get_funnel pystr
  | Post_hook pystr pystr
  | Approve_proposal pystr uuid
  | Decline_proposal pystr uuid
  | Ramp_send pystr uuid
  | Ramp_reject pystr uuid
  | Task_done pystr uuid
  | Task_skip pystr uuid
  | Pause_tenant pystr pystr
  | Resume_tenant pystr pystr
  | New_campaign pystr "(pystr \<times> pystr) list"

definition outcome :: "'a response \<Rightarrow> http_error option \<times> db" where
  "outcome r = (case fst r of Inl e \<Rightarrow> Some e | Inr _ \<Rightarrow> None, snd r)"

fun respond :: "deployment \<Rightarrow> server \<Rightarrow> request \<Rightarrow> db \<Rightarrow> http_error option \<times> db" where
  "respond dp sv (Post_conversions auth token) d = outcome (conversions_route (sv_tokens sv) (sv_key sv) auth token d)"
| "respond dp sv (Post_forget auth ref) d = outcome (forget_route (sv_tokens sv) auth ref d)"
| "respond dp sv (Post_halt auth scope) d = outcome (halt_route (sv_tokens sv) auth scope d)"
| "respond dp sv (Post_resume auth scope) d = outcome (resume_route (sv_tokens sv) auth scope d)"
| "respond dp sv (Post_events auth ty sl pl key) d = outcome (operator_events_route (sv_tokens sv) auth ty sl pl key d)"
| "respond dp sv (Post_programs auth tenant brief) d = outcome (programs_route (dp_codec dp) (sv_tokens sv) auth tenant brief d)"
| "respond dp sv (Get_funnel auth) d = outcome (funnel_route (sv_tokens sv) auth d)"
| "respond dp sv (Post_hook body signature) d = outcome (provider_hook (dp_parse dp) body signature d)"
| "respond dp sv (Approve_proposal token i) d = outcome (approve_proposal_route (sv_manage sv) token i d)"
| "respond dp sv (Decline_proposal token i) d = outcome (decline_proposal_route (sv_manage sv) token i d)"
| "respond dp sv (Ramp_send token i) d = outcome (ramp_send_route (sv_manage sv) token i d)"
| "respond dp sv (Ramp_reject token i) d = outcome (ramp_reject_route (sv_manage sv) token i d)"
| "respond dp sv (Task_done token i) d = outcome (task_done_route (sv_manage sv) token i d)"
| "respond dp sv (Task_skip token i) d = outcome (task_skip_route (sv_manage sv) token i d)"
| "respond dp sv (Pause_tenant token tenant) d = outcome (pause_tenant_route (sv_manage sv) token tenant d)"
| "respond dp sv (Resume_tenant token tenant) d = outcome (resume_tenant_route (sv_manage sv) token tenant d)"
| "respond dp sv (New_campaign token form) d = outcome (new_campaign_submit (dp_codec dp) (sv_manage sv) token form d)"

text \<open>The credential a request carries for its route; a webhook's is its signature.\<close>

fun credential :: "deployment \<Rightarrow> server \<Rightarrow> request \<Rightarrow> bool" where
  "credential dp sv (Post_conversions auth token) = allows (sv_tokens sv) ''conversions:write'' auth"
| "credential dp sv (Post_forget auth ref) = allows (sv_tokens sv) ''privacy:write'' auth"
| "credential dp sv (Post_halt auth scope) = allows (sv_tokens sv) ''control:write'' auth"
| "credential dp sv (Post_resume auth scope) = allows (sv_tokens sv) ''control:write'' auth"
| "credential dp sv (Post_events auth ty sl pl key) = allows (sv_tokens sv) ''events:write'' auth"
| "credential dp sv (Post_programs auth tenant brief) = allows (sv_tokens sv) ''manage:write'' auth"
| "credential dp sv (Get_funnel auth) = allows (sv_tokens sv) ''read'' auth"
| "credential dp sv (Post_hook body signature) = (\<nexists>m. dp_parse dp body signature = Inl (WebhookVerificationError m))"
| "credential dp sv (Approve_proposal token i) = (sv_manage sv \<noteq> [] \<and> token = sv_manage sv)"
| "credential dp sv (Decline_proposal token i) = (sv_manage sv \<noteq> [] \<and> token = sv_manage sv)"
| "credential dp sv (Ramp_send token i) = (sv_manage sv \<noteq> [] \<and> token = sv_manage sv)"
| "credential dp sv (Ramp_reject token i) = (sv_manage sv \<noteq> [] \<and> token = sv_manage sv)"
| "credential dp sv (Task_done token i) = (sv_manage sv \<noteq> [] \<and> token = sv_manage sv)"
| "credential dp sv (Task_skip token i) = (sv_manage sv \<noteq> [] \<and> token = sv_manage sv)"
| "credential dp sv (Pause_tenant token tenant) = (sv_manage sv \<noteq> [] \<and> token = sv_manage sv)"
| "credential dp sv (Resume_tenant token tenant) = (sv_manage sv \<noteq> [] \<and> token = sv_manage sv)"
| "credential dp sv (New_campaign token form) = (sv_manage sv \<noteq> [] \<and> token = sv_manage sv)"

section \<open>The command line\<close>

datatype command =
    Halt pystr "pystr option"
  | Resume pystr "pystr option"
  | Forget pystr
  | Approve pystr approve_options
  | Discover "llm_backend option" "tenant_config list"
  | Research_notes "tenant_config \<Rightarrow> exc + (pystr \<times> pystr \<times> pystr) list" "llm_backend option" "tenant_config list"
  | Signals pystr pystr pystr
  | Audit_sent "touch_row list \<Rightarrow> touch_row list" llm_backend nat int
  | Poll "pystr \<Rightarrow> mail" "pystr \<Rightarrow> int" "(exc + pystr list) list"
  | Work nat "tenant_config list"

text \<open>The state a command leaves: its transaction's, or what was there where it raised. \<open>run --once\<close>
  wires the tenants and drains the queues, \<open>drain\<close>'s own bound on the jobs being \<open>room\<close>.\<close>

definition settle :: "db \<Rightarrow> exc + 'a \<times> db \<Rightarrow> db" where
  "settle d r = (case r of Inl _ \<Rightarrow> d | Inr (_, d') \<Rightarrow> d')"

fun execute :: "deployment \<Rightarrow> command \<Rightarrow> db \<Rightarrow> db" where
  "execute dp (Halt user tenant) d = halt_command user tenant d"
| "execute dp (Resume user tenant) d = settle d (resume_command user tenant d)"
| "execute dp (Forget ref) d = settle d (forget ref d)"
| "execute dp (Approve user ao) d = settle d (approve_command user ao d)"
| "execute dp (Discover llm cfgs) d = settle d (discover_command (dp_codec dp) llm cfgs d)"
| "execute dp (Research_notes pr llm cfgs) d = settle d (research_command pr llm cfgs d)"
| "execute dp (Signals ty file content) d = settle d (signals_command ty file content d)"
| "execute dp (Audit_sent shuffle llm per_cohort window) d = settle d (audit_command shuffle llm per_cohort window d)"
| "execute dp (Poll parse py_hash fetched) d = snd (poll_once parse py_hash fetched d)"
| "execute dp (Work room cfgs) d =
     (let (rts, d1) = start_runtimes cfgs d
      in snd (drain (dp_jsonb dp) (handlers (wired dp cfgs rts)) room d1))"

section \<open>Requests without a credential\<close>

lemma outcome_snd [simp]: "snd (outcome r) = snd r"
  by (simp add: outcome_def)

lemma hook_rejected:
  assumes "dp_parse dp body signature = Inl (WebhookVerificationError m)"
  shows "respond dp sv (Post_hook body signature) d =
    (Some (HTTPException 401 ''invalid signature''), audit ''webhook'' ''provider'' ''signature_rejected'' [] ''system:api'' d)"
  using assms by (simp add: outcome_def provider_hook_def ingest_webhook_def)

section \<open>Every entry point is a run\<close>

lemma run_refl [simp]: "run dp d d"
  by (simp add: run_def)

lemma run_step: "sys_step dp d d' \<Longrightarrow> run dp d d'"
  by (simp add: run_def r_into_rtranclp)

lemma run_trans: "run dp d d1 \<Longrightarrow> run dp d1 d2 \<Longrightarrow> run dp d d2"
  unfolding run_def by (rule rtranclp_trans)

lemma run_scoped: "(\<And>t. run dp d (snd (body t))) \<Longrightarrow> run dp d (snd (scoped ts scope auth d body))"
  by (simp add: scoped_def split: sum.split)

lemma run_managed: "run dp d (snd r) \<Longrightarrow> run dp d (snd (managed expected token d r))"
  by (simp add: managed_def split: sum.split)

lemma run_commit: "(\<And>x d'. m = Inr (x, d') \<Longrightarrow> sys_step dp d d') \<Longrightarrow> run dp d (snd (commit d m))"
  by (auto simp: commit_def run_step split: sum.split)

lemma run_decision: "(\<And>x d'. m = Inr (x, d') \<Longrightarrow> sys_step dp d d') \<Longrightarrow> run dp d (snd (decision e tk mi d m))"
  unfolding decision_def by (rule run_managed) (simp add: run_commit)

lemma run_settle: "(\<And>x d'. m = Inr (x, d') \<Longrightarrow> sys_step dp d d') \<Longrightarrow> run dp d (settle d m)"
  by (auto simp: settle_def run_step split: sum.split)

lemmas step_intros = sys_step.webhook sys_step.click sys_step.forget sys_step.resume sys_step.approve_touch
  sys_step.reject_touch sys_step.resolve sys_step.approve sys_step.decline sys_step.resolve_esc sys_step.profile_ok
  sys_step.expire sys_step.signals sys_step.discovery sys_step.research sys_step.audit_sent

lemma run_scoped_routes:
  "run dp d (snd (conversions_route ts key auth token d))"
  "run dp d (snd (forget_route ts auth ref d))"
  "run dp d (snd (halt_route ts auth scope d))"
  "run dp d (snd (resume_route ts auth scope d))"
  "run dp d (snd (operator_events_route ts auth ty sl pl k d))"
  "run dp d (snd (programs_route (dp_codec dp) ts auth tenant b d))"
  "run dp d (snd (funnel_route ts auth d))"
proof -
  show "run dp d (snd (conversions_route ts key auth token d))" unfolding conversions_route_def
    by (rule run_scoped) (auto intro!: run_commit intro: step_intros split: sum.split option.split)
  show "run dp d (snd (forget_route ts auth ref d))" unfolding forget_route_def
    by (rule run_scoped) (auto intro!: run_commit intro: step_intros split: sum.split exc.split)
  show "run dp d (snd (halt_route ts auth scope d))" unfolding halt_route_def
    by (rule run_scoped) (simp add: run_step sys_step.halt)
  show "run dp d (snd (resume_route ts auth scope d))" unfolding resume_route_def
    by (rule run_scoped) (auto intro!: run_commit intro: step_intros)
  show "run dp d (snd (operator_events_route ts auth ty sl pl k d))" unfolding operator_events_route_def
    by (rule run_scoped) (simp add: split_beta Let_def run_step sys_step.event)
  show "run dp d (snd (programs_route (dp_codec dp) ts auth tenant b d))" unfolding programs_route_def
    by (rule run_scoped) (auto simp: split_beta Let_def run_step sys_step.brief split: sum.split)
  show "run dp d (snd (funnel_route ts auth d))" unfolding funnel_route_def
    by (rule run_scoped) simp
qed

lemma run_hook: "run dp d (snd (provider_hook (dp_parse dp) body signature d))"
  unfolding provider_hook_def
  by (auto simp: run_step sys_step.hook_rejected commit_def intro: run_step step_intros split: sum.split exc.split)

lemma run_new_campaign: "run dp d (snd (new_campaign_submit (dp_codec dp) expected token form d))"
  unfolding new_campaign_submit_def
  by (rule run_managed) (auto intro!: run_step sys_step.brief split: sum.split)

lemma run_respond: "run dp d (snd (respond dp sv rq d))"
proof (cases rq)
  case (Pause_tenant token tenant)
  have "run dp d (snd (pause_tenant_route (sv_manage sv) token tenant d))" unfolding pause_tenant_route_def
    by (rule run_managed) (simp add: run_step sys_step.halt)
  with Pause_tenant show ?thesis by simp
next
  case (Resume_tenant token tenant)
  have "run dp d (snd (resume_tenant_route (sv_manage sv) token tenant d))" unfolding resume_tenant_route_def
    by (rule run_managed) (auto intro!: run_commit intro: step_intros)
  with Resume_tenant show ?thesis by simp
qed (simp_all add: run_scoped_routes run_hook run_new_campaign approve_proposal_route_def decline_proposal_route_def
    ramp_send_route_def ramp_reject_route_def task_done_route_def task_skip_route_def run_decision step_intros)

lemma run_poll: "run dp d (snd (poll_inboxes parse py_hash fetched n d))"
proof (induction fetched arbitrary: n d)
  case (Cons f fs)
  show ?case
  proof (cases "bindE f (parse_batch parse py_hash)")
    case (Inr evs)
    show ?thesis
    proof (cases "evs = []")
      case False
      then have p: "poll_inboxes parse py_hash (f # fs) n d = (case ingest_events evs d of
          Inl e \<Rightarrow> (Inl e, d) | Inr (m, d1) \<Rightarrow> poll_inboxes parse py_hash fs (n + m) d1)"
        using Inr by (cases evs) simp_all
      show ?thesis unfolding p
        by (auto intro: run_trans [OF run_step [OF sys_step.inbound]] Cons.IH split: sum.split)
    qed (use Inr Cons.IH in simp)
  qed simp
qed simp

lemma run_drain_loop: "run dp d (snd (drain_loop (dp_jsonb dp) (handlers (wired dp cfgs rts)) room n d))"
proof (induction room arbitrary: n d)
  case (Suc room)
  obtain r d1 where r: "run_once (dp_jsonb dp) (handlers (wired dp cfgs rts)) d = (r, d1)" by fastforce
  with Suc.IH [of d1 "Suc n"] show ?case
    by (auto intro: run_step [OF sys_step.work [OF r]] run_trans [OF run_step [OF sys_step.work [OF r]]] split: sum.split bool.split)
qed simp

lemma run_drain: "run dp d (snd (drain (dp_jsonb dp) (handlers (wired dp cfgs rts)) room d))"
  unfolding drain_def by (rule run_trans [OF run_step [OF sys_step.reap] run_drain_loop])

lemma run_approve_command: "approve_command user ao d = Inr (b, d') \<Longrightarrow> sys_step dp d d'"
  unfolding approve_command_def Let_def
  by (auto simp: bindE_eq_Inr intro: step_intros split: if_splits)

lemma run_execute: "run dp d (execute dp cmd d)"
proof (cases cmd)
  case (Work room cfgs)
  have "run dp d (snd (start_runtimes cfgs d))" by (rule run_step) (rule sys_step.start_all)
  from run_trans [OF this run_drain [of dp _ cfgs "fst (start_runtimes cfgs d)" room]] Work show ?thesis
    by (simp add: split_beta Let_def)
qed (auto simp: halt_command_def resume_command_def signals_command_def poll_once_def run_poll run_step sys_step.halt
    intro!: run_settle intro: step_intros run_approve_command)

section \<open>Traffic\<close>

text \<open>Commands and requests in any order.\<close>

fun traffic :: "deployment \<Rightarrow> server \<Rightarrow> (command + request) list \<Rightarrow> db \<Rightarrow> db" where
  "traffic dp sv [] d = d"
| "traffic dp sv (Inl cmd # es) d = traffic dp sv es (execute dp cmd d)"
| "traffic dp sv (Inr rq # es) d = traffic dp sv es (snd (respond dp sv rq d))"

lemma run_traffic: "run dp d (traffic dp sv es d)"
  by (induction dp sv es d rule: traffic.induct) (auto intro: run_trans run_execute run_respond)

text \<open>Without the credential of its route a request is answered with an error.\<close>

lemma require_denied: "\<not> allows ts scope auth \<Longrightarrow> \<exists>e. require ts scope auth = Inl e"
  by (cases "require ts scope auth") (auto simp: require_def allows_def dest!: check_token_Inr)

lemma scoped_denied: "\<not> allows ts scope auth \<Longrightarrow> \<exists>e. scoped ts scope auth d body = (Inl e, d)"
  using require_denied [of ts scope auth] by (auto simp: scoped_def)

lemma managed_denied: "\<not> (expected \<noteq> [] \<and> token = expected) \<Longrightarrow> \<exists>e. managed expected token d r = (Inl e, d)"
  by (auto simp: managed_def check_manage_def)

lemma outcome_denied:
  "\<not> allows ts scope auth \<Longrightarrow> \<exists>e. outcome (scoped ts scope auth d body) = (Some e, d)"
  "\<not> (expected \<noteq> [] \<and> token = expected) \<Longrightarrow> \<exists>e. outcome (managed expected token d r) = (Some e, d)"
  using scoped_denied [of ts scope auth d body] managed_denied [of expected token d r] by (auto simp: outcome_def)

lemma respond_denied:
  assumes "\<not> credential dp sv rq" and "\<And>body signature. rq \<noteq> Post_hook body signature"
  shows "\<exists>e. respond dp sv rq d = (Some e, d)"
  by (cases rq) (use assms in \<open>simp_all add: conversions_route_def forget_route_def halt_route_def resume_route_def
    operator_events_route_def programs_route_def funnel_route_def approve_proposal_route_def decline_proposal_route_def
    ramp_send_route_def ramp_reject_route_def task_done_route_def task_skip_route_def pause_tenant_route_def
    resume_tenant_route_def new_campaign_submit_def decision_def outcome_denied del: de_Morgan_conj\<close>)

end
