(* ===== verification/Spec_runs.thy ===== *)
theory Spec_runs
  imports Entrypoints
begin

text \<open>
  What holds along every run of the program, whatever handlers, commands and webhooks interleave:
  deletion, halts, deliveries, job keys, provider events and no-shows are never forgotten. The
  witnesses use a deployment of the sample tenant whose adapters are all down, and a run in which
  another tenant is halted.
\<close>

section \<open>What a run keeps\<close>

lemma run_moved:
  assumes "run dp d d'" and "prospect_of d i = Some p"
  obtains p' where "prospect_of d' i = Some p'" "reaches (p_state p) (p_state p')" "p_tenant p' = p_tenant p"
    "p_entity p' = p_entity p" "p_cohort p' = p_cohort p" "p_persona p' = p_persona p"
  using run_kept [OF assms(1)] assms(2) unfolding kept_def moved_def by blast

lemma run_facts:
  assumes "run dp d d'"
  shows "tombstoned d h \<Longrightarrow> tombstoned d' h" and "job_keys d \<subseteq> job_keys d'" and "set (pevents d) \<subseteq> set (pevents d')"
    and "idna d' = idna d" and "settled d i \<Longrightarrow> settled d' i" and "logged d d'"
  using run_kept [OF assms] unfolding kept_def by blast+

lemma deliver_recipient:
  assumes "deliver env pl d = (calls, r)" and "(c, s, b) \<in> set calls"
  shows "is_suppressed d (ct_recipient c) (ct_tenant c) = Inr False" and "halted_scopes d (ct_tenant c) = []"
proof -
  from assms(2) have "calls \<noteq> []" by auto
  obtain i g ctx c' d1 where a: "load_gate_draft d i ctx = Inr (Some g)"
    "claim (se_registry env) (pg_store pg_default) g d = (Granted c', d1)"
    "calls = [(c', dr_subject (dt_draft g), dr_body (dt_draft g))]"
    using deliver_call [OF assms(1) \<open>calls \<noteq> []\<close>] by metis
  have c: "c = c'" using a(3) assms(2) by simp
  note k = pg_claim_Granted [OF a(2)]
  have "ct_recipient c = dt_email g" "ct_tenant c = dt_tenant g" unfolding c by (subst k(5), simp)+
  with k(1) show "is_suppressed d (ct_recipient c) (ct_tenant c) = Inr False" "halted_scopes d (ct_tenant c) = []"
    by (simp_all add: checks_pass_def pg_store_def)
qed

lemma halt_halted: "halted (halt scope by flag d) scope"
  by (simp add: halted_def halt_def) (rule upsert_ex; simp)

section \<open>The sample run\<close>

definition s_dp :: deployment where
  "s_dp = \<lparr>dp_env = \<lparr>en_registry = initial_registry,
       en_llm = \<lparr>lm_compose = (\<lambda>_ _. Inl (OtherError ''down'')), lm_groundedness = (\<lambda>_. Inl (OtherError ''down'')),
         lm_qualify = (\<lambda>_. Inl (OtherError ''down'')), lm_compose_reply = (\<lambda>_ _. Inl (OtherError ''down'')),
         lm_classify = (\<lambda>_. Inl (OtherError ''down'')), lm_synthesize = (\<lambda>_ _. Inl (OtherError ''down'')),
         lm_brainstorm = (\<lambda>_. Inl (OtherError ''down'')), lm_narrate = (\<lambda>_. Inl (OtherError ''down'')),
         lm_winloss = (\<lambda>_. Inl (OtherError ''down'')), lm_web = (\<lambda>_. Inl (OtherError ''down''))\<rparr>,
       en_key = None, en_beta = (\<lambda>_ a b. a / (a + b)), en_runtimes = []\<rparr>,
     dp_send = s_send, dp_sources = [],
     dp_adapters = \<lparr>ad_enrich = (\<lambda>_. Inl (OtherError ''down'')), ad_find = (\<lambda>_. Inl (OtherError ''down'')),
       ad_verify = (\<lambda>_. Inl (OtherError ''down''))\<rparr>,
     dp_pause_lead = (\<lambda>_. Inr ()), dp_pause_all = (\<lambda>_. Inr ()), dp_parse = (\<lambda>_ _. Inr []),
     dp_jsonb = (\<lambda>_. Inr []),
     dp_codec = \<lparr>cx_brief_yaml = (\<lambda>_. []), cx_personas_yaml = (\<lambda>_. []), cx_personas_sorted = (\<lambda>_. []),
       cx_brief_text = (\<lambda>_. []), cx_brief_json = (\<lambda>_. JNull), cx_personas_json = (\<lambda>_. JNull),
       cx_read_brief = (\<lambda>_. Inl (ValueError ''down''))\<rparr>\<rparr>"

definition s_halt :: "db \<Rightarrow> db" where
  "s_halt = halt ''other'' ''operator:o'' ''halt''"

lemma s_run: "run s_dp d (s_halt d)"
  unfolding s_halt_def by (rule run_step, rule sys_step.halt)

lemma s_delivered: "\<exists>d'. deliver s_send s_job s_db = ([(s_claimed, ''S'', ''AB'')], Inr d')"
proof -
  obtain d1 where d1: "claim initial_registry (pg_store pg_default) s_gate s_db = (Granted s_claimed, d1)" using s_claim by blast
  note k = pg_claim_Granted(7,9) [OF d1]
  have t1: "touches d1 = [s_touch\<lparr>t_status := Claimed, t_claimed_at := Some (epoch s_clock), t_mailbox := Some ''m''\<rparr>]"
    unfolding k(1) by (simp add: s_claimed_def s_db_def empty_db_def s_touch_def s_gate_def upd_def)
  have p1: "prospect_of d1 ''p'' = Some s_prospect"
    unfolding prospect_of_def k(2) by (simp add: s_db_def s_prospect_def)
  have st: "map_option t_status (touch_of s_db ''x'') = Some Drafted"
    "Option.bind (touch_of s_db ''x'') (\<lambda>tc. Option.bind (prospect_of s_db (t_prospect tc)) (\<lambda>p. slug_of s_db (p_tenant p))) = Some ''n''"
    by (simp_all add: touch_of_def prospect_of_def slug_of_def s_db_def s_touch_def s_prospect_def)
  have dr: "dt_draft s_gate = s_draft" "dr_subject s_draft = ''S''" "dr_body s_draft = ''AB''"
    by (simp_all add: s_gate_def s_draft_def)
  have to: "touch_of d1 ''x'' = Some (s_touch\<lparr>t_status := Claimed, t_claimed_at := Some (epoch s_clock), t_mailbox := Some ''m''\<rparr>)"
    by (simp add: touch_of_def t1 s_touch_def)
  obtain d2 where d2: "transition ''p'' Contacted ''system:deliver'' [] d1 = Inr d2"
    using transition_ok [OF p1, of Contacted] by (auto simp: s_prospect_def)
  have t2: "touches d2 = touches d1" using transition_eq [OF d2] by (elim exE) (simp add: set_state_def)
  have "\<exists>d3. dispatch s_send ''x'' s_gate [] d1 = Inr d3"
    by (simp add: dispatch_def to p1 s_touch_def [simplified] s_prospect_def d2 update_touch_status_def t2 t1
        reject_suppressed_touch_def enforce_claim_lineage_def plan_next_step_def s_send_def)
  then show ?thesis
    by (auto simp: deliver_def st s_loaded d1 dr s_send_def)
qed

section \<open>Prospects\<close>

text \<open>C6: Along any run a prospect stays in the table with its tenant, entity, cohort and persona and
  moves only along the edges of the state machine. From an exit (converted, disqualified,
  unenrichable, bounced, declined, unsubscribed) it can only be forgotten, and into a state that
  presupposes contact it comes only through \<open>queued\<close>.\<close>

theorem runs_respect_machine:
  assumes "run dp d d'" and "prospect_of d i = Some p"
  shows "\<exists>p'. prospect_of d' i = Some p' \<and> reaches (p_state p) (p_state p') \<and>
    p_tenant p' = p_tenant p \<and> p_entity p' = p_entity p \<and> p_cohort p' = p_cohort p \<and> p_persona p' = p_persona p \<and>
    (p_state p \<in> set exits \<longrightarrow> p_state p' = p_state p \<or> p_state p' = Forgotten) \<and>
    (p_state p \<notin> after_contact \<and> p_state p' \<in> after_contact \<longrightarrow>
      reaches (p_state p) Queued \<and> reaches Queued (p_state p'))"
proof -
  obtain p' where p': "prospect_of d' i = Some p'" "reaches (p_state p) (p_state p')" "p_tenant p' = p_tenant p"
    "p_entity p' = p_entity p" "p_cohort p' = p_cohort p" "p_persona p' = p_persona p"
    using assms by (rule run_moved)
  with reaches_from_exit [OF p'(2)] after_contact_via_queued [OF p'(2)] show ?thesis by blast
qed

theorem runs_respect_machine_witness: "\<exists>p'. prospect_of (s_halt s_db) ''p'' = Some p' \<and> reaches Queued (p_state p')"
proof -
  have "prospect_of s_db ''p'' = Some s_prospect" "p_state s_prospect = Queued"
    by (simp_all add: prospect_of_def s_db_def s_prospect_def)
  with runs_respect_machine [OF s_run [of s_db], of "''p''" s_prospect] show ?thesis by auto
qed

section \<open>Deletion\<close>



section \<open>The halt switch\<close>

text \<open>C4: A halt holds against the whole program. After a halt of a scope, along any run, either the
  audit trail has since gained a human's \<open>resume\<close> of that very scope, or no job calls the
  provider for the tenant it names, and for no tenant at all when the scope is global.\<close>

theorem halt_holds_until_human:
  assumes "run dp (halt scope by flag d) d'"
  shows "\<exists>rows. audits d' = audits (halt scope by flag d) @ rows \<and>
    (resumed scope rows \<or>
     (\<forall>env pl calls r c subject body. deliver env pl d' = (calls, r) \<longrightarrow> (c, subject, body) \<in> set calls \<longrightarrow>
        scope \<noteq> GLOBAL_SCOPE \<and> scope \<noteq> ct_tenant c))"
proof -
  obtain rows where rows: "audits d' = audits (halt scope by flag d) @ rows"
    "halted d' scope \<or> resumed scope rows"
    using run_facts(6) [OF assms] halt_halted [of scope "by" flag d] by (auto simp: logged_def)
  have "scope \<noteq> GLOBAL_SCOPE \<and> scope \<noteq> ct_tenant c"
    if "halted d' scope" "deliver env pl d' = (calls, r)" "(c, subject, body) \<in> set calls"
    for env pl calls r c subject body
    using deliver_recipient(2) [OF that(2,3)] that(1) by (auto simp: halted_scopes_empty halted_def)
  with rows show ?thesis by blast
qed

theorem halt_holds_until_human_witness:
  "\<not> (\<exists>c su bo. (c, su, bo) \<in> set (fst (deliver s_send s_job (s_halt (halt ''n'' ''operator:o'' ''f'' s_db)))) \<and>
    ct_tenant c = ''n'')"
proof -
  let ?d = "s_halt (halt ''n'' ''operator:o'' ''f'' s_db)"
  have au: "audits ?d = audits (halt ''n'' ''operator:o'' ''f'' s_db)" by (simp add: s_halt_def halt_def)
  have r: "\<not> resumed ''n'' []" by (simp add: resumed_def)
  obtain calls x where dl: "deliver s_send s_job ?d = (calls, x)" by fastforce
  from halt_holds_until_human [OF s_run, of "''n''" "''operator:o''" "''f''" s_db] au r
  have "\<forall>env pl calls r c subject body. deliver env pl ?d = (calls, r) \<longrightarrow> (c, subject, body) \<in> set calls \<longrightarrow>
      ''n'' \<noteq> GLOBAL_SCOPE \<and> ''n'' \<noteq> ct_tenant c" by auto
  with dl have "ct_tenant c \<noteq> ''n''" if "(c, su, bo) \<in> set calls" for c su bo using that by metis
  with dl show ?thesis by auto
qed

section \<open>At most once\<close>

text \<open>C3: A message goes out at most once. When a deliver job has called the provider for a touch and
  committed, and no pending human task hangs on that touch, then in every later state of the
  program, under any configuration, another deliver job for the same touch (a retry, a second
  worker, a duplicate enqueue) calls the provider not at all and changes nothing.\<close>

theorem sent_at_most_once:
  assumes "deliver env pl d = (calls, Inr d1)" and "calls \<noteq> []" and "jget_str pl ''touch_id'' = Inr i"
    and "\<forall>h\<in>set (tasks d). h_touch h = i \<longrightarrow> h_status h \<noteq> Task_pending" and "run dp d1 d2"
    and "jget_str pl' ''touch_id'' = Inr i"
  shows "deliver env' pl' d2 = ([], Inr d2)"
proof -
  obtain tc where "touch_of d1 i = Some tc" "t_status tc = Dispatched"
    using deliver_dispatched [OF assms(1-3)] by blast
  moreover have "tasks d1 = tasks d" by (rule deliver_tasks [OF assms(1)])
  ultimately have "settled d1 i" using assms(4) by (simp add: settled_def)
  then have "settled d2 i" by (rule run_facts(5) [OF assms(5)])
  then obtain t where "touch_of d2 i = Some t" "t_status t = Dispatched \<or> t_status t = Sent"
    by (auto simp: settled_def)
  with assms(6) show ?thesis by (rule deliver_done)
qed

theorem sent_at_most_once_witness:
  "\<exists>d1. deliver s_send s_job s_db = ([(s_claimed, ''S'', ''AB'')], Inr d1) \<and>
    deliver s_send s_job (s_halt d1) = ([], Inr (s_halt d1))"
proof -
  obtain d1 where d1: "deliver s_send s_job s_db = ([(s_claimed, ''S'', ''AB'')], Inr d1)" using s_delivered by blast
  have "\<forall>h\<in>set (tasks s_db). h_touch h = ''x'' \<longrightarrow> h_status h \<noteq> Task_pending" by (simp add: s_db_def empty_db_def)
  from sent_at_most_once [OF d1 _ s_job_touch this s_run s_job_touch] d1 show ?thesis by blast
qed

text \<open>C32: Work is scheduled at most once per idempotency key. After an enqueue under a key, along any
  run (the job done, dead, retried or reaped) another enqueue under that key, on any queue and
  with any payload, adds no job and changes nothing.\<close>

theorem key_used_once:
  assumes "run dp (snd (enqueue q pl (Some key) delay m d)) d'"
  shows "enqueue q' pl' (Some key) delay' m' d' = (None, d')"
proof -
  have "key \<in> job_keys (snd (enqueue q pl (Some key) delay m d))"
    by (auto simp: enqueue_def job_keys_def)
  then have "key \<in> job_keys d'" using run_facts(2) [OF assms] by blast
  then show ?thesis by (auto simp: enqueue_def job_keys_def)
qed

theorem key_used_once_witness:
  "enqueue ''q'' [] (Some ''k'') 0 5 (s_halt (snd (enqueue ''control'' [] (Some ''k'') 0 5 s_db))) =
    (None, s_halt (snd (enqueue ''control'' [] (Some ''k'') 0 5 s_db)))"
  by (rule key_used_once [OF s_run])

text \<open>C33: A provider event acts at most once. After a webhook with a list of events commits, redelivery
  of the list at any later point of a run counts no event and leaves the database as it was.\<close>

theorem events_once:
  assumes "ingest_events evs d = Inr (n, d1)" and "run dp d1 d2"
  shows "ingest_events evs d2 = Inr (0, d2)"
proof -
  have "\<forall>ev\<in>set evs. seen_event d1 (pv_id ev)" using ingest_seen [OF assms(1)] by blast
  then have "\<forall>ev\<in>set evs. seen_event d2 (pv_id ev)"
    using run_facts(3) [OF assms(2)] by (auto simp: seen_event_def)
  then show ?thesis by (rule ingest_all_seen)
qed

theorem events_once_witness:
  "\<exists>d1. ingest_events [\<lparr>pv_id = ''1'', pv_kind = DELIVERED, pv_ref = [], pv_payload = []\<rparr>] s_db = Inr (1, d1) \<and>
    ingest_events [\<lparr>pv_id = ''1'', pv_kind = DELIVERED, pv_ref = [], pv_payload = []\<rparr>] (s_halt d1) = Inr (0, s_halt d1)"
proof -
  let ?ev = "\<lparr>pv_id = ''1'', pv_kind = DELIVERED, pv_ref = [], pv_payload = []\<rparr>"
  have "\<not> seen_event s_db ''1''" by (simp add: seen_event_def s_db_def empty_db_def)
  then obtain d1 where d1: "ingest_events [?ev] s_db = Inr (1, d1)" by (simp add: act_def)
  from events_once [OF this s_run] d1 show ?thesis by blast
qed

section \<open>No-shows\<close>

text \<open>One re-engagement per prospect, ever. After a first no-show is recorded, a no-show of the
  same prospect at any later point of a run closes it: no job is scheduled, and the prospect is
  declined unless it has already left the states from which it can decline.\<close>

theorem second_no_show_closes:
  assumes "process_no_show n pid d = Inr (out, d1)" and "run dp d1 d2" and "prospect_of d2 pid = Some p"
  shows "\<exists>d3. process_no_show n' pid d2 = Inr (Closed, d3) \<and> jobs d3 = jobs d2 \<and>
    prospect_of d3 pid = Some (if Declined \<in> set (TRANSITIONS (p_state p)) then p\<lparr>p_state := Declined\<rparr> else p)"
proof -
  have "0 < cnt (no_show_of pid) (audits d1)" by (rule process_no_show_counts [OF assms(1)])
  then have "0 < cnt (no_show_of pid) (audits d2)"
    using run_facts(6) [OF assms(2)] by (auto simp: cnt_pos logged_def)
  then show ?thesis using assms(3) by (rule process_no_show_again)
qed

theorem second_no_show_closes_witness:
  "\<exists>d1 d3. process_no_show 3 ''p'' s_db = Inr (Reengage_scheduled, d1) \<and>
    process_no_show 3 ''p'' (s_halt d1) = Inr (Closed, d3) \<and> jobs d3 = jobs (s_halt d1)"
proof -
  have "cnt (no_show_of ''p'') (audits s_db) = 0" by (simp add: s_db_def empty_db_def cnt_0)
  then obtain d1 where d1: "process_no_show 3 ''p'' s_db = Inr (Reengage_scheduled, d1)"
    by (simp add: process_no_show_first)
  obtain p where p: "prospect_of d1 ''p'' = Some p"
  proof -
    have "kept s_db d1" using kept_no_show [OF kept_refl [of s_db], of 3 "''p''"] by (simp add: d1)
    moreover have "prospect_of s_db ''p'' = Some s_prospect" by (simp add: prospect_of_def s_db_def s_prospect_def)
    ultimately show ?thesis using that unfolding kept_def moved_def by blast
  qed
  have "prospect_of (s_halt d1) ''p'' = Some p" using p by (simp add: s_halt_def halt_def prospect_of_def)
  from second_no_show_closes [OF d1 s_run this, of 3] d1 show ?thesis by blast
qed

section \<open>The review ramp\<close>

lemma queue_draft_tasks:
  "queue_draft key pid camp var st k dr h n d = Inr (i, d') \<Longrightarrow> tasks d' = tasks d"
  by (auto simp: queue_draft_def Let_def bindE_eq_Inr split_beta enqueue_deliver_def fresh_uuid_def dest!: insert_touch_Inr)

lemma deliver_waiting:
  assumes "waiting d i" and "jget_str pl ''touch_id'' = Inr i"
  shows "fst (deliver env pl d) = []"
  using assms by (auto simp: waiting_def deliver_def)

text \<open>C5: The approve-first ramp cannot be bypassed. While fewer drafts of a campaign and variant exist
  than the persona asks to be reviewed first, a new draft is held. Along any run after that,
  either the audit trail has gained a human's decision on that very touch, or a deliver job for
  it, however it came about, calls the provider not at all.\<close>

theorem ramp_not_bypassed:
  assumes "queue_draft key pid camp var st k dr h n d = Inr (i, d1)" and "prior_drafts d camp var < n"
    and "\<forall>h\<in>set (tasks d). h_touch h \<noteq> i" and "run dp d1 d2"
  shows "\<exists>rows. audits d2 = audits d1 @ rows \<and>
    (reviewed i rows \<or> (\<forall>env pl. jget_str pl ''touch_id'' = Inr i \<longrightarrow> fst (deliver env pl d2) = []))"
proof -
  obtain t where t: "touches d1 = touches d @ [t]" "t_id t = i" "t_status t = Pending_review" "i \<notin> t_id ` set (touches d)"
    by (rule queue_draft_Inr [OF assms(1)]) (use assms(2) in simp)
  have "fetch (\<lambda>t. t_id t = i) (touches d) = None" using t(4) by (auto simp: fetch_None)
  with t(1,2) fetch_ins [of "\<lambda>t. t_id t = i" t "touches d"] have "touch_of d1 i = Some t"
    by (simp add: touch_of_def ins_def)
  with t(3) assms(3) have "waiting d1 i" by (simp add: waiting_def queue_draft_tasks [OF assms(1)])
  then obtain rows where "audits d2 = audits d1 @ rows" "waiting d2 i \<or> reviewed i rows"
    using run_facts(6) [OF assms(4)] unfolding logged_def by blast
  with deliver_waiting show ?thesis by blast
qed

theorem ramp_not_bypassed_witness:
  "\<exists>i d1. queue_draft None ''p'' ''v:cold'' None 0 Cold_kind s_draft (content_hash s_draft) 5 s_db = Inr (i, d1) \<and>
    fst (deliver s_send [(''touch_id'', JStr i)] (s_halt d1)) = []"
proof -
  let ?i = "''u'' @ nat_str 0"
  obtain d1 where d1: "queue_draft None ''p'' ''v:cold'' None 0 Cold_kind s_draft (content_hash s_draft) 5 s_db = Inr (?i, d1)"
    by (simp add: queue_draft_def tokenized_draft_def insert_touch_def reject_suppressed_touch_def fresh_uuid_def
        prior_drafts_def cnt_def prospect_of_def s_db_def s_prospect_def s_touch_def empty_db_def)
  have "prior_drafts s_db ''v:cold'' None < 5" "\<forall>h\<in>set (tasks s_db). h_touch h \<noteq> ?i"
    by (simp_all add: prior_drafts_def cnt_def s_db_def s_touch_def empty_db_def)
  from ramp_not_bypassed [OF d1 this s_run] have
    "\<exists>rows. audits (s_halt d1) = audits d1 @ rows \<and> (reviewed ?i rows \<or>
      (\<forall>env pl. jget_str pl ''touch_id'' = Inr ?i \<longrightarrow> fst (deliver env pl (s_halt d1)) = []))" .
  moreover have "audits (s_halt d1) = audits d1" by (simp add: s_halt_def halt_def)
  ultimately have "fst (deliver s_send [(''touch_id'', JStr ?i)] (s_halt d1)) = []" by (auto simp: reviewed_def)
  with d1 show ?thesis by blast
qed

end
