(* ===== verification/Spec_content.thy ===== *)
theory Spec_content
  imports Sample
begin

text \<open>
  What drafting promises: a composed message is compliant and cites only evidence it was given,
  evidence never reaches the prompt text or leaves its envelope, values come from fresh facts,
  attribution tokens round-trip, and the first drafts of a campaign wait for a person.
\<close>

section \<open>What a compliant message is\<close>

text \<open>The rules of the deny pack, as a reader of the message would state them.\<close>

definition compliant :: "draft \<Rightarrow> vctx \<Rightarrow> bool" where
  "compliant dr ctx \<longleftrightarrow>
     strip (dr_subject dr) \<noteq> [] \<and> contains (strip (dr_body dr)) (strip (physical_address ctx)) \<and>
     contains (lower (strip (dr_body dr))) (lower (strip (unsubscribe_text ctx))) \<and>
     (strip (sender_identity ctx) \<noteq> [] \<longrightarrow> contains (strip (dr_body dr)) (strip (sender_identity ctx))) \<and>
     rx_match FAKE_THREAD (strip (dr_subject dr)) = None \<and> search DECEPTIVE (strip (dr_subject dr)) = None \<and>
     int (length (split_blank (strip (dr_body dr)))) \<le> max_words ctx \<and>
     (\<forall>url\<in>set (findall URL (strip (dr_body dr))).
        \<exists>p\<in>set (allowed_url_prefixes ctx). startswith (lower url) (lower p)) \<and>
     (sector_sensitivity ctx \<noteq> ''none'' \<longrightarrow>
        phi_hits (fstr [strip (dr_subject dr), nl, strip (dr_body dr)]) = []) \<and>
     (1 \<le> dr_step dr \<longrightarrow> search BUMP_PATTERNS (strip (dr_body dr)) = None)"

lemma validate_compliant:
  assumes "validate reg dr ctx = Inr []"
  shows "compliant dr ctx"
  using validate_clean(1-3) [OF assms]
  by (auto simp: compliant_def core_findings_def phi_findings_def filter_empty_conv list_ex_iff)



section \<open>Composing\<close>


definition s_llm :: llm_backend where
  "s_llm = \<lparr>lm_compose = (\<lambda>_ _. Inr \<lparr>co_subject = ''S'', co_body = ''AB'', co_claims = [], co_injection = False\<rparr>),
     lm_groundedness = (\<lambda>_. Inr \<lparr>go_grounded = True, go_unsupported = [], go_injection = False\<rparr>),
     lm_qualify = (\<lambda>_. Inl (OtherError ''down'')), lm_compose_reply = (\<lambda>_ _. Inl (OtherError ''down'')),
     lm_classify = (\<lambda>_. Inl (OtherError ''down'')), lm_synthesize = (\<lambda>_ _. Inl (OtherError ''down'')),
     lm_brainstorm = (\<lambda>_. Inl (OtherError ''down'')), lm_narrate = (\<lambda>_. Inl (OtherError ''down'')),
     lm_winloss = (\<lambda>_. Inl (OtherError ''down'')), lm_web = (\<lambda>_. Inl (OtherError ''down''))\<rparr>"

definition s_inputs :: "pystr \<Rightarrow> pystr \<Rightarrow> compose_inputs" where
  "s_inputs v t = \<lparr>ci_variant = v, ci_prompt = [], ci_values = [], ci_ctx = s_ctx, ci_trusted = t, ci_step = 0\<rparr>"

lemma s_compose: "\<exists>res. compose initial_registry s_llm (s_inputs v t) = Inr res \<and> cr_draft res = s_draft"
proof -
  have r: "resolve DEFAULT_REGISTRY [] [] = Inr \<lparr>rp_text = [], rp_untrusted = [], rp_resolved = []\<rparr>"
    by code_simp
  have d: "\<lparr>dr_subject = ''S'', dr_body = ''AB'', dr_step = 0\<rparr> = s_draft" by (simp add: s_draft_def)
  show ?thesis
    by (simp add: compose_def s_inputs_def r evidence_blocks_def MAX_COMPOSE_RETRIES_def s_llm_def output_draft_def
        problems_of_def d s_draft_clean audit_draft_def Let_def)
qed


text \<open>Composing asks the model at most three times: two backends that agree on the first three
  attempts and on the groundedness audit give the same result, whatever a fourth call would say.\<close>

theorem compose_bounded:
  assumes "\<forall>i<3. lm_compose llm i = lm_compose llm' i" and "lm_groundedness llm = lm_groundedness llm'"
  shows "compose reg llm inp = compose reg llm' inp"
proof -
  have "compose_loop reg llm inp r b k (1 + MAX_COMPOSE_RETRIES) 0 [] = compose_loop reg llm' inp r b k (1 + MAX_COMPOSE_RETRIES) 0 []"
    for r b k
    by (rule compose_loop_bounded) (use assms in \<open>auto simp: MAX_COMPOSE_RETRIES_def\<close>)
  then show ?thesis by (simp add: compose_def cong: if_cong)
qed

theorem compose_bounded_witness:
  "compose initial_registry (s_llm\<lparr>lm_compose := \<lambda>i. if i = 3 then (\<lambda>_. Inl (OtherError ''down'')) else lm_compose s_llm i\<rparr>) (s_inputs [] []) =
   compose initial_registry s_llm (s_inputs [] [])"
  by (rule compose_bounded) simp_all

section \<open>Untrusted text\<close>

text \<open>C36: Evidence cannot steer the prompt. Two sets of slot values that differ only in what the
  untrusted slots hold render to the same prompt text, or fail with the same exception: a marker
  stands where the untrusted value would be.\<close>

theorem evidence_not_in_prompt:
  assumes "same_trusted v w"
  shows "map_sum id rp_text (resolve reg prompt v) = map_sum id rp_text (resolve reg prompt w)"
  using render_same_trusted [OF assms] by (simp add: resolve_def Let_def)

theorem evidence_not_in_prompt_witness:
  "map_sum id rp_text (resolve DEFAULT_REGISTRY ''hi'' [(''evidence.bio'', value_of ''evidence.bio'' ''x'' UNTRUSTED)]) =
   map_sum id rp_text (resolve DEFAULT_REGISTRY ''hi'' [(''evidence.bio'', value_of ''evidence.bio'' ''y'' UNTRUSTED)])"
  by (rule evidence_not_in_prompt) (simp add: same_trusted_def value_of_def)

text \<open>An envelope cannot be closed from inside. The text of a wrapped block is an opening, the
  escaped content and one close tag; the escaped content holds no close tag in any mix of upper
  and lower case, whatever the content was, and the recorded digest is that of the text inside.\<close>

theorem envelope_not_closed_inside:
  assumes "wrap content source idem = Inr e"
  shows "\<exists>opening. ev_text e = opening @ nl @ escape content @ nl @ CLOSE_TAG \<and>
    \<not> lit_in CLOSE_TAG (escape content) \<and> ev_sha e = sha256 (escape content)"
proof -
  have "ev_text e = fstr [OPEN_TAG, '' source='', dq, source, dq, '' sha256='', dq, sha256 (escape content), dq,
      '' idem='', dq, idem, dq, ''>''] @ nl @ escape content @ nl @ CLOSE_TAG"
    unfolding wrap_Inr(1) [OF assms] by (simp add: fstr_def)
  with escape_no_close [of content] wrap_Inr(3) [OF assms] show ?thesis by blast
qed

theorem envelope_not_closed_inside_witness: "\<exists>e. wrap CLOSE_TAG ''web'' [] = Inr e \<and> \<not> lit_in CLOSE_TAG (escape CLOSE_TAG)"
proof -
  obtain e where "wrap CLOSE_TAG ''web'' [] = Inr e" using wrap_web(1) by blast
  with envelope_not_closed_inside [OF this] show ?thesis by blast
qed

text \<open>Only fresh evidence is used. Every untrusted value that \<open>build_values\<close> gives a prompt slot is
  the content of a fact of the prospect's card, is tied to it by its id, and the fact is within
  the staleness limit of its type at that moment.\<close>

theorem values_from_fresh_facts:
  assumes "build_values t prompt cand crd cfg persona facts = Inr vs" and "(slot, rv) \<in> set vs"
    and "rv_trust rv = UNTRUSTED"
  shows "\<exists>f\<in>set crd. is_fresh t f \<and> rv_value rv = ef_content f \<and> rv_fact rv = Some (ef_id f)"
proof -
  from assms(1) have "slot_values_of cfg persona cand facts (extract_slots prompt) (fresh_facts t crd) = Inr vs"
    by (simp add: build_values_def)
  from slot_values_fresh [OF this assms(2,3)] show ?thesis by (auto simp: fresh_facts_def)
qed

theorem values_from_fresh_facts_witness:
  "\<forall>cfg persona cand. \<exists>rv. build_values 0 ''{{evidence.bio}}'' cand
      [\<lparr>ef_id = ''f'', ef_type = ''bio'', ef_content = ''x'', ef_url = ''u'', ef_observed = 0\<rparr>] cfg persona [] =
      Inr [(''evidence.bio'', rv)] \<and> rv_value rv = ''x''"
proof (intro allI)
  fix cfg persona cand
  let ?f = "\<lparr>ef_id = ''f'', ef_type = ''bio'', ef_content = ''x'', ef_url = ''u'', ef_observed = 0\<rparr>"
  have sl: "extract_slots ''{{evidence.bio}}'' = [''evidence.bio'']" by code_simp
  have pr: "startswith ''evidence.bio'' ''sender.'' = False" "startswith ''evidence.bio'' ''asset.'' = False"
    "startswith ''evidence.bio'' ''evidence.'' = True" by code_simp+
  have fr: "fresh_facts 0 [?f] = [?f]" by (simp add: fresh_facts_def is_fresh_def STALENESS_DAYS_def)
  obtain rv where b: "build_values 0 ''{{evidence.bio}}'' cand [?f] cfg persona [] = Inr [(''evidence.bio'', rv)]"
    "rv_trust rv = UNTRUSTED"
    by (simp add: build_values_def sl fr slot_value_def pr)
  from values_from_fresh_facts [OF b(1) _ b(2), of "''evidence.bio''"] b(1)
  show "\<exists>rv. build_values 0 ''{{evidence.bio}}'' cand [?f] cfg persona [] = Inr [(''evidence.bio'', rv)] \<and> rv_value rv = ''x''"
    by auto
qed

section \<open>Attribution tokens\<close>

text \<open>C37: Tokens round-trip: for every touch id that is a UUID, in any of the spellings Python's parser
  takes, the token made for it under a key verifies under that key to the canonical text of the
  same UUID.\<close>

theorem token_roundtrip:
  assumes "parse_uuid i = Some n"
  shows "\<exists>tok. token_for i key = Inr tok \<and> verify tok key = Inr (Some (uuid_text n))"
  using assms by (rule verify_token)

theorem token_roundtrip_witness:
  "\<exists>tok. token_for (uuid_text 5) ''k'' = Inr tok \<and> verify tok ''k'' = Inr (Some (uuid_text 5))"
  by (rule token_roundtrip) (rule parse_uuid_text, simp)

text \<open>A token verifies only by its MAC: whatever text verifies under a key is a UUID, a dot and
  exactly the twelve characters the key's MAC gives that UUID, and the id returned is that UUID's
  text. A text without a dot, of a bad UUID or with another MAC is never taken for a token.\<close>

theorem token_needs_mac:
  assumes "verify tok key = Inr (Some t)"
  shows "\<exists>head n. parse_uuid head = Some n \<and> t = uuid_text n \<and> tok = head @ CHR ''.'' # mac_of key n"
  using assms by (rule verify_sound)

theorem token_needs_mac_witness:
  "\<exists>tok head n. verify tok ''k'' = Inr (Some (uuid_text 5)) \<and> tok = head @ CHR ''.'' # mac_of ''k'' n"
proof -
  have "parse_uuid (uuid_text 5) = Some 5" by (rule parse_uuid_text) simp
  from verify_token [OF this] obtain tok where t: "verify tok ''k'' = Inr (Some (uuid_text 5))" by blast
  from token_needs_mac [OF t] t show ?thesis by blast
qed

end
