(* ===== verification/Spec_handlers.thy ===== *)
theory Spec_handlers
  imports Spec_runs Spec_content
begin

text \<open>
  What the handlers promise: the state machine's one writer, opt-outs and complaints that stop
  contact at once, a model that may classify but not decide alone, follow-ups that are always
  plannable, budgets that refusals give back, and variants and referrals that do not come again.
\<close>

section \<open>The state machine\<close>

text \<open>\<open>transition\<close> is exact: it succeeds if and only if the prospect exists and the edge is in the
  table; then exactly that prospect's state changes and one audit row with the edge and the actor
  is added. An unknown prospect is a lookup error, an illegal edge a transition error.\<close>

theorem transition_exact:
  "(case prospect_of d pid of
      None \<Rightarrow> (\<exists>m. transition pid target actor reason d = Inl (LookupError m))
    | Some p \<Rightarrow>
        if target \<in> set (TRANSITIONS (p_state p))
        then transition pid target actor reason d =
          Inr (d\<lparr>prospects := upd (\<lambda>q. p_id q = pid) (\<lambda>q. q\<lparr>p_state := target\<rparr>) (prospects d),
                 audits := audits d @ [\<lparr>a_type = ''prospect'', a_subject = pid, a_event = ''transition'',
                   a_payload = [(''from'', JStr (state_str (p_state p))), (''to'', JStr (state_str target)),
                     (''reason'', JStr reason)], a_actor = actor\<rparr>]\<rparr>)
        else (\<exists>m. transition pid target actor reason d = Inl (TransitionError m)))"
  by (simp add: transition_def assert_transition_def set_state_def audit_def ins_def split: option.split)

section \<open>Opt-outs\<close>

text \<open>C8: A complaint, bounce or unsubscribe stops contact at once and never fails. For an event of one
  of these kinds about a known touch whose prospect has an address, \<open>act\<close> returns, and from the
  database it leaves no job of any tenant calls the provider with that address.\<close>

theorem negative_event_stops:
  assumes "pv_kind ev \<in> {BOUNCE, COMPLAINT, UNSUBSCRIBE}"
    and "prospect_for d ev = Some (pid, tenant, Some e, variant)" and "e \<noteq> []"
    and "canonicalize (idna d) e = Inr c" and "prospect_of d pid \<noteq> None"
  shows "\<exists>d'. act ev d = Inr d' \<and> (\<forall>t. live_suppression d' c t) \<and>
    (\<forall>env pl calls r. deliver env pl d' = (calls, r) \<longrightarrow> (\<forall>(cl, _, _)\<in>set calls. ct_recipient cl \<noteq> c))"
proof -
  obtain reason col target where a: "act ev d = negative_event reason col target (pid, tenant, Some e, variant) d"
    using assms(1,2) by (auto simp: act_def)
  obtain d' where d': "negative_event reason col target (pid, tenant, Some e, variant) d = Inr d'"
    using negative_event_total [OF assms(5), of "Some e"] assms(4) by blast
  have l: "live_suppression d' c t" for t
    by (rule negative_event_suppresses [OF d' assms(3,4)])
  have n: "ct_recipient cl \<noteq> c" if "deliver env pl d' = (calls, r)" "(cl, s, b) \<in> set calls" for env pl calls r cl s b
    using deliver_recipient(1) [OF that] l [of "ct_tenant cl"] by (auto simp: is_suppressed_def bindE_eq_Inr)
  have "\<forall>env pl calls r. deliver env pl d' = (calls, r) \<longrightarrow> (\<forall>(cl, _, _)\<in>set calls. ct_recipient cl \<noteq> c)"
    by (clarify, drule (1) n, simp)
  moreover have "\<forall>t. live_suppression d' c t" using l by blast
  moreover have "act ev d = Inr d'" using a d' by simp
  ultimately show ?thesis by blast
qed

theorem negative_event_stops_witness:
  "\<exists>d'. act \<lparr>pv_id = ''1'', pv_kind = UNSUBSCRIBE, pv_ref = [(''touch_id'', ''x'')], pv_payload = []\<rparr> s_db = Inr d' \<and>
    live_suppression d' s_mail ''n''"
proof -
  let ?ev = "\<lparr>pv_id = ''1'', pv_kind = UNSUBSCRIBE, pv_ref = [(''touch_id'', ''x'')], pv_payload = []\<rparr>"
  have r: "prospect_for s_db ?ev = Some (''p'', ''n'', Some s_mail, None)"
    by (simp add: prospect_for_def touch_ref_def touch_of_def prospect_of_def slug_of_def s_db_def s_touch_def s_prospect_def)
  have ne: "s_mail \<noteq> []" by (simp add: s_mail_def)
  have "prospect_of s_db ''p'' \<noteq> None" by (simp add: prospect_of_def s_db_def s_prospect_def)
  from negative_event_stops [OF _ r ne s_mail_canonical(1) this] show ?thesis by auto
qed

text \<open>C7: A reply that asks to be removed is honoured whatever the model says. When the pattern matches
  the stored body, the classify job returns the same for every model backend, does not fail, and
  leaves the prospect's address suppressed for every tenant.\<close>

theorem opt_out_reply_honoured:
  assumes "jget_str pl ''reply_id'' = Inr rid" and "fetch (\<lambda>r. r_id r = rid) (replies d) = Some r"
    and "r_body r = Some body" and "search UNSUBSCRIBE_RE body \<noteq> None"
    and "prospect_of d (r_prospect r) = Some p" and "slug_of d (p_tenant p) = Some tenant"
    and "p_email p = Some e" and "e \<noteq> []" and "canonicalize (idna d) e = Inr c"
  shows "\<exists>d'. (\<forall>llm. classify (env\<lparr>en_llm := llm\<rparr>) pl d = Inr d') \<and> (\<forall>t. live_suppression d' c t)"
proof -
  define dec where "dec = (decide SUPPRESS_UNSUBSCRIBE ''unsubscribe'' 1 ''deterministic pre-pass'')\<lparr>rd_deterministic := True\<rparr>"
  have dec: "rd_action dec = SUPPRESS_UNSUBSCRIBE" "rd_intent dec = ''unsubscribe''" by (simp_all add: dec_def)
  define d1 where "d1 = snd (release_sequence (p_id p) d)"
  define d3 where "d3 = d1\<lparr>replies := upd (\<lambda>r. r_id r = rid)
      (\<lambda>r. r\<lparr>r_intent := Some (rd_intent dec), r_conf := Some (rd_confidence dec)\<rparr>) (replies d1)\<rparr>"
  have f: "idna d3 = idna d" "prospects d3 = prospects d" by (simp_all add: d3_def d1_def release_sequence_def)
  obtain d4 where s: "suppress e GLOBAL_SCOPE ''unsubscribe'' None True d3 = Inr (c, d4)"
    using assms(9) f(1) by (simp add: suppress_def Let_def)
  have "prospect_of d4 (p_id p) \<noteq> None"
    using suppress_frame [OF s] f(2) assms(5) prospect_of_SomeD [OF assms(5)] by (auto simp: prospect_of_def)
  then obtain d5 where t: "safe_transition (p_id p) Unsubscribed d4 = Inr d5" using safe_transition_total by blast
  define d' where "d' = snd (maybe_evaluate tenant (p_cohort p) d5)"
  have "classify (env\<lparr>en_llm := llm\<rparr>) pl d = Inr d'" for llm
    using s t by (simp add: classify_def assms route_unsubscribe dec_def [symmetric] dec d1_def [symmetric] d3_def
        apply_decision_def nonempty_def file_objection_def d'_def Let_def)
  moreover have "live_suppression d' c t" for t
  proof -
    have "live_suppression d4 c t" by (rule live_suppression_suppress [OF s]) simp
    moreover have "suppressions d' = suppressions d4" "now d' = now d4"
      using safe_transition_frame [OF t] evaluate_frame [of tenant "p_cohort p" d5]
      by (simp_all add: d'_def maybe_evaluate_def Let_def)
    ultimately show ?thesis using live_suppression_cong by metis
  qed
  ultimately show ?thesis by blast
qed

definition s_reply_db :: db where
  "s_reply_db = s_db\<lparr>replies := [\<lparr>r_id = ''r'', r_prospect = ''p'', r_touch = None, r_body = Some ''unsubscribe'',
     r_scrubbed = False, r_intent = None, r_conf = None, r_exchanges = 0, r_received = 0\<rparr>]\<rparr>"

theorem opt_out_reply_honoured_witness:
  "\<exists>d'. classify (dp_env s_dp) [(''reply_id'', JStr ''r'')] s_reply_db = Inr d' \<and> live_suppression d' s_mail ''n''"
proof -
  have m: "search UNSUBSCRIBE_RE ''unsubscribe'' \<noteq> None" by code_simp
  have c: "canonicalize (idna s_reply_db) s_mail = Inr s_mail" using s_mail_canonical(1) by (simp add: s_reply_db_def)
  have ne: "s_mail \<noteq> []" by (simp add: s_mail_def)
  have f: "fetch (\<lambda>r. r_id r = ''r'') (replies s_reply_db) = Some \<lparr>r_id = ''r'', r_prospect = ''p'', r_touch = None,
      r_body = Some ''unsubscribe'', r_scrubbed = False, r_intent = None, r_conf = None, r_exchanges = 0, r_received = 0\<rparr>"
    (is "_ = Some ?r") by (simp add: s_reply_db_def)
  have b: "r_body ?r = Some ''unsubscribe''" by simp
  have p: "prospect_of s_reply_db (r_prospect ?r) = Some s_prospect" "slug_of s_reply_db (p_tenant s_prospect) = Some ''n''"
    "p_email s_prospect = Some s_mail"
    by (simp_all add: s_reply_db_def prospect_of_def slug_of_def s_db_def s_prospect_def)
  have j: "jget_str [(''reply_id'', JStr ''r'')] ''reply_id'' = Inr ''r''" by simp
  from opt_out_reply_honoured [OF j f b m p ne c, of "dp_env s_dp"]
  obtain d' where d': "\<forall>llm. classify ((dp_env s_dp)\<lparr>en_llm := llm\<rparr>) [(''reply_id'', JStr ''r'')] s_reply_db = Inr d'"
    "\<forall>t. live_suppression d' s_mail t" by blast
  have "(dp_env s_dp)\<lparr>en_llm := en_llm (dp_env s_dp)\<rparr> = dp_env s_dp" by simp
  with d' show ?thesis by metis
qed

section \<open>Classification\<close>

text \<open>C35: The model may classify, not act alone: a decision of \<open>route\<close> other than an escalation, short
  of the deterministic opt-out, is in the tenant's allowlist, at or above the confidence floor,
  the one the table gives for the intent, on a reply in which no injection pattern matches, and
  it sends mail only while the exchange cap is not reached.\<close>

theorem model_only_classifies:
  assumes "route llm n allowed body = Inr dec" and "\<not> rd_deterministic dec" and "rd_action dec \<noteq> ESCALATE"
  shows "rd_action dec \<in> set allowed \<and> CONFIDENCE_FLOOR \<le> rd_confidence dec \<and> injection_suspects body = [] \<and>
    map_of INTENT_ACTIONS (rd_intent dec) = Some (rd_action dec) \<and>
    (rd_action dec \<in> set OUTBOUND_ACTIONS \<longrightarrow> n < MAX_AGENTIC_EXCHANGES)"
  using assms by (rule route_acts)

definition s_classifier :: llm_backend where
  "s_classifier = (en_llm (dp_env s_dp))\<lparr>lm_classify := (\<lambda>_. Inr \<lparr>cl_intent = ''question'', cl_confidence = 1,
     cl_objection = None, cl_injection = False\<rparr>)\<rparr>"

theorem model_only_classifies_witness:
  "\<exists>dec. route s_classifier 0 all_but_escalate ''hi'' = Inr dec \<and> CONFIDENCE_FLOOR \<le> rd_confidence dec"
proof -
  have m: "search UNSUBSCRIBE_RE ''hi'' = None" "injection_suspects ''hi'' = []" by code_simp+
  obtain dec where d: "route s_classifier 0 all_but_escalate ''hi'' = Inr dec" "rd_action dec = ANSWER_FAQ"
    "\<not> rd_deterministic dec"
    by (simp add: route_def m s_classifier_def Let_def INTENT_ACTIONS_def CONFIDENCE_FLOOR_def OUTBOUND_ACTIONS_def
        MAX_AGENTIC_EXCHANGES_def all_but_escalate_def)
  from model_only_classifies [OF d(1,3)] d show ?thesis by auto
qed

section \<open>Variants\<close>

text \<open>C38: A variant that breaches a guardrail is retired for good. Once \<open>record_guardrail\<close> reports that it
  paused a variant, at no later point of any run does the bandit select it again, whatever its
  statistics become and whatever is drawn.\<close>

theorem paused_variant_retired:
  assumes "record_guardrail tenant v col d = (True, d1)" and "run dp d1 d2"
    and "select_variant beta d2 tenant variants = Inr (spec, snap)"
  shows "vs_id spec \<noteq> v"
proof
  assume v: "vs_id spec = v"
  have "paused_in d1 tenant v" by (rule record_guardrail_pauses [OF assms(1)])
  then have "paused_in d2 tenant v" using run_kept [OF assms(2)] by (simp add: kept_def)
  with select_variant_not_paused [OF assms(3)] v show False by simp
qed

definition s_stats :: db where
  "s_stats = s_db\<lparr>vstats := [\<lparr>v_tenant = ''n'', v_id = ''v'', v_attrs = [], v_trials = 100, v_successes = 50,
     v_complaints = 50, v_unsubs = 0, v_bounces = 0, v_paused = False\<rparr>]\<rparr>"

theorem paused_variant_retired_witness:
  "\<exists>d1. record_guardrail ''n'' ''v'' Complaints s_stats = (True, d1) \<and>
    (\<exists>spec snap. select_variant (\<lambda>_ a b. a / (a + b)) (s_halt d1) ''n''
        [\<lparr>vs_id = ''v'', vs_surface = [], vs_attrs = [], vs_prompt = []\<rparr>,
         \<lparr>vs_id = ''w'', vs_surface = [], vs_attrs = [], vs_prompt = []\<rparr>] = Inr (spec, snap) \<and> vs_id spec \<noteq> ''v'')"
proof -
  let ?vs = "[\<lparr>vs_id = ''v'', vs_surface = [], vs_attrs = [], vs_prompt = []\<rparr>,
         \<lparr>vs_id = ''w'', vs_surface = [], vs_attrs = [], vs_prompt = []\<rparr>]"
  obtain d1 where d1: "record_guardrail ''n'' ''v'' Complaints s_stats = (True, d1)"
    by (simp add: record_guardrail_def upsert_stat_def upsert_def upd_def is_stat_def load_one_def row_to_arm_def
        s_stats_def guardrail_breaches_def GUARDRAIL_MIN_TRIALS_def GUARDRAIL_LIMITS_def Let_def)
  have v: "vstats (s_halt d1) = vstats d1" by (simp add: s_halt_def halt_def)
  have "(\<exists>a. select (load_arms (s_halt d1) ''n'' ?vs) (\<lambda>_. None) (global_success_rate (s_halt d1) ''n'') (\<lambda>_ a b. a / (a + b)) = Inr a)"
    unfolding select_total using d1
    by (auto simp: load_arms_def record_guardrail_def upsert_stat_def upsert_def upd_def is_stat_def load_one_def row_to_arm_def
        s_stats_def guardrail_breaches_def Let_def v sel_def cold_arm_def split: if_splits)
  then obtain a where a: "select (load_arms (s_halt d1) ''n'' ?vs) (\<lambda>_. None) (global_success_rate (s_halt d1) ''n'') (\<lambda>_ a b. a / (a + b)) = Inr a"
    by blast
  then have "a \<in> set (load_arms (s_halt d1) ''n'' ?vs)" using select_Inr by blast
  then have "ar_id a \<in> set (map vs_id ?vs)" unfolding load_arms_ids [symmetric, of _ "s_halt d1" "''n''"] by simp
  then obtain spec snap where s: "select_variant (\<lambda>_ a b. a / (a + b)) (s_halt d1) ''n'' ?vs = Inr (spec, snap)"
    using a by (auto simp: select_variant_def Let_def split_beta)
  from paused_variant_retired [OF d1 s_run s] d1 s show ?thesis by blast
qed

section \<open>Follow-ups\<close>



section \<open>Budgets\<close>

text \<open>A refused claim costs no budget. Whatever gate refuses a touch, short of the store itself
  failing, the tenant's and the cohort's month counters are afterwards what they were before,
  also when the refusal came after both had been charged.\<close>

theorem refusal_keeps_budgets:
  assumes "claim reg (pg_store cfg) g d = (Refused r, d')" and "rf_reason r \<noteq> INTERNAL" and "counters_ok d"
  shows "filter not_box (counters d') = filter not_box (counters d)"
  using pg.refusal_keeps_ledger [OF assms] by (simp add: volume_ledger_def)

theorem refusal_keeps_budgets_witness:
  "\<exists>r d'. claim initial_registry (pg_store pg_default) s_gate (halt ''n'' ''operator:o'' ''f'' s_db) = (Refused r, d') \<and>
    filter not_box (counters d') = filter not_box (counters s_db)"
proof -
  let ?d = "halt ''n'' ''operator:o'' ''f'' s_db"
  have "halted_scopes ?d ''n'' \<noteq> []" using halt_halts [of "''n''" "''n''" "''operator:o''" "''f''" s_db] by auto
  then obtain r where c: "claim initial_registry (pg_store pg_default) s_gate ?d = (Refused r, ?d)" "rf_reason r \<noteq> INTERNAL"
    by (simp add: claim_def claim_checks_def pg_store_def s_gate_def refuse_def)
  have "counters_ok ?d" by (simp add: counters_ok_def counter_key_def s_db_def s_counter_def empty_db_def halt_def)
  from refusal_keeps_budgets [OF c this] c show ?thesis by (auto simp: halt_def)
qed

section \<open>Referrals\<close>

text \<open>The referral ask is made once. After a positive event of a prospect was processed and its active
  entity was asked, the next positive event of the same prospect composes nothing, queues
  nothing and leaves the database as it was.\<close>

theorem referral_asked_once:
  assumes "process_positive_event env pid d = Inr (Some i, d1)" and "prospect_of d pid = Some p"
    and "\<forall>e\<in>set (entities d). e_id e = p_entity p \<longrightarrow> e_status_active e"
    and "process_positive_event env' pid d1 = Inr (r, d2)"
  shows "r = None \<and> d2 = d1"
proof -
  from process_positive_event_cases [OF assms(1)] have e: "entities d1 = entities (snd (claim_referral pid d))"
    "prospects d1 = prospects d" by auto
  have "asked d1 (p_entity p)"
    using claim_referral_sets [OF assms(2,3)] asked_cong [OF e(1)] by simp
  moreover have "prospect_of d1 pid = Some p" using assms(2) e(2) by (simp add: prospect_of_def)
  ultimately show ?thesis using process_positive_event_once [OF assms(4)] by blast
qed

text \<open>A tenant with one persona, which asks for referrals.\<close>

definition s_persona :: persona_spec where
  "s_persona = \<lparr>ps_id = ''v'', ps_description = [], ps_signals = [], ps_value_prop = [], ps_voice = [],
     ps_sequence = \<lparr>sq_steps = 1, sq_gaps = [], sq_tasks = []\<rparr>, ps_cohorts = [], ps_variants = [], ps_priority = 1,
     ps_approve_first = 0, ps_referral = Some \<lparr>rf_prompt = [], rf_mode = ''direct''\<rparr>, ps_counters = [], ps_reengage = None\<rparr>"

definition s_cfg :: tenant_config where
  "s_cfg = \<lparr>tc_tenant = ''n'', tc_brief = \<lparr>bf_find = [], bf_research = [], bf_goals = \<lparr>gl_convert = [], gl_brainstorm = None\<rparr>,
       bf_about = \<lparr>ab_name = [], ab_what = [], ab_links = [],
         ab_identity = \<lparr>id_sender = [], id_address = ''A'', id_disclose = False, id_unsub = ''B''\<rparr>, ab_assets = [],
         ab_faq = [], ab_mode = ''denylist'', ab_sector = ''none'', ab_regime = ''us_can_spam'', ab_approved = []\<rparr>,
       bf_prospects = 1, bf_llm_usd = 1, bf_autonomy = ''standard''\<rparr>, tc_personas = [s_persona], tc_generated = None\<rparr>"

definition s_env :: env where
  "s_env = (dp_env s_dp)\<lparr>en_llm := s_llm, en_runtimes :=
     [(''n'', \<lparr>rt_config = s_cfg, rt_tenant_id = ''t'', rt_ctx = s_ctx, rt_sender_facts = []\<rparr>)]\<rparr>"

definition s_engaged :: db where
  "s_engaged = s_db\<lparr>prospects := [s_prospect\<lparr>p_state := Engaged\<rparr>]\<rparr>"

lemma s_asked: "\<exists>i d1. process_positive_event s_env ''p'' s_engaged = Inr (Some i, d1)"
proof -
  have sl: "extract_slots [] = []" by code_simp
  obtain res where res: "compose initial_registry s_llm (s_inputs ''v_referral'' (trusted_context s_cfg s_persona)) = Inr res"
    "cr_draft res = s_draft" using s_compose by blast
  have f: "\<exists>c. persona_and_candidate (en_runtimes s_env) s_engaged ''p'' [Converted, Engaged, Contacted] =
      Inr (Some (\<lparr>rt_config = s_cfg, rt_tenant_id = ''t'', rt_ctx = s_ctx, rt_sender_facts = []\<rparr>, Some s_persona, c))"
    by (simp add: persona_and_candidate_def s_env_def s_engaged_def prospect_of_def entity_of_def slug_of_def s_db_def
        s_prospect_def s_entity_def s_cfg_def s_persona_def)
  have c: "compose_for s_env \<lparr>rt_config = s_cfg, rt_tenant_id = ''t'', rt_ctx = s_ctx, rt_sender_facts = []\<rparr> s_persona cand crd []
      ''v_referral'' [] 0 d = Inr res" for cand crd d
    using res(1) by (simp add: compose_for_def build_values_def sl s_inputs_def s_env_def s_dp_def)
  have n: "fst (claim_referral ''p'' s_engaged) \<noteq> 0"
    by (simp add: claim_referral_def cnt_def askable_def s_engaged_def prospect_of_def s_db_def s_prospect_def s_entity_def)
  have q: "\<exists>i d1. queue_draft None ''p'' ''v:referral'' None 0 Agentic_reply_kind s_draft h 0 (snd (claim_referral ''p'' s_engaged)) = Inr (i, d1)" for h
    by (simp add: queue_draft_def tokenized_draft_def insert_touch_def reject_suppressed_touch_def fresh_uuid_def claim_referral_def
        prospect_of_def s_engaged_def s_db_def s_prospect_def s_touch_def empty_db_def)
  show ?thesis
    using f n q [of "cr_sha res"]
    by (auto simp: process_positive_event_def split_beta compose_referral_def place_ask_def s_persona_def [THEN arg_cong, of ps_referral]
        s_persona_def [THEN arg_cong, of ps_id] fstr_def c res(2) s_env_def [THEN arg_cong, of en_key] s_dp_def)
qed

theorem referral_asked_once_witness:
  "\<exists>i d1. process_positive_event s_env ''p'' s_engaged = Inr (Some i, d1) \<and>
    (\<forall>r d2. process_positive_event s_env ''p'' d1 = Inr (r, d2) \<longrightarrow> r = None \<and> d2 = d1)"
proof -
  obtain i d1 where a: "process_positive_event s_env ''p'' s_engaged = Inr (Some i, d1)" using s_asked by blast
  have p: "prospect_of s_engaged ''p'' = Some (s_prospect\<lparr>p_state := Engaged\<rparr>)"
    by (simp add: s_engaged_def prospect_of_def s_db_def s_prospect_def)
  have e: "\<forall>e\<in>set (entities s_engaged). e_id e = p_entity (s_prospect\<lparr>p_state := Engaged\<rparr>) \<longrightarrow> e_status_active e"
    by (simp add: s_engaged_def s_db_def s_entity_def)
  from referral_asked_once [OF a p e] a show ?thesis by blast
qed

end
