(* ===== verification/Spec_ops.thy ===== *)
theory Spec_ops
  imports Spec_handlers
begin

text \<open>
  What the operator's side promises: proposals and tasks are decided once and by the right actor,
  a budget shift moves what there is, sentiment acts once a month and never raises a cap, and a
  candidate met twice is one entity.
\<close>

section \<open>Proposals\<close>

text \<open>C40: A proposal takes effect once, by the right hand. When \<open>approve\<close> reports success the proposal
  was open, and either a human approved it or the kind is one of the two a tenant may let the
  system apply; afterwards it is no longer open, and a second approval, by whomever, never
  succeeds.\<close>

theorem approval_once:
  assumes "approve i actor auto d = Inr (True, d')"
  shows "\<exists>p. get_open d i = Some p \<and> (human actor \<or> auto \<and> pr_kind p \<in> {''budget_shift'', ''rebalance''}) \<and>
    get_open d' i = None \<and> (\<forall>actor' auto' d''. approve i actor' auto' d' \<noteq> Inr (True, d''))"
proof (rule approve_True [OF assms])
  fix p d1 pl
  assume "get_open d i = Some p" "auto \<or> human actor" "auto \<longrightarrow> pr_kind p \<in> set AUTO_APPLICABLE"
  moreover have "get_open d' i = None" by (rule approve_closes [OF assms])
  moreover from this have "approve i actor' auto' d' \<noteq> Inr (True, d'')" for actor' auto' d''
    by (simp add: approve_def)
  ultimately show ?thesis by (auto simp: AUTO_APPLICABLE_def)
qed

definition s_proposal :: proposal_row where
  "s_proposal = \<lparr>pr_id = ''q'', pr_tenant = ''n'', pr_kind = ''revision'', pr_summary = [], pr_payload = [], pr_evidence = [],
     pr_status = Prop_open, pr_key = None, pr_created = 0, pr_resolved_at = None, pr_by = None\<rparr>"

theorem approval_once_witness:
  "\<exists>d'. approve ''q'' ''operator:o'' False (s_db\<lparr>proposals := [s_proposal]\<rparr>) = Inr (True, d') \<and> get_open d' ''q'' = None"
proof -
  have "human ''operator:o''" by (simp add: human_def HUMAN_ACTOR_PREFIX_def startswith_def)
  then obtain d' where d': "approve ''q'' ''operator:o'' False (s_db\<lparr>proposals := [s_proposal]\<rparr>) = Inr (True, d')"
    by (simp add: approve_def get_open_def s_proposal_def apply_proposal_def)
  from approval_once [OF d'] d' show ?thesis by blast
qed

text \<open>A budget shift moves budget and, at most, makes some. Between two cohorts with one cap each this
  month, the total of all caps grows by exactly what the giving cohort was short of: nothing when
  it has the amount, so the total is conserved then, and the shortfall when it has not.\<close>

theorem shift_total:
  assumes "map_of pl ''amount'' = Some (JInt a)" and "map_of pl ''from_cohort'' = Some (JStr src)"
    and "map_of pl ''to_cohort'' = Some (JStr dst)" and "src \<noteq> dst" and "0 \<le> a"
    and "filter (cohort_cap src d) (counters d) = [c1]" and "filter (cohort_cap dst d) (counters d) = [c2]"
    and "0 \<le> c_cap c1" and "0 \<le> c_cap c2"
  shows "\<exists>d'. apply_shift pl d = Inr d' \<and> total_cap d' = total_cap d + max 0 (a - c_cap c1)"
proof -
  let ?d1 = "shift_cap (- a) src d"
  have other: "filter (cohort_cap dst ?d1) (counters ?d1) = filter (cohort_cap dst d) (counters d)"
  proof -
    have "filter (cohort_cap dst d) (upd (cohort_cap src d) f cs) = filter (cohort_cap dst d) cs"
      if "\<And>c. cohort_cap dst d (f c) = cohort_cap dst d c" for f cs
      using assms(4) that by (induction cs) (auto simp: cohort_cap_def)
    moreover have "cohort_cap dst ?d1 = cohort_cap dst d" by (simp add: fun_eq_iff cohort_cap_def shift_cap_def)
    ultimately show ?thesis by (simp add: shift_cap_def cohort_cap_def)
  qed
  have "apply_shift pl d = Inr (shift_cap a dst ?d1)"
    using assms(1-3) by (simp add: apply_shift_def jget_def to_int_def)
  moreover have "total_cap (shift_cap a dst ?d1) = total_cap d + max 0 (a - c_cap c1)"
    using assms(5,8,9) by (simp add: total_shift other assms(6,7))
  ultimately show ?thesis by blast
qed

theorem shift_total_witness:
  "\<exists>d'. apply_shift [(''amount'', JInt 7), (''from_cohort'', JStr ''k''), (''to_cohort'', JStr ''l'')]
      (s_db\<lparr>counters := [s_counter Cohort_month ''k'', s_counter Cohort_month ''l'']\<rparr>) = Inr d' \<and> total_cap d' = 12"
proof -
  let ?d = "s_db\<lparr>counters := [s_counter Cohort_month ''k'', s_counter Cohort_month ''l'']\<rparr>"
  have f: "filter (cohort_cap ''k'' ?d) (counters ?d) = [s_counter Cohort_month ''k'']"
    "filter (cohort_cap ''l'' ?d) (counters ?d) = [s_counter Cohort_month ''l'']"
    by (simp_all add: cohort_cap_def s_counter_def s_db_def empty_db_def)
  have t: "total_cap ?d = 10" by (simp add: total_cap_def s_counter_def)
  from shift_total [OF _ _ _ _ _ f, of "[(''amount'', JInt 7), (''from_cohort'', JStr ''k''), (''to_cohort'', JStr ''l'')]" 7]
  show ?thesis by (simp add: t) (simp add: s_counter_def)
qed

section \<open>Human tasks\<close>

text \<open>A human task is closed once, by a person. A non-human actor gets a permission error. A human
  who resolves a pending task gets true; the touch becomes sent and the contact is counted when
  the task was done, and becomes released, uncounted, when it was skipped; from then on every
  attempt to resolve it again reports false and changes nothing.\<close>

theorem task_resolved_once:
  assumes "fetch (\<lambda>h. h_id h = i \<and> h_status h = Task_pending) (tasks d) = Some h"
  shows "(\<not> human actor \<longrightarrow> (\<exists>m. resolve_task i actor finished note d = Inl (PermissionError m))) \<and>
    (human actor \<longrightarrow> (\<exists>d'. resolve_task i actor finished note d = Inr (True, d') \<and>
      entities d' = (if finished then upd (\<lambda>e. Some (e_id e) = map_option p_entity (prospect_of d (h_prospect h)))
        (\<lambda>e. e\<lparr>e_last_contact := Some (epoch (now d)), e_touches := e_touches e + 1\<rparr>) (entities d) else entities d) \<and>
      (\<forall>t. touch_of d (h_touch h) = Some t \<longrightarrow>
         map_option t_status (touch_of d' (h_touch h)) = Some (if finished then Sent else Released)) \<and>
      (\<forall>b n. resolve_task i actor b n d' = Inr (False, d'))))"
proof (intro conjI impI)
  show "\<exists>m. resolve_task i actor finished note d = Inl (PermissionError m)" if "\<not> human actor"
    using that by (simp add: resolve_task_def)
  assume a: "human actor"
  from resolve_task_cases [OF a assms, of finished "note"] obtain d' where
    r: "resolve_task i actor finished note d = Inr (True, d')" and
    e: "entities d' = (if finished then upd (\<lambda>e. Some (e_id e) = map_option p_entity (prospect_of d (h_prospect h)))
        (\<lambda>e. e\<lparr>e_last_contact := Some (epoch (now d)), e_touches := e_touches e + 1\<rparr>) (entities d) else entities d)" and
    t: "\<forall>t. touch_of d (h_touch h) = Some t \<longrightarrow>
         map_option t_status (touch_of d' (h_touch h)) = Some (if finished then Sent else Released)" by blast
  have "\<forall>h\<in>set (tasks d'). h_id h = i \<longrightarrow> h_status h \<noteq> Task_pending"
    by (rule resolve_task_closes [OF r])
  with resolve_task_again a have "resolve_task i actor b n d' = Inr (False, d')" for b n by blast
  with r e t show "\<exists>d'. resolve_task i actor finished note d = Inr (True, d') \<and>
      entities d' = (if finished then upd (\<lambda>e. Some (e_id e) = map_option p_entity (prospect_of d (h_prospect h)))
        (\<lambda>e. e\<lparr>e_last_contact := Some (epoch (now d)), e_touches := e_touches e + 1\<rparr>) (entities d) else entities d) \<and>
      (\<forall>t. touch_of d (h_touch h) = Some t \<longrightarrow>
         map_option t_status (touch_of d' (h_touch h)) = Some (if finished then Sent else Released)) \<and>
      (\<forall>b n. resolve_task i actor b n d' = Inr (False, d'))" by blast
qed

definition s_task :: task_row where
  "s_task = \<lparr>h_id = ''h'', h_tenant = ''n'', h_prospect = ''p'', h_touch = ''x'', h_instruction = [], h_brief = [],
     h_status = Task_pending, h_note = None, h_created = 0, h_resolved_at = None, h_by = None\<rparr>"

theorem task_resolved_once_witness:
  "\<exists>d'. resolve_task ''h'' ''operator:o'' True [] (s_db\<lparr>tasks := [s_task]\<rparr>) = Inr (True, d') \<and>
    resolve_task ''h'' ''operator:o'' False [] d' = Inr (False, d')"
proof -
  have f: "fetch (\<lambda>h. h_id h = ''h'' \<and> h_status h = Task_pending) (tasks (s_db\<lparr>tasks := [s_task]\<rparr>)) = Some s_task"
    by (simp add: s_task_def)
  have "human ''operator:o''" by (simp add: human_def HUMAN_ACTOR_PREFIX_def startswith_def)
  with task_resolved_once [OF f, of "''operator:o''" True "[]"] show ?thesis by blast
qed

section \<open>Sentiment\<close>

text \<open>Sentiment only brakes, and once a month. An evaluation of a cohort raises no cap that was
  positive. After it acted (throttled or paused the cohort), at any later point of a run in the
  same month the same action is not taken again, so a cap an operator restored stays.\<close>

theorem sentiment_brakes_once:
  assumes "evaluate_cohort tenant cohort d = (Some taken, d1)"
  shows "caps_not_raised (counters d) (counters d1) \<and>
    (run dp d1 d2 \<and> month_str (now d2) = month_str (now d) \<longrightarrow> fst (evaluate_cohort tenant cohort d2) \<noteq> Some taken)"
proof -
  have stays: "already_acted d2 cohort ev q" if "already_acted d1 cohort ev q" "run dp d1 d2" for ev q
    using that(1) run_facts(6) [OF that(2)] by (auto simp: already_acted_def logged_def)
  have half: "1 \<le> c \<Longrightarrow> max (c div 2) 1 \<le> c" for c :: int by simp
  show ?thesis
  proof (cases rule: evaluate_cases [of tenant cohort d])
    case none
    with assms show ?thesis by simp
  next
    case (paused d')
    with assms have e: "taken = Paused" "d1 = d'" by simp_all
    have "caps_not_raised (counters d) (counters d1)"
      unfolding e(2) paused(2) set_cap_def by simp (rule caps_upd, simp)
    moreover have "fst (evaluate_cohort tenant cohort d2) \<noteq> Some Paused"
      if "run dp d1 d2" "month_str (now d2) = month_str (now d)"
    proof -
      have "already_acted d2 cohort ''sentiment_pause'' (month_str (now d2))"
        unfolding that(2) using paused(3) e(2) that(1) by (intro stays) simp_all
      then show ?thesis by (auto simp: evaluate_cohort_def Let_def split: prod.splits)
    qed
    ultimately show ?thesis using e(1) by blast
  next
    case (throttled d')
    with assms have e: "taken = Throttled" "d1 = d'" by simp_all
    have "caps_not_raised (counters d) (counters d1)"
      unfolding e(2) throttled(2) set_cap_def by simp (rule caps_upd, rule half)
    moreover have "fst (evaluate_cohort tenant cohort d2) \<noteq> Some Throttled"
      if "run dp d1 d2" "month_str (now d2) = month_str (now d)"
    proof -
      have "already_acted d2 cohort ''sentiment_throttle'' (month_str (now d2))"
        unfolding that(2) using throttled(3) e(2) that(1) by (intro stays) simp_all
      then show ?thesis by (auto simp: evaluate_cohort_def Let_def split: prod.splits)
    qed
    ultimately show ?thesis using e(1) by blast
  qed
qed

text \<open>Twenty hostile replies.\<close>

definition s_hostile :: reply_row where
  "s_hostile = \<lparr>r_id = ''r'', r_prospect = ''p'', r_touch = None, r_body = None, r_scrubbed = False,
     r_intent = Some ''hostile'', r_conf = None, r_exchanges = 0, r_received = 0\<rparr>"

definition s_angry :: db where
  "s_angry = s_db\<lparr>replies := replicate 20 s_hostile\<rparr>"

lemma ewma_hostile: "ewma (replicate n ''hostile'') = - 3 + 3 * (1 - ALPHA) ^ n"
proof -
  have "foldl (\<lambda>score i. score + ALPHA * (score_of i - score)) (- 3 + 3 * q) (replicate n ''hostile'') =
      - 3 + 3 * q * (1 - ALPHA) ^ n" for q
  proof (induction n arbitrary: q)
    case (Suc n)
    have "- 3 + 3 * q + ALPHA * (score_of ''hostile'' - (- 3 + 3 * q)) = - 3 + 3 * (q * (1 - ALPHA))"
      by (simp add: score_of_def SCORES_def algebra_simps)
    then show ?case
      unfolding replicate_Suc foldl_Cons by (simp only: Suc power_Suc mult.assoc)
  qed simp
  from this [of 1] show ?thesis by (simp add: ewma_def)
qed

lemma s_angry_sentiment: "cohort_sentiment s_angry ''n'' ''k'' = (- 3 + 3 * (1 - ALPHA) ^ 20, 20)"
proof -
  have i: "in_cohort s_angry ''n'' ''k'' s_hostile"
    by (simp add: in_cohort_def s_hostile_def s_angry_def prospect_of_def slug_of_def s_db_def s_prospect_def)
  have "sel (in_cohort s_angry ''n'' ''k'') (replies s_angry) = replicate 20 s_hostile"
    using i by (simp add: sel_def s_angry_def)
  moreover have "sort_key r_received (replicate 20 s_hostile) = replicate 20 s_hostile"
    by (rule sort_key_id_if_sorted) simp
  ultimately show ?thesis
    using ewma_hostile [of 20] by (simp add: cohort_sentiment_def WINDOW_def s_hostile_def Let_def)
qed

lemma s_angry_paused: "\<exists>d1. evaluate_cohort ''n'' ''k'' s_angry = (Some Paused, d1)"
proof -
  have "(1 - ALPHA) ^ 20 \<le> (966 / 1000 :: rat) ^ 20" by (rule power_mono) (simp_all add: ALPHA_def)
  also have "\<dots> < 6 / 10" by (simp add: power_divide)
  finally have "- 3 + 3 * (1 - ALPHA) ^ 20 < PAUSE_BELOW" by (simp add: PAUSE_BELOW_def)
  then show ?thesis
    by (simp add: evaluate_cohort_def s_angry_sentiment MIN_REPLIES_def Let_def already_acted_def)
      (simp add: s_angry_def s_db_def empty_db_def)
qed

theorem sentiment_brakes_once_witness:
  "\<exists>d1. evaluate_cohort ''n'' ''k'' s_angry = (Some Paused, d1) \<and>
    fst (evaluate_cohort ''n'' ''k'' (s_halt d1)) \<noteq> Some Paused"
proof -
  obtain d1 where d1: "evaluate_cohort ''n'' ''k'' s_angry = (Some Paused, d1)" using s_angry_paused by blast
  have "now (s_halt d1) = now s_angry" using evaluate_frame(6) [of "''n''" "''k''" s_angry] d1 by (simp add: s_halt_def)
  with sentiment_brakes_once [OF d1, of s_dp "s_halt d1"] s_run [of d1] d1 show ?thesis by simp
qed

section \<open>Entities\<close>

text \<open>A candidate met twice is one entity: when it has a deterministic key and none of its keys is
  taken by another tenant, resolving it again after it was resolved finds the same entity and
  creates none.\<close>

theorem entity_resolved_once:
  assumes "own_keys d tid cand" and "resolve_entity tid cand d = (r, d1)" and "deterministic_keys (idna d) cand \<noteq> []"
  shows "re_entity (fst (resolve_entity tid cand d1)) = re_entity r \<and> \<not> re_created (fst (resolve_entity tid cand d1))"
  using assms by (rule resolve_entity_again)

theorem entity_resolved_once_witness:
  "\<exists>r d1. resolve_entity ''t'' \<lparr>cd_name = ''Bo'', cd_org = None, cd_website = None, cd_email = Some s_mail, cd_phone = None, cd_address = None,
      cd_source = [], cd_ref = [], cd_basis = []\<rparr> s_db = (r, d1) \<and>
    re_entity (fst (resolve_entity ''t'' \<lparr>cd_name = ''Bo'', cd_org = None, cd_website = None, cd_email = Some s_mail, cd_phone = None, cd_address = None,
      cd_source = [], cd_ref = [], cd_basis = []\<rparr> d1)) = re_entity r"
proof -
  let ?c = "\<lparr>cd_name = ''Bo'', cd_org = None, cd_website = None, cd_email = Some s_mail, cd_phone = None, cd_address = None,
      cd_source = [], cd_ref = [], cd_basis = []\<rparr>"
  have own: "own_keys s_db ''t'' ?c" by (simp add: own_keys_def s_db_def empty_db_def)
  have "s_mail \<noteq> []" by (simp add: s_mail_def)
  then have ne: "deterministic_keys (idna s_db) ?c \<noteq> []" by (simp add: deterministic_keys_def)
  obtain r d1 where r: "resolve_entity ''t'' ?c s_db = (r, d1)" by fastforce
  from entity_resolved_once [OF own r ne] r show ?thesis by blast
qed

end
