(* ===== verification/Spec_agents.thy ===== *)
theory Spec_agents
  imports Spec_runs
begin

text \<open>
  The agents that plan and watch: synthesized programs pass the configuration's own checks, the
  discovery agent only files proposals, the statistics it decides on are exact within known bounds,
  and the monitor escalates what it measured. The witnesses use a small brief.
\<close>

section \<open>A brief\<close>

definition s_brief :: brief_spec where
  "s_brief = \<lparr>bf_find = ''independent jazz clubs'', bf_research = ''their booking calendars'',
     bf_goals = \<lparr>gl_convert = ''claims'', gl_brainstorm = None\<rparr>,
     bf_about = \<lparr>ab_name = ''Co'', ab_what = ''a calendar for venues'', ab_links = [],
       ab_identity = \<lparr>id_sender = ''Dana'', id_address = ''1 Main St, X'', id_disclose = True, id_unsub = ''Reply stop to end''\<rparr>,
       ab_assets = [], ab_faq = [], ab_mode = ''denylist'', ab_sector = ''none'', ab_regime = ''us_can_spam'', ab_approved = []\<rparr>,
     bf_prospects = 200, bf_llm_usd = 25, bf_autonomy = ''review_everything''\<rparr>"

lemma s_brief_ok: "check_brief initial_registry s_brief = Inr ()"
  unfolding s_brief_def by code_simp

definition s_codec :: codec where
  "s_codec = dp_codec s_dp"

section \<open>Programs\<close>

lemma template_program_iff:
  assumes "0 < bf_prospects brief"
  shows "(\<exists>cfg. template_program cx brief tenant = Inr cfg) \<longleftrightarrow> 10 \<le> length (strip (ab_what (bf_about brief))) \<and>
    tenant \<noteq> [] \<and> list_all (\<lambda>c. is_lower c \<or> is_digit c \<or> c = CHR ''_'' \<or> c = CHR ''-'') tenant"
  unfolding template_program_def bindE_eq_Inr template_persona_check assemble_Inr check_assembled_def
  using template_persona_budget [OF assms, of tenant] template_persona_check [of brief] by auto

text \<open>C18: A program the synthesizer hands over is valid: whatever the model answers, if synthesis, a
  revision of an existing program or the scaffold of \<open>init\<close> succeeds for a valid brief, the result
  passes the whole validation of tenant configurations, keeps tenant and brief, and its cohorts'
  budgets fit the brief's monthly cap. For a tenant that can be
  had at all the scaffold succeeds exactly if the brief's description of the business has ten
  characters left when stripped, a condition the brief's own check does not make.\<close>

theorem programs_always_valid:
  assumes "check_brief reg brief = Inr ()"
    and "synthesize cx llm brief tenant = Inr cfg \<or> template_program cx brief tenant = Inr cfg \<or>
      (\<exists>old evd m. revise cx llm old evd m = Inr cfg \<and> tc_brief old = brief \<and> tc_tenant old = tenant)"
  shows "check_tenant reg cfg = Inr () \<and> tc_tenant cfg = tenant \<and> tc_brief cfg = brief \<and>
      cohort_total cfg \<le> bf_prospects brief \<and>
      ((\<exists>c. template_program cx brief tenant = Inr c) \<longleftrightarrow> 10 \<le> length (strip (ab_what (bf_about brief))))"
proof -
  have "check_assembled cfg = Inr () \<and> tc_tenant cfg = tenant \<and> tc_brief cfg = brief \<and>
      (\<forall>p\<in>set (tc_personas cfg). check_persona p = Inr ())"
    using assms(2)
  proof (elim disjE exE conjE)
    assume "synthesize cx llm brief tenant = Inr cfg"
    then show ?thesis unfolding synthesize_def complete_program_def by (blast dest: complete_loop_Inr)
  next
    assume "template_program cx brief tenant = Inr cfg"
    then show ?thesis by (auto simp: template_program_def bindE_eq_Inr assemble_Inr)
  next
    fix old evd m
    assume "revise cx llm old evd m = Inr cfg" "tc_brief old = brief" "tc_tenant old = tenant"
    then show ?thesis unfolding revise_def complete_program_def Let_def by (blast dest: complete_loop_Inr)
  qed
  then have "check_tenant reg cfg = Inr ()" "tc_tenant cfg = tenant" "tc_brief cfg = brief"
    using check_assembled_tenant [of cfg reg] assms(1) by auto
  moreover from this(1) have "tenant \<noteq> [] \<and> list_all (\<lambda>c. is_lower c \<or> is_digit c \<or> c = CHR ''_'' \<or> c = CHR ''-'') tenant"
    using \<open>tc_tenant cfg = tenant\<close> by (simp add: check_tenant_def)
  moreover have "0 < bf_prospects brief" using assms(1) by (simp add: check_brief_def)
  ultimately show ?thesis using check_tenant_budget [of reg cfg] template_program_iff [of brief cx tenant] by simp
qed

theorem programs_always_valid_witness:
  "\<exists>cfg. template_program s_codec s_brief ''jazz'' = Inr cfg \<and> check_tenant initial_registry cfg = Inr () \<and> cohort_total cfg \<le> 200"
proof -
  have "10 \<le> length (strip (ab_what (bf_about s_brief)))"
    "list_all (\<lambda>c. is_lower c \<or> is_digit c \<or> c = CHR ''_'' \<or> c = CHR ''-'') ''jazz''"
    unfolding s_brief_def brief_spec.select_convs about_us.select_convs by code_simp+
  then obtain cfg where "template_program s_codec s_brief ''jazz'' = Inr cfg"
    using template_program_iff [of s_brief s_codec "''jazz''"] by (auto simp: s_brief_def)
  with programs_always_valid [OF s_brief_ok, of s_codec undefined "''jazz''" cfg] show ?thesis
    by (auto simp: s_brief_def)
qed

section \<open>Discovery\<close>

lemma filed_mono: "filed Q d d' \<Longrightarrow> (\<And>p. Q p \<Longrightarrow> R p) \<Longrightarrow> filed R d d'"
  unfolding filed_def by blast

lemma discover_tenant_files:
  assumes "discover_tenant cx m cfg d = Inr (n, d')" and "bf_autonomy (tc_brief cfg) \<noteq> ''hands_off''"
  shows "filed (\<lambda>p. pr_tenant p = tc_tenant cfg) d d'"
proof -
  let ?Q = "\<lambda>p. pr_tenant p = tc_tenant cfg"
  obtain ids d1 where a: "analyze (tc_tenant cfg) d = (ids, d1)" by fastforce
  with assms(1) obtain rs d2 x d5 kn r6 d6 where s: "rebalance_scan cfg d1 = Inr (rs, d2)"
    "(case m of None \<Rightarrow> Inr (0, d2) | Some llm \<Rightarrow> bindE (brainstorm llm cfg 5 d2) (\<lambda>(bs, d3).
      bindE (resynthesize_on_drift cx llm cfg d3) (\<lambda>(rev, d4). Inr (length bs + (if rev = None then 0 else 1), d4)))) = Inr (x, d5)"
    "expand_autonomy (bf_autonomy (tc_brief cfg)) = Inr kn" "auto_review (tc_tenant cfg) (kn_cohorts kn) d5 = Inr (r6, d6)" "d' = d6"
    by (auto simp: discover_tenant_def bindE_eq_Inr)
  have "kn_cohorts kn \<noteq> ''auto_within_budget''"
    using s(3) assms(2) by (auto simp: expand_autonomy_def split: if_splits)
  then have e: "d' = d5" using s(4,5) by (simp add: auto_review_def)
  have f1: "filed ?Q d d1" using filed_mono [OF filed_analyze [of "tc_tenant cfg" d]] a by simp
  have f2: "filed ?Q d1 d2" using filed_mono [OF filed_rebalance [OF s(1)]] by simp
  have f3: "filed ?Q d2 d5"
  proof (cases m)
    case (Some llm)
    with s(2) obtain bs d3 rev where "brainstorm llm cfg 5 d2 = Inr (bs, d3)" "resynthesize_on_drift cx llm cfg d3 = Inr (rev, d5)"
      by (auto simp: bindE_eq_Inr)
    note b = this
    have "filed ?Q d2 d3" by (rule filed_mono [OF filed_brainstorm [OF b(1)]]) simp
    moreover have "filed ?Q d3 d5" by (rule filed_mono [OF filed_drift [OF b(2)]]) simp
    ultimately show ?thesis by (rule filed_trans)
  qed (use s(2) in \<open>simp add: filed_refl\<close>)
  show ?thesis unfolding e by (rule filed_trans [OF filed_trans [OF f1 f2] f3])
qed

text \<open>C19: The discovery agent only proposes. Whatever the model answers, running discovery over tenants
  none of which is \<open>hands_off\<close> changes the proposals and nothing else: it appends open proposals of
  those tenants, and no cap, cohort, draft, counter or audit row moves before a human decides.\<close>

theorem discovery_only_proposes:
  assumes "discover_command cx m cfgs d = Inr (n, d')"
    and "\<forall>cfg\<in>set cfgs. bf_autonomy (tc_brief cfg) \<noteq> ''hands_off''"
  shows "\<exists>ps k. d' = d\<lparr>draws := k, proposals := proposals d @ ps\<rparr> \<and>
    (\<forall>p\<in>set ps. pr_status p = Prop_open \<and> pr_tenant p \<in> tc_tenant ` set cfgs)"
proof -
  have "filed (\<lambda>p. pr_tenant p \<in> tc_tenant ` set cfgs) d d'"
    if "foldE (\<lambda>cfg (total, d). bindE (discover_tenant cx m cfg d) (\<lambda>(n, d'). Inr (total + n, d'))) xs (t, d) = Inr (n, d')"
      "set xs \<subseteq> set cfgs" for xs t d
    using that
  proof (induction xs arbitrary: t d)
    case (Cons x xs)
    then obtain k d1 where k: "discover_tenant cx m x d = Inr (k, d1)"
      "foldE (\<lambda>cfg (total, d). bindE (discover_tenant cx m cfg d) (\<lambda>(n, d'). Inr (total + n, d'))) xs (t + k, d1) = Inr (n, d')"
      by (auto simp: bindE_eq_Inr)
    have x: "x \<in> set cfgs" using Cons.prems(2) by simp
    with assms(2) have "filed (\<lambda>p. pr_tenant p = tc_tenant x) d d1" by (intro discover_tenant_files [OF k(1)]) simp
    then have "filed (\<lambda>p. pr_tenant p \<in> tc_tenant ` set cfgs) d d1" by (rule filed_mono) (use x in simp)
    with Cons.IH [OF k(2)] Cons.prems(2) filed_trans show ?case by (meson set_subset_Cons subset_trans)
  qed (simp add: filed_refl)
  from this [of cfgs 0 d] assms(1) show ?thesis by (simp add: discover_command_def filed_def)
qed

definition a_cfg :: tenant_config where
  "a_cfg = \<lparr>tc_tenant = ''n'', tc_brief = s_brief, tc_personas = [], tc_generated = None\<rparr>"

lemma s_outcomes: "cohort_outcomes s_db ''n'' = [\<lparr>oc_cohort = ''k'', oc_contacted = 0, oc_engaged = 0, oc_converted = 0\<rparr>]"
  by (simp add: cohort_outcomes_def tenant_prospects_def of_tenant_def slug_of_def group_keys_def sel_def cnt_def
      contacted_states_def s_db_def s_prospect_def empty_db_def)

theorem discovery_only_proposes_witness:
  "\<exists>d'. discover_command s_codec None [a_cfg] s_db = Inr (0, d') \<and>
    (\<exists>ps k. d' = s_db\<lparr>draws := k, proposals := proposals s_db @ ps\<rparr>)"
proof -
  have "discover_command s_codec None [a_cfg] s_db = Inr (0, s_db)"
    by (simp add: discover_command_def discover_tenant_def analyze_def rebalance_scan_def a_cfg_def s_outcomes MIN_SIGNAL_def
        expand_autonomy_def auto_review_def s_brief_def)
  moreover have "\<forall>cfg\<in>set [a_cfg]. bf_autonomy (tc_brief cfg) \<noteq> ''hands_off''" by (simp add: a_cfg_def s_brief_def)
  ultimately show ?thesis using discovery_only_proposes by blast
qed

section \<open>The statistics it decides on\<close>



lemma collectE_Inl: "(\<exists>e. collectE f xs = Inl e) \<longleftrightarrow> (\<exists>x\<in>set xs. \<exists>e. f x = Inl e)"
proof (induction xs)
  case (Cons x xs)
  then show ?case by (cases "f x"; cases "collectE f xs") auto
qed simp

lemma wilson_Inl: "(\<exists>e. wilson_upper k n = Inl e) \<longleftrightarrow> 0 < n \<and> n < k"
proof (cases "0 < n \<and> n < k")
  case True
  then show ?thesis using wilson_domain by blast
next
  case False
  then have "n = 0 \<or> 0 < n \<and> k \<le> n" by auto
  then show ?thesis using wilson_exact(3) [of n k] False by (auto simp: wilson_upper_def)
qed

lemma floor_breach_Inl: "(\<exists>e. floor_breach w limit k n = Inl e) \<longleftrightarrow> limit \<noteq> None \<and> 0 < n \<and> n < k"
  using wilson_Inl [of k n] by (cases limit; cases "wilson_upper k n") (auto simp: floor_breach_def)

lemma breaches_Inl:
  assumes "oc_converted out \<le> oc_contacted out"
  shows "(\<exists>e. breaches_of fl out k = Inl e) \<longleftrightarrow> fl_reply fl \<noteq> None \<and> 0 < oc_contacted out \<and> oc_contacted out < k"
proof -
  obtain cs where "floor_breach ''conversion'' (fl_conversion fl) (oc_converted out) (oc_contacted out) = Inr cs"
    using floor_breach_Inl [of "''conversion''" "fl_conversion fl" "oc_converted out" "oc_contacted out"] assms
    by (cases "floor_breach ''conversion'' (fl_conversion fl) (oc_converted out) (oc_contacted out)") auto
  then show ?thesis
    using floor_breach_Inl [of "''reply''" "fl_reply fl" k "oc_contacted out"]
    by (cases "floor_breach ''reply'' (fl_reply fl) k (oc_contacted out)") (auto simp: breaches_of_def)
qed

text \<open>C23: When the rebalancing scan fails: it raises, and takes back what it filed, exactly if some cohort
  with a reply floor and enough contacted prospects has more replies than contacted prospects, which
  a few talkative prospects suffice for.\<close>

theorem talkative_cohort_stops_scan:
  "(\<exists>e. rebalance_scan cfg d = Inl e) \<longleftrightarrow>
    (\<exists>p\<in>set (tc_personas cfg). \<exists>c\<in>set (ps_cohorts p). \<exists>fl out. ch_floors c = Some fl \<and> fl_reply fl \<noteq> None \<and>
      List.find (\<lambda>out. oc_cohort out = ch_id c) (cohort_outcomes d (tc_tenant cfg)) = Some out \<and>
      fl_min_trials fl \<le> int (oc_contacted out) \<and> 0 < oc_contacted out \<and>
      oc_contacted out < the_default 0 (map_of (reply_counts d (tc_tenant cfg)) (ch_id c)))"
proof -
  let ?outs = "cohort_outcomes d (tc_tenant cfg)" and ?rs = "reply_counts d (tc_tenant cfg)"
  have c: "(\<exists>e. scan_cohort (tc_tenant cfg) ?outs ?rs c = Inl e) \<longleftrightarrow>
    (\<exists>fl out. ch_floors c = Some fl \<and> fl_reply fl \<noteq> None \<and> List.find (\<lambda>out. oc_cohort out = ch_id c) ?outs = Some out \<and>
      fl_min_trials fl \<le> int (oc_contacted out) \<and> 0 < oc_contacted out \<and> oc_contacted out < the_default 0 (map_of ?rs (ch_id c)))" for c
  proof (cases "\<exists>fl out. ch_floors c = Some fl \<and> List.find (\<lambda>out. oc_cohort out = ch_id c) ?outs = Some out")
    case True
    then obtain fl out where fo: "ch_floors c = Some fl" "List.find (\<lambda>out. oc_cohort out = ch_id c) ?outs = Some out" by blast
    from fo(2) have "out \<in> set ?outs" by (auto simp: find_Some_iff)
    from breaches_Inl [OF outcome_le [OF this], of fl "the_default 0 (map_of ?rs (ch_id c))"] fo show ?thesis
      by (cases "breaches_of fl out (the_default 0 (map_of ?rs (ch_id c)))") (auto simp: scan_cohort_def)
  next
    case False
    then show ?thesis by (auto simp: scan_cohort_def split: option.split)
  qed
  have r: "(\<exists>e. rebalance_scan cfg d = Inl e) \<longleftrightarrow> (\<exists>c\<in>set (concat (map ps_cohorts (tc_personas cfg))).
      \<exists>e. scan_cohort (tc_tenant cfg) ?outs ?rs c = Inl e)"
    using collectE_Inl [of "scan_cohort (tc_tenant cfg) ?outs ?rs" "concat (map ps_cohorts (tc_personas cfg))"]
    by (auto simp: rebalance_scan_def bindE_eq_Inl)
  show ?thesis unfolding r c by auto
qed

section \<open>The numbers of the reports\<close>

text \<open>C29: The three reports that count contacted prospects agree. For any cohort the discovery agent and
  the cohort table list, both count as contacted and as converted whom the funnel of that cohort
  counts; nobody reaches a stage without the ones before it; and the funnel adds up: everybody
  discovered is in the pipeline, in conversation, converted or at an exit, each of them once.\<close>

theorem contacted_counts_agree:
  assumes "out \<in> set (cohort_outcomes d tenant)" and "c \<in> set (cohorts d tenant)" and "cs_cohort c = oc_cohort out"
  shows "oc_contacted out = cs_contacted c \<and> oc_converted out = cs_converted c \<and>
    cs_contacted c = fn_contacted (funnel d tenant (Some (cs_cohort c))) \<and>
    cs_converted c = fn_converted (funnel d tenant (Some (cs_cohort c))) \<and>
    sorted (rev (map snd (fn_reached (funnel d tenant coh)))) \<and>
    the_default 0 (map_of (fn_reached (funnel d tenant coh)) ''discovered'') =
      cnt (\<lambda>p. shown d tenant coh p \<and> p_state p \<in> set in_pipeline) (prospects d) +
      fn_conversation (funnel d tenant coh) + fn_converted (funnel d tenant coh) +
      (\<Sum>(label, n)\<leftarrow>fn_exits (funnel d tenant coh). n)"
  using cohort_outcome_funnel [OF assms(1)] cohorts_contacted [OF assms(2)] assms(3) funnel_decreasing funnel_conserves
  by (metis (no_types, lifting))

theorem contacted_counts_agree_witness:
  "\<exists>out c. out \<in> set (cohort_outcomes s_db ''n'') \<and> c \<in> set (cohorts s_db ''n'') \<and> oc_contacted out = cs_contacted c \<and>
    fn_contacted (funnel s_db ''n'' (Some ''k'')) = 0"
proof -
  have c: "cohorts s_db ''n'' = [\<lparr>cs_cohort = ''k'', cs_persona = ''v'', cs_members = 1, cs_contacted = 0, cs_replies = 0,
      cs_converted = 0\<rparr>]"
    by (simp add: cohorts_def tenant_prospects_def of_tenant_def slug_of_def group_keys_def sel_def cnt_def
        s_db_def s_prospect_def empty_db_def)
  from contacted_counts_agree [of "hd (cohort_outcomes s_db ''n'')" s_db "''n''" "hd (cohorts s_db ''n'')" None] show ?thesis
    by (simp add: c s_outcomes)
qed

section \<open>The groundedness monitor\<close>


definition s_sent :: db where
  "s_sent = s_db\<lparr>touches := [s_touch\<lparr>t_status := Sent, t_sent_at := Some (epoch s_clock)\<rparr>]\<rparr>"

definition s_judge :: llm_backend where
  "s_judge = (en_llm (dp_env s_dp))\<lparr>lm_groundedness := (\<lambda>_. Inr \<lparr>go_grounded = False, go_unsupported = [], go_injection = False\<rparr>)\<rparr>"

lemma s_sent_touches: "touches s_sent = [s_touch\<lparr>t_status := Sent, t_sent_at := Some (epoch s_clock)\<rparr>]"
  by (simp add: s_sent_def)

lemma s_samples: "samples (\<lambda>xs. xs) 5 7 s_sent = [((''n'', ''k''), touches s_sent)]"
  by (simp add: samples_def sel_def auditable_def sent_group_def prospect_of_def slug_of_def group_keys_def s_sent_def
      s_db_def s_prospect_def s_touch_def empty_db_def)


end
