(* ===== verification/Spec_surface.thy ===== *)
theory Spec_surface
  imports Spec_agents
begin

text \<open>
  The surface of the program: requests, commands, incoming and outgoing mail, and the files prospects
  and events come from. The witnesses use a server without tokens, the sample deployment and small
  files.
\<close>

section \<open>Requests and commands\<close>

definition s_server :: server where
  "s_server = \<lparr>sv_tokens = [], sv_key = ''k'', sv_manage = []\<rparr>"

text \<open>C14: No request changes anything without its credential. A request whose route asks for a scoped
  token or the manage token and does not carry it is answered with an error and leaves the database as
  it was; so is a webhook the provider's check rejects, except that the rejection is recorded.\<close>

theorem requests_need_credential:
  assumes "\<not> credential dp sv rq"
  shows "\<exists>e. respond dp sv rq d = (Some e, d) \<or>
    (respond dp sv rq d = (Some e, audit ''webhook'' ''provider'' ''signature_rejected'' [] ''system:api'' d) \<and>
     (\<exists>body signature. rq = Post_hook body signature))"
proof (cases "\<exists>body signature. rq = Post_hook body signature")
  case True
  with assms hook_rejected [of dp] show ?thesis by fastforce
next
  case False
  with respond_denied [OF assms] show ?thesis by blast
qed

theorem requests_need_credential_witness:
  "\<exists>e. respond s_dp s_server (Post_halt ''Bearer x'' ''global'') s_db = (Some e, s_db)"
  using requests_need_credential [of s_dp s_server "Post_halt ''Bearer x'' ''global''" s_db]
  by (auto simp: allows_def s_server_def)

text \<open>C17: Whatever mix of commands and requests arrives, in whatever order, the program's memory holds:
  nobody's tombstone is lifted, no provider event and no job key is lost, what was sent stays sent,
  and every prospect is still there, moved only along the edges of the state machine.\<close>

theorem any_traffic_keeps:
  shows "(tombstoned d h \<longrightarrow> tombstoned (traffic dp sv es d) h) \<and>
    job_keys d \<subseteq> job_keys (traffic dp sv es d) \<and> set (pevents d) \<subseteq> set (pevents (traffic dp sv es d)) \<and>
    (settled d i \<longrightarrow> settled (traffic dp sv es d) i) \<and>
    (\<forall>p. prospect_of d j = Some p \<longrightarrow> (\<exists>p'. prospect_of (traffic dp sv es d) j = Some p' \<and>
      reaches (p_state p) (p_state p') \<and> p_entity p' = p_entity p \<and> p_tenant p' = p_tenant p))"
proof -
  note r = run_traffic [of dp d sv es]
  have "\<exists>p'. prospect_of (traffic dp sv es d) j = Some p' \<and> reaches (p_state p) (p_state p') \<and> p_entity p' = p_entity p \<and>
      p_tenant p' = p_tenant p" if "prospect_of d j = Some p" for p
    by (rule run_moved [OF r that]) blast
  with run_facts [OF r] show ?thesis by blast
qed

theorem any_traffic_keeps_witness:
  "\<exists>p'. prospect_of (traffic s_dp s_server [Inl (Halt ''o'' None), Inr (Post_forget ''Bearer x'' s_mail)] s_db) ''p'' = Some p' \<and>
    reaches Queued (p_state p')"
proof -
  have "prospect_of s_db ''p'' = Some s_prospect" "p_state s_prospect = Queued"
    by (simp_all add: prospect_of_def s_db_def s_prospect_def)
  moreover have "\<forall>p. prospect_of s_db ''p'' = Some p \<longrightarrow> (\<exists>p'. prospect_of (traffic s_dp s_server
      [Inl (Halt ''o'' None), Inr (Post_forget ''Bearer x'' s_mail)] s_db) ''p'' = Some p' \<and>
      reaches (p_state p) (p_state p') \<and> p_entity p' = p_entity p \<and> p_tenant p' = p_tenant p)"
    by (rule any_traffic_keeps [THEN conjunct2, THEN conjunct2, THEN conjunct2, THEN conjunct2])
  ultimately show ?thesis by fastforce
qed

section \<open>Mail\<close>


definition s_message :: "exc + mime" where
  "s_message = build_message (\<lambda>n. n) s_clock ''me@c.d'' ''Dana'' ''b@c.d'' ''Hi'' ''Hello'' (uuid_text 7) None"

lemma s_message_Inr: "\<exists>m. s_message = Inr m"
proof -
  have "\<not> isl s_message" unfolding s_message_def s_clock_def by code_simp
  then show ?thesis using sum.collapse(2) by metis
qed


text \<open>C21: A reply finds its touch. Take a touch with a UUID that the SMTP provider sent: any message whose
  In-Reply-To starts with the Message-ID of the receipt, that is no bounce and whose text can be read,
  is parsed into the reply event of exactly that touch, with the text as its body.\<close>

theorem reply_finds_touch:
  assumes "ct_touch c = uuid_text n" "n < 16 ^ 32"
    and "smtp_send sm t c subject body = Inr p" "jget_str p ''message_id'' = Inr mid"
    and "ml_reply_to (parse raw) = Some mid"
    and "\<not> is_bounce (parse raw)" and "plain_body (parse raw) = Inr reply"
  shows "\<exists>eid. parse_inbound parse py_hash raw = Inr (Some
    \<lparr>pv_id = eid, pv_kind = REPLY_event, pv_ref = [(''touch_id'', ct_touch c)], pv_payload = [(''body'', JStr reply)]\<rparr>)"
  using assms by (rule send_reply_event)

definition s_smtp :: smtp_provider where
  "s_smtp = \<lparr>sm_boxes = [(''me@c.d'', \<lparr>mc_host = ''h'', mc_port = 25, mc_user = [], mc_password = [], mc_sender = ''Dana'',
       mc_starttls = True, mc_warm = True, mc_cap = 25\<rparr>)],
     sm_transport = (\<lambda>_ _. Inr ()), sm_default = [], sm_unsubscribe = None, sm_encode = (\<lambda>n. n)\<rparr>"

definition s_sent_touch :: claimed_touch where
  "s_sent_touch = \<lparr>ct_touch = uuid_text 7, ct_tenant = ''n'', ct_mailbox = ''me@c.d'', ct_sha = [], ct_recipient = ''b@c.d''\<rparr>"

definition s_reply :: "pystr \<Rightarrow> mail" where
  "s_reply raw = \<lparr>ml_id = Some ''<r@x>'', ml_from = Some ''b@c.d'', ml_reply_to = Some raw, ml_references = None,
     ml_report = None, ml_multipart = False, ml_root = \<lparr>pt_type = ''text/plain'', pt_text = Inr ''Yes'', pt_payload = []\<rparr>,
     ml_rest = []\<rparr>"

lemma s_reply_no_bounce: "\<not> is_bounce (s_reply raw)"
proof -
  have "search BOUNCE_SENDER ''b@c.d'' = None" by code_simp
  then show ?thesis by (simp add: is_bounce_def s_reply_def)
qed

theorem reply_finds_touch_witness:
  "\<exists>mid eid. parse_inbound s_reply (\<lambda>_. 0) mid = Inr (Some
    \<lparr>pv_id = eid, pv_kind = REPLY_event, pv_ref = [(''touch_id'', uuid_text 7)], pv_payload = [(''body'', JStr ''Yes'')]\<rparr>)"
proof -
  obtain m where m: "build_message (\<lambda>n. n) s_clock ''me@c.d'' ''Dana'' ''b@c.d'' ''Hi'' ''Hello'' (uuid_text 7) None = Inr m"
    using s_message_Inr by (auto simp: s_message_def)
  obtain p where p: "smtp_send s_smtp s_clock s_sent_touch ''Hi'' ''Hello'' = Inr p"
    "p = [(''message_id'', JStr (the_default [] (header m ''Message-ID''))), (''mailbox'', JStr ''me@c.d'')]"
    by (simp add: smtp_send_def s_smtp_def s_sent_touch_def m)
  have "strip ''Yes'' = ''Yes''" by code_simp
  then have b: "plain_body (s_reply x) = Inr ''Yes''" for x by (simp add: plain_body_def s_reply_def)
  have "jget_str p ''message_id'' = Inr (the_default [] (header m ''Message-ID''))" by (simp add: p(2))
  from reply_finds_touch [where parse = s_reply and py_hash = "\<lambda>_. 0" and c = s_sent_touch and n = 7 and
      raw = "the_default [] (header m ''Message-ID'')", OF _ _ p(1) this _ s_reply_no_bounce b]
  show ?thesis by (auto simp: s_sent_touch_def s_reply_def)
qed

section \<open>Files\<close>

text \<open>C28: A file of license filings is ingested once: after a file went in, ingesting it again, under
  whatever name, reads the same rows, fires no event and leaves the database as it is.\<close>

theorem filings_fire_once:
  assumes "ingest_license_csv ty file content d = Inr ((n, f), d1)"
  shows "ingest_license_csv ty file' content d1 = Inr ((n, 0), d1)"
  using assms by (rule reingest_noop)

definition s_filings :: pystr where
  "s_filings = ''Licensee,City'' @ nl @ ''Bar,X'' @ nl @ ''Pub,Y'' @ nl"

lemma s_filings_fire: "\<exists>d1. ingest_license_csv DEFAULT_EVENT_TYPE ''f'' s_filings s_db = Inr ((2, 2), d1)"
proof -
  have r: "dict_records (drop_prefix [CHR 0xEF, CHR 0xBB, CHR 0xBF] s_filings) = ([''Licensee'', ''City''],
      [[(''Licensee'', Some ''Bar''), (''City'', Some ''X'')], [(''Licensee'', Some ''Pub''), (''City'', Some ''Y'')]])"
    unfolding s_filings_def by code_simp
  have m: "map_headers [''Licensee'', ''City''] = Inr [(''name'', ''Licensee''), (''city'', ''City'')]" by code_simp
  define mp where "mp = [(''name'', ''Licensee''), (''city'', ''City'')]"
  define r1 where "r1 = [(''Licensee'', Some ''Bar''), (''City'', Some ''X'')]"
  define r2 where "r2 = [(''Licensee'', Some ''Pub''), (''City'', Some ''Y'')]"
  have f: "row_field mp r1 ''name'' = ''Bar''" "row_field mp r2 ''name'' = ''Pub''"
    "filing_key DEFAULT_EVENT_TYPE mp r1 = ''signal:license.issued::bar:''" "filing_key DEFAULT_EVENT_TYPE mp r2 = ''signal:license.issued::pub:''"
    unfolding mp_def r1_def r2_def DEFAULT_EVENT_TYPE_def by code_simp+
  have e: "opevents s_db = []" by (simp add: s_db_def empty_db_def)
  have "\<exists>d1. ingest_filings DEFAULT_EVENT_TYPE ''f'' mp [r1, r2] 0 0 s_db = ((2, 2), d1)"
    by (simp add: f record_opevent_def e fresh_uuid_def enqueue_key_def enqueue_def ins_def)
  then show ?thesis
    by (simp add: ingest_license_csv_def r m flip: mp_def r1_def r2_def)
qed

theorem filings_fire_once_witness:
  "\<exists>d1. ingest_license_csv DEFAULT_EVENT_TYPE ''f'' s_filings s_db = Inr ((2, 2), d1) \<and>
    ingest_license_csv DEFAULT_EVENT_TYPE ''g'' s_filings d1 = Inr ((2, 0), d1)"
  using s_filings_fire filings_fire_once by blast

lemma nppes_scan_bound:
  "length cands < BATCH \<Longrightarrow> length (fst (nppes_scan h s t ls offset cands)) \<le> BATCH"
  by (induction ls arbitrary: offset cands) (auto simp: Let_def split: option.split)

lemma nppes_discover_bound: "nppes_discover content filters cur = Inr (cs, c) \<Longrightarrow> length cs \<le> BATCH"
  using nppes_scan_bound [of "[]"]
  by (fastforce simp: nppes_discover_def bindE_def Let_def BATCH_def dest: arg_cong [of _ _ fst] split: sum.splits if_splits)

lemma paged_bound: "paged content filters cur pages \<Longrightarrow> p \<in> set pages \<Longrightarrow> length p \<le> BATCH"
  by (induction rule: paged.induct) (auto dest: nppes_discover_bound)

text \<open>C27: Paging through the registry ends and misses nobody. For filters with a state and taxonomies,
  following the cursors from the start reaches the end of the file after finitely many pages, in one
  way only, every page has at most the batch size, and the pages together are the matching records of
  the lines after the header, each once and in the order of the file.\<close>

theorem registry_paging_complete:
  assumes "text_set (map_of filters ''taxonomy'') = Inr taxonomies" "taxonomies \<noteq> []"
    and "state = upper (case map_of filters ''state'' of None \<Rightarrow> [] | Some j \<Rightarrow> jstr j)" "state \<noteq> []"
    and "file_lines content = first # ls"
  shows "\<exists>!pages. paged content filters None pages \<and> (\<forall>p\<in>set pages. length p \<le> BATCH) \<and>
    concat pages = List.map_filter (line_match (csv_line first) state taxonomies) ls"
proof -
  from assms(5) have first: "fst (split_line content) = first"
    by (subst (asm) file_lines.simps) (simp split: if_splits)
  have ls: "file_lines (drop (length first) content) = ls"
    using file_lines_drop [of content "[first]" ls] assms(5) by simp
  note at = nppes_discover_at [OF assms(1-4), of content]
  obtain pages where p: "paged content filters (Some (nat_str (length first))) pages"
    "concat pages = matches (csv_line first) state taxonomies ls"
    using paged_from [OF assms(1-4) ls] first by auto
  have "paged content filters None pages"
    using p(1) at(2) unfolding first by (subst paged.simps, subst (asm) paged.simps) simp
  moreover from this paged_bound have "\<forall>q\<in>set pages. length q \<le> BATCH" by blast
  ultimately show ?thesis using p(2) paged_unique by (intro ex1I [of _ pages]) (auto simp: matches_def)
qed

definition s_columns :: "pystr list" where
  "s_columns = [''NPI'', ''Entity Type Code'', ''Provider First Name'', ''Provider Last Name (Legal Name)'',
      ''Provider Business Practice Location Address State Name'', ''Healthcare Provider Taxonomy Code_1'']"

definition s_registry :: pystr where
  "s_registry = concat [join '','' s_columns @ nl, ''7,1,ANA,DIAZ,TX,T1'' @ nl, ''8,2,,,TX,T1'' @ nl, ''9,1,BO,LEE,TX,T1'' @ nl]"

definition s_filters :: payload where
  "s_filters = [(''state'', JStr ''tx''), (''taxonomy'', JList [JStr ''T1''])]"

lemma s_registry_lines:
  "file_lines s_registry = [join '','' s_columns @ nl, ''7,1,ANA,DIAZ,TX,T1'' @ nl, ''8,2,,,TX,T1'' @ nl, ''9,1,BO,LEE,TX,T1'' @ nl]"
  unfolding s_registry_def s_columns_def by code_simp

lemma s_registry_header: "csv_line (join '','' s_columns @ nl) = s_columns"
  unfolding s_columns_def by code_simp

lemma s_registry_line:
  "csv_line (''7,1,ANA,DIAZ,TX,T1'' @ nl) = [''7'', ''1'', ''ANA'', ''DIAZ'', ''TX'', ''T1'']"
  "csv_line (''8,2,,,TX,T1'' @ nl) = [''8'', ''2'', [], [], ''TX'', ''T1'']"
  "csv_line (''9,1,BO,LEE,TX,T1'' @ nl) = [''9'', ''1'', ''BO'', ''LEE'', ''TX'', ''T1'']"
  by code_simp+

lemma s_registry_match:
  "map_option cd_name (line_match s_columns ''TX'' [''T1''] (''7,1,ANA,DIAZ,TX,T1'' @ nl)) = Some ''Ana Diaz''"
  "map_option cd_name (line_match s_columns ''TX'' [''T1''] (''8,2,,,TX,T1'' @ nl)) = None"
  "map_option cd_name (line_match s_columns ''TX'' [''T1''] (''9,1,BO,LEE,TX,T1'' @ nl)) = Some ''Bo Lee''"
  unfolding line_match_def s_registry_line s_columns_def by code_simp+

theorem registry_paging_complete_witness:
  "\<exists>pages. paged s_registry s_filters None pages \<and> map cd_name (concat pages) = [''Ana Diaz'', ''Bo Lee'']"
proof -
  have t: "text_set (map_of s_filters ''taxonomy'') = Inr [''T1'']"
    "''TX'' = upper (case map_of s_filters ''state'' of None \<Rightarrow> [] | Some j \<Rightarrow> jstr j)"
    unfolding s_filters_def by code_simp+
  from registry_paging_complete [OF t(1) _ t(2) _ s_registry_lines] s_registry_match show ?thesis
    by (auto simp: s_registry_header List.map_filter_def)
qed

end
