(* ===== verification/Backends.thy ===== *)
theory Backends
  imports Programs Human_tasks Events
begin

text \<open>
  The two model backends: \<open>adapters/llm/gemini_backend.py\<close>, with its bounded backoff, its grounded
  research pass and its rewriting of JSON schemas, and \<open>adapters/llm/anthropic_backend.py\<close>. The
  services are parameters that answer a request as they like, given all that was asked and slept
  before; so are \<open>json.loads\<close> and the pydantic validation of an answer. Seconds are rationals.
\<close>

section \<open>Requests and answers\<close>

datatype api_exc = API_error int pystr | Other_error exc

record web_chunk =
  wc_title :: "pystr option"
  wc_uri :: "pystr option"

record gen_response =
  gs_parsed :: "json option"
  gs_text :: "pystr option"
  gs_candidates :: "web_chunk option list list"

record gen_request =
  gq_model :: pystr
  gq_contents :: pystr
  gq_config :: payload

datatype gen_event = Call gen_request | Sleep rat

type_synonym gemini_api = "gen_event list \<Rightarrow> gen_request \<Rightarrow> api_exc + gen_response"

definition REASONING_MODEL_DEFAULT :: pystr where
  "REASONING_MODEL_DEFAULT = ''gemini-2.5-pro''"

definition FAST_MODEL_DEFAULT :: pystr where
  "FAST_MODEL_DEFAULT = ''gemini-2.5-flash''"

definition REASONING_TASKS :: "pystr list" where
  "REASONING_TASKS = [''synthesize_program'', ''discovery_research'', ''brainstorm_goals'', ''winloss_synth'']"

definition MAX_TOKENS :: "(pystr \<times> int) list" where
  "MAX_TOKENS = [(''compose'', 4096), (''groundedness'', 2048), (''qualify'', 2048), (''classify_reply'', 1024)]"

definition MAX_TOKENS_DEFAULT :: int where
  "MAX_TOKENS_DEFAULT = 8192"

definition GROUNDED_TASKS :: "pystr list" where
  "GROUNDED_TASKS = [''discovery_research'', ''brainstorm_goals'', ''sender_research'', ''winloss_synth'', ''web_enrich'']"

record model_tiers =
  gm_reasoning :: pystr
  gm_fast :: pystr

text \<open>\<open>arg or os.environ.get(name, default)\<close>.\<close>

definition gemini_backend :: "(pystr \<Rightarrow> pystr option) \<Rightarrow> pystr option \<Rightarrow> pystr option \<Rightarrow> model_tiers" where
  "gemini_backend env reasoning_model fast_model =
     \<lparr>gm_reasoning = or_else (the_default REASONING_MODEL_DEFAULT (env ''OR_GEMINI_REASONING_MODEL'')) reasoning_model,
      gm_fast = or_else (the_default FAST_MODEL_DEFAULT (env ''OR_GEMINI_FAST_MODEL'')) fast_model\<rparr>"

definition model_for :: "model_tiers \<Rightarrow> pystr \<Rightarrow> pystr" where
  "model_for g task = (if task \<in> set REASONING_TASKS then gm_reasoning g else gm_fast g)"

section \<open>Schemas\<close>

text \<open>\<open>setdefault\<close>, and the loop over the items of a node. The fuel of \<open>clean\<close> is the depth the
  interpreter allows: a schema that refers to itself exhausts any.\<close>

definition set_default :: "pystr \<Rightarrow> json \<Rightarrow> payload \<Rightarrow> payload" where
  "set_default k v out = (if map_of out k = None then out @ [(k, v)] else out)"

fun clean_items :: "(json \<Rightarrow> exc + json) \<Rightarrow> payload \<Rightarrow> payload \<Rightarrow> exc + payload" where
  "clean_items f [] out = Inr out"
| "clean_items f ((k, v) # rest) out =
     (if k \<in> {''additionalProperties'', ''title'', ''default''} then clean_items f rest out
      else if k = ''exclusiveMinimum'' then clean_items f rest (set_default ''minimum'' v out)
      else if k = ''exclusiveMaximum'' then clean_items f rest (set_default ''maximum'' v out)
      else bindE (f v) (\<lambda>w. clean_items f rest (dict_set k w out)))"

fun clean :: "payload \<Rightarrow> nat \<Rightarrow> json \<Rightarrow> exc + json" where
  "clean defs 0 node = Inl (OtherError ''RecursionError'')"
| "clean defs (Suc n) (JObj kvs) =
     (case map_of kvs ''$ref'' of
        Some r \<Rightarrow> clean defs n (the_default (JObj []) (map_of defs (rpart_after (CHR ''/'') (jstr r))))
      | None \<Rightarrow> bindE (clean_items (clean defs n) kvs []) (\<lambda>out. Inr (JObj out)))"
| "clean defs (Suc n) (JList xs) = bindE (traverse (clean defs n) xs) (\<lambda>ys. Inr (JList ys))"
| "clean defs (Suc n) node = Inr node"

text \<open>\<open>raw\<close> is what \<open>model_json_schema\<close> gives; its \<open>$defs\<close> is an object.\<close>

definition gemini_schema :: "nat \<Rightarrow> payload \<Rightarrow> exc + payload" where
  "gemini_schema depth raw =
     (let defs = (case map_of raw ''$defs'' of Some (JObj ds) \<Rightarrow> ds | _ \<Rightarrow> [])
      in bindE (clean defs depth (JObj (filter (\<lambda>(k, _). k \<noteq> ''$defs'') raw))) (\<lambda>cleaned.
           case cleaned of JObj kvs \<Rightarrow> Inr kvs | _ \<Rightarrow> Inl (OtherError ''AssertionError'')))"

section \<open>The backoff loop\<close>

definition config_of :: "model_tiers \<Rightarrow> nat \<Rightarrow> pystr \<Rightarrow> payload option \<Rightarrow> pystr \<Rightarrow> exc + payload" where
  "config_of g depth task schema model =
     bindE (case schema of
         None \<Rightarrow> Inr [(''tools'', JList [JObj [(''google_search'', JObj [])]])]
       | Some raw \<Rightarrow> bindE (gemini_schema depth raw) (\<lambda>s.
           Inr [(''response_mime_type'', JStr ''application/json''), (''response_schema'', JObj s)])) (\<lambda>mode.
       Inr ([(''max_output_tokens'', JInt (the_default MAX_TOKENS_DEFAULT (map_of MAX_TOKENS task)))] @ mode @
            (if model = gm_fast g then [(''thinking_config'', JObj [(''thinking_budget'', JInt 0)])] else [])))"

text \<open>\<open>room\<close> attempts are left; the last argument is what was asked and slept so far.\<close>

fun backoff_loop ::
  "model_tiers \<Rightarrow> gemini_api \<Rightarrow> nat \<Rightarrow> pystr \<Rightarrow> pystr \<Rightarrow> payload option \<Rightarrow> nat \<Rightarrow> rat \<Rightarrow> pystr \<Rightarrow> pystr \<Rightarrow> gen_event list \<Rightarrow>
     (exc + gen_response) \<times> gen_event list" where
  "backoff_loop g api depth task prompt schema 0 delay problem model tr =
     (Inl (RuntimeError (fstr [''Gemini unavailable after retries for task '', py_repr task, '': '', problem])), tr)"
| "backoff_loop g api depth task prompt schema (Suc room) delay problem model tr =
     (case config_of g depth task schema model of
        Inl e \<Rightarrow> (Inl e, tr)
      | Inr config \<Rightarrow>
          let rq = \<lparr>gq_model = model, gq_contents = prompt, gq_config = config\<rparr>; tr' = tr @ [Call rq]
          in case api tr rq of
               Inr response \<Rightarrow> (Inr response, tr')
             | Inl (Other_error e) \<Rightarrow> (Inl e, tr')
             | Inl (API_error status msg) \<Rightarrow>
                 if status \<notin> {429, 503} then (Inl (OtherError msg), tr')
                 else if status = 429 \<and> model \<noteq> gm_fast g
                 then backoff_loop g api depth task prompt schema room delay msg (gm_fast g) tr'
                 else backoff_loop g api depth task prompt schema room (min (delay * 8 / 5) 70) msg model
                        (tr' @ [Sleep delay]))"

definition generate_with_backoff ::
  "model_tiers \<Rightarrow> gemini_api \<Rightarrow> nat \<Rightarrow> pystr \<Rightarrow> pystr \<Rightarrow> payload option \<Rightarrow> gen_event list \<Rightarrow>
     (exc + gen_response) \<times> gen_event list" where
  "generate_with_backoff g api depth task prompt schema tr =
     backoff_loop g api depth task prompt schema 6 15 ''None'' (model_for g task) tr"

section \<open>The research pass and the structuring pass\<close>

text \<open>\<open>dict.fromkeys\<close> keeps the first of equal lines.\<close>

definition sources_of :: "gen_response \<Rightarrow> pystr list" where
  "sources_of r =
     List.map_filter (\<lambda>chunk. case chunk of
         None \<Rightarrow> None
       | Some web \<Rightarrow> map_option (\<lambda>uri. fstr [''- '', or_else uri (wc_title web), '': '', uri]) (nonempty (wc_uri web)))
       (concat (gs_candidates r))"

definition with_grounded_research ::
  "model_tiers \<Rightarrow> gemini_api \<Rightarrow> nat \<Rightarrow> pystr \<Rightarrow> pystr \<Rightarrow> gen_event list \<Rightarrow> (exc + pystr) \<times> gen_event list" where
  "with_grounded_research g api depth task prompt tr =
     (case generate_with_backoff g api depth task
        (fstr [prompt, nl, nl, ''Research this with Google Search. Report concrete findings '',
           ''with a source URL for every claim; say so plainly when the web '', ''has nothing relevant.'']) None tr of
        (Inl e, tr') \<Rightarrow> (Inl e, tr')
      | (Inr response, tr') \<Rightarrow>
          (Inr (fstr [prompt, nl, nl, ''Grounded web research findings (from Google Search; treat as '',
             ''evidence, cite its sources, do not invent beyond it):'', nl,
             or_else ''(no grounded findings)'' (gs_text response), nl, nl, ''Sources:'', nl,
             or_else ''(no sources returned)'' (Some (join nl (first_seen (sources_of response))))]), tr'))"

text \<open>The raw answer: what was parsed, else the text, which is read as JSON.\<close>

definition raw_answer :: "gen_response \<Rightarrow> json option" where
  "raw_answer r = (case gs_parsed r of Some j \<Rightarrow> Some j | None \<Rightarrow> map_option JStr (gs_text r))"

definition read_answer :: "(pystr \<Rightarrow> exc + json) \<Rightarrow> (json \<Rightarrow> exc + 'a) \<Rightarrow> json \<Rightarrow> exc + 'a" where
  "read_answer loads model_validate raw =
     bindE (case raw of JStr s \<Rightarrow> loads s | _ \<Rightarrow> Inr raw) model_validate"

fun parse_loop ::
  "model_tiers \<Rightarrow> gemini_api \<Rightarrow> nat \<Rightarrow> (pystr \<Rightarrow> exc + json) \<Rightarrow> (json \<Rightarrow> exc + 'a) \<Rightarrow> pystr \<Rightarrow> pystr \<Rightarrow> payload \<Rightarrow> nat \<Rightarrow>
     pystr \<Rightarrow> gen_event list \<Rightarrow> (exc + 'a) \<times> gen_event list" where
  "parse_loop g api depth loads model_validate task prompt schema 0 problem tr =
     (Inl (RuntimeError (fstr [''LLM task '', py_repr task, '' output unparseable after retry: '', problem])), tr)"
| "parse_loop g api depth loads model_validate task prompt schema (Suc room) problem tr =
     (case generate_with_backoff g api depth task prompt (Some schema) tr of
        (Inl e, tr') \<Rightarrow> (Inl e, tr')
      | (Inr response, tr') \<Rightarrow>
          (case raw_answer response of
             None \<Rightarrow> (Inl (RuntimeError (fstr [''LLM task '', py_repr task, '' returned no parseable output''])), tr')
           | Some raw \<Rightarrow>
               (case read_answer loads model_validate raw of
                  Inr x \<Rightarrow> (Inr x, tr')
                | Inl e \<Rightarrow> if is_value_error e
                    then parse_loop g api depth loads model_validate task prompt schema room (exc_str e) tr'
                    else (Inl e, tr'))))"

definition gemini_complete ::
  "model_tiers \<Rightarrow> gemini_api \<Rightarrow> nat \<Rightarrow> (pystr \<Rightarrow> exc + json) \<Rightarrow> (json \<Rightarrow> exc + 'a) \<Rightarrow> pystr \<Rightarrow> pystr \<Rightarrow> payload \<Rightarrow>
     gen_event list \<Rightarrow> (exc + 'a) \<times> gen_event list" where
  "gemini_complete g api depth loads model_validate task prompt schema tr =
     (case (if task \<in> set GROUNDED_TASKS then with_grounded_research g api depth task prompt tr else (Inr prompt, tr)) of
        (Inl e, tr') \<Rightarrow> (Inl e, tr')
      | (Inr prompt', tr') \<Rightarrow> parse_loop g api depth loads model_validate task prompt' schema 2 ''None'' tr')"

section \<open>anthropic_backend.py\<close>

definition ANTHROPIC_MAX_TOKENS :: "(pystr \<times> int) list" where
  "ANTHROPIC_MAX_TOKENS = [(''compose'', 2048), (''groundedness'', 1024), (''qualify'', 1024), (''classify_reply'', 512)]"

record anthropic_request =
  aq_model :: pystr
  aq_tokens :: int
  aq_content :: pystr

text \<open>An answer is what was parsed, if anything, and the stop reason.\<close>

definition anthropic_complete ::
  "model_tiers \<Rightarrow> (anthropic_request \<Rightarrow> exc + 'a option \<times> pystr) \<Rightarrow> pystr \<Rightarrow> pystr \<Rightarrow> exc + 'a" where
  "anthropic_complete g api task prompt =
     bindE (api \<lparr>aq_model = model_for g task, aq_tokens = the_default 4096 (map_of ANTHROPIC_MAX_TOKENS task),
                 aq_content = prompt\<rparr>) (\<lambda>(parsed, stop).
       case parsed of
         None \<Rightarrow> Inl (RuntimeError (fstr [''LLM task '', py_repr task, '' returned no parseable output '',
                   ''(stop_reason='', py_repr stop, '')'']))
       | Some x \<Rightarrow> Inr x)"

section \<open>What a call costs\<close>

definition asked :: "gen_event list \<Rightarrow> nat" where
  "asked tr = length (filter (\<lambda>e. case e of Call _ \<Rightarrow> True | Sleep _ \<Rightarrow> False) tr)"

definition slept :: "gen_event list \<Rightarrow> rat" where
  "slept tr = sum_list (map (\<lambda>e. case e of Call _ \<Rightarrow> 0 | Sleep s \<Rightarrow> s) tr)"

lemma calls_simps [simp]:
  "asked [] = 0" "asked (tr @ ts) = asked tr + asked ts" "asked (Call rq # tr) = Suc (asked tr)"
  "asked (Sleep s # tr) = asked tr"
  by (simp_all add: asked_def)

lemma slept_simps [simp]:
  "slept [] = 0" "slept (tr @ ts) = slept tr + slept ts" "slept (Call rq # tr) = slept tr"
  "slept (Sleep s # tr) = s + slept tr"
  by (simp_all add: slept_def)

text \<open>The sleeps of \<open>n\<close> attempts that all fail.\<close>

fun sleeps :: "nat \<Rightarrow> rat \<Rightarrow> rat" where
  "sleeps 0 delay = 0"
| "sleeps (Suc n) delay = delay + sleeps n (min (delay * 8 / 5) 70)"

lemma sleeps_mono: "0 \<le> a \<Longrightarrow> a \<le> b \<Longrightarrow> sleeps n a \<le> sleeps n b"
proof (induction n arbitrary: a b)
  case (Suc n)
  then have "sleeps n (min (a * 8 / 5) 70) \<le> sleeps n (min (b * 8 / 5) 70)" by (intro Suc.IH) (auto simp: min_def)
  with Suc.prems show ?case by simp
qed simp

lemma sleeps_Suc:
  assumes "0 \<le> a" "a \<le> 70"
  shows "sleeps n a \<le> sleeps (Suc n) a"
proof -
  have "a \<le> min (a * 8 / 5) 70" using assms by simp
  from sleeps_mono [OF assms(1) this, of n] assms(1) show ?thesis by (simp only: sleeps.simps)
qed

lemma sleeps_nonneg: "0 \<le> a \<Longrightarrow> 0 \<le> sleeps n a"
  by (induction n arbitrary: a) simp_all

lemma backoff_loop_cost:
  assumes "backoff_loop g api depth task prompt schema room delay problem model tr = (r, tr')" "0 \<le> delay" "delay \<le> 70"
  shows "asked tr' \<le> asked tr + room \<and> slept tr' \<le> slept tr + sleeps room delay"
  using assms
proof (induction room arbitrary: delay problem model tr)
  case (Suc room)
  note bounds = sleeps_nonneg [OF Suc.prems(2), of "Suc room"] sleeps_Suc [OF Suc.prems(2,3), of room]
  let ?delay = "min (delay * 8 / 5) 70"
  have d: "0 \<le> ?delay" "?delay \<le> 70" using Suc.prems(2) by simp_all
  show ?case
  proof (cases "config_of g depth task schema model")
    case (Inl e)
    with Suc.prems(1) bounds(1) show ?thesis by simp
  next
    case config: (Inr config)
    let ?rq = "\<lparr>gq_model = model, gq_contents = prompt, gq_config = config\<rparr>"
    show ?thesis
    proof (cases "api tr ?rq")
      case (Inr response)
      with config Suc.prems(1) bounds(1) show ?thesis by (auto simp: Let_def)
    next
      case (Inl e)
      show ?thesis
      proof (cases e)
        case (Other_error x)
        with Inl config Suc.prems(1) bounds(1) show ?thesis by (auto simp: Let_def)
      next
        case (API_error status msg)
        show ?thesis
        proof (cases "status \<in> {429, 503}")
          case False
          with Inl API_error config Suc.prems(1) bounds(1) show ?thesis by (auto simp: Let_def)
        next
          case True
          show ?thesis
          proof (cases "status = 429 \<and> model \<noteq> gm_fast g")
            case True
            with Inl API_error config Suc.prems(1)
            have "backoff_loop g api depth task prompt schema room delay msg (gm_fast g) (tr @ [Call ?rq]) = (r, tr')"
              by (simp add: Let_def)
            from Suc.IH [OF this Suc.prems(2,3)] bounds show ?thesis by simp
          next
            case False
            with \<open>status \<in> {429, 503}\<close> Inl API_error config Suc.prems(1)
            have "backoff_loop g api depth task prompt schema room ?delay msg model (tr @ [Call ?rq] @ [Sleep delay]) = (r, tr')"
              by (simp add: Let_def split: if_splits)
            from Suc.IH [OF this d] show ?thesis by simp
          qed
        qed
      qed
    qed
  qed
qed simp

text \<open>The most one call of \<open>_generate_with_backoff\<close> sleeps: 278.84 seconds.\<close>

definition BACKOFF_BUDGET :: rat where
  "BACKOFF_BUDGET = 6971 / 25"

lemma sleeps_all: "sleeps 6 15 = BACKOFF_BUDGET"
  by (simp add: eval_nat_numeral BACKOFF_BUDGET_def)

lemma BACKOFF_BUDGET_pos: "0 \<le> BACKOFF_BUDGET"
  by (simp add: BACKOFF_BUDGET_def)

lemma generate_cost:
  "generate_with_backoff g api depth task prompt schema tr = (r, tr') \<Longrightarrow>
     asked tr' \<le> asked tr + 6 \<and> slept tr' \<le> slept tr + BACKOFF_BUDGET"
  unfolding generate_with_backoff_def by (drule backoff_loop_cost) (simp_all add: sleeps_all)

lemma parse_loop_cost:
  "parse_loop g api depth loads model_validate task prompt schema room problem tr = (r, tr') \<Longrightarrow>
     asked tr' \<le> asked tr + 6 * room \<and> slept tr' \<le> slept tr + of_nat room * BACKOFF_BUDGET"
proof (induction room arbitrary: problem tr)
  case (Suc room)
  obtain q tr1 where g: "generate_with_backoff g api depth task prompt (Some schema) tr = (q, tr1)" by fastforce
  note c = generate_cost [OF g]
  consider "tr' = tr1" | problem' where "parse_loop g api depth loads model_validate task prompt schema room problem' tr1 = (r, tr')"
    using Suc.prems g by (auto split: sum.splits option.splits if_splits)
  then show ?case
  proof cases
    case 1
    have "0 \<le> rat_of_nat room * BACKOFF_BUDGET" using BACKOFF_BUDGET_pos by simp
    with c 1 show ?thesis by (simp add: ring_distribs)
  next
    case 2
    from Suc.IH [OF this] c show ?thesis by (simp add: algebra_simps)
  qed
qed simp

text \<open>A structured answer costs at most twelve asked, eighteen with the research pass.\<close>

lemma gemini_complete_cost:
  assumes "gemini_complete g api depth loads model_validate task prompt schema tr = (r, tr')"
  shows "asked tr' \<le> asked tr + (if task \<in> set GROUNDED_TASKS then 18 else 12) \<and>
    slept tr' \<le> slept tr + (if task \<in> set GROUNDED_TASKS then 3 else 2) * BACKOFF_BUDGET"
proof (cases "task \<in> set GROUNDED_TASKS")
  case True
  obtain q tr1 where w: "with_grounded_research g api depth task prompt tr = (q, tr1)" by fastforce
  then have "asked tr1 \<le> asked tr + 6 \<and> slept tr1 \<le> slept tr + BACKOFF_BUDGET"
    by (auto simp: with_grounded_research_def split: prod.splits sum.splits dest: generate_cost)
  with assms w True BACKOFF_BUDGET_pos show ?thesis
    by (auto simp: gemini_complete_def split: sum.splits dest!: parse_loop_cost)
next
  case False
  with assms parse_loop_cost [of g api depth loads model_validate task prompt schema 2 "''None''" tr r tr'] show ?thesis
    by (simp add: gemini_complete_def)
qed

text \<open>Nothing reaches the caller that the schema did not accept.\<close>

lemma parse_loop_Inr:
  "parse_loop g api depth loads model_validate task prompt schema room problem tr = (Inr x, tr') \<Longrightarrow>
     \<exists>raw. model_validate raw = Inr x"
  by (induction room arbitrary: problem tr)
    (auto simp: read_answer_def bindE_eq_Inr split: prod.splits sum.splits option.splits if_splits)

text \<open>A service that is overloaded throughout.\<close>

lemma backoff_loop_overloaded:
  assumes "api = (\<lambda>_ _. Inl (API_error 503 msg))" and "config_of g depth task schema model = Inr config"
  shows "\<exists>tr'. backoff_loop g api depth task prompt schema room delay problem model tr =
      (Inl (RuntimeError (fstr [''Gemini unavailable after retries for task '', py_repr task, '': '',
         if room = 0 then problem else msg])), tr') \<and> asked tr' = asked tr + room \<and> slept tr' = slept tr + sleeps room delay"
proof (induction room arbitrary: delay problem tr)
  case (Suc room)
  let ?rq = "\<lparr>gq_model = model, gq_contents = prompt, gq_config = config\<rparr>"
  obtain tr' where "backoff_loop g api depth task prompt schema room (min (delay * 8 / 5) 70) msg model (tr @ [Call ?rq] @ [Sleep delay]) =
      (Inl (RuntimeError (fstr [''Gemini unavailable after retries for task '', py_repr task, '': '',
         if room = 0 then msg else msg])), tr') \<and> asked tr' = asked (tr @ [Call ?rq] @ [Sleep delay]) + room \<and>
      slept tr' = slept (tr @ [Call ?rq] @ [Sleep delay]) + sleeps room (min (delay * 8 / 5) 70)"
    using Suc.IH [of "min (delay * 8 / 5) 70" msg "tr @ [Call ?rq] @ [Sleep delay]"] by auto
  with assms show ?case by (intro exI [of _ tr']) (simp add: Let_def)
qed simp

section \<open>Cleaned schemas\<close>

text \<open>The keys anywhere in a schema, those the service rejects, and the definitions a schema refers to.
  The bounds pydantic emits are numbers.\<close>

fun json_keys :: "json \<Rightarrow> pystr set" where
  "json_keys (JObj kvs) = (\<Union>kv\<in>set kvs. insert (fst kv) (json_keys (snd kv)))"
| "json_keys (JList xs) = (\<Union>x\<in>set xs. json_keys x)"
| "json_keys _ = {}"

definition REJECTED :: "pystr set" where
  "REJECTED = {''$ref'', ''additionalProperties'', ''title'', ''default'', ''exclusiveMinimum'', ''exclusiveMaximum''}"

fun scalar_bounds :: "json \<Rightarrow> bool" where
  "scalar_bounds (JObj kvs) \<longleftrightarrow> (\<forall>kv\<in>set kvs.
     (fst kv \<in> {''exclusiveMinimum'', ''exclusiveMaximum''} \<longrightarrow> json_keys (snd kv) = {}) \<and> scalar_bounds (snd kv))"
| "scalar_bounds (JList xs) \<longleftrightarrow> (\<forall>x\<in>set xs. scalar_bounds x)"
| "scalar_bounds _ \<longleftrightarrow> True"

definition ref_name :: "json \<Rightarrow> pystr" where
  "ref_name r = rpart_after (CHR ''/'') (jstr r)"

fun json_refs :: "json \<Rightarrow> pystr set" where
  "json_refs (JObj kvs) = (case map_of kvs ''$ref'' of Some r \<Rightarrow> {ref_name r} | None \<Rightarrow> (\<Union>kv\<in>set kvs. json_refs (snd kv)))"
| "json_refs (JList xs) = (\<Union>x\<in>set xs. json_refs x)"
| "json_refs _ = {}"

lemma clean_items_keys:
  assumes "clean_items f kvs out = Inr out'"
    and "\<And>kv. kv \<in> set out \<Longrightarrow> insert (fst kv) (json_keys (snd kv)) \<inter> REJECTED = {}"
    and "''$ref'' \<notin> fst ` set kvs"
    and "\<And>kv w. kv \<in> set kvs \<Longrightarrow> f (snd kv) = Inr w \<Longrightarrow> json_keys w \<inter> REJECTED = {}"
    and "\<And>kv. kv \<in> set kvs \<Longrightarrow> fst kv \<in> {''exclusiveMinimum'', ''exclusiveMaximum''} \<Longrightarrow> json_keys (snd kv) = {}"
  shows "json_keys (JObj out') \<inter> REJECTED = {}"
  using assms
proof (induction kvs arbitrary: out)
  case Nil
  from Nil.prems(1) have "out' = out" by simp
  with Nil.prems(2) show ?case by fastforce
next
  case (Cons kv kvs)
  obtain k v where kv: "kv = (k, v)" by fastforce
  note step = Cons.IH [OF _ _ _ Cons.prems(4) Cons.prems(5)]
  have ref: "''$ref'' \<notin> fst ` set kvs" "k \<noteq> ''$ref''" using Cons.prems(3) kv by auto
  consider (dropped) "k \<in> {''additionalProperties'', ''title'', ''default''}"
    | (low) "k = ''exclusiveMinimum''" | (high) "k = ''exclusiveMaximum''" | (kept) "k \<notin> REJECTED"
    using ref(2) by (simp only: REJECTED_def insert_iff empty_iff) argo
  then show ?case
  proof cases
    case dropped
    with Cons.prems(1) kv have "clean_items f kvs out = Inr out'" by auto
    then show ?thesis by (rule step) (use Cons.prems(2) ref in auto)
  next
    case low
    with Cons.prems(1) kv have c: "clean_items f kvs (set_default ''minimum'' v out) = Inr out'" by simp
    have "json_keys v = {}" using Cons.prems(5) [of kv] low kv by simp
    then show ?thesis
      by (intro step [OF c]) (use Cons.prems(2) ref in \<open>auto simp: set_default_def REJECTED_def split: if_splits\<close>)
  next
    case high
    with Cons.prems(1) kv have c: "clean_items f kvs (set_default ''maximum'' v out) = Inr out'" by simp
    have "json_keys v = {}" using Cons.prems(5) [of kv] high kv by simp
    then show ?thesis
      by (intro step [OF c]) (use Cons.prems(2) ref in \<open>auto simp: set_default_def REJECTED_def split: if_splits\<close>)
  next
    case kept
    then have "k \<notin> {''additionalProperties'', ''title'', ''default''}" "k \<noteq> ''exclusiveMinimum''" "k \<noteq> ''exclusiveMaximum''"
      by (auto simp: REJECTED_def)
    with Cons.prems(1) kv obtain w where w: "f v = Inr w" "clean_items f kvs (dict_set k w out) = Inr out'"
      by (auto simp: bindE_eq_Inr)
    have "json_keys w \<inter> REJECTED = {}" using Cons.prems(4) [of kv w] w(1) kv by simp
    with kept show ?thesis
      by (intro step [OF w(2)]) (use Cons.prems(2) ref in \<open>auto dest!: dict_set_set\<close>)
  qed
qed

lemma list_all2_source: "list_all2 P xs ys \<Longrightarrow> y \<in> set ys \<Longrightarrow> \<exists>x\<in>set xs. P x y"
  by (induction rule: list_all2_induct) auto

lemma clean_keys:
  assumes "\<And>kv. kv \<in> set defs \<Longrightarrow> scalar_bounds (snd kv)"
  shows "clean defs n j = Inr j' \<Longrightarrow> scalar_bounds j \<Longrightarrow> json_keys j' \<inter> REJECTED = {}"
proof (induction n arbitrary: j j')
  case (Suc n)
  show ?case
  proof (cases j)
    case (JObj kvs)
    show ?thesis
    proof (cases "map_of kvs ''$ref''")
      case (Some r)
      let ?s = "the_default (JObj []) (map_of defs (ref_name r))"
      have "scalar_bounds ?s" using assms by (cases "map_of defs (ref_name r)") (auto dest: map_of_SomeD)
      with Suc.IH [of ?s j'] Suc.prems(1) JObj Some show ?thesis by (simp add: ref_name_def)
    next
      case None
      with Suc.prems(1) JObj obtain out where out: "clean_items (clean defs n) kvs [] = Inr out" "j' = JObj out"
        by (auto simp: bindE_eq_Inr)
      show ?thesis unfolding out(2)
        by (rule clean_items_keys [OF out(1)])
          (use None Suc.IH Suc.prems(2) JObj in \<open>auto simp: map_of_eq_None_iff\<close>)
    qed
  next
    case (JList xs)
    with Suc.prems(1) obtain ys where ys: "list_all2 (\<lambda>x y. clean defs n x = Inr y) xs ys" "j' = JList ys"
      by (auto simp: bindE_eq_Inr traverse_Inr)
    have "json_keys y \<inter> REJECTED = {}" if "y \<in> set ys" for y
    proof -
      from list_all2_source [OF ys(1) that] obtain x where "x \<in> set xs" "clean defs n x = Inr y" by blast
      with Suc.IH Suc.prems(2) JList show ?thesis by simp
    qed
    with ys(2) show ?thesis by auto
  qed (use Suc.prems in auto)
qed simp

text \<open>A result does not depend on how much depth there is left, and there is one as soon as the
  definitions do not refer to themselves through one another.\<close>

lemma clean_items_mono:
  assumes "clean_items f kvs out = Inr out'" and "\<And>kv w. kv \<in> set kvs \<Longrightarrow> f (snd kv) = Inr w \<Longrightarrow> g (snd kv) = Inr w"
  shows "clean_items g kvs out = Inr out'"
  using assms
proof (induction kvs arbitrary: out)
  case (Cons kv kvs)
  obtain k v where kv: "kv = (k, v)" by fastforce
  have IH: "clean_items f kvs out = Inr out' \<Longrightarrow> clean_items g kvs out = Inr out'" for out
    using Cons.IH [of out] Cons.prems(2) by simp
  show ?case using Cons.prems(1) Cons.prems(2) [of kv] IH
    by (auto simp: kv bindE_eq_Inr split: if_splits)
qed simp

lemma clean_Suc: "clean defs n j = Inr j' \<Longrightarrow> clean defs (Suc n) j = Inr j'"
proof (induction n arbitrary: j j')
  case (Suc n)
  show ?case
  proof (cases j)
    case (JObj kvs)
    with Suc show ?thesis
      by (auto simp: bindE_eq_Inr split: option.splits intro!: clean_items_mono)
  next
    case (JList xs)
    with Suc.prems obtain ys where "list_all2 (\<lambda>x y. clean defs n x = Inr y) xs ys" "j' = JList ys"
      by (auto simp: bindE_eq_Inr traverse_Inr)
    moreover from this(1) have "list_all2 (\<lambda>x y. clean defs (Suc n) x = Inr y) xs ys"
      by (rule list.rel_mono_strong) (use Suc.IH in blast)
    ultimately show ?thesis using JList by (simp add: traverse_Inr [THEN iffD2] del: clean.simps(2-4) add: clean.simps(3))
  qed (use Suc.prems in auto)
qed simp

lemma clean_mono: "n \<le> m \<Longrightarrow> clean defs n j = Inr j' \<Longrightarrow> clean defs m j = Inr j'"
  by (induction m rule: dec_induct) (auto intro: clean_Suc)

definition cleans :: "payload \<Rightarrow> json \<Rightarrow> bool" where
  "cleans defs j \<longleftrightarrow> (\<exists>n j'. clean defs n j = Inr j')"

lemma cleans_items:
  "\<forall>kv\<in>set kvs. cleans defs (snd kv) \<Longrightarrow> \<exists>n out'. clean_items (clean defs n) kvs out = Inr out'"
proof (induction kvs arbitrary: out)
  case (Cons kv kvs)
  obtain k v where kv: "kv = (k, v)" by fastforce
  from Cons.prems kv obtain n w where w: "clean defs n v = Inr w" by (auto simp: cleans_def)
  have IH: "\<exists>m out'. clean_items (clean defs m) kvs out = Inr out'" for out using Cons by simp
  show ?case
  proof (cases "k \<in> {''additionalProperties'', ''title'', ''default'', ''exclusiveMinimum'', ''exclusiveMaximum''}")
    case True
    with IH show ?thesis by (auto simp: kv)
  next
    case False
    from IH [of "dict_set k w out"] obtain m out' where m: "clean_items (clean defs m) kvs (dict_set k w out) = Inr out'" by blast
    have "clean_items (clean defs (max n m)) kvs (dict_set k w out) = Inr out'"
      by (rule clean_items_mono [OF m], erule clean_mono [rotated], simp)
    moreover have "clean defs (max n m) v = Inr w" by (rule clean_mono [OF _ w], simp)
    ultimately have "clean_items (clean defs (max n m)) (kv # kvs) out = Inr out'" using False by (simp add: kv)
    then show ?thesis by blast
  qed
qed simp

lemma cleans_list: "\<forall>x\<in>set xs. cleans defs x \<Longrightarrow> \<exists>n ys. traverse (clean defs n) xs = Inr ys"
proof (induction xs)
  case (Cons x xs)
  then obtain n y m ys where "clean defs n x = Inr y" "traverse (clean defs m) xs = Inr ys" by (auto simp: cleans_def)
  then have "clean defs (max n m) x = Inr y" "list_all2 (\<lambda>x y. clean defs (max n m) x = Inr y) xs ys"
    using clean_mono [of n "max n m"] clean_mono [of m "max n m"] by (auto simp: traverse_Inr elim!: list.rel_mono_strong)
  then have "traverse (clean defs (max n m)) (x # xs) = Inr (y # ys)" by (simp add: bindE_eq_Inr traverse_Inr)
  then show ?case by blast
qed simp

lemma cleans_acyclic:
  assumes "\<And>kv r. kv \<in> set defs \<Longrightarrow> r \<in> json_refs (snd kv) \<Longrightarrow> weight r < (weight (fst kv) :: nat)"
  shows "\<forall>r\<in>json_refs j. weight r < k \<Longrightarrow> cleans defs j"
proof (induction k arbitrary: j)
  case 0
  then show ?case
  proof (induction j)
    case (JObj kvs)
    show ?case
    proof (cases "map_of kvs ''$ref''")
      case None
      with JObj.prems have "\<forall>kv\<in>set kvs. cleans defs (snd kv)" by (auto intro!: JObj.IH)
      from cleans_items [OF this, of "[]"] obtain n out where "clean_items (clean defs n) kvs [] = Inr out" by blast
      with None have "clean defs (Suc n) (JObj kvs) = Inr (JObj out)" by simp
      then show ?thesis unfolding cleans_def by blast
    qed (use JObj.prems in simp)
  next
    case (JList xs)
    then have "\<forall>x\<in>set xs. cleans defs x" by auto
    from cleans_list [OF this] obtain n ys where "traverse (clean defs n) xs = Inr ys" by blast
    then have "clean defs (Suc n) (JList xs) = Inr (JList ys)" by simp
    then show ?case unfolding cleans_def by blast
  qed (auto simp: cleans_def intro!: exI [of _ "Suc 0"])
next
  case (Suc k)
  from Suc.prems show ?case
  proof (induction j)
    case (JObj kvs)
    show ?case
    proof (cases "map_of kvs ''$ref''")
      case None
      with JObj.prems have "\<forall>kv\<in>set kvs. cleans defs (snd kv)" by (auto intro!: JObj.IH)
      from cleans_items [OF this, of "[]"] obtain n out where "clean_items (clean defs n) kvs [] = Inr out" by blast
      with None have "clean defs (Suc n) (JObj kvs) = Inr (JObj out)" by simp
      then show ?thesis unfolding cleans_def by blast
    next
      case (Some r)
      let ?s = "the_default (JObj []) (map_of defs (ref_name r))"
      have "\<forall>q\<in>json_refs ?s. weight q < k"
      proof (cases "map_of defs (ref_name r)")
        case (Some s)
        from assms [OF map_of_SomeD [OF this]] JObj.prems \<open>map_of kvs ''$ref'' = Some r\<close> Some show ?thesis by fastforce
      qed simp
      from Suc.IH [OF this] obtain n j' where "clean defs n ?s = Inr j'" by (auto simp: cleans_def)
      with Some have "clean defs (Suc n) (JObj kvs) = Inr j'" by (simp add: ref_name_def)
      then show ?thesis unfolding cleans_def by blast
    qed
  next
    case (JList xs)
    then have "\<forall>x\<in>set xs. cleans defs x" by auto
    from cleans_list [OF this] obtain n ys where "traverse (clean defs n) xs = Inr ys" by blast
    then have "clean defs (Suc n) (JList xs) = Inr (JList ys)" by simp
    then show ?case unfolding cleans_def by blast
  qed (auto simp: cleans_def intro!: exI [of _ "Suc 0"])
qed

text \<open>A definition that refers to itself is never finished.\<close>

lemma clean_cyclic: "clean [(n, JObj [(''$ref'', JStr ref)])] k (JObj [(''$ref'', JStr ref)]) = Inl (OtherError ''RecursionError'')"
  if "ref_name (JStr ref) = n"
  using that by (induction k) (simp_all add: ref_name_def)

end
