(* ===== verification/Dashboard.thy ===== *)
theory Dashboard
  imports Metrics Research Api Sources
begin

text \<open>
  \<open>api/dashboard.py\<close>: the operator's read-only pages. A page is the text the browser gets. Its
  templates are written with a back quote for the single quote (\<open>htm\<close>); other texts are spliced in
  through \<open>esc\<close>, which is \<open>html.escape\<close>. Times are whole seconds of UTC; the tables of the model keep no time
  for rows of the audit trail, so the time of the \<open>i\<close>-th is a parameter.
\<close>

section \<open>Texts\<close>

definition htm :: "pystr \<Rightarrow> pystr" where
  "htm s = map (\<lambda>c. if c = CHR 0x60 then CHR 0x27 else c) s"

definition esc_char :: "char \<Rightarrow> pystr" where
  "esc_char c =
     (if c = CHR ''&'' then ''&amp;'' else if c = CHR ''<'' then ''&lt;'' else if c = CHR ''>'' then ''&gt;''
      else if c = CHR 0x22 then ''&quot;'' else if c = CHR 0x27 then ''&#x27;'' else [c])"

definition esc :: "pystr \<Rightarrow> pystr" where
  "esc s = concat (map esc_char s)"

text \<open>\<open>_e\<close> of a value that may be missing, and of a value out of a JSON payload.\<close>

definition esc_opt :: "pystr option \<Rightarrow> pystr" where
  "esc_opt x = esc (the_default [] x)"

definition json_text :: "json option \<Rightarrow> pystr option" where
  "json_text j = (case j of None \<Rightarrow> None | Some JNull \<Rightarrow> None | Some v \<Rightarrow> Some (jstr v))"

definition json_or :: "json option \<Rightarrow> pystr \<Rightarrow> pystr" where
  "json_or j other = (case j of None \<Rightarrow> other | Some v \<Rightarrow> if truthy v then jstr v else other)"

definition arrow :: pystr where "arrow = [CHR 0xE2, CHR 0x86, CHR 0x92]"
definition pause_sign :: pystr where "pause_sign = [CHR 0xE2, CHR 0x8F, CHR 0xB8]"
definition link_sign :: pystr where "link_sign = [CHR 0xE2, CHR 0x86, CHR 0x97]"
definition in_sign :: pystr where "in_sign = [CHR 0xE2, CHR 0x9F, CHR 0xB5]"
definition out_sign :: pystr where "out_sign = [CHR 0xE2, CHR 0x9F, CHR 0xB6]"
definition middot :: pystr where "middot = [CHR 0xC2, CHR 0xB7]"

section \<open>Times\<close>

text \<open>The civil date of a day counted from 1970-01-01, and the formats \<open>%Y-%m-%d %H:%M\<close> and \<open>str\<close>.\<close>

definition civil_of_days :: "int \<Rightarrow> int \<times> int \<times> int" where
  "civil_of_days days =
     (let z = days + 719468; era = z div 146097; doe = z mod 146097;
          yoe = (doe - doe div 1460 + doe div 36524 - doe div 146096) div 365;
          doy = doe - (365 * yoe + yoe div 4 - yoe div 100);
          mp = (5 * doy + 2) div 153; d = doy - (153 * mp + 2) div 5 + 1;
          m = (if mp < 10 then mp + 3 else mp - 9); y = yoe + era * 400
      in (if m \<le> 2 then y + 1 else y, m, d))"

definition minute_text :: "int \<Rightarrow> pystr" where
  "minute_text t =
     (case civil_of_days (t div 86400) of (y, m, d) \<Rightarrow>
        fstr [pad 4 (int_str y), ''-'', pad 2 (int_str m), ''-'', pad 2 (int_str d), '' '',
          pad 2 (int_str (t mod 86400 div 3600)), '':'', pad 2 (int_str (t mod 3600 div 60))])"

definition time_text :: "int \<Rightarrow> pystr" where
  "time_text t = fstr [minute_text t, '':'', pad 2 (int_str (t mod 60)), ''+00:00'']"

section \<open>Building blocks\<close>

definition STYLE :: pystr where
  "STYLE = fstr [nl,
    '':root{'', nl,
    ''  --paper:#fbfaf7;--panel:#ffffff;--line:#ddd6c8;--hairline:#ece7db;'', nl,
    ''  --ink:#211c15;--muted:#6b6356;--faint:#968c7c;'', nl,
    ''  --green-dark:#15302b;--accent:#b97a26;'', nl,
    ''  --good:#1e7a43;--good-bg:#e7f3ec;--live:#1c6e75;--live-bg:#e5f1f2;'', nl,
    ''  --warm:#9a6610;--warm-bg:#faf0dc;--exit:#a83c2a;--exit-bg:#f9e9e5;'', nl,
    ''  --idle:#6b6356;--idle-bg:#efece5;'', nl,
    ''  --serif:'', dq, ''Iowan Old Style'', dq, '','', dq, ''Palatino Nova'', dq, '',Palatino,'', dq, ''Book Antiqua'', dq, '',Georgia,serif;'', nl,
    ''  --mono:ui-monospace,'', dq, ''SF Mono'', dq, '','', dq, ''Cascadia Mono'', dq, '',Menlo,Consolas,monospace;'', nl,
    ''}'', nl,
    ''*{box-sizing:border-box}'', nl,
    ''body{font-family:var(--serif);margin:0;background:var(--paper);color:var(--ink);'', nl,
    ''  font-size:17px;line-height:1.55}'', nl,
    ''header{background:var(--green-dark);color:#f3efe6;padding:16px 32px;'', nl,
    ''  display:flex;gap:18px;align-items:baseline}'', nl,
    ''header a{color:#f3efe6;text-decoration:none;font-weight:600;font-size:1.05rem;'', nl,
    ''  letter-spacing:.02em}'', nl,
    ''header .small{margin-left:auto;color:#c8c0ad;font-size:.8rem}'', nl,
    ''main{max-width:1100px;margin:28px auto 80px;padding:0 24px}'', nl,
    ''h1{font-size:1.8rem;font-weight:600;margin:0 0 6px}'', nl,
    ''h1::after{content:'', dq, dq, '';display:block;width:56px;height:3px;background:var(--accent);'', nl,
    ''  margin-largest:10px}'', nl,
    ''h2{font-size:1.12rem;font-weight:600;margin:36px 0 12px;color:var(--green-dark);'', nl,
    ''  border-bottom:2px solid var(--green-dark);padding-bottom:5px}'', nl,
    ''a{color:#1c6e75}'', nl,
    ''code{font-family:var(--mono);font-size:.85em;background:var(--idle-bg);'', nl,
    ''  padding:1px 5px;border-radius:4px}'', nl,
    ''.cards{display:flex;gap:14px;flex-wrap:wrap;margin:18px 0}'', nl,
    ''.card{background:var(--panel);border:1px solid var(--line);border-radius:10px;'', nl,
    ''  border-largest:3px solid var(--green-dark);padding:14px 20px;min-width:130px}'', nl,
    ''.card .n{font-family:var(--mono);font-size:1.8rem;font-weight:600;'', nl,
    ''  font-variant-numeric:tabular-nums}'', nl,
    ''.card .l{font-size:.8rem;color:var(--muted);margin-largest:3px}'', nl,
    ''table{border-collapse:collapse;width:100%;background:var(--panel);'', nl,
    ''  border:1px solid var(--line);border-radius:8px;overflow:hidden}'', nl,
    ''th{font-size:.8rem;font-weight:700;color:var(--ink);background:#f1ecdf;'', nl,
    ''  padding:10px 12px;text-align:left;border-bottom:1px solid var(--line)}'', nl,
    ''td{padding:10px 12px;border-bottom:1px solid var(--hairline);font-size:.95rem;'', nl,
    ''  vertical-align:largest}'', nl,
    ''tr:last-child td{border-bottom:none}'', nl,
    ''table tr:hover td{background:#faf5e9}'', nl,
    ''.num,td.num{font-family:var(--mono);font-variant-numeric:tabular-nums;'', nl,
    ''  font-size:.9rem}'', nl,
    ''.tag{display:inline-block;font-family:var(--mono);font-size:.74rem;'', nl,
    ''  background:var(--idle-bg);border-radius:6px;padding:2px 8px;margin:1px 4px 1px 0;'', nl,
    ''  color:var(--ink)}'', nl,
    ''.state{display:inline-block;font-family:var(--mono);font-size:.74rem;'', nl,
    ''  font-weight:600;padding:2px 10px;border-radius:999px}'', nl,
    ''.state.good{color:var(--good);background:var(--good-bg)}'', nl,
    ''.state.live{color:var(--live);background:var(--live-bg)}'', nl,
    ''.state.warm{color:var(--warm);background:var(--warm-bg)}'', nl,
    ''.state.exit{color:var(--exit);background:var(--exit-bg)}'', nl,
    ''.state.idle{color:var(--idle);background:var(--idle-bg)}'', nl,
    ''.paused{color:var(--exit);font-weight:700}'', nl,
    ''.note{background:#fffbe9;border:1px solid #e7d9a0;border-left:4px solid var(--accent);'', nl,
    ''  border-radius:8px;padding:14px 18px;margin:14px 0;font-size:.97rem}'', nl,
    ''.note b{color:var(--green-dark)}'', nl,
    ''.msg{border:1px solid var(--line);border-left:4px solid var(--green-dark);'', nl,
    ''  border-radius:8px;padding:12px 16px;margin:12px 0;background:var(--panel);'', nl,
    ''  max-width:90%}'', nl,
    ''.msg.in{border-left-color:var(--good);background:var(--good-bg);margin-left:10%}'', nl,
    ''.msg .meta{font-size:.78rem;color:var(--muted);margin-bottom:7px}'', nl,
    ''.msg pre{line-height:1.55;font-size:.95rem}'', nl,
    ''.bar{background:linear-gradient(90deg,#27554c,var(--green-dark));height:14px;'', nl,
    ''  border-radius:4px;min-width:3px}'', nl,
    ''pre{white-space:pre-wrap;font-family:inherit;margin:0}'', nl,
    ''.small{font-size:.8rem;color:var(--muted)}'', nl,
    ''.banner{border:1px solid #e0b25a;background:#fdf3dd;border-left:5px solid var(--accent);'', nl,
    ''  border-radius:8px;padding:12px 16px;margin:16px 0;font-size:.97rem}'', nl,
    ''.banner b{color:#7a5a10}'', nl,
    ''.crumb{font-size:.85rem;color:var(--muted);margin:0 0 14px}'', nl,
    ''.crumb a{color:var(--muted)}'', nl,
    ''.crumb a:hover{color:var(--green-dark)}'', nl,
    ''button{font-family:var(--mono);font-size:.78rem;font-weight:600;color:#fff;'', nl,
    ''  background:var(--green-dark);border:1px solid var(--green-dark);'', nl,
    ''  border-radius:6px;padding:6px 14px;margin:2px 6px 2px 0;cursor:pointer}'', nl,
    ''button:hover{background:#0e211e}'', nl,
    ''button.danger{background:var(--panel);color:var(--exit);border-color:var(--exit)}'', nl,
    ''button.danger:hover{background:var(--exit-bg)}'', nl,
    '':focus-visible{outline:2px solid var(--accent);outline-offset:2px}'', nl]"

definition page_of :: "pystr \<Rightarrow> pystr \<Rightarrow> pystr \<Rightarrow> pystr" where
  "page_of heading body crumb = fstr
     [htm ''<!doctype html><html><head><meta charset=`utf-8`>'',
      htm ''<meta name=`viewport` content=`width=device-width,initial-scale=1`>'',
      htm ''<title>'', esc heading, '' '', em_dash, htm '' Open Reachout</title><style>'', STYLE, htm ''</style></head>'',
      htm ''<body><header><a href=`/dashboard`>Open&thinsp;Reachout</a>'',
      htm ''<span class=`small`>read-only operator dashboard '', em_dash, htm '' nothing sends from here</span>'',
      htm ''</header><main>'', crumb, htm ''<h1>'', esc heading, htm ''</h1>'', body, htm ''</main></body></html>'']"

definition STATE_CLASS :: "(pystr \<times> pystr) list" where
  "STATE_CLASS =
     [(''converted'', ''good''), (''engaged'', ''live''), (''contacted'', ''warm''), (''queued'', ''warm''),
      (''qualified'', ''live''), (''enriched'', ''idle''), (''discovered'', ''idle''), (''declined'', ''exit''),
      (''unsubscribed'', ''exit''), (''bounced'', ''exit''), (''disqualified'', ''exit''), (''unenrichable'', ''exit''),
      (''no_response'', ''idle''), (''forgotten'', ''exit'')]"

definition state_span :: "pystr option \<Rightarrow> pystr" where
  "state_span value = fstr
     [htm ''<span class=`state '', the_default ''idle'' (map_of STATE_CLASS (the_default ''None'' value)), htm ''`>'',
      esc_opt value, htm ''</span>'']"

definition ACRONYMS :: "pystr list" where
  "ACRONYMS = [''nj'', ''tx'', ''ga'', ''us'', ''lcsw'', ''lpc'', ''lmft'', ''lac'', ''npi'', ''faq'']"

text \<open>\<open>^(20\d{2})q([1-4])$\<close>: the year and the quarter; the end may be before a last line break.\<close>

definition quarter_of :: "pystr \<Rightarrow> (pystr \<times> pystr) option" where
  "quarter_of part =
     (let p = (if part \<noteq> [] \<and> last part = CHR 0x0A then butlast part else part)
      in if length p = 6 \<and> take 2 p = ''20'' \<and> is_digit (p ! 2) \<and> is_digit (p ! 3) \<and> p ! 4 = CHR ''q'' \<and>
            p ! 5 \<in> set ''1234''
         then Some (take 4 p, drop 5 p) else None)"

definition capitalize :: "pystr \<Rightarrow> pystr" where
  "capitalize s = (case s of [] \<Rightarrow> [] | c # r \<Rightarrow> char_upper c # lower r)"

definition friendly :: "pystr \<Rightarrow> pystr" where
  "friendly slg =
     (let (words, suffix) = fold (\<lambda>part (ws, sfx).
            case quarter_of part of
              Some (y, q) \<Rightarrow> (ws, fstr ['' '', em_dash, '' '', y, '' Q'', q])
            | None \<Rightarrow> (ws @ [if lower part \<in> set ACRONYMS then upper part else capitalize part], sfx))
          (split_on (CHR ''_'') slg) ([], [])
      in or_else slg (Some (join '' '' words)) @ suffix)"

definition TOUCH_STATUS :: "(pystr \<times> pystr \<times> pystr) list" where
  "TOUCH_STATUS =
     [(''pending_review'', ''awaiting your approval'', ''warm''), (''drafted'', ''ready to send'', ''live''),
      (''claimed'', ''sending'', ''live''), (''dispatched'', ''sent'', ''good''), (''sent'', ''sent'', ''good''),
      (''delivered'', ''delivered'', ''good''), (''bounced'', ''bounced'', ''exit''), (''failed'', ''failed'', ''exit''),
      (''released'', fstr [''not sent '', em_dash, '' released by a gate''], ''exit''),
      (''pending_human'', ''waiting on a human task'', ''warm'')]"

definition touch_status_span :: "pystr \<Rightarrow> pystr" where
  "touch_status_span status =
     (case the_default (status, ''idle'') (map_of TOUCH_STATUS status) of (label, cls) \<Rightarrow>
        fstr [htm ''<span class=`state '', cls, htm ''`>'', esc label, htm ''</span>''])"

definition cards :: "(pystr \<times> pystr) list \<Rightarrow> pystr" where
  "cards items = fstr
     [htm ''<div class=`cards`>'',
      concat (map (\<lambda>(label, n). fstr [htm ''<div class=`card`><div class=`n`>'', esc n, htm ''</div>'',
        htm ''<div class=`l`>'', esc label, htm ''</div></div>'']) items),
      htm ''</div>'']"

text \<open>The rows of a table, or what stands there when there are none.\<close>

definition rows_or :: "pystr \<Rightarrow> pystr list \<Rightarrow> pystr" where
  "rows_or nothing rows = or_else nothing (Some (concat rows))"

section \<open>Outbox, banner, ledger\<close>

definition tenant_touches :: "db \<Rightarrow> pystr \<Rightarrow> touch_row list" where
  "tenant_touches d tenant =
     sel (\<lambda>t. case prospect_of d (t_prospect t) of None \<Rightarrow> False | Some p \<Rightarrow> of_tenant d tenant p) (touches d)"

definition outbox_counts :: "db \<Rightarrow> pystr \<Rightarrow> (pystr \<times> nat) list" where
  "outbox_counts d tenant = group_count (\<lambda>t. status_str (t_status t)) (tenant_touches d tenant)"

record outbox_row =
  ob_name :: "pystr option"
  ob_prospect :: uuid
  ob_cohort :: pystr
  ob_subject :: "pystr option"
  ob_status :: pystr
  ob_step :: int

text \<open>\<open>ORDER BY p.cohort_id, en.display_name\<close>: no name comes last.\<close>

definition outbox_ready :: "db \<Rightarrow> pystr \<Rightarrow> outbox_row list" where
  "outbox_ready d tenant =
     (let rows = List.map_filter (\<lambda>t. case prospect_of d (t_prospect t) of
            None \<Rightarrow> None
          | Some p \<Rightarrow> map_option (\<lambda>e. \<lparr>ob_name = e_name e, ob_prospect = p_id p, ob_cohort = p_cohort p,
              ob_subject = t_subject t, ob_status = status_str (t_status t), ob_step = t_step t\<rparr>) (entity_of d (p_entity p)))
          (sel (\<lambda>t. t_status t \<in> {Drafted, Pending_review}) (tenant_touches d tenant))
      in sort_key ob_cohort
           (sort_key (\<lambda>r. the_default [] (ob_name r)) (filter (\<lambda>r. ob_name r \<noteq> None) rows) @ filter (\<lambda>r. ob_name r = None) rows))"

definition halt_banner :: "db \<Rightarrow> pystr \<Rightarrow> pystr" where
  "halt_banner d tenant =
     (let scopes = halted_scopes d tenant
      in if scopes = [] then []
         else fstr [htm ''<div class=`banner`><b>'', pause_sign, '' Sending is HALTED for '',
                (if GLOBAL_SCOPE \<in> set scopes then ''everything'' else ''this campaign''),
                htm ''.</b> Emails marked <i>ready to send</i> will wait at the gatekeeper until '',
                htm ''a human runs <code>reachout resume</code> '', em_dash, '' nothing goes out while '',
                htm ''this banner is visible.</div>''])"

definition ledger_audit :: "(nat \<Rightarrow> int) \<Rightarrow> nat \<times> audit_row \<Rightarrow> pystr" where
  "ledger_audit when_of ia =
     (case ia of (i, a) \<Rightarrow>
        let get = map_of (a_payload a); transition = (a_event a = ''transition'');
            change = (if transition
              then fstr [state_span (json_text (get ''from'')), '' '', arrow, '' '', state_span (json_text (get ''to''))]
              else fstr [htm ''<span class=`tag`>'', esc (a_event a), htm ''</span>'']);
            why = (if transition then json_or (get ''reason'') [] else json_or (get ''reason'') (json_or (get ''note'') []))
        in fstr [htm ''<tr><td class=`small num`>'', minute_text (when_of i), htm ''</td>'',
             htm ''<td>'', change, htm ''</td><td>'',
             or_else (fstr [htm ''<span class=small>'', em_dash, htm ''</span>'']) (Some (esc why)), htm ''</td>'',
             htm ''<td class=`small`>'', esc (a_actor a), htm ''</td></tr>''])"

definition ledger_escalation :: "escalation_row \<Rightarrow> pystr" where
  "ledger_escalation e = fstr
     [htm ''<tr><td class=`small num`>'', minute_text (es_created e), htm ''</td>'',
      htm ''<td><span class=`state '', (if es_open e then ''warm'' else ''idle''), htm ''`>'',
      ''escalated'', (if es_open e then [] else '' (resolved)''), htm ''</span></td>'',
      htm ''<td>'', esc (es_reason e), htm ''</td><td class=`small`>review queue</td></tr>'']"

definition ledger_rows :: "(nat \<Rightarrow> int) \<Rightarrow> db \<Rightarrow> uuid \<Rightarrow> pystr" where
  "ledger_rows when_of d pid = rows_or (htm ''<tr><td colspan=`4` class=`small`>(no events yet)</td></tr>'')
     (map (ledger_audit when_of) (filter (\<lambda>(_, a). a_type a = ''prospect'' \<and> a_subject a = pid) (List.enumerate 0 (audits d))) @
      map ledger_escalation (sort_key es_created (sel (\<lambda>e. es_type e = ''prospect'' \<and> es_subject e = pid) (escalations d))))"

text \<open>The variable \<open>OR_DASHBOARD_TOKEN\<close> and the query parameter \<open>token\<close>, empty where they are missing.\<close>

definition with_dashboard_token :: "pystr \<Rightarrow> pystr \<Rightarrow> http_error + 'a \<Rightarrow> http_error + 'a" where
  "with_dashboard_token expected token body =
     (if expected \<noteq> [] \<and> token \<noteq> expected then Inl (HTTPException 401 ''dashboard token required (?token=...)'') else body)"

section \<open>The overview\<close>

definition cohort_row :: "(pystr \<Rightarrow> pystr) \<Rightarrow> pystr \<Rightarrow> cohort_summary \<Rightarrow> pystr" where
  "cohort_row persona_text tenant c = fstr
     [htm ''<tr><td><a href=`/dashboard/cohort/'', esc (cs_cohort c), ''?tenant='', esc tenant, htm ''`>'',
      esc (friendly (cs_cohort c)), htm ''</a><br><span class=`small`>'', esc (cs_cohort c), htm ''</span></td>'',
      htm ''<td class=`small`>'', esc (persona_text (cs_persona c)), htm ''</td>'',
      htm ''<td class=`num`>'', nat_str (cs_members c), htm ''</td>'',
      htm ''<td class=`num`>'', nat_str (cs_contacted c), htm ''</td><td class=`num`>'', nat_str (cs_replies c), htm ''</td>'',
      htm ''<td class=`num`>'', nat_str (cs_converted c), htm ''</td></tr>'']"

definition cohort_table :: "(pystr \<Rightarrow> pystr) \<Rightarrow> db \<Rightarrow> pystr \<Rightarrow> pystr" where
  "cohort_table persona_text d tenant = fstr
     [htm ''<table><tr><th>cohort</th><th>persona</th><th>members</th>'',
      htm ''<th>contacted</th><th>replies</th><th>converted</th></tr>'',
      rows_or (htm ''<tr><td colspan=`6` class=`small`>(no prospects yet)</td></tr>'')
        (map (cohort_row persona_text tenant) (cohorts d tenant)), htm ''</table>'']"

definition funnel_row :: "nat \<Rightarrow> pystr \<times> nat \<Rightarrow> pystr" where
  "funnel_row largest r =
     (case r of (stage, n) \<Rightarrow> fstr
        [htm ''<tr><td>'', esc stage, htm ''</td><td class=`num`>'', nat_str n, htm ''</td>'',
         htm ''<td style=`width:45%`><div class=`bar` '', htm ''style=`width:'', nat_str (max (100 * n div largest) 1),
         htm ''%`></div></td></tr>''])"

definition funnel_top :: "funnel_report \<Rightarrow> nat" where
  "funnel_top f = (let m = fold max (map snd (fn_reached f)) 0 in if m = 0 then 1 else m)"

definition funnel_table :: "funnel_report \<Rightarrow> pystr" where
  "funnel_table f = fstr
     [htm ''<table><tr><th>reached stage</th><th>#</th><th></th></tr>'',
      concat (map (funnel_row (funnel_top f)) (fn_reached f)), htm ''</table>'']"

definition exit_table :: "funnel_report \<Rightarrow> pystr" where
  "exit_table f = fstr
     [htm ''<table><tr><th>where</th><th>#</th></tr>'',
      rows_or (fstr [htm ''<tr><td colspan=`2` class=`small`>(none '', em_dash, htm '' nobody lost yet)</td></tr>''])
        (map (\<lambda>(label, n). fstr [htm ''<tr><td>'', esc label, htm ''</td><td class=`num`>'', nat_str n, htm ''</td></tr>''])
          (sort_key (\<lambda>(_, n). - int n) (fn_exits f))),
      htm ''</table>'']"

definition count_of :: "(pystr \<times> nat) list \<Rightarrow> pystr \<Rightarrow> nat" where
  "count_of counts k = the_default 0 (map_of counts k)"

definition overview_section :: "db \<Rightarrow> pystr \<Rightarrow> pystr" where
  "overview_section d tenant =
     (let f = funnel d tenant None; counts = outbox_counts d tenant
      in fstr
        [htm ''<h2><a href=`/dashboard/campaign/'', esc tenant, htm ''`>'', esc (friendly tenant), htm ''</a> '',
         htm ''<span class=`small`>campaign '', em_dash, htm '' click for outbox, research '', htm ''&amp; cohorts</span></h2>'',
         halt_banner d tenant,
         cards [(''ready to send'', nat_str (count_of counts ''drafted'' + count_of counts ''pending_review'')),
           (''reached (contacted)'', nat_str (fn_contacted f)), (''replies'', nat_str (fn_replies f)),
           (''positive replies'', nat_str (fn_positive f)), (''converted'', nat_str (fn_converted f)),
           (''conversion'', if fn_contacted f \<noteq> 0 then percent0 (fn_conversion_rate f) else em_dash)],
         htm ''<h2>Cohorts the system is working</h2>'', cohort_table (\<lambda>x. x) d tenant,
         htm ''<h2>Funnel '', em_dash, htm '' where people are in the flow</h2>'', funnel_table f,
         htm ''<h2>Abandonment '', em_dash, htm '' where the flow loses people</h2>'', exit_table f,
         htm ''<p class=`small`>'', nat_str (length (list_open d (Some tenant))), '' open escalation(s), '',
         nat_str (length (open_proposals d (Some tenant))), '' open '',
         ''proposal(s) '', em_dash, htm '' work them with <code>reachout approve</code>.</p>''])"

definition overview_page :: "pystr \<Rightarrow> pystr \<Rightarrow> db \<Rightarrow> http_error + pystr" where
  "overview_page expected token d = with_dashboard_token expected token (Inr
     (page_of ''Overview''
       (rows_or (htm ''<p>No tenants yet.</p>'') (map (overview_section d) (sort (map tn_slug (tenants d))))) []))"

section \<open>A campaign\<close>

definition outbox_line :: "pystr \<Rightarrow> outbox_row \<Rightarrow> pystr" where
  "outbox_line tenant r = fstr
     [htm ''<tr><td><a href=`/dashboard/member/'', ob_prospect r, ''?tenant='', esc tenant, htm ''`>'',
      esc_opt (ob_name r), htm ''</a></td>'', htm ''<td class=`small`>'', esc (friendly (ob_cohort r)), htm ''</td>'',
      htm ''<td>'', esc (or_else ''(no subject)'' (ob_subject r)),
      (if ob_step r \<noteq> 0 then fstr [htm '' <span class=`tag`>follow-up '', int_str (ob_step r), htm ''</span>''] else []),
      htm ''</td><td>'', touch_status_span (ob_status r), htm ''</td></tr>'']"

definition research_note :: "pystr \<Rightarrow> pystr \<Rightarrow> note_row option \<Rightarrow> pystr" where
  "research_note label missing n =
     (case n of
        Some m \<Rightarrow> fstr [htm ''<div class=`note`><b>'', label, htm ''</b> '',
          htm ''<span class=`small`>('', minute_text (nt_created m), htm '')</span>'',
          htm ''<br>'', esc (nt_summary m), htm ''</div>'']
      | None \<Rightarrow> fstr [htm ''<div class=`note small`>'', missing, em_dash, htm '' run '',
          htm ''<code>reachout research</code>.</div>''])"

definition campaign_page :: "pystr \<Rightarrow> pystr \<Rightarrow> pystr \<Rightarrow> db \<Rightarrow> http_error + pystr" where
  "campaign_page expected token tenant d = with_dashboard_token expected token
     (let f = funnel d tenant None; counts = outbox_counts d tenant
      in Inr (page_of (fstr [''Campaign: '', friendly tenant])
        (fstr
          [halt_banner d tenant,
           cards [(''ready to send'', nat_str (count_of counts ''drafted'')),
             (''awaiting your approval'', nat_str (count_of counts ''pending_review'')),
             (''sent'', nat_str (count_of counts ''dispatched'' + count_of counts ''sent'' + count_of counts ''delivered'')),
             (''replies'', nat_str (fn_replies f)), (''converted'', nat_str (fn_converted f)),
             (''open escalations'', nat_str (length (list_open d (Some tenant)))),
             (''open proposals'', nat_str (length (open_proposals d (Some tenant))))],
           htm ''<h2>Outbox '', em_dash, htm '' emails ready to send &amp; awaiting approval</h2>'',
           htm ''<table><tr><th>to</th><th>cohort</th><th>subject</th>'', htm ''<th>status</th></tr>'',
           rows_or (fstr [htm ''<tr><td colspan=`4` class=`small`>(outbox empty '', em_dash, htm '' nothing is '',
               htm ''waiting to go out)</td></tr>''])
             (map (outbox_line tenant) (outbox_ready d tenant)), htm ''</table>'',
           research_note (fstr [''Campaign research '', em_dash, '' market view'']) ''No campaign-tier research yet ''
             (latest_note d tenant ''campaign'' tenant),
           (case latest_note d tenant ''winloss'' tenant of
              None \<Rightarrow> []
            | Some w \<Rightarrow> fstr [htm ''<div class=`note`><b>Why we win / why we lose</b>'', htm ''<br>'', esc (nt_summary w),
                htm ''</div>'']),
           htm ''<h2>Cohorts in this campaign</h2>'', cohort_table friendly d tenant])
        (fstr [htm ''<p class=`crumb`><a href=`/dashboard`>overview</a> / '', esc tenant, htm ''</p>''])))"

section \<open>A cohort\<close>

definition strategy_row :: "db \<Rightarrow> pystr \<Rightarrow> vstat_row \<Rightarrow> pystr" where
  "strategy_row d tenant v = fstr
     [htm ''<tr><td class=`num`>'', esc (v_id v), htm ''</td><td>'',
      concat (map (\<lambda>(k, x). fstr [htm ''<span class=`tag`>'', esc k, ''='', esc x, htm ''</span>'']) (v_attrs v)),
      htm ''</td><td class=`num`>'', int_str (v_trials v), htm ''</td>'',
      htm ''<td class=`num`>'', int_str (v_successes v), htm ''</td><td class=`num`>'',
      (if v_trials v \<noteq> 0 then percent0 (success_rate v) else em_dash), htm ''</td>'',
      htm ''<td>'', (if v_paused v then htm ''<span class=`state exit`>paused</span>'' else htm ''<span class=`state live`>live</span>''),
      htm ''</td><td class=`small`>'',
      (case latest_note d tenant ''strategy'' (v_id v) of None \<Rightarrow> [] | Some n \<Rightarrow> esc (nt_summary n)), htm ''</td></tr>'']"

definition member_line :: "pystr \<Rightarrow> member_row \<Rightarrow> pystr" where
  "member_line tenant m = fstr
     [htm ''<tr><td><a href=`/dashboard/member/'', mb_prospect m, ''?tenant='', esc tenant, htm ''`>'', esc (mb_name m),
      htm ''</a></td>'', htm ''<td>'', state_span (Some (state_str (mb_state m))), htm ''</td>'',
      htm ''<td class=`small num`>'', esc (case mb_conf m of None \<Rightarrow> em_dash | Some c \<Rightarrow> conf_str c), htm ''</td>'',
      htm ''<td class=`num`>'', nat_str (mb_touches m), htm ''</td><td class=`num`>'', nat_str (mb_replies m),
      htm ''</td></tr>'']"

definition cohort_crumb :: "pystr \<Rightarrow> pystr \<Rightarrow> pystr" where
  "cohort_crumb tenant last_part = fstr
     [htm ''<p class=`crumb`><a href=`/dashboard`>overview</a> / '',
      htm ''<a href=`/dashboard/campaign/'', esc tenant, htm ''`>'', esc tenant, htm ''</a>'', '' / '', last_part, htm ''</p>'']"

text \<open>The tables of the page are passed as part of the crumb, before its heading.\<close>

definition cohort_page :: "pystr \<Rightarrow> pystr \<Rightarrow> pystr \<Rightarrow> pystr \<Rightarrow> db \<Rightarrow> http_error + pystr" where
  "cohort_page expected token cohort tenant d = with_dashboard_token expected token
     (let f = funnel d tenant (Some cohort); rows = members d tenant cohort
      in Inr (page_of (fstr [''Cohort: '', friendly cohort])
        (fstr
          [cards [(''members'', nat_str (length rows)), (''contacted'', nat_str (fn_contacted f)),
             (''replies'', nat_str (fn_replies f)), (''converted'', nat_str (fn_converted f))],
           research_note ''Cohort research'' ''No cohort research yet '' (latest_note d tenant ''cohort'' cohort)])
        (fstr
          [cohort_crumb tenant (esc cohort),
           htm ''<h2>Strategies being tested (bandit arms)</h2>'',
           htm ''<table><tr><th>variant</th><th>attributes</th><th>sends</th>'',
           htm ''<th>positive</th><th>rate</th><th>status</th><th>research</th></tr>'',
           rows_or (htm ''<tr><td colspan=`7`>(no sends yet)</td></tr>'') (map (strategy_row d tenant) (strategies d tenant)),
           htm ''</table>'', htm ''<h2>Members</h2>'',
           htm ''<table><tr><th>member</th><th>state</th><th>email</th>'', htm ''<th>sent</th><th>replies</th></tr>'',
           rows_or (htm ''<tr><td colspan=`5` class=`small`>(none)</td></tr>'') (map (member_line tenant) rows),
           htm ''</table>''])))"

section \<open>A member\<close>

definition website_html :: "fact_row list \<Rightarrow> pystr" where
  "website_html facts =
     (case List.find (\<lambda>f. f_type f = ''website'' \<and> startswith (jstr (f_content f)) ''http'') facts of
        None \<Rightarrow> []
      | Some f \<Rightarrow> fstr [htm ''<p><a href=`'', esc (jstr (f_content f)), htm ''` rel=`noopener noreferrer`>'', link_sign, '' '',
          esc (jstr (f_content f)), htm ''</a> <span class=`small`>their own website, found '', htm ''during research</span></p>''])"

definition evidence_row :: "fact_row \<Rightarrow> pystr" where
  "evidence_row f = fstr
     [htm ''<tr><td><span class=`tag`>'', esc (f_type f), htm ''</span></td>'', htm ''<td><pre>'', esc (jstr (f_content f)),
      htm ''</pre></td>'', htm ''<td class=`small`><a href=`'', esc (f_url f), htm ''`>'', esc (f_url f), htm ''</a><br>'',
      ''observed '', esc (time_text (f_observed f)), htm ''</td></tr>'']"

definition conversation_html :: "conversation_item \<Rightarrow> pystr" where
  "conversation_html c = fstr
     [htm ''<div class=`msg '', (if ci_dir c = In_item then ''in'' else []), htm ''`>'',
      htm ''<div class=`meta`>'', (if ci_dir c = In_item then in_sign @ '' reply'' else out_sign @ '' outbound''),
      '' '', middot, '' '', esc (case ci_when c of None \<Rightarrow> ''draft'' | Some t \<Rightarrow> time_text t), '' '', middot, '' '',
      (if ci_dir c \<noteq> In_item then (case nonempty (ci_status c) of None \<Rightarrow> [] | Some s \<Rightarrow> touch_status_span s) else []),
      (case nonempty (ci_vid c) of None \<Rightarrow> [] | Some v \<Rightarrow> fstr ['' '', middot, '' variant '', esc v]), htm ''</div>'',
      (case nonempty (ci_subject c) of None \<Rightarrow> [] | Some s \<Rightarrow> fstr [htm ''<b>'', esc s, htm ''</b><br>'']),
      htm ''<pre>'', esc (or_else ''(scrubbed)'' (ci_body c)), htm ''</pre></div>'']"

definition member_html :: "(nat \<Rightarrow> int) \<Rightarrow> db \<Rightarrow> pystr \<Rightarrow> member_page \<Rightarrow> pystr" where
  "member_html when_of d tenant m =
     page_of (mp_name m)
       (fstr
         [cards [(''state'', state_str (mp_state m)), (''cohort'', mp_cohort m), (''persona'', mp_persona m),
            (''source'', fstr [mp_source m, '' ('', mp_basis m, '')''])],
          website_html (mp_evidence m),
          htm ''<h2>Background research (Evidence Card)</h2>'',
          htm ''<table><tr><th>type</th><th>fact</th><th>provenance</th></tr>'',
          rows_or (htm ''<tr><td colspan=`3`>(no research yet)</td></tr>'') (map evidence_row (mp_evidence m)), htm ''</table>'',
          htm ''<h2>Conversation history</h2>'',
          rows_or (htm ''<p class=`small`>(no outreach yet)</p>'') (map conversation_html (mp_conversation m)),
          htm ''<h2>State ledger '', em_dash, htm '' why this prospect is where it is</h2>'',
          htm ''<table><tr><th>when</th><th>event</th><th>reason</th>'', htm ''<th>actor</th></tr>'',
          ledger_rows when_of d (mp_prospect m), htm ''</table>''])
       (cohort_crumb tenant (fstr
         [htm ''<a href=`/dashboard/cohort/'', esc (mp_cohort m), ''?tenant='', esc tenant, htm ''`>'',
          esc (friendly (mp_cohort m)), htm ''</a> / '', esc (mp_name m)]))"

definition member_route :: "(nat \<Rightarrow> int) \<Rightarrow> pystr \<Rightarrow> pystr \<Rightarrow> uuid \<Rightarrow> pystr \<Rightarrow> db \<Rightarrow> http_error + pystr" where
  "member_route when_of expected token pid tenant d = with_dashboard_token expected token
     (case member_detail d pid of
        None \<Rightarrow> Inl (HTTPException 404 ''no such prospect'')
      | Some m \<Rightarrow> Inr (member_html when_of d tenant m))"

section \<open>Reading a page as the browser does\<close>

text \<open>Text outside tags, inside a tag, and inside a quoted value. The value is dropped: what is read of a
  tag is its name, its attributes and the quotes.\<close>

datatype html_mode = Outside | In_tag pystr | In_value pystr

fun html_scan :: "html_mode \<Rightarrow> pystr \<Rightarrow> pystr list \<times> html_mode" where
  "html_scan m [] = ([], m)"
| "html_scan Outside (c # s) = (if c = CHR ''<'' then html_scan (In_tag []) s else html_scan Outside s)"
| "html_scan (In_tag acc) (c # s) =
     (if c = CHR ''>'' then (case html_scan Outside s of (ts, m) \<Rightarrow> (acc # ts, m))
      else if c = CHR 0x27 then html_scan (In_value (acc @ [c])) s
      else html_scan (In_tag (acc @ [c])) s)"
| "html_scan (In_value acc) (c # s) =
     (if c = CHR 0x27 then html_scan (In_tag (acc @ [c])) s else html_scan (In_value acc) s)"

text \<open>The tags of the templates, with those of the forms of \<open>api/manage.py\<close>.\<close>

definition TAGS :: "pystr list" where
  "TAGS = map htm
    [''!doctype html'', ''html'', ''head'', ''meta charset=``'', ''meta name=`` content=``'', ''title'',
     ''/title'', ''style'', ''/style'', ''/head'', ''body'', ''header'', ''a href=``'', ''/a'',
     ''span class=``'', ''/span'', ''/header'', ''main'', ''h1'', ''/h1'', ''/main'', ''/body'', ''/html'',
     ''div class=``'', ''/div'', ''b'', ''/b'', ''i'', ''/i'', ''code'', ''/code'', ''tr'', ''td class=``'',
     ''/td'', ''td'', ''span class=small'', ''/tr'', ''td colspan=`` class=``'', ''br'', ''table'', ''th'',
     ''/th'', ''/table'', ''td style=``'', ''div class=`` style=``'', ''h2'', ''/h2'', ''p class=``'', ''/p'',
     ''p'', ''td colspan=``'', ''a href=`` rel=``'', ''pre'', ''/pre'',
     ''form method=`` action=`` style=``'', ''form method=`` action=``'', ''/form'', ''button'', ''button class=``'',
     ''/button'', ''label'', ''label for=``'', ''/label'', ''textarea id=`` name=`` rows=`` style=``'', ''/textarea'',
     ''input name=`` pattern=`` required style=``'', ''input name=`` type=`` value=`` min=`` style=``'']"

text \<open>The same reading that stops at a tag the templates do not have.\<close>

fun html_run :: "html_mode \<Rightarrow> pystr \<Rightarrow> html_mode option" where
  "html_run m [] = Some m"
| "html_run Outside (c # s) = (if c = CHR ''<'' then html_run (In_tag []) s else html_run Outside s)"
| "html_run (In_tag acc) (c # s) =
     (if c = CHR ''>'' then (if acc \<in> set TAGS then html_run Outside s else None)
      else if c = CHR 0x27 then html_run (In_value (acc @ [c])) s
      else html_run (In_tag (acc @ [c])) s)"
| "html_run (In_value acc) (c # s) =
     (if c = CHR 0x27 then html_run (In_tag (acc @ [c])) s else html_run (In_value acc) s)"

lemma html_run_scan:
  "html_run m s = Some m' \<Longrightarrow> set (fst (html_scan m s)) \<subseteq> set TAGS \<and> snd (html_scan m s) = m'"
  by (induction m s rule: html_run.induct) (auto split: if_splits prod.splits)

lemma html_run_append: "html_run m (s @ t) = Option.bind (html_run m s) (\<lambda>m'. html_run m' t)"
  by (induction m s rule: html_run.induct) auto

lemma html_run_fstr [simp]:
  "html_run m (fstr []) = Some m" "html_run m (fstr (p # ps)) = Option.bind (html_run m p) (\<lambda>m'. html_run m' (fstr ps))"
  by (simp_all add: fstr_def html_run_append)

text \<open>A text without the three characters that matter passes through; so does a sequence of pieces
  that each end where they began.\<close>

definition markup_free :: "pystr \<Rightarrow> bool" where
  "markup_free s \<longleftrightarrow> CHR ''<'' \<notin> set s \<and> CHR 0x27 \<notin> set s"

lemma plain_append [simp]: "markup_free (s @ t) \<longleftrightarrow> markup_free s \<and> markup_free t"
  by (auto simp: markup_free_def)

lemma plain_fstr: "markup_free (fstr ps) \<longleftrightarrow> list_all markup_free ps"
  by (induction ps) (auto simp: fstr_def markup_free_def)

lemma html_run_plain: "markup_free s \<Longrightarrow> html_run Outside s = Some Outside" "markup_free s \<Longrightarrow> html_run (In_value acc) s = Some (In_value acc)"
  by (induction s) (auto simp: markup_free_def)

lemma html_run_concat: "(\<And>p. p \<in> set ps \<Longrightarrow> html_run m p = Some m) \<Longrightarrow> html_run m (concat ps) = Some m"
  by (induction ps) (auto simp: html_run_append)

lemma plain_esc: "markup_free (esc s)"
proof -
  have "markup_free (esc_char c)" for c by (auto simp: esc_char_def markup_free_def)
  then show ?thesis by (induction s) (simp_all add: esc_def markup_free_def)
qed

lemma html_run_esc [simp]:
  "html_run Outside (esc s) = Some Outside" "html_run (In_value acc) (esc s) = Some (In_value acc)"
  "html_run Outside (esc_opt x) = Some Outside"
  by (simp_all add: html_run_plain plain_esc esc_opt_def)

lemma nat_str_codes: "c \<in> set (nat_str n) \<Longrightarrow> 48 \<le> code c \<and> code c < 58"
proof (induction n rule: nat_str.induct)
  case (1 n)
  then show ?case by (subst (asm) (2) nat_str.simps) (auto split: if_splits)
qed

lemma plain_nat_str: "markup_free (nat_str n)"
  using nat_str_codes [of "CHR ''<''" n] nat_str_codes [of "CHR 0x27" n] by (auto simp: markup_free_def code_def)

lemma plain_int_str: "markup_free (int_str i)"
  using plain_nat_str by (simp add: int_str_def markup_free_def)

lemma html_run_numbers [simp]:
  "html_run Outside (nat_str n) = Some Outside" "html_run (In_value acc) (nat_str n) = Some (In_value acc)"
  "html_run Outside (int_str i) = Some Outside"
  by (simp_all add: html_run_plain plain_nat_str plain_int_str)

lemma plain_pad: "markup_free s \<Longrightarrow> markup_free (pad w s)"
  by (simp add: pad_def markup_free_def)

lemma plain_minute_text: "markup_free (minute_text t)"
  by (simp add: minute_text_def plain_fstr plain_pad plain_int_str split: prod.split) (simp add: markup_free_def)

lemma plain_percent0: "markup_free (percent0 x)"
  by (simp add: percent0_def plain_fstr plain_int_str) (simp add: markup_free_def)

lemma html_run_times [simp]:
  "html_run Outside (minute_text t) = Some Outside" "html_run Outside (percent0 x) = Some Outside"
  "html_run Outside em_dash = Some Outside" "html_run Outside arrow = Some Outside" "html_run Outside middot = Some Outside"
  "html_run Outside pause_sign = Some Outside" "html_run Outside link_sign = Some Outside"
  "html_run Outside in_sign = Some Outside" "html_run Outside out_sign = Some Outside"
  by (simp_all add: html_run_plain plain_minute_text plain_percent0 em_dash_def arrow_def middot_def pause_sign_def
      link_sign_def in_sign_def out_sign_def)

lemma html_run_rows:
  "html_run Outside s = Some Outside \<Longrightarrow> (\<And>r. r \<in> set rs \<Longrightarrow> html_run Outside r = Some Outside) \<Longrightarrow>
     html_run Outside (rows_or s rs) = Some Outside"
  by (auto simp: rows_or_def or_else_def html_run_concat)

section \<open>The templates\<close>

lemma html_run_htm [simp]:
  "html_run m (htm []) = Some m"
  "html_run Outside (htm (c # s)) = (if c = CHR ''<'' then html_run (In_tag []) (htm s) else html_run Outside (htm s))"
  "html_run (In_tag acc) (htm (c # s)) =
     (if c = CHR ''>'' then (if acc \<in> set TAGS then html_run Outside (htm s) else None)
      else if c = CHR 0x60 \<or> c = CHR 0x27 then html_run (In_value (acc @ [CHR 0x27])) (htm s)
      else html_run (In_tag (acc @ [c])) (htm s))"
  "html_run (In_value acc) (htm (c # s)) =
     (if c = CHR 0x60 \<or> c = CHR 0x27 then html_run (In_tag (acc @ [CHR 0x27])) (htm s) else html_run (In_value acc) (htm s))"
  by (auto simp: htm_def)

lemma tags_listed: "list_all (\<lambda>t. htm t \<in> set TAGS)
    [''!doctype html'', ''html'', ''head'', ''meta charset=``'', ''meta name=`` content=``'', ''title'',
     ''/title'', ''style'', ''/style'', ''/head'', ''body'', ''header'', ''a href=``'', ''/a'',
     ''span class=``'', ''/span'', ''/header'', ''main'', ''h1'', ''/h1'', ''/main'', ''/body'', ''/html'',
     ''div class=``'', ''/div'', ''b'', ''/b'', ''i'', ''/i'', ''code'', ''/code'', ''tr'', ''td class=``'',
     ''/td'', ''td'', ''span class=small'', ''/tr'', ''td colspan=`` class=``'', ''br'', ''table'', ''th'',
     ''/th'', ''/table'', ''td style=``'', ''div class=`` style=``'', ''h2'', ''/h2'', ''p class=``'', ''/p'',
     ''p'', ''td colspan=``'', ''a href=`` rel=``'', ''pre'', ''/pre'',
     ''form method=`` action=`` style=``'', ''form method=`` action=``'', ''/form'', ''button'', ''button class=``'',
     ''/button'', ''label'', ''label for=``'', ''/label'', ''textarea id=`` name=`` rows=`` style=``'', ''/textarea'',
     ''input name=`` pattern=`` required style=``'', ''input name=`` type=`` value=`` min=`` style=``'']"
  by (simp add: TAGS_def)

lemmas template_tags = tags_listed [unfolded htm_def, simplified]

lemma STYLE_plain: "CHR ''<'' \<notin> set STYLE"
  by (simp add: STYLE_def fstr_def nl_def sq_def dq_def)

lemma html_run_STYLE [simp]: "html_run Outside STYLE = Some Outside"
proof -
  have "CHR ''<'' \<notin> set s \<Longrightarrow> html_run Outside s = Some Outside" for s by (induction s) auto
  with STYLE_plain show ?thesis by blast
qed

lemma plain_map_of: "list_all (\<lambda>(k, v). markup_free v) m \<Longrightarrow> markup_free v \<Longrightarrow> markup_free (the_default v (map_of m k))"
  by (induction m) auto

lemma html_run_class [simp]:
  "html_run (In_value acc) (the_default ''idle'' (map_of STATE_CLASS k)) = Some (In_value acc)"
  by (intro html_run_plain plain_map_of) (simp_all add: STATE_CLASS_def markup_free_def)

lemma run_state_span [simp]: "html_run Outside (state_span x) = Some Outside"
  by (simp add: state_span_def template_tags)

lemma run_touch_status [simp]: "html_run Outside (touch_status_span x) = Some Outside"
proof -
  have "markup_free (snd (the_default (x, ''idle'') (map_of TOUCH_STATUS x)))"
  proof (cases "map_of TOUCH_STATUS x")
    case (Some v)
    have "list_all (\<lambda>(k, l, c). markup_free c) TOUCH_STATUS" by (simp add: TOUCH_STATUS_def markup_free_def)
    with map_of_SomeD [OF Some] show ?thesis using Some by (cases v) (auto simp: list_all_iff)
  qed (simp add: markup_free_def)
  then show ?thesis
    by (cases "the_default (x, ''idle'') (map_of TOUCH_STATUS x)")
      (simp add: touch_status_span_def template_tags html_run_plain)
qed

lemma run_cards [simp]: "html_run Outside (cards items) = Some Outside"
  by (simp add: cards_def template_tags)
    (subst html_run_concat; auto simp: template_tags)

lemma run_page:
  "html_run Outside body = Some Outside \<Longrightarrow> html_run Outside crumb = Some Outside \<Longrightarrow>
     html_run Outside (page_of heading body crumb) = Some Outside"
  by (simp add: page_of_def template_tags)

lemma run_halt_banner [simp]: "html_run Outside (halt_banner d tenant) = Some Outside"
  by (simp add: halt_banner_def Let_def template_tags)

lemma run_ledger_audit: "html_run Outside (ledger_audit when_of ia) = Some Outside"
  by (simp add: ledger_audit_def Let_def template_tags or_else_def split: prod.split)

lemma run_ledger_escalation: "html_run Outside (ledger_escalation e) = Some Outside"
  by (simp add: ledger_escalation_def template_tags)

lemma run_ledger_rows [simp]: "html_run Outside (ledger_rows when_of d pid) = Some Outside"
  unfolding ledger_rows_def
  by (rule html_run_rows) (auto simp: template_tags run_ledger_audit run_ledger_escalation)

lemma run_cohort_table [simp]: "html_run Outside (cohort_table g d tenant) = Some Outside"
proof -
  have "html_run Outside (cohort_row g tenant c) = Some Outside" for c
    by (simp add: cohort_row_def template_tags html_run_plain markup_free_def)
  then have "html_run Outside (rows_or (htm ''<tr><td colspan=`6` class=`small`>(no prospects yet)</td></tr>'')
      (map (cohort_row g tenant) (cohorts d tenant))) = Some Outside"
    by (intro html_run_rows) (auto simp: template_tags)
  then show ?thesis by (simp add: cohort_table_def template_tags)
qed

lemma run_funnel_table [simp]: "html_run Outside (funnel_table f) = Some Outside"
proof -
  have "html_run Outside (funnel_row k r) = Some Outside" for k r
    by (simp add: funnel_row_def template_tags split: prod.split)
  then have "html_run Outside (concat (map (funnel_row k) rs)) = Some Outside" for k rs
    by (intro html_run_concat) auto
  then show ?thesis by (simp add: funnel_table_def template_tags)
qed

lemma run_exit_table [simp]: "html_run Outside (exit_table f) = Some Outside"
proof -
  have "html_run Outside (rows_or (fstr [htm ''<tr><td colspan=`2` class=`small`>(none '', em_dash, htm '' nobody lost yet)</td></tr>''])
      (map (\<lambda>(label, n). fstr [htm ''<tr><td>'', esc label, htm ''</td><td class=`num`>'', nat_str n, htm ''</td></tr>'']) rs)) =
    Some Outside" for rs
    by (rule html_run_rows) (auto simp: template_tags)
  then show ?thesis by (simp add: exit_table_def template_tags)
qed

lemma run_overview_section: "html_run Outside (overview_section d tenant) = Some Outside"
  by (simp add: overview_section_def Let_def template_tags)

lemma run_outbox_line: "markup_free (ob_prospect r) \<Longrightarrow> html_run Outside (outbox_line tenant r) = Some Outside"
  by (simp add: outbox_line_def template_tags html_run_plain)

lemma run_research_note [simp]:
  "markup_free label \<Longrightarrow> markup_free missing \<Longrightarrow> html_run Outside (research_note label missing n) = Some Outside"
  by (simp add: research_note_def template_tags html_run_plain split: option.split)

lemma run_strategy_row: "html_run Outside (strategy_row d tenant v) = Some Outside"
proof -
  have "html_run Outside (concat (map (\<lambda>(k, x). fstr [htm ''<span class=`tag`>'', esc k, ''='', esc x, htm ''</span>'']) xs)) =
    Some Outside" for xs
    by (rule html_run_concat) (auto simp: template_tags)
  then show ?thesis by (simp add: strategy_row_def template_tags split: option.split)
qed

lemma run_member_line: "markup_free (mb_prospect m) \<Longrightarrow> html_run Outside (member_line tenant m) = Some Outside"
  by (simp add: member_line_def template_tags html_run_plain)

lemma run_crumb: "html_run Outside x = Some Outside \<Longrightarrow> html_run Outside (cohort_crumb tenant x) = Some Outside"
  by (simp add: cohort_crumb_def template_tags)

lemma run_website [simp]: "html_run Outside (website_html fs) = Some Outside"
  by (simp add: website_html_def template_tags split: option.split)

lemma run_evidence_row: "html_run Outside (evidence_row f) = Some Outside"
  by (simp add: evidence_row_def template_tags)

lemma run_conversation: "html_run Outside (conversation_html c) = Some Outside"
  by (simp add: conversation_html_def template_tags html_run_append split: option.split)

section \<open>No text becomes markup\<close>

text \<open>A page is safe when it is read to its end with the tags of the templates only.\<close>

definition safe_page :: "pystr \<Rightarrow> bool" where
  "safe_page s \<longleftrightarrow> (case html_scan Outside s of (ts, m) \<Rightarrow> set ts \<subseteq> set TAGS \<and> m = Outside)"

lemma safe_pageI: "html_run Outside s = Some Outside \<Longrightarrow> safe_page s"
  using html_run_scan [of Outside s Outside] by (auto simp: safe_page_def split: prod.splits)

text \<open>The ids of prospects are the only texts the templates do not escape; they are UUIDs.\<close>

definition plain_ids :: "db \<Rightarrow> bool" where
  "plain_ids d \<longleftrightarrow> (\<forall>p\<in>set (prospects d). markup_free (p_id p))"

lemma overview_safe: "overview_page expected token d = Inr s \<Longrightarrow> safe_page s"
proof -
  have "html_run Outside (page_of ''Overview'' (rows_or (htm ''<p>No tenants yet.</p>'')
      (map (overview_section d) (sort (map tn_slug (tenants d))))) []) = Some Outside"
    by (intro run_page html_run_rows) (auto simp: template_tags run_overview_section)
  then show "overview_page expected token d = Inr s \<Longrightarrow> safe_page s"
    by (auto simp: overview_page_def with_dashboard_token_def intro: safe_pageI split: if_splits)
qed

lemma outbox_plain:
  assumes "plain_ids d" and "r \<in> set (outbox_ready d tenant)"
  shows "markup_free (ob_prospect r)"
proof -
  from assms(2) have "\<exists>i p. prospect_of d i = Some p \<and> ob_prospect r = p_id p"
    by (force simp: outbox_ready_def Let_def List.map_filter_def split: option.splits)
  with assms(1) show ?thesis by (auto simp: plain_ids_def prospect_of_def fetch_def dest: find_Some_set)
qed

lemma members_plain:
  assumes "plain_ids d" and "m \<in> set (members d tenant cohort)"
  shows "markup_free (mb_prospect m)"
  using assms by (auto simp: members_def plain_ids_def tenant_prospects_def split: option.splits)

lemma campaign_safe:
  assumes "plain_ids d" and "campaign_page expected token tenant d = Inr s"
  shows "safe_page s"
proof -
  have rows: "html_run Outside (rows_or (fstr [htm ''<tr><td colspan=`4` class=`small`>(outbox empty '', em_dash, htm '' nothing is '',
               htm ''waiting to go out)</td></tr>'']) (map (outbox_line tenant) (outbox_ready d tenant))) = Some Outside"
    by (rule html_run_rows) (auto simp: template_tags run_outbox_line outbox_plain [OF assms(1)])
  have "markup_free (fstr [''Campaign research '', em_dash, '' market view''])" "markup_free ''No campaign-tier research yet ''"
    by (simp_all add: markup_free_def fstr_def em_dash_def)
  note note_safe = run_research_note [OF this]
  from assms(2) show ?thesis
    by (auto simp: campaign_page_def with_dashboard_token_def Let_def rows note_safe template_tags
        intro!: safe_pageI run_page split: if_splits option.split)
qed

lemma cohort_safe:
  assumes "plain_ids d" and "cohort_page expected token cohort tenant d = Inr s"
  shows "safe_page s"
proof -
  have "html_run Outside (rows_or (htm ''<tr><td colspan=`7`>(no sends yet)</td></tr>'') (map (strategy_row d tenant) (strategies d tenant))) =
      Some Outside"
    "html_run Outside (rows_or (htm ''<tr><td colspan=`5` class=`small`>(none)</td></tr>'')
       (map (member_line tenant) (members d tenant cohort))) = Some Outside"
    by (rule html_run_rows; auto simp: template_tags run_strategy_row run_member_line members_plain [OF assms(1)])+
  moreover have "markup_free ''Cohort research''" "markup_free ''No cohort research yet ''" by (simp_all add: markup_free_def)
  note run_research_note [OF this]
  ultimately show ?thesis using assms(2)
    by (auto simp: cohort_page_def with_dashboard_token_def Let_def template_tags run_crumb
        intro!: safe_pageI run_page split: if_splits)
qed

lemma member_safe:
  assumes "member_route when_of expected token pid tenant d = Inr s"
  shows "safe_page s"
proof -
  have "html_run Outside (rows_or (htm ''<tr><td colspan=`3`>(no research yet)</td></tr>'') (map evidence_row fs)) = Some Outside"
    "html_run Outside (rows_or (htm ''<p class=`small`>(no outreach yet)</p>'') (map conversation_html cs)) = Some Outside" for fs cs
    by (rule html_run_rows; auto simp: template_tags run_evidence_row run_conversation)+
  then have "html_run Outside (member_html when_of d tenant m) = Some Outside" for m
    unfolding member_html_def by (intro run_page) (simp_all add: template_tags run_crumb)
  with assms show ?thesis
    by (auto simp: member_route_def with_dashboard_token_def intro!: safe_pageI split: if_splits option.splits)
qed

section \<open>The banner tells when nothing goes out\<close>

lemma halt_banner_iff: "halt_banner d tenant \<noteq> [] \<longleftrightarrow> halted_scopes d tenant \<noteq> []"
  by (simp add: halt_banner_def Let_def fstr_def htm_def)

end
