(* ===== verification/Report.thy ===== *)
theory Report
  imports Dashboard "HOL-Library.Multiset"
begin

text \<open>
  \<open>core/report.py\<close>: the operator's digest, one section per query. Groups an \<open>ORDER BY\<close> does not
  separate stand in the order of their first rows.
\<close>

section \<open>Sections\<close>

definition section_lines :: "pystr \<Rightarrow> pystr list \<Rightarrow> pystr list" where
  "section_lines heading ls = [fstr [''## '', heading]] @ (if ls = [] then [''(nothing)''] else ls) @ [[]]"

definition funnel_lines :: "db \<Rightarrow> pystr list" where
  "funnel_lines d = map (\<lambda>((t, s), n). fstr [''- '', t, '': '', s, '' = '', nat_str n])
     (sort_key (\<lambda>((t, s), n). t) (sort_key (\<lambda>((t, s), n). s) (tenant_states d)))"

definition budget_lines :: "db \<Rightarrow> pystr list" where
  "budget_lines d = map (\<lambda>c. fstr [''- '', scope_str (c_type c), '' '', c_id c, '' ('', c_period c, ''): '',
       int_str (c_used c), ''/'', int_str (c_cap c)])
     (sort_key (\<lambda>c. scope_str (c_type c)) (sort_key c_id (sel (\<lambda>c. 0 < c_used c) (counters d))))"

definition intent_counts :: "db \<Rightarrow> (pystr \<times> nat) list" where
  "intent_counts d = most_first (group_count (\<lambda>r. the_default ''unclassified'' (r_intent r)) (replies d))"

definition objection_counts :: "db \<Rightarrow> ((pystr \<times> pystr \<times> pystr) \<times> nat) list" where
  "objection_counts d = most_first (group_count (\<lambda>ob. (o_tenant ob, o_class ob, o_cohort ob)) (objections d))"

text \<open>\<open>'; '.join(f.get(k, []))\<close> of the findings of a note.\<close>

definition finding_texts :: "payload \<Rightarrow> pystr \<Rightarrow> exc + pystr" where
  "finding_texts f k =
     (case map_of f k of
        None \<Rightarrow> Inr []
      | Some (JStr s) \<Rightarrow> Inr (join ''; '' (map (\<lambda>c. [c]) s))
      | Some (JObj kvs) \<Rightarrow> Inr (join ''; '' (map fst kvs))
      | Some (JList xs) \<Rightarrow>
          if list_all (\<lambda>x. case x of JStr _ \<Rightarrow> True | _ \<Rightarrow> False) xs then Inr (join ''; '' (map jstr xs))
          else Inl (OtherError ''TypeError'')
      | Some _ \<Rightarrow> Inl (OtherError ''TypeError''))"

text \<open>\<open>DISTINCT ON (tenant) .. ORDER BY tenant, created_at DESC\<close>: the latest memo of each tenant.\<close>

definition winloss_notes :: "db \<Rightarrow> note_row list" where
  "winloss_notes d =
     (let ns = sel (\<lambda>n. nt_level n = ''winloss'') (rnotes d)
      in List.map_filter (\<lambda>t. least_by (\<lambda>n. - nt_created n) (sel (\<lambda>n. nt_tenant n = t) ns))
           (sort (group_keys nt_tenant ns)))"

definition winloss_lines :: "db \<Rightarrow> exc + pystr list" where
  "winloss_lines d = traverse (\<lambda>n.
       bindE (finding_texts (nt_findings n) ''why_we_win'') (\<lambda>win.
       bindE (finding_texts (nt_findings n) ''why_we_lose'') (\<lambda>lose.
         Inr (fstr [''- '', nt_tenant n, '': '', nt_summary n, nl, ''  win: '', win, nl, ''  lose: '', lose]))))
     (winloss_notes d)"

definition variant_lines :: "db \<Rightarrow> pystr list" where
  "variant_lines d = map (\<lambda>v. fstr [''- '', v_tenant v, ''/'', v_id v, '': '', int_str (v_successes v), ''/'',
       int_str (v_trials v), '' positive'',
       (if v_bounces v \<noteq> 0 then fstr ['', bounces='', int_str (v_bounces v)] else []),
       (if v_complaints v \<noteq> 0 then fstr ['', complaints='', int_str (v_complaints v)] else []),
       (if v_paused v then '' [PAUSED]'' else [])])
     (sort_key v_tenant (sort_key (\<lambda>v. - v_successes v) (sort_key (\<lambda>v. - v_trials v) (vstats d))))"

definition escalation_lines :: "db \<Rightarrow> pystr list" where
  "escalation_lines d = map (\<lambda>e. fstr [''- '', es_id e, '' ['', es_type e, ''] '', es_reason e, '' ('',
       minute_text (es_created e), '')'']) (list_open d None)"

definition proposal_lines :: "db \<Rightarrow> pystr list" where
  "proposal_lines d = map (\<lambda>p. fstr [''- ['', pr_kind p, ''] '', pr_summary p]) (open_proposals d None)"

definition compliance_lines :: "db \<Rightarrow> pystr list" where
  "compliance_lines d =
     fstr [''- suppressions: '', nat_str (length (suppressions d)), '', forget tombstones: '',
       nat_str (length (tombstones d))] #
     map (\<lambda>f. fstr [''- ACTIVE FLAG: '', cf_scope f, '' ('', cf_flag f, '')'']) (flags d)"

definition queue_counts :: "db \<Rightarrow> ((pystr \<times> job_status) \<times> nat) list" where
  "queue_counts d = sort_key (\<lambda>((q, s), n). q) (group_count (\<lambda>j. (j_queue j, j_status j)) (jobs d))"

definition queue_lines :: "db \<Rightarrow> pystr list" where
  "queue_lines d =
     List.map_filter (\<lambda>((q, s), n). case s of
         Ready \<Rightarrow> Some (fstr [''- '', q, '' ready: '', nat_str n])
       | Leased \<Rightarrow> Some (fstr [''- '', q, '' leased: '', nat_str n])
       | _ \<Rightarrow> None) (queue_counts d) @
     List.map_filter (\<lambda>((q, s), n). if s = Dead then Some (fstr [''- DLQ '', q, '': '', nat_str n]) else None) (queue_counts d)"

definition build_report :: "db \<Rightarrow> exc + pystr" where
  "build_report d =
     bindE (winloss_lines d) (\<lambda>winloss. Inr (join nl
       ([''# Open Reachout digest'', []] @
        section_lines ''Funnel'' (funnel_lines d) @
        section_lines ''Budgets'' (budget_lines d) @
        section_lines ''Replies by intent'' (map (\<lambda>(i, n). fstr [''- '', i, '': '', nat_str n]) (intent_counts d)) @
        section_lines (fstr [''Objections (FR-4.3 '', em_dash, '' this is the market research)''])
          (map (\<lambda>((t, cl, co), n). fstr [''- '', t, '' / '', co, '': '', cl, '' x'', nat_str n]) (objection_counts d)) @
        section_lines ''Why we win / why we lose (FR-5.5)'' winloss @
        section_lines ''Variants'' (variant_lines d) @
        section_lines ''Open escalations (reachout approve)'' (escalation_lines d) @
        section_lines ''Open proposals (reachout approve)'' (proposal_lines d) @
        section_lines ''Compliance'' (compliance_lines d) @
        section_lines ''Queues'' (queue_lines d))))"

section \<open>The lists of reachout approve\<close>

text \<open>What \<open>approve\<close> of \<open>cli/main.py\<close> prints without an option: \<open>body.replace("\n", "\n    ")\<close> indents.\<close>

definition indented :: "pystr \<Rightarrow> pystr" where
  "indented s = ''    '' @ concat (map (\<lambda>c. if c = CHR 0x0A then c # ''    '' else [c]) s)"

definition queue_listing :: "pystr \<Rightarrow> pystr \<Rightarrow> ('a \<Rightarrow> pystr list) \<Rightarrow> 'a list \<Rightarrow> pystr list" where
  "queue_listing heading hint f xs =
     (if xs = [] then [] else [fstr [nl, heading, '' ('', nat_str (length xs), ''):'']] @ concat (map f xs) @ [''  '' @ hint])"

definition approve_listing :: "db \<Rightarrow> pystr list" where
  "approve_listing d =
     queue_listing ''Review ramp'' ''decide: reachout approve --send <id> | --reject <id>''
       (\<lambda>(tid, campaign, subject, body). [fstr [''  '', tid, '' ['', campaign, ''] '', subject], indented body]) (list_pending_review d) @
     queue_listing ''Human tasks'' ''record: reachout approve --task-done <id> | --task-skip <id>''
       (\<lambda>h. [fstr [''  '', h_id h, '' '', h_instruction h, ''  ('', h_tenant h, '')''], indented (h_brief h)]) (list_pending d None) @
     (if list_open d None = [] \<and> open_proposals d None = [] then [''nothing open: escalation queue and proposals are clear'']
      else queue_listing ''Escalations'' ''resolve: reachout approve --resolve <id>''
             (\<lambda>e. [fstr [''  '', es_id e, '' ['', es_type e, ''] '', es_reason e, ''  ('', the_default ''None'' (es_tenant e), '')'']])
             (list_open d None) @
           queue_listing ''Proposals'' ''apply: reachout approve --proposal <id>  |  --decline <id>''
             (\<lambda>p. [fstr [''  '', pr_id p, '' ['', pr_kind p, ''] '', pr_summary p, ''  ('', pr_tenant p, '')'']])
             (open_proposals d None))"

text \<open>Nothing open is left out of the lists.\<close>

lemma queue_listing_complete: "x \<in> set xs \<Longrightarrow> set (f x) \<subseteq> set (queue_listing heading hint f xs)"
  by (auto simp: queue_listing_def)

lemma approve_listing_complete:
  assumes "p \<in> set (open_proposals d None)"
  shows "fstr [''  '', pr_id p, '' ['', pr_kind p, ''] '', pr_summary p, ''  ('', pr_tenant p, '')''] \<in> set (approve_listing d)"
proof -
  have "open_proposals d None \<noteq> []" using assms by auto
  with queue_listing_complete [OF assms, of "\<lambda>p. [fstr [''  '', pr_id p, '' ['', pr_kind p, ''] '', pr_summary p, ''  ('', pr_tenant p, '')'']]"]
  show ?thesis by (auto simp: approve_listing_def)
qed

section \<open>What the digest counts\<close>

text \<open>The counts of a group query add up to the rows.\<close>

lemma group_count_total: "(\<Sum>(k, n)\<leftarrow>group_count key t. n) = length t"
  using cnt_sum_keys [of "group_keys key t" t "\<lambda>_. True" key]
  by (simp add: group_count_def comp_def cnt_def)

lemma sum_sort_key: "(\<Sum>x\<leftarrow>sort_key k xs. (f x :: nat)) = (\<Sum>x\<leftarrow>xs. f x)"
  by (metis mset_sort mset_map sum_mset_sum_list)

lemma intent_counts_total: "(\<Sum>(i, n)\<leftarrow>intent_counts d. n) = length (replies d)"
  by (simp add: intent_counts_def most_first_def sum_sort_key group_count_total)

text \<open>Every job that is not done is in a line of the queues.\<close>

lemma queue_counts_total: "(\<Sum>(k, n)\<leftarrow>queue_counts d. n) = length (jobs d)"
  by (simp add: queue_counts_def sum_sort_key group_count_total)

end
