(* ===== verification/Forms.thy ===== *)
theory Forms
  imports Dashboard
begin

text \<open>
  The pages of \<open>api/manage.py\<close>: the queues with a form for every decision, the brief as a form, and what
  its submission answers. The text \<open>`\<close> stands for the quote of the templates, as in the dashboard.
\<close>

section \<open>The queues\<close>

definition form_html :: "pystr \<Rightarrow> pystr \<Rightarrow> pystr \<Rightarrow> bool \<Rightarrow> pystr" where
  "form_html action label token danger = fstr
     [htm ''<form method=`post` action=`'', esc action, ''?manage_token='', esc token, htm ''` '',
      htm ''style=`display:inline`><button'', (if danger then htm '' class=`danger`'' else []), htm ''>'', esc label,
      htm ''</button></form>'']"

definition proposal_card :: "pystr \<Rightarrow> proposal_row \<Rightarrow> pystr" where
  "proposal_card token p = fstr
     [htm ''<div class=`card`><b>['', esc (pr_kind p), htm '']</b> '', esc (pr_summary p),
      (if pr_kind p = ''rebalance'' then htm '' <span class=`state exit`>rebalancing flag</span>'' else []), '' '',
      htm ''<span class=`small`>('', esc (pr_tenant p), htm '')</span> '',
      form_html (fstr [''/dashboard/proposals/'', pr_id p, ''/approve'']) ''approve'' token False,
      form_html (fstr [''/dashboard/proposals/'', pr_id p, ''/decline'']) ''decline'' token True,
      htm ''</div>'']"

definition held_card :: "pystr \<Rightarrow> uuid \<times> pystr \<times> pystr \<times> pystr \<Rightarrow> pystr" where
  "held_card token h = (case h of (tid, campaign, subject, body) \<Rightarrow> fstr
     [htm ''<div class=`card`><b>'', esc campaign, htm ''</b> '', em_dash, '' '', esc subject,
      htm ''<pre>'', esc body, htm ''</pre>'',
      form_html (fstr [''/dashboard/touches/'', tid, ''/send'']) ''send'' token False,
      form_html (fstr [''/dashboard/touches/'', tid, ''/reject'']) ''reject'' token True,
      htm ''</div>''])"

definition task_card :: "pystr \<Rightarrow> task_row \<Rightarrow> pystr" where
  "task_card token h = fstr
     [htm ''<div class=`card`><b>'', esc (h_instruction h), htm ''</b>'',
      htm ''<pre>'', esc (h_brief h), htm ''</pre>'',
      form_html (fstr [''/dashboard/tasks/'', h_id h, ''/done'']) ''done (counts as contact)'' token False,
      form_html (fstr [''/dashboard/tasks/'', h_id h, ''/skip'']) ''skip'' token True,
      htm ''</div>'']"

definition escalation_card :: "escalation_row \<Rightarrow> pystr" where
  "escalation_card e = fstr
     [htm ''<div class=`card`>['', esc (es_type e), ''] '', esc (es_reason e), '' '',
      htm ''<span class=`small`>('', esc_opt (es_tenant e), htm '')</span></div>'']"

text \<open>\<open>p.id\<close> and the other ids stand in the action, which \<open>_form\<close> escapes.\<close>

definition queues_page :: "pystr \<Rightarrow> pystr \<Rightarrow> db \<Rightarrow> http_error + pystr" where
  "queues_page expected token d =
     bindE (check_manage expected token) (\<lambda>token. Inr (page_of ''Queues & management'' (fstr
       [htm ''<p class=`crumb`><a href=`/dashboard`>overview</a> / queues</p>'',
        htm ''<p><a href=`/dashboard/new-campaign?manage_token='', esc token, htm ''`>'',
        htm ''<button>+ start a new campaign</button></a></p>'',
        htm ''<h2>Proposals</h2>'', concat (map (proposal_card token) (open_proposals d None)),
        htm ''<h2>Review ramp</h2>'', concat (map (held_card token) (list_pending_review d)),
        htm ''<h2>Human tasks</h2>'', concat (map (task_card token) (list_pending d None)),
        htm ''<h2>Escalations</h2>'', concat (map escalation_card (list_open d None))]) []))"

section \<open>A new campaign\<close>

definition brief_field :: "pystr \<times> pystr \<times> pystr \<times> nat \<Rightarrow> pystr" where
  "brief_field f = (case f of (name, label, hint, rows) \<Rightarrow> fstr
     [htm ''<p><label for=`'', name, htm ''`><b>'', esc label, htm ''</b><br>'',
      htm ''<span class=`small`>'', esc hint, htm ''</span></label><br>'',
      htm ''<textarea id=`'', name, htm ''` name=`'', name, htm ''` rows=`'', nat_str rows, htm ''` '',
      htm ''style=`width:100%;font:inherit;padding:8px`></textarea></p>''])"

definition BRIEF_FIELDS :: "(pystr \<times> pystr \<times> pystr \<times> nat) list" where
  "BRIEF_FIELDS =
     [(''find'', ''Who should we find?'', ''What kind of people, where (min 20 chars)'', 3),
      (''research'', ''What should we research about them?'', ''What to read on their web presence (min 20 chars)'', 3),
      (''convert'', ''What counts as a conversion?'', ''e.g. provider claims their verified profile'', 1),
      (''name'', ''Your brand name'', fstr [''shown as the sender'', sq, ''s company''], 1),
      (''what_we_do'', ''What you do (the only source of product claims)'',
       ''min 10 chars; the agent can never claim beyond this'', 2),
      (''sender'', ''Sender identity'', fstr [''a real person, e.g. '', dq, ''Dana Whitfield, TheraDirectory'', dq], 1),
      (''physical_address'', ''Physical mailing address (CAN-SPAM)'', ''appears in every message footer'', 1),
      (''signup_link'', ''Signup link (https)'', ''the conversion CTA'', 1)]"

definition new_campaign_form :: "pystr \<Rightarrow> pystr \<Rightarrow> http_error + pystr" where
  "new_campaign_form expected token =
     bindE (check_manage expected token) (\<lambda>token. Inr (page_of ''Start a new campaign'' (fstr
       [htm ''<p class=`crumb`><a href=`/dashboard`>overview</a> / '',
        htm ''<a href=`/dashboard/queues?manage_token='', esc token, htm ''`>queues</a> '',
        htm ''/ new campaign</p>'',
        htm ''<div class=`note`><b>How this works</b> You describe the campaign '',
        htm ''in plain language; the synthesis agent compiles a full program '',
        htm ''(personas, cohorts, generation prompts) and files it as a '',
        htm ''<i>proposal</i> for your review '', em_dash, htm '' nothing launches without your '',
        htm ''approval, and nothing here sends mail.</div>'',
        htm ''<form method=`post` '', htm ''action=`/dashboard/campaigns/new?manage_token='', esc token, htm ''`>'',
        htm ''<p><label><b>Campaign id (slug)</b><br>'',
        htm ''<span class=`small`>lowercase, e.g. nj-providers</span></label><br>'',
        htm ''<input name=`tenant` pattern=`[a-z0-9_-]+` required '',
        htm ''style=`width:50%;font:inherit;padding:8px`></p>'',
        concat (map brief_field BRIEF_FIELDS),
        htm ''<p><label><b>Monthly prospect budget</b></label><br>'',
        htm ''<input name=`monthly_prospects` type=`number` value=`200` '',
        htm ''min=`1` style=`font:inherit;padding:8px`></p>'',
        htm ''<p><button>synthesize program proposal</button></p></form>'']) []))"

definition brief_problem :: "pystr \<Rightarrow> exc \<Rightarrow> pystr" where
  "brief_problem token e = page_of ''Start a new campaign'' (fstr
     [htm ''<div class=`note`><b>That brief needs a fix</b>'',
      htm ''<pre>'', esc (exc_str e), htm ''</pre></div>'',
      htm ''<p><a href=`/dashboard/new-campaign?manage_token='', esc token, htm ''`>'',
      htm ''&larr; back to the form</a></p>'']) []"

definition campaign_queued :: "pystr \<Rightarrow> pystr" where
  "campaign_queued token = page_of ''Campaign queued'' (fstr
     [htm ''<div class=`note`><b>Synthesis queued</b> The worker will compile '',
      htm ''your program and file it as a proposal. Review and approve it in '',
      htm ''<a href=`/dashboard/queues?manage_token='', esc token, htm ''`>the queues'',
      htm ''</a> (or '', [CHR 0x60], ''reachout approve'', [CHR 0x60], htm ''); nothing launches before that.</div>'']) []"

text \<open>What the submission shows: the problem of a brief that does not validate, or that synthesis is
  queued.\<close>

definition submitted_page :: "codec \<Rightarrow> pystr \<Rightarrow> pystr \<Rightarrow> (pystr \<times> pystr) list \<Rightarrow> http_error + pystr" where
  "submitted_page cx expected token form =
     bindE (check_manage expected token) (\<lambda>token.
       case py_int (the_default ''200'' (map_of form ''monthly_prospects'')) of
         Inl e \<Rightarrow> Inl (Server_error e)
       | Inr monthly \<Rightarrow> (case cx_read_brief cx (form_brief form monthly) of
           Inl e \<Rightarrow> Inr (brief_problem token e) | Inr brief \<Rightarrow> Inr (campaign_queued token)))"

text \<open>The page tells what the route did.\<close>

lemma submitted_page_tells:
  "fst (new_campaign_submit cx expected token form d) = bindE (submitted_page cx expected token form)
     (\<lambda>s. Inr (case py_int (the_default ''200'' (map_of form ''monthly_prospects'')) of
        Inl _ \<Rightarrow> False | Inr monthly \<Rightarrow> \<not> isl (cx_read_brief cx (form_brief form monthly))))"
  by (auto simp: new_campaign_submit_def managed_def submitted_page_def split: sum.splits)

section \<open>No text becomes markup\<close>

lemma run_form [simp]: "html_run Outside (form_html action label token danger) = Some Outside"
  by (simp add: form_html_def template_tags html_run_plain markup_free_def)

lemma run_proposal_card: "html_run Outside (proposal_card token p) = Some Outside"
  by (simp add: proposal_card_def template_tags)

lemma run_held_card: "html_run Outside (held_card token h) = Some Outside"
  by (simp add: held_card_def template_tags split: prod.split)

lemma run_task_card: "html_run Outside (task_card token h) = Some Outside"
  by (simp add: task_card_def template_tags)

lemma run_escalation_card: "html_run Outside (escalation_card e) = Some Outside"
  by (simp add: escalation_card_def template_tags)

lemma queues_safe: "queues_page expected token d = Inr s \<Longrightarrow> safe_page s"
proof -
  have "html_run Outside (concat (map (proposal_card t) ps)) = Some Outside" "html_run Outside (concat (map (held_card t) hs)) = Some Outside"
    "html_run Outside (concat (map (task_card t) ts)) = Some Outside" "html_run Outside (concat (map escalation_card es)) = Some Outside"
    for t ps hs ts es
    by (rule html_run_concat; auto simp: run_proposal_card run_held_card run_task_card run_escalation_card)+
  then show "queues_page expected token d = Inr s \<Longrightarrow> safe_page s"
    by (auto simp: queues_page_def bindE_eq_Inr template_tags intro!: safe_pageI run_page)
qed

lemma run_brief_fields [simp]: "html_run Outside (concat (map brief_field BRIEF_FIELDS)) = Some Outside"
proof -
  have "html_run Outside (brief_field f) = Some Outside" if "markup_free (fst f)" for f
    using that by (cases f) (simp add: brief_field_def template_tags html_run_plain)
  moreover have "list_all (\<lambda>f. markup_free (fst f)) BRIEF_FIELDS" by (simp add: BRIEF_FIELDS_def markup_free_def)
  ultimately show ?thesis by (intro html_run_concat) (auto simp: list_all_iff)
qed

lemma new_campaign_safe: "new_campaign_form expected token = Inr s \<Longrightarrow> safe_page s"
  by (auto simp: new_campaign_form_def bindE_eq_Inr template_tags intro!: safe_pageI run_page)

lemma run_brief_problem: "html_run Outside (brief_problem token e) = Some Outside"
  unfolding brief_problem_def by (rule run_page) (simp_all add: template_tags)

lemma run_campaign_queued: "html_run Outside (campaign_queued token) = Some Outside"
  unfolding campaign_queued_def by (rule run_page) (simp_all add: template_tags)

lemma submitted_safe:
  assumes "submitted_page cx expected token form = Inr s"
  shows "safe_page s"
proof (cases "py_int (the_default ''200'' (map_of form ''monthly_prospects''))")
  case (Inr monthly)
  with assms show ?thesis
    by (cases "cx_read_brief cx (form_brief form monthly)")
      (auto simp: submitted_page_def bindE_eq_Inr run_brief_problem run_campaign_queued intro!: safe_pageI)
qed (use assms in \<open>auto simp: submitted_page_def bindE_eq_Inr\<close>)

end
