(* ===== verification/Dnscheck.thy ===== *)
theory Dnscheck
  imports Composer
begin

text \<open>
  \<open>core/dnscheck.py\<close>: what \<open>reachout doctor\<close> says of a sending domain's records. The resolver is a
  parameter: the TXT texts of a name, none when there is no record, and whether there is an MX.
\<close>

datatype severity = OK | WARN | FAIL

record dns_finding =
  df_check :: pystr
  df_severity :: severity
  df_detail :: pystr

definition no_blanks :: "pystr \<Rightarrow> pystr" where
  "no_blanks t = remove_char (CHR '' '') t"

definition endswith :: "pystr \<Rightarrow> pystr \<Rightarrow> bool" where
  "endswith s e \<longleftrightarrow> startswith (rev s) (rev e)"

definition dns :: "pystr \<Rightarrow> severity \<Rightarrow> pystr \<Rightarrow> dns_finding" where
  "dns ch sev detail = \<lparr>df_check = ch, df_severity = sev, df_detail = detail\<rparr>"

definition spf_records :: "pystr list \<Rightarrow> pystr list" where
  "spf_records txts = filter (\<lambda>t. startswith (lower t) ''v=spf1'') txts"

definition evaluate_spf :: "pystr list \<Rightarrow> dns_finding" where
  "evaluate_spf txts =
     (case spf_records txts of
        [] \<Rightarrow> dns ''spf'' FAIL ''no v=spf1 TXT record''
      | _ # _ # _ \<Rightarrow> dns ''spf'' FAIL ''multiple SPF records (receivers reject)''
      | [t] \<Rightarrow>
          let r = lower t
          in if contains r ''+all'' then dns ''spf'' FAIL (fstr [''SPF '', sq, ''+all'', sq, '' authorizes the whole internet''])
             else if endswith (rstrip r) ''?all''
             then dns ''spf'' WARN (fstr [''SPF '', sq, ''?all'', sq, '' is neutral; prefer ~all or -all''])
             else dns ''spf'' OK r)"

definition dmarc_records :: "pystr list \<Rightarrow> pystr list" where
  "dmarc_records txts = filter (\<lambda>t. startswith (no_blanks (lower t)) ''v=dmarc1'') txts"

definition evaluate_dmarc :: "pystr list \<Rightarrow> dns_finding" where
  "evaluate_dmarc txts =
     (case dmarc_records txts of
        [] \<Rightarrow> dns ''dmarc'' FAIL ''no _dmarc TXT record (required by Google/Microsoft bulk-sender rules)''
      | t # _ \<Rightarrow>
          let r = no_blanks (lower t)
          in if contains r ''p=none''
             then dns ''dmarc'' OK ''p=none (the required minimum; consider quarantine once aligned)''
             else if contains r ''p=quarantine'' \<or> contains r ''p=reject'' then dns ''dmarc'' OK r
             else dns ''dmarc'' FAIL (fstr [''DMARC record lacks a policy tag: '', r]))"

text \<open>\<open>t.rstrip(";")\<close>.\<close>

definition rstrip_semi :: "pystr \<Rightarrow> pystr" where
  "rstrip_semi t = rev (dropWhile (\<lambda>c. c = CHR '';'') (rev t))"

definition evaluate_dkim :: "pystr \<Rightarrow> pystr list \<Rightarrow> dns_finding" where
  "evaluate_dkim selector txts =
     (let keyed = filter (\<lambda>t. contains (no_blanks t) ''p='') txts
      in if keyed = [] then dns ''dkim'' FAIL (fstr [''selector '', py_repr selector, '': no DKIM key record''])
         else if list_ex (\<lambda>t. endswith (rstrip_semi (no_blanks t)) ''p='') keyed
         then dns ''dkim'' FAIL (fstr [''selector '', py_repr selector, '': revoked key (empty p=)''])
         else dns ''dkim'' OK (fstr [''selector '', py_repr selector, '' key present'']))"

text \<open>The last candidate looked at: the first that is in order, or the last of all.\<close>

fun first_ok :: "(pystr \<Rightarrow> dns_finding) \<Rightarrow> pystr list \<Rightarrow> dns_finding option" where
  "first_ok ev [] = None"
| "first_ok ev (s # ss) =
     (if df_severity (ev s) = OK then Some (ev s)
      else case first_ok ev ss of None \<Rightarrow> Some (ev s) | Some f \<Rightarrow> Some f)"

definition tuple_repr :: "pystr list \<Rightarrow> pystr" where
  "tuple_repr xs = (case xs of
     [x] \<Rightarrow> fstr [''('', py_repr x, '',)''] | _ \<Rightarrow> fstr [''('', join '', '' (map py_repr xs), '')''])"

definition check_domain :: "pystr \<Rightarrow> (pystr \<Rightarrow> pystr list) \<Rightarrow> (pystr \<Rightarrow> bool) \<Rightarrow> pystr list \<Rightarrow> dns_finding list" where
  "check_domain domain lookup_txt has_mx selectors =
     [evaluate_spf (lookup_txt domain), evaluate_dmarc (lookup_txt (''_dmarc.'' @ domain))] @
     (case first_ok (\<lambda>s. evaluate_dkim s (lookup_txt (fstr [s, ''._domainkey.'', domain]))) selectors of
        None \<Rightarrow> []
      | Some f \<Rightarrow> [if df_severity f = OK then f
          else dns ''dkim'' WARN (fstr [''no DKIM key at common selectors '', tuple_repr selectors, '' '',
                 [CHR 0xE2, CHR 0x80, CHR 0x94], '' pass your real selector if you use a different one''])]) @
     [if has_mx domain then dns ''mx'' OK ''MX present''
      else dns ''mx'' FAIL ''no MX record (replies/bounces have nowhere to go)'']"

section \<open>When a check passes\<close>

lemma dns_sel [simp]: "df_severity (dns ch sev x) = sev" "df_check (dns ch sev x) = ch" "df_detail (dns ch sev x) = x"
  by (simp_all add: dns_def)

lemma spf_ok:
  "df_severity (evaluate_spf txts) = OK \<longleftrightarrow>
     (\<exists>t. spf_records txts = [t] \<and> \<not> contains (lower t) ''+all'' \<and> \<not> endswith (rstrip (lower t)) ''?all'')"
  by (auto simp: evaluate_spf_def Let_def split: list.splits)

lemma dkim_ok:
  "df_severity (evaluate_dkim s txts) = OK \<longleftrightarrow>
     (\<exists>t\<in>set txts. contains (no_blanks t) ''p='') \<and>
     (\<forall>t\<in>set txts. contains (no_blanks t) ''p='' \<longrightarrow> \<not> endswith (rstrip_semi (no_blanks t)) ''p='')"
  by (auto simp: evaluate_dkim_def Let_def filter_empty_conv list_ex_iff)

lemma first_ok_Some: "ss \<noteq> [] \<Longrightarrow> \<exists>f. first_ok ev ss = Some f \<and>
    (df_severity f = OK \<longleftrightarrow> (\<exists>s\<in>set ss. df_severity (ev s) = OK))"
proof (induction ss)
  case (Cons s ss)
  show ?case
  proof (cases "ss = []")
    case False
    with Cons.IH show ?thesis by (cases "df_severity (ev s) = OK") auto
  qed simp
qed simp

text \<open>A subdomain policy passes for a policy.\<close>

lemma dmarc_subdomain_policy: "df_severity (evaluate_dmarc [''v=DMARC1; sp=none'']) = OK"
  by code_simp

end
