(* ===== verification/Rehearsal.thy ===== *)
theory Rehearsal
  imports Sources Mail Dnscheck Entrypoints "HOL-Library.Multiset"
begin

text \<open>
  What runs without a database: the stand-ins of \<open>adapters/fakes.py\<close>, the dry run of
  \<open>core/dryrun.py\<close>, and the commands of \<open>cli/main.py\<close> that look at a configuration only:
  \<open>validate\<close>, \<open>doctor\<close>, \<open>init\<close> and \<open>dry-run\<close>. A command gives what it writes and prints; leaving
  with an exit status is an exception.
\<close>

section \<open>fakes.py\<close>

definition fake_source :: "candidate list \<Rightarrow> source_adapter" where
  "fake_source cands filters cursor = Inr (cands, None)"

definition fake_enrich :: "int \<Rightarrow> candidate \<Rightarrow> exc + evidence_fact list" where
  "fake_enrich t cand = Inr
     [\<lparr>ef_id = ''fact-1'', ef_type = ''bio'',
       ef_content = fstr [cd_name cand, '' runs '', or_else ''a business'' (cd_org cand)],
       ef_url = or_else ''https://example.test'' (cd_website cand), ef_observed = t\<rparr>]"

definition fake_find :: "candidate \<Rightarrow> exc + pystr option" where
  "fake_find cand = Inr (nonempty (cd_email cand))"

definition fake_verify :: "pystr \<Rightarrow> exc + confidence" where
  "fake_verify email = Inr (if startswith email ''bounce'' then Undeliverable else Verified)"

definition FAKE_SECRET :: pystr where
  "FAKE_SECRET = ''fake-secret''"

record fake_sender =
  fs_sent :: "(claimed_touch \<times> pystr \<times> pystr) list"
  fs_leads :: "pystr list"
  fs_tenants :: "pystr list"

definition fake_send :: "claimed_touch \<Rightarrow> pystr \<Rightarrow> pystr \<Rightarrow> fake_sender \<Rightarrow> payload \<times> fake_sender" where
  "fake_send c subject body s =
     ([(''fake_id'', JStr (ct_touch c))], s\<lparr>fs_sent := fs_sent s @ [(c, subject, body)]\<rparr>)"

definition fake_pause_lead :: "pystr \<Rightarrow> fake_sender \<Rightarrow> fake_sender" where
  "fake_pause_lead email s = s\<lparr>fs_leads := fs_leads s @ [email]\<rparr>"

definition fake_pause_all :: "pystr \<Rightarrow> fake_sender \<Rightarrow> fake_sender" where
  "fake_pause_all tenant s = s\<lparr>fs_tenants := fs_tenants s @ [tenant]\<rparr>"

definition event_kind_of :: "json \<Rightarrow> exc + event_kind" where
  "event_kind_of v =
     (case List.find (\<lambda>k. JStr (kind_str k) = v) [REPLY_event, BOUNCE, COMPLAINT, UNSUBSCRIBE, SENT, DELIVERED] of
        None \<Rightarrow> Inl (ValueError (fstr [jstr v, '' is not a valid EventKind''])) | Some k \<Rightarrow> Inr k)"

definition text_items :: "json \<Rightarrow> exc + (pystr \<times> pystr) list" where
  "text_items v =
     (case v of JObj kvs \<Rightarrow> traverse (\<lambda>(k, w). case w of JStr s \<Rightarrow> Inr (k, s) | _ \<Rightarrow> Inl (ValueError ''touch_ref'')) kvs
      | _ \<Rightarrow> Inl (ValueError ''touch_ref''))"

text \<open>\<open>loads\<close> is \<open>json.loads\<close>.\<close>

definition fake_parse_webhook ::
  "(pystr \<Rightarrow> exc + json) \<Rightarrow> pystr \<Rightarrow> pystr \<Rightarrow> pystr \<Rightarrow> exc + provider_event list" where
  "fake_parse_webhook loads secret body signature =
     bindE (compare_digest (hmac256 secret body) signature) (\<lambda>same.
       if \<not> same then Inl (WebhookVerificationError ''bad signature'')
       else bindE (loads body) (\<lambda>v. case v of
           JObj kvs \<Rightarrow>
             bindE (jget kvs ''id'') (\<lambda>i. bindE (jget kvs ''kind'') (\<lambda>kv. bindE (event_kind_of kv) (\<lambda>k.
             bindE (text_items (the_default (JObj []) (map_of kvs ''touch_ref''))) (\<lambda>ref.
             case the_default (JObj []) (map_of kvs ''payload'') of
               JObj pl \<Rightarrow> Inr [\<lparr>pv_id = jstr i, pv_kind = k, pv_ref = ref, pv_payload = pl\<rparr>]
             | _ \<Rightarrow> Inl (ValueError ''payload'')))))
         | _ \<Rightarrow> Inl (OtherError ''TypeError'')))"

text \<open>A canned backend; \<open>model_validate\<close> is pydantic's.\<close>

definition fake_complete :: "(pystr \<times> json) list \<Rightarrow> (json \<Rightarrow> exc + 'a) \<Rightarrow> pystr \<Rightarrow> exc + 'a" where
  "fake_complete canned model_validate task =
     (case map_of canned task of
        None \<Rightarrow> Inl (KeyError (fstr [''FakeLLM has no canned output for task '', py_repr task]))
      | Some v \<Rightarrow> model_validate v)"

section \<open>The scripted backend\<close>

text \<open>\<open>str.splitlines\<close>: the first argument counts the characters of a break still to pass.\<close>

fun lines_from :: "nat \<Rightarrow> pystr \<Rightarrow> pystr \<Rightarrow> pystr list" where
  "lines_from k acc [] = (if acc = [] then [] else [rev acc])"
| "lines_from (Suc k) acc (c # s) = lines_from k acc s"
| "lines_from 0 acc (c # s) =
     (case line_break (c # s) of 0 \<Rightarrow> lines_from 0 (c # acc) s | Suc n \<Rightarrow> rev acc # lines_from n [] s)"

definition splitlines :: "pystr \<Rightarrow> pystr list" where
  "splitlines s = lines_from 0 [] s"

definition first_fact_id :: "pystr \<Rightarrow> pystr option" where
  "first_fact_id prompt =
     map_option (\<lambda>line. strip (drop_prefix ''fact_id='' line))
       (List.find (\<lambda>line. startswith line ''fact_id='') (splitlines prompt))"

definition no_script :: "pystr \<Rightarrow> exc + 'a" where
  "no_script task = Inl (KeyError (fstr [''ScriptedLLM has no script for task '', py_repr task]))"

definition scripted_compose :: "vctx \<Rightarrow> pystr \<Rightarrow> pystr \<Rightarrow> compose_output" where
  "scripted_compose ctx sender prompt =
     \<lparr>co_subject = ''A small, honest pitch'',
      co_body = fstr [''Hi - I noticed your work and thought this might genuinely fit. '',
        ''Drafting here is AI-assisted; a human reads every reply.'', nl, nl,
        ''- '', sender, nl, physical_address ctx, nl, unsubscribe_text ctx],
      co_claims = (case nonempty (first_fact_id prompt) of
          None \<Rightarrow> [] | Some i \<Rightarrow> [\<lparr>cc_text = ''referenced evidence'', cc_fact = i\<rparr>]),
      co_injection = False\<rparr>"

definition scripted_llm :: "vctx \<Rightarrow> pystr \<Rightarrow> llm_backend" where
  "scripted_llm ctx sender =
     \<lparr>lm_compose = (\<lambda>_ prompt. Inr (scripted_compose ctx sender prompt)),
      lm_groundedness = (\<lambda>_. Inr \<lparr>go_grounded = True, go_unsupported = [], go_injection = False\<rparr>),
      lm_qualify = (\<lambda>_. Inr \<lparr>qo_verdict = ''qualified'', qo_rationale = ''scripted: matches persona'', qo_injection = False\<rparr>),
      lm_compose_reply = (\<lambda>_ _. no_script ''compose_reply''), lm_classify = (\<lambda>_. no_script ''classify_reply''),
      lm_synthesize = (\<lambda>_ _. no_script ''synthesize_program''), lm_brainstorm = (\<lambda>_. no_script ''brainstorm_goals''),
      lm_narrate = (\<lambda>_. no_script ''discovery_research''), lm_winloss = (\<lambda>_. no_script ''winloss_synth''),
      lm_web = (\<lambda>_. no_script ''web_enrich'')\<rparr>"

section \<open>The dry run\<close>

record dry_run_report =
  dy_composed :: "(pystr \<times> pystr \<times> compose_result) list"
  dy_disqualified :: "(pystr \<times> pystr \<times> pystr) list"
  dy_escalated :: "(pystr \<times> pystr \<times> pystr) list"

definition dry_item :: "pystr \<times> pystr \<times> pystr \<Rightarrow> pystr" where
  "dry_item x = (case x of (c, n, why) \<Rightarrow> fstr [''- ['', c, ''] '', n, '': '', why])"

definition to_markdown :: "dry_run_report \<Rightarrow> pystr" where
  "to_markdown r = join nl
     ([''# Dry-run review'', [],
       fstr [nat_str (length (dy_composed r)), '' would-send drafts, '', nat_str (length (dy_disqualified r)),
         '' disqualified, '', nat_str (length (dy_escalated r)), '' escalated. Nothing was sent.'']] @
      concat (map (\<lambda>(cohort, name, res).
        [[], fstr [''## ['', cohort, ''] '', name], fstr [''**Subject:** '', dr_subject (cr_draft res)], [],
         dr_body (cr_draft res), [],
         ''*Claims:* '' @ or_none (join ''; '' (map (\<lambda>c. fstr [cc_text c, '' ['', cc_fact c, '']'']) (co_claims (cr_output res))))])
        (dy_composed r)) @
      (if dy_disqualified r = [] then [] else [[], ''## Disqualified''] @ map dry_item (dy_disqualified r)) @
      (if dy_escalated r = [] then [] else [[], ''## Escalated to review''] @ map dry_item (dy_escalated r))) @ nl"

text \<open>One prospect: the list of the report it ends in. Whatever else the composer or the values raise
  leaves the run.\<close>

datatype sample_outcome = Composed_sample compose_result | Disqualified_sample pystr | Escalated_sample pystr

definition compose_sample ::
  "registry \<Rightarrow> int \<Rightarrow> llm_backend \<Rightarrow> tenant_config \<Rightarrow> persona_spec \<Rightarrow> pystr \<Rightarrow> pystr \<Rightarrow> vctx \<Rightarrow> candidate \<Rightarrow>
     evidence_fact list \<Rightarrow> exc + sample_outcome" where
  "compose_sample reg t llm cfg persona prompt trusted ctx cand crd =
     (case bindE (build_values t prompt cand crd cfg persona []) (\<lambda>vals.
             compose reg llm \<lparr>ci_variant = ''dryrun'', ci_prompt = prompt, ci_values = vals, ci_ctx = ctx,
               ci_trusted = trusted, ci_step = 0\<rparr>) of
        Inr res \<Rightarrow> Inr (Composed_sample res)
      | Inl e \<Rightarrow> if composer_gave_up e then Inr (Escalated_sample (exc_str e)) else Inl e)"

definition judge_sample ::
  "registry \<Rightarrow> int \<Rightarrow> enrich_adapters \<Rightarrow> llm_backend \<Rightarrow> tenant_config \<Rightarrow> persona_spec \<Rightarrow> pystr \<Rightarrow> pystr \<Rightarrow> vctx \<Rightarrow>
     candidate \<Rightarrow> exc + sample_outcome" where
  "judge_sample reg t ad llm cfg persona prompt trusted ctx cand =
     bindE (ad_enrich ad cand) (\<lambda>crd.
     bindE (ad_find ad cand) (\<lambda>found.
     bindE (case found of None \<Rightarrow> Inr True | Some e \<Rightarrow> bindE (ad_verify ad e) (\<lambda>b. Inr (b = Verified))) (\<lambda>deliverable.
       if \<not> deliverable then Inr (Disqualified_sample ''email failed verification'')
       else bindE (qualify llm crd (ps_description persona)) (\<lambda>v.
         if qr_escalate v then Inr (Escalated_sample ''injection suspicion during qualification'')
         else if \<not> qr_qualified v then Inr (Disqualified_sample (qr_rationale v))
         else compose_sample reg t llm cfg persona prompt trusted ctx cand crd))))"

definition record_sample :: "pystr \<Rightarrow> pystr \<Rightarrow> sample_outcome \<Rightarrow> dry_run_report \<Rightarrow> dry_run_report" where
  "record_sample cohort name oc r =
     (case oc of
        Composed_sample res \<Rightarrow> r\<lparr>dy_composed := dy_composed r @ [(cohort, name, res)]\<rparr>
      | Disqualified_sample why \<Rightarrow> r\<lparr>dy_disqualified := dy_disqualified r @ [(cohort, name, why)]\<rparr>
      | Escalated_sample why \<Rightarrow> r\<lparr>dy_escalated := dy_escalated r @ [(cohort, name, why)]\<rparr>)"

definition process_sample ::
  "registry \<Rightarrow> int \<Rightarrow> enrich_adapters \<Rightarrow> llm_backend \<Rightarrow> tenant_config \<Rightarrow> persona_spec \<Rightarrow> pystr \<Rightarrow> pystr \<Rightarrow> pystr \<Rightarrow> vctx \<Rightarrow>
     candidate \<Rightarrow> dry_run_report \<Rightarrow> exc + dry_run_report" where
  "process_sample reg t ad llm cfg persona cohort prompt trusted ctx cand r =
     bindE (judge_sample reg t ad llm cfg persona prompt trusted ctx cand) (\<lambda>oc.
       Inr (record_sample cohort (cd_name cand) oc r))"

definition sample_cohort ::
  "registry \<Rightarrow> int \<Rightarrow> enrich_adapters \<Rightarrow> llm_backend \<Rightarrow> tenant_config \<Rightarrow> (pystr \<times> source_adapter) list \<Rightarrow> nat \<Rightarrow>
     persona_spec \<Rightarrow> variant_spec \<Rightarrow> cohort_spec \<Rightarrow> dry_run_report \<Rightarrow> exc + dry_run_report" where
  "sample_cohort reg t ad llm cfg sources n persona variant cohort r =
     (if ch_trigger cohort \<noteq> None then Inr r
      else case List.find (\<lambda>s. map_of sources s \<noteq> None) (ch_sources cohort) of
        None \<Rightarrow> Inr r
      | Some s \<Rightarrow>
          bindE (the (map_of sources s) (ch_filters cohort) None) (\<lambda>(cands, _).
            foldE (process_sample reg t ad llm cfg persona (ch_id cohort) (vs_prompt variant)
                     (trusted_context cfg persona) (validator_context cfg)) (take n cands) r))"

definition dry_run ::
  "registry \<Rightarrow> int \<Rightarrow> enrich_adapters \<Rightarrow> llm_backend \<Rightarrow> tenant_config \<Rightarrow> (pystr \<times> source_adapter) list \<Rightarrow> nat \<Rightarrow>
     exc + dry_run_report" where
  "dry_run reg t ad llm cfg sources n =
     foldE (\<lambda>persona r.
         case ps_variants persona of
           [] \<Rightarrow> Inl (OtherError ''list index out of range'')
         | variant # _ \<Rightarrow> foldE (sample_cohort reg t ad llm cfg sources n persona variant) (ps_cohorts persona) r)
       (tc_personas cfg) \<lparr>dy_composed = [], dy_disqualified = [], dy_escalated = []\<rparr>"

section \<open>init and dry-run\<close>

definition exit_with :: "nat \<Rightarrow> exc" where
  "exit_with n = OtherError (fstr [''Exit '', nat_str n])"

definition sample_prospect :: "pystr \<Rightarrow> pystr \<Rightarrow> pystr \<Rightarrow> nat \<Rightarrow> candidate" where
  "sample_prospect label host source i =
     \<lparr>cd_name = fstr [''Sample Prospect'', nat_str i, label], cd_org = Some (fstr [''Sample Org '', nat_str i]),
      cd_website = Some ''https://example.test'', cd_email = Some (fstr [''prospect'', nat_str i, ''@'', host]),
      cd_phone = None, cd_address = None, cd_source = source, cd_ref = [], cd_basis = ''government_public''\<rparr>"

definition fake_adapters :: "int \<Rightarrow> enrich_adapters" where
  "fake_adapters t = \<lparr>ad_enrich = fake_enrich t, ad_find = fake_find, ad_verify = fake_verify\<rparr>"

definition init_sources :: "nat \<Rightarrow> tenant_config \<Rightarrow> (pystr \<times> source_adapter) list" where
  "init_sources sample cfg =
     fold (\<lambda>s. dict_set s (fake_source (map (sample_prospect [] ''sample.example.test'' s) [0..<sample])))
       (concat (map ch_sources (concat (map ps_cohorts (tc_personas cfg))))) []"

definition program_summary_lines :: "pystr \<Rightarrow> tenant_config \<Rightarrow> pystr list" where
  "program_summary_lines mode cfg =
     [''# Program Proposal'', [], fstr [''- mode: '', mode],
      fstr [''- tenant: '', tc_tenant cfg, '' (autonomy: '', bf_autonomy (tc_brief cfg), '')''],
      fstr [''- provenance: '', (case tc_generated cfg of None \<Rightarrow> ''hand-written'' | Some g \<Rightarrow> gb_agent g),
        '' hash='', (case tc_generated cfg of None \<Rightarrow> ''-'' | Some g \<Rightarrow> gb_hash g)],
      [], ''## Cohorts''] @
     concat (map (\<lambda>p. map (\<lambda>c. fstr [''- '', ps_id p, ''/'', ch_id c, '': '', int_str (ch_budget c), ''/mo via '',
         join '', '' (ch_sources c), '' ('', nat_str (length (ps_variants p)), '' variants)'']) (ps_cohorts p))
       (tc_personas cfg)) @
     [[], ''## Sample emails (scripted placeholders; live LLM at dry-run)'', []]"

text \<open>\<open>init\<close>: \<open>backend\<close> is the model and its name, none for the scaffold; \<open>dump\<close> is PyYAML. The result
  is the two files written and the number of escalated samples.\<close>

definition init_program :: "codec \<Rightarrow> (pystr \<times> llm_backend) option \<Rightarrow> brief_spec \<Rightarrow> pystr \<Rightarrow> exc + tenant_config \<times> pystr" where
  "init_program cx backend brief tenant =
     (case backend of
        None \<Rightarrow> bindE (template_program cx brief tenant) (\<lambda>cfg.
          Inr (cfg, ''deterministic scaffold (edit before launch; --llm gemini for real synthesis)''))
      | Some (name, llm) \<Rightarrow>
          (case synthesize cx llm brief tenant of
             Inl (SynthesisEscalation m) \<Rightarrow> Inl (exit_with 1)
           | Inl e \<Rightarrow> Inl e
           | Inr cfg \<Rightarrow> Inr (cfg, fstr [''synthesized via '', name])))"

definition init_command ::
  "registry \<Rightarrow> codec \<Rightarrow> (tenant_config \<Rightarrow> pystr) \<Rightarrow> int \<Rightarrow> (pystr \<times> llm_backend) option \<Rightarrow> brief_spec \<Rightarrow> pystr \<Rightarrow> nat \<Rightarrow>
     exc + pystr \<times> pystr \<times> nat" where
  "init_command reg cx dump t backend brief tenant sample =
     bindE (init_program cx backend brief tenant) (\<lambda>(cfg, mode).
       bindE (dry_run reg t (fake_adapters t) (scripted_llm (validator_context cfg) (id_sender (ab_identity (bf_about (tc_brief cfg)))))
                cfg (init_sources sample cfg) sample) (\<lambda>r.
         Inr (dump cfg, fstr [join nl (program_summary_lines mode cfg), nl, to_markdown r], length (dy_escalated r))))"

text \<open>\<open>dry-run\<close>: the registry's file is the source \<open>nppes\<close>; any other name is a stand-in made for the
  first cohort that uses it.\<close>

definition nppes_source :: "pystr \<Rightarrow> source_adapter" where
  "nppes_source content filters cursor = nppes_discover content filters (map_option jstr cursor)"

definition dry_run_sources :: "nat \<Rightarrow> pystr option \<Rightarrow> tenant_config \<Rightarrow> (pystr \<times> source_adapter) list" where
  "dry_run_sources n csv cfg =
     fold (\<lambda>(c, s) m.
         if s = ''nppes'' \<and> csv \<noteq> None then dict_set s (nppes_source (the csv)) m
         else if map_of m s \<noteq> None then m
         else dict_set s (fake_source (map (sample_prospect (fstr ['' ('', ch_id c, '')'']) (ch_id c @ ''.example.test'') s) [0..<n])) m)
       (concat (map (\<lambda>c. map (\<lambda>s. (c, s)) (ch_sources c)) (concat (map ps_cohorts (tc_personas cfg))))) []"

definition dry_run_command ::
  "registry \<Rightarrow> int \<Rightarrow> llm_backend option \<Rightarrow> pystr option \<Rightarrow> tenant_config \<Rightarrow> nat \<Rightarrow> exc + dry_run_report \<times> pystr" where
  "dry_run_command reg t backend csv cfg n =
     (let llm = the_default (scripted_llm (validator_context cfg) (id_sender (ab_identity (bf_about (tc_brief cfg))))) backend;
          ad = (if csv = None then fake_adapters t else (fake_adapters t)\<lparr>ad_enrich := (\<lambda>cand. Inr (registry_enrich t cand))\<rparr>)
      in bindE (dry_run reg t ad llm cfg (dry_run_sources n csv cfg) n) (\<lambda>r. Inr (r, to_markdown r)))"

section \<open>validate and doctor\<close>

text \<open>The files found, each with what loading it gives; every error of loading is a \<open>ConfigError\<close>.
  The result is what is printed and the exit status.\<close>

definition validate_line :: "pystr \<Rightarrow> exc + tenant_config \<Rightarrow> exc + pystr list \<times> nat" where
  "validate_line file loaded =
     (case loaded of
        Inl e \<Rightarrow> Inr ([''FAIL '' @ file, ''  '' @ exc_str e], 1)
      | Inr cfg \<Rightarrow> bindE (expand_autonomy (bf_autonomy (tc_brief cfg))) (\<lambda>kn.
          Inr ([''ok   '' @ file,
                fstr [''     tenant='', tc_tenant cfg, '' autonomy='', bf_autonomy (tc_brief cfg), '' (cohort_launch='',
                  kn_cohorts kn, '') personas=['', join '', '' (map ps_id (tc_personas cfg)), '']'']], 0)))"

definition validate_command :: "pystr \<Rightarrow> (pystr \<times> (exc + tenant_config)) list \<Rightarrow> exc + pystr list \<times> nat" where
  "validate_command path files =
     (if files = [] then Inr ([''no tenant.yaml found under '' @ path], 2)
      else bindE (foldE (\<lambda>(file, loaded) (lines, failures). bindE (validate_line file loaded) (\<lambda>(l, k).
               Inr (lines @ l, failures + k))) files ([], 0)) (\<lambda>(lines, failures).
             Inr (lines, if failures = 0 then 0 else 1)))"

text \<open>\<open>doctor\<close>: the environment, \<open>json.loads\<close> and the resolver are parameters. The result is the
  problems, and the lines printed besides.\<close>

definition doctor_domains :: "json \<Rightarrow> exc + pystr list" where
  "doctor_domains v =
     bindE (case v of JObj kvs \<Rightarrow> Inr (map fst kvs) | JList xs \<Rightarrow> Inr (map jstr xs) | JStr s \<Rightarrow> Inr (map (\<lambda>c. [c]) s)
            | _ \<Rightarrow> Inl (OtherError ''TypeError''))
       (\<lambda>addrs. Inr (sort (remdups (map domain_of addrs))))"

definition doctor_finding :: "pystr \<Rightarrow> dns_finding \<Rightarrow> pystr list \<times> pystr list \<Rightarrow> pystr list \<times> pystr list" where
  "doctor_finding domain f r =
     (let line = fstr [domain, '' '', df_check f, '': '', df_detail f]
      in case r of (problems, printed) \<Rightarrow>
        (case df_severity f of
           FAIL \<Rightarrow> (problems @ [line], printed)
         | WARN \<Rightarrow> (problems, printed @ [''warn: '' @ line])
         | OK \<Rightarrow> (problems, printed @ [''ok   '' @ line])))"

definition doctor ::
  "(pystr \<Rightarrow> pystr option) \<Rightarrow> (pystr \<Rightarrow> exc + json) \<Rightarrow> (pystr \<Rightarrow> pystr list) \<Rightarrow> (pystr \<Rightarrow> bool) \<Rightarrow>
     exc + pystr list \<times> pystr list" where
  "doctor env loads lookup_txt has_mx =
     (let get = (\<lambda>k. the_default [] (env k));
          problems = (if get ''OR_DATABASE_DSN'' = [] then [''OR_DATABASE_DSN is not set''] else []) @
            (if get ''OR_API_TOKENS'' \<noteq> [] \<and> length (get ''OR_API_TOKENS'') < 16
             then [''OR_API_TOKENS looks too short to be a real credential''] else [])
      in if get ''OR_SMTP_MAILBOXES'' = [] then Inr (problems, [])
         else bindE (loads (get ''OR_SMTP_MAILBOXES'')) (\<lambda>v. bindE (doctor_domains v) (\<lambda>domains.
           Inr (fold (\<lambda>domain r. fold (doctor_finding domain)
                  (check_domain domain lookup_txt has_mx [''google'', ''default'', ''selector1'']) r) domains (problems, [])))))"

section \<open>What a dry run accounts for\<close>

text \<open>The prospects a dry run samples, by cohort and name.\<close>

definition sampled :: "(pystr \<times> source_adapter) list \<Rightarrow> nat \<Rightarrow> cohort_spec \<Rightarrow> (pystr \<times> pystr) list" where
  "sampled sources n cohort =
     (if ch_trigger cohort \<noteq> None then []
      else case List.find (\<lambda>s. map_of sources s \<noteq> None) (ch_sources cohort) of
        None \<Rightarrow> []
      | Some s \<Rightarrow> (case the (map_of sources s) (ch_filters cohort) None of
          Inl _ \<Rightarrow> [] | Inr (cands, _) \<Rightarrow> map (\<lambda>cand. (ch_id cohort, cd_name cand)) (take n cands)))"

definition accounted :: "dry_run_report \<Rightarrow> (pystr \<times> pystr) multiset" where
  "accounted r = mset (map (\<lambda>(c, n, _). (c, n)) (dy_composed r)) +
     mset (map (\<lambda>(c, n, _). (c, n)) (dy_disqualified r)) + mset (map (\<lambda>(c, n, _). (c, n)) (dy_escalated r))"

lemma process_sample_accounts:
  assumes "process_sample reg t ad llm cfg persona cohort prompt trusted ctx cand r = Inr r'"
  shows "accounted r' = add_mset (cohort, cd_name cand) (accounted r)"
proof -
  from assms obtain oc where "r' = record_sample cohort (cd_name cand) oc r" by (auto simp: process_sample_def bindE_eq_Inr)
  then show ?thesis by (cases oc) (simp_all add: record_sample_def accounted_def)
qed

lemma judge_sample_composed:
  assumes "judge_sample reg t ad llm cfg persona prompt trusted ctx cand = Inr (Composed_sample res)"
  obtains crd vals where "build_values t prompt cand crd cfg persona [] = Inr vals"
    "compose reg llm \<lparr>ci_variant = ''dryrun'', ci_prompt = prompt, ci_values = vals, ci_ctx = ctx,
       ci_trusted = trusted, ci_step = 0\<rparr> = Inr res"
proof -
  from assms obtain crd where "compose_sample reg t llm cfg persona prompt trusted ctx cand crd = Inr (Composed_sample res)"
    by (auto simp: judge_sample_def bindE_eq_Inr split: if_splits)
  with that show thesis by (auto simp: compose_sample_def bindE_eq_Inr split: sum.splits if_splits)
qed

definition clean_drafts :: "registry \<Rightarrow> vctx \<Rightarrow> dry_run_report \<Rightarrow> bool" where
  "clean_drafts reg ctx r \<longleftrightarrow> (\<forall>(c, n, res)\<in>set (dy_composed r).
     validate reg (cr_draft res) ctx = Inr [] \<and> cr_sha res = content_hash (cr_draft res) \<and> dr_step (cr_draft res) = 0)"

lemma compose_clean:
  assumes "compose reg llm inp = Inr res"
  shows "validate reg (cr_draft res) (ci_ctx inp) = Inr [] \<and> cr_sha res = content_hash (cr_draft res) \<and>
    dr_step (cr_draft res) = ci_step inp"
  by (rule compose_Inr [OF assms]) (auto dest: compose_loop_Inr simp: output_draft_def)

lemma process_sample_clean:
  assumes "process_sample reg t ad llm cfg persona cohort prompt trusted ctx cand r = Inr r'" "clean_drafts reg ctx r"
  shows "clean_drafts reg ctx r'"
proof -
  from assms(1) obtain oc where oc: "judge_sample reg t ad llm cfg persona prompt trusted ctx cand = Inr oc"
    "r' = record_sample cohort (cd_name cand) oc r" by (auto simp: process_sample_def bindE_eq_Inr)
  show ?thesis
  proof (cases oc)
    case (Composed_sample res)
    with oc(1) obtain crd vals where "compose reg llm \<lparr>ci_variant = ''dryrun'', ci_prompt = prompt, ci_values = vals,
        ci_ctx = ctx, ci_trusted = trusted, ci_step = 0\<rparr> = Inr res" by (auto elim: judge_sample_composed)
    from compose_clean [OF this] oc(2) Composed_sample assms(2) show ?thesis
      by (auto simp: clean_drafts_def record_sample_def)
  qed (use oc(2) assms(2) in \<open>simp_all add: clean_drafts_def record_sample_def\<close>)
qed

lemma samples_fold:
  assumes "foldE (process_sample reg t ad llm cfg persona cohort prompt trusted ctx) cands r = Inr r'"
  shows "accounted r' = mset (map (\<lambda>cand. (cohort, cd_name cand)) cands) + accounted r \<and>
    (clean_drafts reg ctx r \<longrightarrow> clean_drafts reg ctx r')"
  using assms
proof (induction cands arbitrary: r)
  case (Cons cand cands)
  then obtain r1 where "process_sample reg t ad llm cfg persona cohort prompt trusted ctx cand r = Inr r1"
    "foldE (process_sample reg t ad llm cfg persona cohort prompt trusted ctx) cands r1 = Inr r'"
    by (auto simp: bindE_eq_Inr)
  with Cons.IH [of r1] show ?case by (auto dest: process_sample_accounts process_sample_clean)
qed simp

lemma sample_cohort_facts:
  assumes "sample_cohort reg t ad llm cfg sources n persona variant cohort r = Inr r'"
  shows "accounted r' = mset (sampled sources n cohort) + accounted r \<and>
    (clean_drafts reg (validator_context cfg) r \<longrightarrow> clean_drafts reg (validator_context cfg) r')"
proof (cases "ch_trigger cohort = None")
  case True
  show ?thesis
  proof (cases "List.find (\<lambda>s. map_of sources s \<noteq> None) (ch_sources cohort)")
    case (Some s)
    with True assms obtain cands cur where "the (map_of sources s) (ch_filters cohort) None = Inr (cands, cur)"
      "foldE (process_sample reg t ad llm cfg persona (ch_id cohort) (vs_prompt variant) (trusted_context cfg persona)
         (validator_context cfg)) (take n cands) r = Inr r'"
      by (auto simp: sample_cohort_def bindE_eq_Inr)
    with True Some samples_fold [of reg t ad llm cfg persona "ch_id cohort"] show ?thesis
      by (fastforce simp: sampled_def)
  qed (use assms True in \<open>simp add: sample_cohort_def sampled_def\<close>)
qed (use assms in \<open>simp add: sample_cohort_def sampled_def\<close>)

lemma cohorts_fold:
  assumes "foldE (sample_cohort reg t ad llm cfg sources n persona variant) cs r = Inr r'"
  shows "accounted r' = mset (concat (map (sampled sources n) cs)) + accounted r \<and>
    (clean_drafts reg (validator_context cfg) r \<longrightarrow> clean_drafts reg (validator_context cfg) r')"
  using assms
proof (induction cs arbitrary: r)
  case (Cons c cs)
  then obtain r1 where "sample_cohort reg t ad llm cfg sources n persona variant c r = Inr r1"
    "foldE (sample_cohort reg t ad llm cfg sources n persona variant) cs r1 = Inr r'"
    by (auto simp: bindE_eq_Inr)
  with Cons.IH [of r1] sample_cohort_facts [of reg t ad llm cfg sources n persona variant c r r1] show ?case
    by (auto simp: union_assoc)
qed simp

text \<open>Every sampled prospect is in exactly one list of the report, and what would be sent passed the
  validators the live composer uses.\<close>

lemma dry_run_facts:
  assumes "dry_run reg t ad llm cfg sources n = Inr r"
  shows "accounted r = mset (concat (map (sampled sources n) (concat (map ps_cohorts (tc_personas cfg))))) \<and>
    clean_drafts reg (validator_context cfg) r"
proof -
  let ?f = "\<lambda>persona r. case ps_variants persona of [] \<Rightarrow> Inl (OtherError ''list index out of range'')
         | variant # _ \<Rightarrow> foldE (sample_cohort reg t ad llm cfg sources n persona variant) (ps_cohorts persona) r"
  have "accounted r' = mset (concat (map (sampled sources n) (concat (map ps_cohorts ps)))) + accounted r \<and>
      (clean_drafts reg (validator_context cfg) r \<longrightarrow> clean_drafts reg (validator_context cfg) r')"
    if "foldE ?f ps r = Inr r'" for ps r r'
    using that
  proof (induction ps arbitrary: r)
    case (Cons p ps)
    then obtain v vs r1 where "ps_variants p = v # vs"
      "foldE (sample_cohort reg t ad llm cfg sources n p v) (ps_cohorts p) r = Inr r1" "foldE ?f ps r1 = Inr r'"
      by (auto simp: bindE_eq_Inr split: list.splits)
    with Cons.IH [of r1] cohorts_fold [of reg t ad llm cfg sources n p v "ps_cohorts p" r r1] show ?case
      by (auto simp: union_assoc)
  qed simp
  from this [OF assms [unfolded dry_run_def]] show ?thesis by (simp add: accounted_def clean_drafts_def)
qed

section \<open>Where a dry run and the live pipeline part\<close>

text \<open>A prospect without an address counts as deliverable here, where the live handler ends it as
  unenrichable.\<close>

lemma no_address_is_sampled:
  assumes "ad_find ad cand = Inr None" and "ad_verify ad' e = Inr Verified" and "ad_find ad' cand = Inr (Some e)"
    and "ad_enrich ad = ad_enrich ad'"
  shows "process_sample reg t ad llm cfg persona cohort prompt trusted ctx cand r =
    process_sample reg t ad' llm cfg persona cohort prompt trusted ctx cand r"
  using assms by (simp add: process_sample_def judge_sample_def)

text \<open>The dry run passes no sender facts, so a variant that uses one is never composed.\<close>

lemma sender_slot_unfilled:
  "slot_values_of cfg p cand [] slots facts = Inr vs \<Longrightarrow> startswith slot ''sender.'' \<Longrightarrow> map_of vs slot = None"
proof (induction slots arbitrary: facts vs)
  case (Cons s slots)
  from Cons.prems(1) obtain v facts' rest where s: "slot_value cfg p cand [] s facts = Inr (v, facts')"
    "slot_values_of cfg p cand [] slots facts' = Inr rest"
    "vs = (case v of None \<Rightarrow> rest | Some rv \<Rightarrow> (s, rv) # rest)"
    by (auto simp: bindE_eq_Inr)
  have "v = None" if "s = slot" using s(1) Cons.prems(2) that by (simp add: slot_value_def)
  with s(3) Cons.IH [OF s(2) Cons.prems(2)] show ?case by (auto split: option.splits)
qed simp

lemma resolve_filled:
  assumes "resolve reg prompt v = Inr r" and "slot \<in> set (extract_slots prompt)"
  shows "map_of v slot \<noteq> None"
proof
  assume "map_of v slot = None"
  from assms(2) have "None \<in> set (map (\<lambda>m. map_of v (group1 m)) (findall SLOT_RE prompt))"
    using \<open>map_of v slot = None\<close> by (force simp: extract_slots_def first_seen_def image_iff)
  with render_resolved [OF conjunct2 [OF resolve_Inr [OF assms(1)]]] have "None \<in> set (map Some (rp_resolved r))"
    by (simp only: findall_scan)
  then show False by auto
qed

lemma sender_slots_never_composed:
  assumes "process_sample reg t ad llm cfg persona cohort prompt trusted ctx cand r = Inr r'"
    and "slot \<in> set (extract_slots prompt)" and "startswith slot ''sender.''"
  shows "dy_composed r' = dy_composed r"
proof -
  from assms(1) obtain oc where oc: "judge_sample reg t ad llm cfg persona prompt trusted ctx cand = Inr oc"
    "r' = record_sample cohort (cd_name cand) oc r" by (auto simp: process_sample_def bindE_eq_Inr)
  show ?thesis
  proof (cases oc)
    case (Composed_sample res)
    from judge_sample_composed [OF oc(1) [unfolded Composed_sample]] obtain crd vals where
      v: "build_values t prompt cand crd cfg persona [] = Inr vals"
      and c: "compose reg llm \<lparr>ci_variant = ''dryrun'', ci_prompt = prompt, ci_values = vals, ci_ctx = ctx,
        ci_trusted = trusted, ci_step = 0\<rparr> = Inr res" by blast
    from v assms(3) have "map_of vals slot = None" unfolding build_values_def by (rule sender_slot_unfilled)
    moreover obtain q where "resolve DEFAULT_REGISTRY prompt vals = Inr q" by (rule compose_Inr [OF c]) simp
    ultimately show ?thesis using resolve_filled assms(2) by blast
  qed (use oc(2) in \<open>simp_all add: record_sample_def\<close>)
qed

end
