(* ===== verification/Demo.thy ===== *)
theory Demo
  imports Rehearsal
begin

text \<open>
  \<open>core/demo.py\<close>: the presentable deployment. The real handlers run over stand-ins, scripted replies
  come in through the provider's webhook, two prospects convert, and discovery and research follow.
  Each block of \<open>engine.begin\<close> is one transaction; an error leaves those before it committed.
\<close>

section \<open>The script\<close>

definition VENUES :: "(pystr \<times> pystr) list" where
  "VENUES =
     [(''Cactus Cafe'', ''thursday open-mic and weekend songwriter series''),
      (''Hops & Vine Brewery'', ''saturday patio shows, no booker on staff''),
      (''Red River Listening Room'', ''curated americana calendar, books 8 weeks out''),
      (''Eastside Wine Garden'', ''sunday jazz brunch, looking for duos''),
      (''Mole Hill Tavern'', ''open booking, mostly walk-in bands''),
      (''Lantern Coffee'', ''acoustic evenings twice a month'')]"

definition BANDS :: "(pystr \<times> pystr) list" where
  "BANDS =
     [(''The Prickly Pears'', ''indie folk trio, 40 local shows last year''),
      (''Marrow & Pine'', ''americana duo, weekly residency experience''),
      (''Glass Canyon'', ''surf rock four-piece, draws ~60''),
      (''June Tides'', ''jazz quartet, brunch and winery sets'')]"

definition REPLY_SCRIPT :: "(pystr \<times> pystr \<times> pystr) list" where
  "REPLY_SCRIPT =
     [(''Cactus Cafe'', ''This sounds genuinely useful - how does booking work?'', ''question''),
      (''Hops & Vine Brewery'', fstr [''Yes! We'', sq, ''ve needed exactly this. Send the link.''], ''interested''),
      (''Red River Listening Room'', ''We book through an agent already, thanks.'', ''not_interested''),
      (''Eastside Wine Garden'', ''please remove me from your list'', ''unsubscribe''),
      (''The Prickly Pears'', fstr [''Interested - we'', sq, ''re trying to fill March.''], ''interested''),
      (''Marrow & Pine'', ''who gave you this address??'', ''hostile'')]"

definition CONVERTERS :: "pystr list" where
  "CONVERTERS = [''Hops & Vine Brewery'', ''The Prickly Pears'']"

text \<open>The classifier answers every task with an intent, which only the schema of replies accepts.\<close>

definition no_intent :: "pystr \<Rightarrow> exc + 'a" where
  "no_intent task = Inl (ValueError (fstr [''intent: extra inputs are not permitted in '', task]))"

definition scripted_classifier :: "(pystr \<times> pystr) list \<Rightarrow> llm_backend" where
  "scripted_classifier script =
     \<lparr>lm_compose = (\<lambda>_ _. no_intent ''compose''), lm_groundedness = (\<lambda>_. no_intent ''groundedness''),
      lm_qualify = (\<lambda>_. no_intent ''qualify''), lm_compose_reply = (\<lambda>_ _. no_intent ''compose_reply''),
      lm_classify = (\<lambda>prompt. Inr
        \<lparr>cl_intent = (case List.find (\<lambda>(frag, _). contains prompt frag) script of None \<Rightarrow> ''other'' | Some (_, i) \<Rightarrow> i),
         cl_confidence = 19 / 20, cl_objection = None, cl_injection = False\<rparr>),
      lm_synthesize = (\<lambda>_ _. no_intent ''synthesize_program''), lm_brainstorm = (\<lambda>_. no_intent ''brainstorm_goals''),
      lm_narrate = (\<lambda>_. no_intent ''discovery_research''), lm_winloss = (\<lambda>_. no_intent ''winloss_synth''),
      lm_web = (\<lambda>_. no_intent ''web_enrich'')\<rparr>"

section \<open>The stand-ins\<close>

definition demo_address :: "pystr \<Rightarrow> pystr" where
  "demo_address name = fstr
     [concat (map (\<lambda>c. if c = CHR '' '' then ''.'' else if c = CHR ''&'' then ''and'' else [c]) (lower name)), ''@example.test'']"

definition demo_candidates :: "(pystr \<times> pystr) list \<Rightarrow> candidate list" where
  "demo_candidates pairs = map (\<lambda>(name, _).
     \<lparr>cd_name = name, cd_org = Some name, cd_website = Some ''https://venue.example'', cd_email = Some (demo_address name),
      cd_phone = None, cd_address = None, cd_source = ''demo'', cd_ref = [(''place_id'', JStr name)],
      cd_basis = ''government_public''\<rparr>) pairs"

definition demo_enrich :: "int \<Rightarrow> candidate \<Rightarrow> exc + evidence_fact list" where
  "demo_enrich t cand = bindE (fake_enrich t cand) (\<lambda>facts.
     Inr (case (nonempty (map_of (VENUES @ BANDS) (cd_name cand)), facts) of
            (Some bio, f # fs) \<Rightarrow> f\<lparr>ef_content := fstr [cd_name cand, '': '', bio], ef_type := ''calendar''\<rparr> # fs
          | _ \<Rightarrow> facts))"

definition demo_sources :: "(pystr \<times> source_adapter) list" where
  "demo_sources =
     [(''google_places'', fake_source (demo_candidates VENUES)), (''indie_on_the_move'', fake_source []),
      (''bandsintown'', fake_source (demo_candidates BANDS)), (''bandcamp'', fake_source [])]"

text \<open>The handlers of the demo's worker; \<open>beta\<close> is the sampler, \<open>t\<close> the clock of the enricher. What the
  provider records of a send is left out: nothing reads it.\<close>

definition demo_env :: "(nat \<Rightarrow> rat \<Rightarrow> rat \<Rightarrow> rat) \<Rightarrow> llm_backend \<Rightarrow> runtimes \<Rightarrow> env" where
  "demo_env beta llm rts = \<lparr>en_registry = initial_registry, en_llm = llm, en_key = None, en_beta = beta, en_runtimes = rts\<rparr>"

definition demo_handlers :: "(nat \<Rightarrow> rat \<Rightarrow> rat \<Rightarrow> rat) \<Rightarrow> int \<Rightarrow> tenant_runtime \<Rightarrow> (pystr \<times> handler) list" where
  "demo_handlers beta t rt =
     (let cfg = rt_config rt; rts = [(tc_tenant cfg, rt)];
          scripted = demo_env beta (scripted_llm (rt_ctx rt) (id_sender (ab_identity (bf_about (tc_brief cfg))))) rts;
          send = \<lparr>se_registry = initial_registry, se_ctx = [(tc_tenant cfg, rt_ctx rt)], se_sequences = None,
                  se_send = (\<lambda>c subject body. Inr [(''fake_id'', JStr (ct_touch c))])\<rparr>
      in [(''discover'', \<lambda>jb. discover scripted demo_sources (jb_payload jb)),
          (''enrich'', \<lambda>jb. enrich ((fake_adapters t)\<lparr>ad_enrich := demo_enrich t\<rparr>) (jb_payload jb)),
          (''qualify'', \<lambda>jb. qualify_handler scripted (jb_payload jb)),
          (''compose'', \<lambda>jb. compose_handler scripted (jb_payload jb)),
          (''deliver'', \<lambda>jb d. snd (deliver send (jb_payload jb) d)),
          (''classify'', \<lambda>jb. classify (demo_env beta (scripted_classifier (map snd REPLY_SCRIPT)) []) (jb_payload jb)),
          (''control'', \<lambda>jb. control_op (\<lambda>_. Inr ()) (\<lambda>_. Inr ()) (jb_payload jb))])"

section \<open>The transactions\<close>

definition demo_counter :: "scope_type \<Rightarrow> int \<Rightarrow> pystr \<Rightarrow> db \<Rightarrow> db" where
  "demo_counter st cap si d = d\<lparr>counters := insert_new (is_counter st si (month d))
     \<lparr>c_type = st, c_id = si, c_period = month d, c_used = 0, c_cap = cap\<rparr> (counters d)\<rparr>"

definition demo_setup :: "tenant_config \<Rightarrow> db \<Rightarrow> db" where
  "demo_setup cfg d =
     (let (rt, d1) = runtime_for cfg d;
          d2 = d1\<lparr>mailboxes := insert_new (\<lambda>m. m_box m = ''maya@get-stagematch.com'')
            \<lparr>m_box = ''maya@get-stagematch.com'', m_tenant = tc_tenant cfg, m_domain = ''get-stagematch.com'',
             m_warm = True, m_cap = 25\<rparr> (mailboxes d1)\<rparr>;
          d3 = fold (\<lambda>c. demo_counter Cohort_month 200 (ch_id c)) (concat (map ps_cohorts (tc_personas cfg))) d2
      in snd (seed_discovery rt (demo_counter Tenant_month 500 (tc_tenant cfg) d3)))"

definition touch_by_name :: "db \<Rightarrow> (pystr \<times> uuid) list" where
  "touch_by_name d = fold (\<lambda>t m.
       case Option.bind (prospect_of d (t_prospect t)) (\<lambda>p. Option.bind (entity_of d (p_entity p)) e_name) of
         None \<Rightarrow> m | Some name \<Rightarrow> dict_set name (t_id t) m)
     (sel (\<lambda>t. t_status t = Dispatched) (touches d)) []"

definition reply_json :: "nat \<Rightarrow> uuid \<Rightarrow> pystr \<Rightarrow> json" where
  "reply_json i touch body = JObj
     [(''id'', JStr (fstr [''demo-reply-'', nat_str i])), (''kind'', JStr ''reply''),
      (''touch_ref'', JObj [(''touch_id'', JStr touch)]), (''payload'', JObj [(''body'', JStr body)])]"

definition demo_reply :: "(pystr \<Rightarrow> exc + json) \<Rightarrow> (pystr \<times> uuid) list \<Rightarrow> nat \<times> pystr \<times> pystr \<times> pystr \<Rightarrow> db \<Rightarrow> exc + db" where
  "demo_reply loads sent r d =
     (case r of (i, name, body, _) \<Rightarrow> (case map_of sent name of
        None \<Rightarrow> Inr d
      | Some touch \<Rightarrow>
          let raw = json_dumps (reply_json i touch body)
          in bindE (ingest_webhook (fake_parse_webhook loads FAKE_SECRET) raw (hmac256 FAKE_SECRET raw) d) (\<lambda>(_, d'). Inr d')))"

definition demo_replies :: "(pystr \<Rightarrow> exc + json) \<Rightarrow> (pystr \<times> uuid) list \<Rightarrow> db \<Rightarrow> exc + db" where
  "demo_replies loads sent d = foldE (demo_reply loads sent) (zip [0..<length REPLY_SCRIPT] REPLY_SCRIPT) d"

definition demo_conversions :: "(pystr \<times> uuid) list \<Rightarrow> db \<Rightarrow> exc + nat \<times> db" where
  "demo_conversions sent d = foldE (\<lambda>name (n, d). case map_of sent name of
       None \<Rightarrow> Inr (n, d)
     | Some touch \<Rightarrow> bindE (record_conversion touch d) (\<lambda>(ok, d'). Inr (if ok then n + 1 else n, d'))) CONVERTERS (0, d)"

text \<open>The four numbers: sent, replies, converted, notes.\<close>

definition demo_finish :: "pystr \<Rightarrow> (pystr \<times> uuid) list \<Rightarrow> db \<Rightarrow> exc + (nat \<times> nat \<times> nat \<times> nat) \<times> db" where
  "demo_finish tenant sent d =
     bindE (demo_conversions sent d) (\<lambda>(converted, d1).
     bindE (refresh_all tenant None [] (snd (analyze tenant d1))) (\<lambda>(noted, d2).
       Inr ((cnt (\<lambda>t. t_status t \<in> {Dispatched, Sent}) (touches d2), length (replies d2), converted, noted), d2)))"

definition seed_demo ::
  "(pystr \<Rightarrow> exc + payload) \<Rightarrow> (pystr \<Rightarrow> exc + json) \<Rightarrow> (nat \<Rightarrow> rat \<Rightarrow> rat \<Rightarrow> rat) \<Rightarrow> int \<Rightarrow> tenant_config \<Rightarrow> db \<Rightarrow>
     (exc + nat \<times> nat \<times> nat \<times> nat) \<times> db" where
  "seed_demo jsonb loads beta t cfg d =
     (let (rt, d1) = runtime_for cfg (demo_setup cfg d); hs = demo_handlers beta t rt
      in case drain jsonb hs 1000 d1 of
        (Inl e, d2) \<Rightarrow> (Inl e, d2)
      | (Inr _, d2) \<Rightarrow> let sent = touch_by_name d2 in (case demo_replies loads sent d2 of
          Inl e \<Rightarrow> (Inl e, d2)
        | Inr d3 \<Rightarrow> (case drain jsonb hs 1000 d3 of
            (Inl e, d4) \<Rightarrow> (Inl e, d4)
          | (Inr _, d4) \<Rightarrow> (case demo_finish (tc_tenant cfg) sent d4 of
              Inl e \<Rightarrow> (Inl e, d4) | Inr (stats, d5) \<Rightarrow> (Inr stats, d5)))))"

section \<open>The demo is made of steps of the program\<close>

lemma kept_drain:
  assumes h: "\<forall>(q, h)\<in>set hs. keeps h" and k: "kept d0 d"
  shows "kept d0 (snd (drain jsonb hs n d))"
proof -
  have "kept d0 (snd (drain_loop jsonb hs n m e))" if "kept d0 e" for n m e
    using that
  proof (induction n arbitrary: m e)
    case (Suc n)
    have k1: "kept d0 (snd (run_once jsonb hs e))" by (rule kept_run_once [OF h Suc.prems])
    obtain r e1 where r: "run_once jsonb hs e = (r, e1)" by fastforce
    with k1 Suc.IH [of e1] show ?case by (auto split: sum.split bool.split)
  qed simp
  then show ?thesis unfolding drain_def using kept_reap [OF k] by blast
qed

lemma kept_demo_counter: "kept d0 d \<Longrightarrow> kept d0 (demo_counter st cap si d)"
  unfolding demo_counter_def by (rule kept)

lemma kept_demo_setup:
  assumes "kept d0 d"
  shows "kept d0 (demo_setup cfg d)"
proof -
  obtain rt d1 where rt: "runtime_for cfg d = (rt, d1)" by fastforce
  have "kept d0 d1" using kept_runtime_for [OF assms, of cfg] by (simp add: rt)
  then have "kept d0 (d1\<lparr>mailboxes := ms\<rparr>)" for ms by (rule kept_same) simp_all
  then have "kept d0 (fold (\<lambda>c. demo_counter Cohort_month 200 (ch_id c)) cs (d1\<lparr>mailboxes := ms\<rparr>))" for cs ms
    by (rule kept_fold) (rule kept_demo_counter)
  then show ?thesis unfolding demo_setup_def rt Let_def prod.case by (intro kept_seed kept_demo_counter)
qed

lemma demo_handlers_keep: "\<forall>(q, h)\<in>set (demo_handlers beta t rt). keeps h"
  unfolding demo_handlers_def Let_def
  by (simp add: keeps_def kept_control kept_classify kept_deliver kept_qualify kept_compose kept_discover kept_enrich)

lemma kept_demo_replies: "kept d0 d \<Longrightarrow> postE (demo_replies loads sent d) (kept d0)"
proof -
  have "postE (ingest_webhook parse raw sig e) (\<lambda>(_, d'). kept d0 d')" if "kept d0 e" for parse raw sig e
    unfolding ingest_webhook_def by (rule postE_bind_any, rule kept_ingest [OF that])
  then have "postE (demo_reply loads sent r e) (kept d0)" if "kept d0 e" for r e
    using that by (fastforce simp: demo_reply_def Let_def split: prod.split option.split intro: postE_bind)
  then show "kept d0 d \<Longrightarrow> ?thesis" unfolding demo_replies_def by (intro postE_foldE)
qed

lemma kept_demo_finish:
  assumes "kept d0 d"
  shows "postE (demo_finish tenant sent d) (\<lambda>(_, d'). kept d0 d')"
proof -
  let ?f = "\<lambda>name (n, d). case map_of sent name of None \<Rightarrow> Inr (n, d)
     | Some touch \<Rightarrow> bindE (record_conversion touch d) (\<lambda>(ok, d'). Inr (if ok then n + 1 else n, d'))"
  have "postE (?f name s) (\<lambda>(_, d'). kept d0 d')" if "(\<lambda>(_, d'). kept d0 d') s" for name s
    using that kept_conversion [of d0 "snd s"] by (fastforce split: prod.splits option.split intro: postE_bind)
  then have c: "postE (demo_conversions sent d) (\<lambda>(_, d'). kept d0 d')"
    unfolding demo_conversions_def by (intro postE_foldE) (simp_all add: assms)
  show ?thesis unfolding demo_finish_def
  proof (rule postE_bind [OF c], clarify, rule postE_bind_any, clarify)
    fix n d1 k d2
    assume "kept d0 d1" and r: "refresh_all tenant None [] (snd (analyze tenant d1)) = Inr (k, d2)"
    then have "kept d0 (snd (analyze tenant d1))" using kept_filed filed_analyze by blast
    then have "kept d0 d2" using kept_noted noted_refresh [OF r] by blast
    then show "postE (Inr ((cnt (\<lambda>t. t_status t \<in> {Dispatched, Sent}) (touches d2), length (replies d2), n, k), d2))
      (\<lambda>(_, d'). kept d0 d')" by simp
  qed
qed

theorem demo_keeps: "kept d (snd (seed_demo jsonb loads beta t cfg d))"
proof -
  obtain rt d1 where rt: "runtime_for cfg (demo_setup cfg d) = (rt, d1)" by fastforce
  let ?drain = "drain jsonb (demo_handlers beta t rt) 1000"
  have k1: "kept d d1" using kept_runtime_for [OF kept_demo_setup [OF kept_refl], of d cfg cfg] by (simp add: rt)
  obtain r2 d2 where r2: "?drain d1 = (r2, d2)" by fastforce
  have k2: "kept d d2" using kept_drain [OF demo_handlers_keep k1] r2 by (metis snd_conv)
  show ?thesis
  proof (cases "demo_replies loads (touch_by_name d2) d2")
    case (Inr d3)
    then have k3: "kept d d3" using kept_demo_replies [OF k2, of loads "touch_by_name d2"] by simp
    obtain r4 d4 where r4: "?drain d3 = (r4, d4)" by fastforce
    have "kept d d4" using kept_drain [OF demo_handlers_keep k3] r4 by (metis snd_conv)
    with kept_demo_finish [OF this, of "tc_tenant cfg" "touch_by_name d2"] show ?thesis
      by (auto simp: seed_demo_def rt r2 r4 Inr k2 split: sum.splits prod.splits)
  qed (auto simp: seed_demo_def rt r2 k2 split: sum.splits)
qed

section \<open>Seeding again\<close>

text \<open>The scripted replies carry fixed event ids. Seeded a second time they are taken as seen: no reply is
  added and no prospect changes. What a reply dumps, \<open>json.loads\<close> reads back.\<close>

definition reply_id :: "nat \<Rightarrow> pystr" where
  "reply_id i = fstr [''demo-reply-'', nat_str i]"

lemma reply_event:
  assumes "loads (json_dumps (reply_json i touch body)) = Inr (reply_json i touch body)"
  shows "fake_parse_webhook loads FAKE_SECRET (json_dumps (reply_json i touch body))
      (hmac256 FAKE_SECRET (json_dumps (reply_json i touch body))) =
    Inr [\<lparr>pv_id = reply_id i, pv_kind = REPLY_event, pv_ref = [(''touch_id'', touch)], pv_payload = [(''body'', JStr body)]\<rparr>]"
proof -
  have "event_kind_of (JStr ''reply'') = Inr REPLY_event" by (simp add: event_kind_of_def)
  then show ?thesis
    by (simp add: fake_parse_webhook_def compare_digest_def ascii_hmac assms)
      (simp add: reply_json_def text_items_def reply_id_def jget_def jstr_def)
qed

lemma demo_reply_seen:
  assumes "\<And>touch. loads (json_dumps (reply_json i touch body)) = Inr (reply_json i touch body)"
    and "demo_reply loads sent (i, name, body, intent) d = Inr d'"
  shows "set (pevents d) \<subseteq> set (pevents d') \<and> (map_of sent name \<noteq> None \<longrightarrow> seen_event d' (reply_id i))"
proof (cases "map_of sent name")
  case (Some touch)
  with assms(2) obtain n where "ingest_events [\<lparr>pv_id = reply_id i, pv_kind = REPLY_event, pv_ref = [(''touch_id'', touch)],
      pv_payload = [(''body'', JStr body)]\<rparr>] d = Inr (n, d')"
    by (auto simp: demo_reply_def ingest_webhook_def reply_event [where loads = loads and i = i and body = body, OF assms(1)]
        Let_def bindE_eq_Inr simp del: ingest_events.simps)
  from ingest_seen [OF this] show ?thesis by simp
qed (use assms(2) in \<open>simp add: demo_reply_def\<close>)

lemma demo_reply_again:
  assumes "\<And>touch. loads (json_dumps (reply_json i touch body)) = Inr (reply_json i touch body)"
    and "map_of sent name \<noteq> None \<longrightarrow> seen_event d (reply_id i)"
  shows "demo_reply loads sent (i, name, body, intent) d = Inr d"
  using assms(2)
  by (auto simp: demo_reply_def ingest_webhook_def reply_event [where loads = loads and i = i and body = body, OF assms(1)] Let_def split: option.split)

lemma demo_replies_seen:
  assumes "\<And>i touch body. loads (json_dumps (reply_json i touch body)) = Inr (reply_json i touch body)"
  shows "foldE (demo_reply loads sent) rs d = Inr d' \<Longrightarrow> set (pevents d) \<subseteq> set (pevents d') \<and>
    (\<forall>(i, name, body, intent)\<in>set rs. map_of sent name \<noteq> None \<longrightarrow> seen_event d' (reply_id i))"
proof (induction rs arbitrary: d)
  case (Cons r rs)
  obtain i name body intent where r: "r = (i, name, body, intent)" by (cases r)
  from Cons.prems obtain d1 where d1: "demo_reply loads sent (i, name, body, intent) d = Inr d1"
    "foldE (demo_reply loads sent) rs d1 = Inr d'" by (auto simp: r bindE_eq_Inr)
  from demo_reply_seen [OF assms d1(1)] Cons.IH [OF d1(2)] show ?case
    by (auto simp: r intro: seen_event_mono)
qed simp

theorem demo_replies_once:
  assumes "\<And>i touch body. loads (json_dumps (reply_json i touch body)) = Inr (reply_json i touch body)"
    and "demo_replies loads sent d = Inr d1" and "set (pevents d1) \<subseteq> set (pevents d2)"
    and "\<And>name. map_of sent' name \<noteq> None \<Longrightarrow> map_of sent name \<noteq> None"
  shows "demo_replies loads sent' d2 = Inr d2"
proof -
  have "foldE (demo_reply loads sent') rs d2 = Inr d2"
    if "\<forall>(i, name, body, intent)\<in>set rs. map_of sent name \<noteq> None \<longrightarrow> seen_event d1 (reply_id i)" for rs
    using that
  proof (induction rs)
    case (Cons r rs)
    obtain i name body intent where r: "r = (i, name, body, intent)" by (cases r)
    have "map_of sent' name \<noteq> None \<longrightarrow> seen_event d2 (reply_id i)"
      using Cons.prems assms(4) [of name] seen_event_mono [OF assms(3)] by (auto simp: r)
    from demo_reply_again [OF assms(1) this] Cons show ?case by (simp add: r)
  qed simp
  with demo_replies_seen [OF assms(1) assms(2) [unfolded demo_replies_def]] show ?thesis
    unfolding demo_replies_def by blast
qed

end
