(* ===== verification/Wiring.thy ===== *)
theory Wiring
  imports Demo
begin

text \<open>
  How the program is put together at its edges: loading configuration files, reading mailboxes from the
  environment, the provider that sends from one's own domain, the research prompt of the sender
  profile, the prompt versions, the endless loop of the worker, and the commands \<open>run\<close>, \<open>poll\<close> and
  \<open>serve\<close>. \<open>yaml.safe_load\<close>, \<open>json.loads\<close> and the reading of fields by pydantic are parameters.
\<close>

section \<open>config.py: loading\<close>

text \<open>\<open>content\<close> is what \<open>yaml.safe_load(path.read_text())\<close> gives or raises; \<open>decode\<close> reads the fields, and the
  validators of the models follow.\<close>

definition config_error :: "pystr \<Rightarrow> pystr \<Rightarrow> exc" where
  "config_error path problem = OtherError (fstr [''ConfigError: '', path, '': '', problem])"

definition load_mapping :: "pystr \<Rightarrow> exc + json \<Rightarrow> (payload \<Rightarrow> exc + 'a) \<Rightarrow> exc + 'a" where
  "load_mapping path content read =
     (case content of
        Inl e \<Rightarrow> Inl (config_error path (exc_str e))
      | Inr (JObj raw) \<Rightarrow> (case read raw of Inl e \<Rightarrow> Inl (config_error path (exc_str e)) | Inr x \<Rightarrow> Inr x)
      | Inr _ \<Rightarrow> Inl (config_error path ''expected a mapping at top level''))"

definition load_tenant :: "registry \<Rightarrow> (json \<Rightarrow> exc + tenant_config) \<Rightarrow> pystr \<Rightarrow> exc + json \<Rightarrow> exc + tenant_config" where
  "load_tenant reg decode path content = load_mapping path content (\<lambda>raw.
     bindE (decode (JObj raw)) (\<lambda>cfg. bindE (check_tenant reg cfg) (\<lambda>_. Inr cfg)))"

definition load_brief :: "registry \<Rightarrow> (json \<Rightarrow> exc + brief_spec) \<Rightarrow> pystr \<Rightarrow> exc + json \<Rightarrow> exc + brief_spec" where
  "load_brief reg decode path content = load_mapping path content (\<lambda>raw.
     bindE (decode (the_default (JObj raw) (map_of raw ''brief''))) (\<lambda>brief. bindE (check_brief reg brief) (\<lambda>_. Inr brief)))"

section \<open>Mailboxes of the environment\<close>

text \<open>\<open>MailboxConn(**spec)\<close>: a keyword the class does not have, or one that is missing, is a \<open>TypeError\<close>;
  the types of the values are not checked by a dataclass and are taken to be the declared ones.\<close>

definition spec_field :: "payload \<Rightarrow> pystr \<Rightarrow> json \<Rightarrow> json" where
  "spec_field spec k v = the_default v (map_of spec k)"

definition conn_of :: "payload \<Rightarrow> exc + mailbox_conn" where
  "conn_of spec =
     (if \<not> set (map fst spec) \<subseteq> {''host'', ''port'', ''username'', ''password'', ''sender_name'', ''starttls'', ''warmup_complete'', ''daily_cap''}
         \<or> \<not> {''host'', ''port'', ''username'', ''password''} \<subseteq> set (map fst spec)
      then Inl (OtherError ''TypeError'')
      else (let get = (\<lambda>k. jstr (spec_field spec k (JStr []))); number = (\<lambda>k v. case spec_field spec k (JInt v) of JInt i \<Rightarrow> i | _ \<Rightarrow> v);
                flag = (\<lambda>k. spec_field spec k (JBool True) = JBool True)
            in Inr \<lparr>mc_host = get ''host'', mc_port = number ''port'' 0, mc_user = get ''username'', mc_password = get ''password'',
                 mc_sender = get ''sender_name'', mc_starttls = flag ''starttls'', mc_warm = flag ''warmup_complete'',
                 mc_cap = number ''daily_cap'' 25\<rparr>))"

definition mailboxes_from_env :: "(pystr \<Rightarrow> exc + json) \<Rightarrow> pystr \<Rightarrow> (payload \<Rightarrow> exc + 'a) \<Rightarrow> exc + (pystr \<times> 'a) list" where
  "mailboxes_from_env loads raw conn =
     (if raw = [] then Inr []
      else bindE (loads raw) (\<lambda>v. case v of
          JObj kvs \<Rightarrow> traverse (\<lambda>(addr, spec). case spec of
              JObj kws \<Rightarrow> bindE (conn kws) (\<lambda>c. Inr (addr, c)) | _ \<Rightarrow> Inl (OtherError ''TypeError'')) kvs
        | _ \<Rightarrow> Inl (OtherError ''AttributeError'')))"

record imap_conn =
  ic_host :: pystr
  ic_port :: int
  ic_user :: pystr
  ic_password :: pystr
  ic_folder :: pystr

definition imap_of :: "payload \<Rightarrow> exc + imap_conn" where
  "imap_of spec =
     (if \<not> set (map fst spec) \<subseteq> {''host'', ''port'', ''username'', ''password'', ''folder''} \<or> ''host'' \<notin> set (map fst spec)
      then Inl (OtherError ''TypeError'')
      else Inr \<lparr>ic_host = jstr (spec_field spec ''host'' (JStr [])),
          ic_port = (case spec_field spec ''port'' (JInt 993) of JInt i \<Rightarrow> i | _ \<Rightarrow> 993),
          ic_user = jstr (spec_field spec ''username'' (JStr [])), ic_password = jstr (spec_field spec ''password'' (JStr [])),
          ic_folder = jstr (spec_field spec ''folder'' (JStr ''INBOX''))\<rparr>)"

section \<open>The provider of one's own domain\<close>

definition smtp_health :: "smtp_provider \<Rightarrow> (pystr \<times> bool \<times> int \<times> int) list" where
  "smtp_health sm = map (\<lambda>(addr, c). (addr, mc_warm c, 0, mc_cap c)) (sm_boxes sm)"

definition smtp_parse_webhook :: "pystr \<Rightarrow> pystr \<Rightarrow> exc + provider_event list" where
  "smtp_parse_webhook body signature = Inl (OtherError (fstr [''own-domain SMTP has no webhooks; inbound arrives via IMAP polling '',
     ''(adapters.sending.inbound)'']))"

definition smtp_pause_lead :: "pystr \<Rightarrow> exc + unit" where
  "smtp_pause_lead email = Inr ()"

definition smtp_pause_all :: "pystr \<Rightarrow> exc + unit" where
  "smtp_pause_all tenant = Inr ()"

text \<open>The provider \<open>run\<close> sends with: \<open>fake\<close>, or \<open>smtp\<close> with at least one mailbox.\<close>

definition choose_provider ::
  "(pystr \<Rightarrow> exc + json) \<Rightarrow> pystr \<Rightarrow> pystr \<Rightarrow> exc + (pystr \<times> mailbox_conn) list option" where
  "choose_provider loads raw provider =
     (if provider = ''smtp'' then bindE (mailboxes_from_env loads raw conn_of) (\<lambda>boxes.
        if boxes = [] then Inl (exit_with 2) else Inr (Some boxes))
      else if provider = ''fake'' then Inr None
      else Inl (exit_with 2))"

text \<open>\<open>poll --once\<close>: what each inbox gives is a parameter, in the order of the mailboxes.\<close>

definition poll_command ::
  "(pystr \<Rightarrow> exc + json) \<Rightarrow> pystr \<Rightarrow> (imap_conn \<Rightarrow> exc + pystr list) \<Rightarrow> (pystr \<Rightarrow> mail) \<Rightarrow> (pystr \<Rightarrow> int) \<Rightarrow> db \<Rightarrow> (exc + nat) \<times> db" where
  "poll_command loads raw fetcher parse py_hash d =
     (case mailboxes_from_env loads raw imap_of of
        Inl e \<Rightarrow> (Inl e, d)
      | Inr boxes \<Rightarrow> if boxes = [] then (Inl (exit_with 2), d) else poll_once parse py_hash (map (fetcher \<circ> snd) boxes) d)"

section \<open>sender_profile.py: the research\<close>

text \<open>\<open>json.dumps(.., indent=2)\<close> of the sender's facts.\<close>

definition about_json :: "about_us \<Rightarrow> pystr" where
  "about_json ab =
     (let entry = (\<lambda>ind k v. fstr [ind, json_string k, '': '', v])
      in fstr [''{'', nl, join ('','' @ nl)
           [entry ''  '' ''name'' (json_string (ab_name ab)), entry ''  '' ''what_we_do'' (json_string (ab_what ab)),
            entry ''  '' ''sender'' (json_string (id_sender (ab_identity ab))),
            entry ''  '' ''links'' (if ab_links ab = [] then ''{}''
              else fstr [''{'', nl, join ('','' @ nl) (map (\<lambda>(k, v). entry ''    '' k (json_string v)) (ab_links ab)), nl, ''  }''])],
         nl, ''}''])"

definition RESEARCH_FRAME :: "pystr \<Rightarrow> pystr \<Rightarrow> pystr" where
  "RESEARCH_FRAME about_us site_text = fstr [
     ''Extract SENDER credibility facts for outreach'', nl, ''personalization: who is reaching out, what genuine experience/context they'', nl,
     ''bring, what shared-context hooks exist with the audience. Facts must be'', nl,
     ''verbatim-supported by the material below '', em_dash, '' never embellish, never invent.'', nl,
     ''3-6 short facts, each with a snake_case slug.'', nl, nl, ''About the sender (operator-authored):'', nl, about_us, nl, nl,
     ''Additional material (operator-supplied bio/site text, may be empty):'', nl, site_text, nl]"

text \<open>What the model answers: its facts and the injection flag. The schema wants slugs and facts of five
  characters; the flag is read by nobody.\<close>

record sender_output =
  so_facts :: "(pystr \<times> pystr \<times> pystr) list"
  so_injection :: bool

definition sender_research ::
  "(pystr \<Rightarrow> exc + sender_output) \<Rightarrow> tenant_config \<Rightarrow> pystr \<Rightarrow> exc + (pystr \<times> pystr \<times> pystr) list" where
  "sender_research ask cfg site_text =
     bindE (ask (RESEARCH_FRAME (about_json (bf_about (tc_brief cfg))) (or_else ''(none)'' (Some site_text)))) (\<lambda>out.
       if list_all (\<lambda>(s, f, _). slug s \<and> 5 \<le> length f) (so_facts out) then Inr (so_facts out)
       else Inl (ValueError ''SenderProfileOutput''))"

definition list_proposed :: "db \<Rightarrow> pystr option \<Rightarrow> (uuid \<times> pystr \<times> (pystr \<times> pystr \<times> pystr) list) list" where
  "list_proposed d tenant = map (\<lambda>r. (sp_id r, sp_tenant r, sp_facts r)) (sort_key sp_created
     (sel (\<lambda>r. sp_status r = Prof_proposed \<and> (tenant = None \<or> tenant = Some (sp_tenant r))) (profiles d)))"

section \<open>prompts.py: versions\<close>

definition PROMPT_VERSIONS :: "(pystr \<times> pystr) list" where
  "PROMPT_VERSIONS = [(''compose'', ''0.1.0''), (''qualify'', ''0.1.0''), (''groundedness'', ''0.1.0'')]"

definition frame_hash :: "pystr \<Rightarrow> exc + pystr" where
  "frame_hash task =
     (case map_of
        [(''compose'', COMPOSE_FRAME ''{variant_prompt}'' ''{trusted_context}'' ''{evidence_blocks}''),
         (''qualify'', QUALIFY_FRAME ''{persona}'' ''{evidence_blocks}''),
         (''groundedness'', GROUNDEDNESS_FRAME ''{subject}'' ''{body}'' ''{claims}'' ''{evidence_blocks}'')] task of
        None \<Rightarrow> Inl (KeyError task) | Some frame \<Rightarrow> Inr (take 16 (sha256 frame)))"

section \<open>The worker's loop\<close>

text \<open>\<open>run_forever\<close> as far as the readings of the clock go, one for each turn: every thirtieth turn reaps;
  an exception of a turn ends the loop.\<close>

fun run_ticks :: "(pystr \<Rightarrow> exc + payload) \<Rightarrow> (pystr \<times> handler) list \<Rightarrow> clock list \<Rightarrow> nat \<Rightarrow> db \<Rightarrow> (exc + nat) \<times> db" where
  "run_ticks jsonb hs [] ticks d = (Inr ticks, d)"
| "run_ticks jsonb hs (c # cs) ticks d =
     (case run_once jsonb hs (d\<lparr>now := c\<rparr>) of
        (Inl e, d1) \<Rightarrow> (Inl e, d1)
      | (Inr _, d1) \<Rightarrow> run_ticks jsonb hs cs (ticks + 1) (if (ticks + 1) mod 30 = 0 then snd (reap_expired d1) else d1))"

section \<open>serve\<close>

text \<open>\<open>serve\<close> gives the application a stand-in provider, whatever provider sends.\<close>

definition serve_parse :: "(pystr \<Rightarrow> exc + json) \<Rightarrow> pystr \<Rightarrow> pystr \<Rightarrow> exc + provider_event list" where
  "serve_parse loads = fake_parse_webhook loads FAKE_SECRET"

section \<open>What is loaded is valid\<close>

lemma load_mapping_Inr: "load_mapping path content read = Inr x \<longleftrightarrow> (\<exists>raw. content = Inr (JObj raw) \<and> read raw = Inr x)"
  by (auto simp: load_mapping_def split: sum.splits json.splits)

lemma load_mapping_error: "load_mapping path content read = Inl e \<Longrightarrow> \<exists>problem. e = config_error path problem"
  by (auto simp: load_mapping_def split: sum.splits json.splits)

lemma load_tenant_valid: "load_tenant reg decode path content = Inr cfg \<Longrightarrow> check_tenant reg cfg = Inr ()"
  by (auto simp: load_tenant_def load_mapping_Inr bindE_eq_Inr)

lemma load_brief_valid: "load_brief reg decode path content = Inr brief \<Longrightarrow> check_brief reg brief = Inr ()"
  by (auto simp: load_brief_def load_mapping_Inr bindE_eq_Inr)

text \<open>A brief reads the same from its own file and from under the key of a tenant's.\<close>

lemma load_brief_both:
  assumes "map_of raw ''brief'' = None" and "load_brief reg decode path (Inr (JObj raw)) = Inr brief"
  shows "load_brief reg decode path' (Inr (JObj ((''brief'', JObj raw) # rest))) = Inr brief"
  using assms by (auto simp: load_brief_def load_mapping_Inr)

section \<open>The loop keeps what every step keeps\<close>

lemma kept_ticks:
  assumes h: "\<forall>(q, h)\<in>set hs. keeps h"
  shows "kept d0 d \<Longrightarrow> kept d0 (snd (run_ticks jsonb hs cs ticks d))"
proof (induction cs arbitrary: ticks d)
  case (Cons c cs)
  obtain r d1 where r: "run_once jsonb hs (d\<lparr>now := c\<rparr>) = (r, d1)" by fastforce
  have "kept d0 (d\<lparr>now := c\<rparr>)" using Cons.prems by (rule kept)
  from kept_run_once [OF h this, of jsonb] have k: "kept d0 d1" by (simp add: r)
  then have "kept d0 (if (ticks + 1) mod 30 = 0 then snd (reap_expired d1) else d1)" using kept_reap by simp
  with Cons.IH r k show ?case by (auto split: sum.split)
qed simp

section \<open>What the hook needs of a provider\<close>

text \<open>A provider whose events are taken only with its signature of the body.\<close>

locale signed_provider =
  fixes parse :: "pystr \<Rightarrow> pystr \<Rightarrow> exc + provider_event list" and sign :: "pystr \<Rightarrow> pystr"
  assumes signed: "parse body signature = Inr evs \<Longrightarrow> signature = sign body"
begin

lemma unsigned_hook:
  assumes "signature \<noteq> sign body"
  shows "\<exists>e. provider_hook parse body signature d \<in>
    {(Inl e, d), (Inl e, audit ''webhook'' ''provider'' ''signature_rejected'' [] ''system:api'' d)}"
proof (cases "parse body signature")
  case (Inl e)
  then show ?thesis by (cases e) (auto simp: provider_hook_def ingest_webhook_def commit_def)
qed (use signed assms in blast)

end

interpretation fp: signed_provider "fake_parse_webhook loads secret" "hmac256 secret"
  by unfold_locales (auto simp: fake_parse_webhook_def bindE_eq_Inr compare_digest_def split: if_splits)

text \<open>The served application takes no event without a signature under its secret, and records nothing but
  the rejection.\<close>

theorem served_hook_signed:
  assumes "signature \<noteq> hmac256 FAKE_SECRET body"
  shows "\<exists>e. provider_hook (serve_parse loads) body signature d \<in>
    {(Inl e, d), (Inl e, audit ''webhook'' ''provider'' ''signature_rejected'' [] ''system:api'' d)}"
  unfolding serve_parse_def by (rule fp.unsigned_hook [OF assms])

section \<open>Events anybody can sign\<close>

text \<open>Whoever knows the constant signs what the served application takes for the provider's events: the
  hook answers as it does to an authentic delivery.\<close>

theorem forged_event_accepted:
  assumes "loads body = Inr (JObj [(''id'', JStr i), (''kind'', JStr (kind_str k)), (''touch_ref'', JObj [(''touch_id'', JStr t)])])"
  shows "ingest_webhook (serve_parse loads) body (hmac256 ''fake-secret'' body) d =
    ingest_events [\<lparr>pv_id = i, pv_kind = k, pv_ref = [(''touch_id'', t)], pv_payload = []\<rparr>] d"
proof -
  have "event_kind_of (JStr (kind_str k)) = Inr k" by (cases k) (simp_all add: event_kind_of_def)
  then show ?thesis
    by (simp add: ingest_webhook_def serve_parse_def FAKE_SECRET_def fake_parse_webhook_def compare_digest_def ascii_hmac assms
        jget_def text_items_def jstr_def)
qed

end
