(* ===== verification/Answers.thy ===== *)
theory Answers
  imports Backends Demo
begin

text \<open>
  The contract between the model backends and the routing of replies (\<open>ClassifyReplyOutput\<close> of
  \<open>agents/schemas.py\<close>): an answer has one of the known intents and a confidence between 0 and 1. What
  routing a reply may rely on is proved from the contract once; the Gemini backend, which validates
  what it returns, and the scripted classifier of the demo meet it.
\<close>

section \<open>The schema\<close>

definition REPLY_INTENTS :: "pystr list" where
  "REPLY_INTENTS = [''interested'', ''question'', ''objection'', ''not_interested'', ''unsubscribe'', ''out_of_office'',
     ''wrong_person'', ''hostile'', ''other'']"

definition valid_reply :: "classify_output \<Rightarrow> bool" where
  "valid_reply out \<longleftrightarrow> cl_intent out \<in> set REPLY_INTENTS \<and> 0 \<le> cl_confidence out \<and> cl_confidence out \<le> 1 \<and>
     (case cl_objection out of None \<Rightarrow> True | Some c \<Rightarrow> c \<in> set OBJECTION_CLASSES)"

text \<open>\<open>model_validate\<close>: \<open>decode\<close> reads the fields by their types and refuses others; the constraints follow.\<close>

definition read_reply :: "(json \<Rightarrow> exc + classify_output) \<Rightarrow> json \<Rightarrow> exc + classify_output" where
  "read_reply decode raw = bindE (decode raw) (\<lambda>out. if valid_reply out then Inr out else Inl (ValueError ''ClassifyReplyOutput''))"

definition gemini_classify ::
  "model_tiers \<Rightarrow> gemini_api \<Rightarrow> nat \<Rightarrow> (pystr \<Rightarrow> exc + json) \<Rightarrow> (json \<Rightarrow> exc + classify_output) \<Rightarrow> payload \<Rightarrow> pystr \<Rightarrow>
     exc + classify_output" where
  "gemini_classify g api depth loads decode schema prompt =
     fst (gemini_complete g api depth loads (read_reply decode) ''classify_reply'' prompt schema [])"

section \<open>What routing relies on\<close>

locale reply_classifier =
  fixes classify_op :: "pystr \<Rightarrow> exc + classify_output"
  assumes answers_valid: "classify_op prompt = Inr out \<Longrightarrow> valid_reply out"
begin

lemma known_intent: "classify_op prompt = Inr out \<Longrightarrow> map_of INTENT_ACTIONS (cl_intent out) \<noteq> None"
  using answers_valid [of prompt out] by (auto simp: valid_reply_def REPLY_INTENTS_def INTENT_ACTIONS_def)

text \<open>Routing raises only what the backend raised.\<close>

lemma route_raises:
  assumes "lm_classify llm = classify_op" and "route llm n allowed body = Inl e"
  shows "classify_op (CLASSIFY_FRAME (wrapped body ''reply'' [])) = Inl e"
proof (cases "classify_op (CLASSIFY_FRAME (wrapped body ''reply'' []))")
  case (Inr out)
  from known_intent [OF Inr] obtain act where "map_of INTENT_ACTIONS (cl_intent out) = Some act" by auto
  with assms Inr show ?thesis by (simp add: route_def Let_def split: if_splits)
qed (use assms in \<open>simp add: route_def split: if_splits\<close>)

text \<open>A decision is within the schema.\<close>

lemma route_decides:
  assumes "lm_classify llm = classify_op" and "route llm n allowed body = Inr dec"
  shows "rd_intent dec \<in> set REPLY_INTENTS \<and> 0 \<le> rd_confidence dec \<and> rd_confidence dec \<le> 1"
proof (cases "search UNSUBSCRIBE_RE body \<noteq> None")
  case True
  with assms(2) show ?thesis by (auto simp: route_def REPLY_INTENTS_def)
next
  case False
  with assms obtain out where o: "classify_op (CLASSIFY_FRAME (wrapped body ''reply'' [])) = Inr out"
    by (auto simp: route_def bindE_eq_Inr)
  with answers_valid have v: "valid_reply out" by blast
  from known_intent [OF o] obtain act where "map_of INTENT_ACTIONS (cl_intent out) = Some act" by auto
  with False assms o have "(rd_intent dec = cl_intent out \<or> rd_intent dec = ''hostile'') \<and> rd_confidence dec = cl_confidence out"
    by (auto simp: route_def Let_def split: if_splits)
  with v show ?thesis by (auto simp: valid_reply_def REPLY_INTENTS_def)
qed

end

section \<open>Who meets the contract\<close>

lemma gemini_complete_Inr:
  "gemini_complete g api depth loads model_validate task prompt schema tr = (Inr x, tr') \<Longrightarrow> \<exists>raw. model_validate raw = Inr x"
  by (auto simp: gemini_complete_def split: prod.splits sum.splits dest: parse_loop_Inr)

interpretation gc: reply_classifier "gemini_classify g api depth loads decode schema"
proof
  fix prompt out
  assume "gemini_classify g api depth loads decode schema prompt = Inr out"
  then obtain tr where "gemini_complete g api depth loads (read_reply decode) ''classify_reply'' prompt schema [] = (Inr out, tr)"
    by (metis gemini_classify_def prod.collapse)
  from gemini_complete_Inr [OF this] obtain raw where "read_reply decode raw = Inr out" by blast
  then show "valid_reply out" by (auto simp: read_reply_def bindE_eq_Inr split: if_splits)
qed

interpretation sc: reply_classifier "lm_classify (scripted_classifier (map snd REPLY_SCRIPT))"
proof
  fix prompt out
  assume "lm_classify (scripted_classifier (map snd REPLY_SCRIPT)) prompt = Inr out"
  then have out: "out = \<lparr>cl_intent = (case List.find (\<lambda>(frag, _). contains prompt frag) (map snd REPLY_SCRIPT) of
      None \<Rightarrow> ''other'' | Some (_, i) \<Rightarrow> i), cl_confidence = 19 / 20, cl_objection = None, cl_injection = False\<rparr>"
    by (simp add: scripted_classifier_def)
  have "snd x \<in> set REPLY_INTENTS" if "x \<in> set (map snd REPLY_SCRIPT)" for x
    using that by (auto simp: REPLY_SCRIPT_def REPLY_INTENTS_def)
  then have "cl_intent out \<in> set REPLY_INTENTS"
    by (fastforce simp: out REPLY_INTENTS_def split: option.split dest: find_Some_set)
  then show "valid_reply out" by (simp add: out valid_reply_def)
qed

end
