(* ===== verification/Spec_service.thy ===== *)
theory Spec_service
  imports Spec_surface Spec_handlers Spec_queue Backends Report Forms Wiring Answers
begin

text \<open>
  The services around the pipeline: what a call of the model costs, the schemas sent to it, the dry run
  and the operator's pages. The witnesses use a service that is overloaded throughout, a small schema,
  a cohort of two stand-ins and a tenant named like a tag.
\<close>

section \<open>The model service\<close>

text \<open>C30: Whatever the service answers, one task asks it at most twelve times, eighteen with the research
  pass, and sleeps at most two or three times the 278.84 seconds of one backoff; an answer that is
  returned passed the validation against the task's schema.\<close>

theorem model_call_bounded:
  shows "case gemini_complete g api depth loads model_validate task prompt schema [] of (r, tr) \<Rightarrow>
    asked tr \<le> (if task \<in> set GROUNDED_TASKS then 18 else 12) \<and>
    slept tr \<le> (if task \<in> set GROUNDED_TASKS then 3 else 2) * BACKOFF_BUDGET \<and>
    (case r of Inl _ \<Rightarrow> True | Inr x \<Rightarrow> \<exists>raw. model_validate raw = Inr x)"
proof -
  obtain r tr where c: "gemini_complete g api depth loads model_validate task prompt schema [] = (r, tr)" by fastforce
  have "\<exists>raw. model_validate raw = Inr x" if "r = Inr x" for x by (rule gemini_complete_Inr [OF c [unfolded that]])
  with gemini_complete_cost [OF c] c show ?thesis by (simp add: asked_def slept_def split: sum.split)
qed

text \<open>C22: With the Gemini backend, whatever the service answers, routing a reply never meets an intent it
  has no action for: it raises what the backend raised and nothing else, and a decision has one of the
  schema's intents and a confidence between 0 and 1.\<close>

theorem routing_never_stuck:
  shows "case route (llm\<lparr>lm_classify := gemini_classify g api depth loads decode schema\<rparr>) n allowed body of
      Inl e \<Rightarrow> gemini_classify g api depth loads decode schema (CLASSIFY_FRAME (wrapped body ''reply'' [])) = Inl e
    | Inr dec \<Rightarrow> rd_intent dec \<in> set REPLY_INTENTS \<and> 0 \<le> rd_confidence dec \<and> rd_confidence dec \<le> 1"
  using gc.route_raises [of "llm\<lparr>lm_classify := gemini_classify g api depth loads decode schema\<rparr>"]
    gc.route_decides [of "llm\<lparr>lm_classify := gemini_classify g api depth loads decode schema\<rparr>"]
  by (simp split: sum.split)

lemma overload_cost:
  assumes "api = (\<lambda>_ _. Inl (API_error 503 msg))" and "gemini_schema depth schema = Inr s" and "task \<notin> set GROUNDED_TASKS"
    and "gemini_complete g api depth loads model_validate task prompt schema [] = (r, tr)"
  shows "isl r \<and> slept tr = BACKOFF_BUDGET"
proof -
  obtain config where "config_of g depth task (Some schema) (model_for g task) = Inr config"
    using assms(2) by (simp add: config_of_def)
  from backoff_loop_overloaded [OF assms(1) this, of prompt 6 15 "''None''" "[]"] obtain tr' where
    "generate_with_backoff g api depth task prompt (Some schema) [] =
      (Inl (RuntimeError (fstr [''Gemini unavailable after retries for task '', py_repr task, '': '', msg])), tr')"
    "slept tr' = sleeps 6 15" unfolding generate_with_backoff_def by (auto simp: slept_def)
  with assms(3,4) show ?thesis by (auto simp: gemini_complete_def sleeps_all numeral_2_eq_2)
qed

text \<open>C16: A call to an overloaded service outlasts the lease of the job that makes it: it sleeps 278.84
  seconds before it gives up, and by then the reaper has made the job ready again, for another worker
  to lease while the first still works on it.\<close>

theorem overload_outlasts_lease:
  assumes "wf_jobs d" and "lease q d = (Some jb, d1)"
    and "api = (\<lambda>_ _. Inl (API_error 503 msg))" and "gemini_schema depth schema = Inr s" and "task \<notin> set GROUNDED_TASKS"
    and "gemini_complete g api depth loads model_validate task prompt schema [] = (r, tr)"
    and "epoch t = epoch (now d1) + \<lfloor>slept tr\<rfloor>" and "d2 = d1\<lparr>now := t, locked_jobs := []\<rparr>"
  shows "isl r \<and> slept tr = 6971 / 25 \<and> of_int LEASE_SECONDS < slept tr \<and>
    (\<exists>row. job_row_of (snd (reap_expired d2)) (jb_id jb) = Some row \<and> leasable (snd (reap_expired d2)) q row)"
proof -
  note r = overload_cost [OF assms(3-6)]
  from lease_row_of [OF assms(1,2)] obtain row where row: "leasable d q row" "job_row_of d1 (jb_id jb) = Some (lease_row d row)"
    "d1 = d\<lparr>jobs := jobs d1\<rparr>" by blast
  have t: "now d1 = now d" by (subst row(3)) simp
  have "epoch (now d) + LEASE_SECONDS < epoch (now d2)" using r assms(7,8) t
    by (simp add: BACKOFF_BUDGET_def LEASE_SECONDS_def)
  then have "job_row_of (snd (reap_expired d2)) (jb_id jb) = Some ((lease_row d row)\<lparr>j_status := Ready, j_lease := None\<rparr>)"
    using row(2) assms(8) by (simp add: job_row_of_def reap_expired_def fetch_upd lease_row_def lease_expired_def)
  moreover have "leasable (snd (reap_expired d2)) q ((lease_row d row)\<lparr>j_status := Ready, j_lease := None\<rparr>)"
    using row(1) assms(7,8) t r zero_le_floor [of BACKOFF_BUDGET] BACKOFF_BUDGET_pos
    by (simp add: leasable_def reap_expired_def lease_row_def del: zero_le_floor)
  ultimately show ?thesis using r by (simp add: BACKOFF_BUDGET_def LEASE_SECONDS_def)
qed

text \<open>A job of the queue \<open>deliver\<close> whose handler asked the overloaded service.\<close>

definition s_tiers :: model_tiers where
  "s_tiers = gemini_backend (\<lambda>_. None) None None"

definition s_overloaded :: gemini_api where
  "s_overloaded = (\<lambda>_ _. Inl (API_error 503 ''busy''))"

lemma floor_budget: "\<lfloor>BACKOFF_BUDGET\<rfloor> = 278"
  by (simp add: BACKOFF_BUDGET_def floor_eq_iff)

theorem overload_outlasts_lease_witness:
  "\<exists>jb d1 row. lease ''deliver'' (snd (enqueue ''deliver'' s_job (Some ''k'') 0 5 s_db)) = (Some jb, d1) \<and>
    slept (snd (gemini_complete s_tiers s_overloaded 1 (\<lambda>_. Inr JNull) Inr ''compose'' ''p'' [] [])) = 6971 / 25 \<and>
    leasable (snd (reap_expired (d1\<lparr>now := s_clock\<lparr>sod := 278\<rparr>, locked_jobs := []\<rparr>))) ''deliver'' row"
proof -
  obtain jb d1 where l: "lease ''deliver'' (snd (enqueue ''deliver'' s_job (Some ''k'') 0 5 s_db)) = (Some jb, d1)"
    using s_lease by blast
  obtain r tr where c: "gemini_complete s_tiers s_overloaded 1 (\<lambda>_. Inr JNull) Inr ''compose'' ''p'' [] [] = (r, tr)" by fastforce
  have s: "gemini_schema 1 [] = Inr []" "''compose'' \<notin> set GROUNDED_TASKS" by (simp_all add: gemini_schema_def GROUNDED_TASKS_def)
  have wf: "wf_jobs (snd (enqueue ''deliver'' s_job (Some ''k'') 0 5 s_db))"
    by (rule wf_jobs_enqueue) (simp add: wf_jobs_def s_db_def empty_db_def)
  from lease_row_of [OF this l] have "d1 = (snd (enqueue ''deliver'' s_job (Some ''k'') 0 5 s_db))\<lparr>jobs := jobs d1\<rparr>" by blast
  from arg_cong [OF this, of now] have "now d1 = s_clock" by (simp add: s_db_def empty_db_def)
  then have "epoch (s_clock\<lparr>sod := 278\<rparr>) = epoch (now d1) + \<lfloor>slept tr\<rfloor>"
    using overload_cost [OF s_overloaded_def s c] floor_budget by (simp add: epoch_def s_clock_def)
  from overload_outlasts_lease [OF wf l s_overloaded_def s c this HOL.refl] l c show ?thesis by auto
qed

lemma finite_json_refs: "finite (json_refs j)"
  by (induction j rule: json_refs.induct) (auto split: option.split)



text \<open>A schema with one definition that is referred to once.\<close>

definition s_schema :: payload where
  "s_schema = [(''$defs'', JObj [(''B'', JObj [(''title'', JStr ''B''), (''exclusiveMinimum'', JInt 0)])]),
     (''properties'', JObj [(''b'', JObj [(''$ref'', JStr ''#/$defs/B'')])])]"


section \<open>The dry run\<close>

text \<open>C26: A dry run that ends accounts for every prospect it sampled in exactly one list of its report, and
  every draft it would send passes the validators of the live composer without a finding, carries its
  own hash and is a first message.\<close>

theorem dry_run_accounts:
  assumes "dry_run reg t ad llm cfg sources n = Inr r"
  shows "accounted r = mset (concat (map (sampled sources n) (concat (map ps_cohorts (tc_personas cfg))))) \<and>
    (\<forall>(cohort, name, res)\<in>set (dy_composed r). validate reg (cr_draft res) (validator_context cfg) = Inr [] \<and>
       cr_sha res = content_hash (cr_draft res) \<and> dr_step (cr_draft res) = 0)"
  using dry_run_facts [OF assms] by (simp add: clean_drafts_def)

text \<open>A cohort of two stand-ins whose addresses the verifier does not like.\<close>

definition s_cohort :: cohort_spec where
  "s_cohort = \<lparr>ch_id = ''k'', ch_filters = [], ch_budget = 1, ch_sources = [''f''], ch_trigger = None, ch_floors = None\<rparr>"

definition s_sampled :: tenant_config where
  "s_sampled = s_cfg\<lparr>tc_personas := [s_persona\<lparr>ps_cohorts := [s_cohort],
     ps_variants := [\<lparr>vs_id = ''a'', vs_surface = [], vs_attrs = [], vs_prompt = []\<rparr>]\<rparr>]\<rparr>"

definition s_unverified :: enrich_adapters where
  "s_unverified = (fake_adapters 0)\<lparr>ad_verify := \<lambda>_. Inr Undeliverable\<rparr>"

definition s_sources :: "(pystr \<times> source_adapter) list" where
  "s_sources = [(''f'', fake_source (map (sample_prospect [] ''x.test'' ''f'') [0..<3]))]"

lemma s_judged:
  "judge_sample reg t s_unverified llm cfg persona prompt trusted ctx (sample_prospect l ''x.test'' src i) =
    Inr (Disqualified_sample ''email failed verification'')"
  by (simp add: judge_sample_def s_unverified_def fake_adapters_def fake_enrich_def fake_find_def sample_prospect_def
      nonempty_def fstr_def)

theorem dry_run_accounts_witness:
  "\<exists>r. dry_run initial_registry 0 s_unverified s_llm s_sampled s_sources 2 = Inr r \<and>
    accounted r = {# (''k'', ''Sample Prospect0''), (''k'', ''Sample Prospect1'') #}"
proof -
  have "\<exists>r. dry_run initial_registry 0 s_unverified s_llm s_sampled s_sources 2 = Inr r"
    by (simp add: dry_run_def s_sampled_def s_cfg_def s_persona_def s_cohort_def sample_cohort_def s_sources_def fake_source_def
        process_sample_def s_judged upt_rec numeral_2_eq_2 bindE_eq_Inr)
  then obtain r where r: "dry_run initial_registry 0 s_unverified s_llm s_sampled s_sources 2 = Inr r" by blast
  have "concat (map (sampled s_sources 2) (concat (map ps_cohorts (tc_personas s_sampled)))) =
      [(''k'', ''Sample Prospect0''), (''k'', ''Sample Prospect1'')]"
    by (simp add: sampled_def s_sampled_def s_cohort_def s_sources_def fake_source_def sample_prospect_def upt_rec numeral_2_eq_2
        fstr_def nat_str.simps) code_simp
  with dry_run_accounts [OF r] r show ?thesis by auto
qed

section \<open>The operator's pages\<close>

definition served_safely :: "http_error + pystr \<Rightarrow> bool" where
  "served_safely answer = (case answer of Inl _ \<Rightarrow> True | Inr s \<Rightarrow> safe_page s)"

text \<open>C15: No text of the database or of the address becomes markup of a page: read as HTML, every page of
  the dashboard and of its management surface has only the tags and attributes of its templates and ends outside of them, whatever
  the names, subjects, bodies, evidence and reasons are. The ids of prospects, which the templates do
  not escape, are taken to be plain, as UUIDs are.\<close>

theorem dashboard_injects_nothing:
  assumes "plain_ids d"
  shows "served_safely (overview_page expected token d) \<and> served_safely (campaign_page expected token tenant d) \<and>
    served_safely (cohort_page expected token cohort tenant d) \<and>
    served_safely (member_route when_of expected token pid tenant d) \<and> served_safely (queues_page expected token d) \<and>
    served_safely (new_campaign_form expected token) \<and> served_safely (submitted_page cx expected token form)"
  using assms by (auto simp: served_safely_def split: sum.split
      dest: overview_safe campaign_safe cohort_safe member_safe queues_safe new_campaign_safe submitted_safe)

theorem dashboard_injects_nothing_witness:
  "\<exists>s. campaign_page [] [] ''<script src=x>'' s_db = Inr s \<and> safe_page s"
proof -
  have "plain_ids s_db" by (simp add: plain_ids_def s_db_def s_prospect_def markup_free_def empty_db_def)
  from dashboard_injects_nothing [OF this, of "[]" "[]" "''<script src=x>''"]
  have "served_safely (campaign_page [] [] ''<script src=x>'' s_db)" by blast
  moreover have "\<exists>s. campaign_page [] [] ''<script src=x>'' s_db = Inr s"
    by (simp add: campaign_page_def with_dashboard_token_def Let_def)
  ultimately show ?thesis by (auto simp: served_safely_def)
qed

text \<open>C0: While the banner of a campaign is up no job hands a message of the campaign to the provider, and
  the banner is up exactly when a halt of the campaign or of everything is in force.\<close>

theorem banner_tells_truth:
  assumes "deliver env pl d = (sent, r)" and "(c, subject, body) \<in> set sent"
  shows "halt_banner d (ct_tenant c) = [] \<and> (halt_banner d tenant \<noteq> [] \<longleftrightarrow>
    (\<exists>f\<in>set (flags d). cf_scope f = GLOBAL_SCOPE \<or> cf_scope f = tenant))"
  using deliver_recipient(2) [OF assms] halt_banner_iff [of d "ct_tenant c"] halt_banner_iff [of d tenant]
  by (auto simp: halted_scopes_empty)

theorem banner_tells_truth_witness:
  "halt_banner s_db ''n'' = [] \<and> (s_claimed, ''S'', ''AB'') \<in> set (fst (deliver s_send s_job s_db))"
proof -
  obtain d' where d: "deliver s_send s_job s_db = ([(s_claimed, ''S'', ''AB'')], Inr d')" using s_delivered by blast
  from banner_tells_truth [OF d, of s_claimed "''S''" "''AB''"] d show ?thesis by (simp add: s_claimed_def)
qed

end
